(* ===== verification/Prelude.thy ===== *)
theory Prelude
  imports Main "HOL-Library.List_Lexorder" "HOL-Library.Char_ord" "HOL-Library.Product_Lexorder"
    "HOL-Library.Sublist" "HOL-Library.Word"
begin

text \<open>
  What the components share: results of fallible Rust code as sums (\<open>Inl\<close> the error), loops that
  stop at the first error, the string functions of Rust's standard library that the sources
  call, and small facts on lists used as tables.

  A Rust \<open>String\<close> is its sequence of UTF-8 bytes, a \<open>char list\<close>; \<open>str::len\<close> is \<open>length\<close> and
  the \<open>Ord\<close> of strings (bytewise) is the lexicographic order of \<open>List_Lexorder\<close> over
  \<open>Char_ord\<close>. Functions that test for ASCII characters agree on bytes and on characters,
  because every byte of a multi-byte character is at least 128; \<open>trim\<close> and
  \<open>split_whitespace\<close> know the multi-byte encodings of Unicode's white space.
\<close>

named_theorems result_simps \<open>inversion of a successful or failed result\<close>
named_theorems str_defs \<open>definitions of string functions\<close>

section \<open>Results\<close>

text \<open>The operator \<open>?\<close>: stop at an error, go on with the value.\<close>

definition and_then :: "'e + 'a \<Rightarrow> ('a \<Rightarrow> 'e + 'b) \<Rightarrow> 'e + 'b" where
  "and_then r f = (case r of Inl e \<Rightarrow> Inl e | Inr x \<Rightarrow> f x)"

definition check :: "bool \<Rightarrow> 'e \<Rightarrow> 'e + unit" where
  "check b e = (if b then Inr () else Inl e)"

definition ok_or :: "'a option \<Rightarrow> 'e \<Rightarrow> 'e + 'a" where
  "ok_or x e = (case x of None \<Rightarrow> Inl e | Some y \<Rightarrow> Inr y)"

definition map_err :: "('e \<Rightarrow> 'f) \<Rightarrow> 'e + 'a \<Rightarrow> 'f + 'a" where
  "map_err g r = (case r of Inl e \<Rightarrow> Inl (g e) | Inr x \<Rightarrow> Inr x)"

text \<open>\<open>Option::map(..).transpose()\<close>: run a fallible function on an optional value.\<close>

definition opt_mapE :: "('a \<Rightarrow> 'e + 'b) \<Rightarrow> 'a option \<Rightarrow> 'e + 'b option" where
  "opt_mapE f x = (case x of None \<Rightarrow> Inr None | Some y \<Rightarrow> and_then (f y) (\<lambda>z. Inr (Some z)))"

lemma and_then_simps [simp]:
  "and_then (Inl e) f = Inl e"
  "and_then (Inr x) f = f x"
  by (simp_all add: and_then_def)

lemma and_then_Inr [result_simps]:
  "and_then r f = Inr y \<longleftrightarrow> (\<exists>x. r = Inr x \<and> f x = Inr y)"
  by (cases r) auto

lemma and_then_Inl [result_simps]:
  "and_then r f = Inl e \<longleftrightarrow> r = Inl e \<or> (\<exists>x. r = Inr x \<and> f x = Inl e)"
  by (cases r) auto

lemma and_then_assoc: "and_then (and_then r f) g = and_then r (\<lambda>x. and_then (f x) g)"
  by (cases r) auto

lemma and_then_cong [fundef_cong]:
  "r = r' \<Longrightarrow> (\<And>x. r' = Inr x \<Longrightarrow> f x = f' x) \<Longrightarrow> and_then r f = and_then r' f'"
  by (cases r') auto

lemma check_Inr [result_simps]: "check b e = Inr u \<longleftrightarrow> b"
  by (simp add: check_def)

lemma check_Inl [result_simps]: "check b e = Inl e' \<longleftrightarrow> \<not> b \<and> e' = e"
  by (auto simp: check_def)

lemma check_simps [simp]: "check True e = Inr ()" "check False e = Inl e"
  by (simp_all add: check_def)

lemma ok_or_Inr [result_simps]: "ok_or x e = Inr y \<longleftrightarrow> x = Some y"
  by (auto simp: ok_or_def split: option.splits)

lemma ok_or_Inl [result_simps]: "ok_or x e = Inl e' \<longleftrightarrow> x = None \<and> e' = e"
  by (auto simp: ok_or_def split: option.splits)

lemma ok_or_simps [simp]: "ok_or None e = Inl e" "ok_or (Some y) e = Inr y"
  by (simp_all add: ok_or_def)

lemma map_err_Inr [result_simps]: "map_err g r = Inr x \<longleftrightarrow> r = Inr x"
  by (auto simp: map_err_def split: sum.splits)

lemma map_err_simps [simp]: "map_err g (Inl e) = Inl (g e)" "map_err g (Inr x) = Inr x"
  by (simp_all add: map_err_def)

lemma opt_mapE_simps [simp]:
  "opt_mapE f None = Inr None"
  "opt_mapE f (Some y) = and_then (f y) (\<lambda>z. Inr (Some z))"
  by (simp_all add: opt_mapE_def)

lemma opt_mapE_None [result_simps]: "opt_mapE f x = Inr None \<longleftrightarrow> x = None"
  by (cases x) (auto simp: result_simps)

lemma opt_mapE_Some [result_simps]:
  "opt_mapE f x = Inr (Some z) \<longleftrightarrow> (\<exists>y. x = Some y \<and> f y = Inr z)"
  by (cases x) (auto simp: result_simps)

subsection \<open>Loops that stop at the first error\<close>

text \<open>\<open>for x in xs { s = f(s, x)?; }\<close> and \<open>iter().map(f).collect::<Result<Vec<_>>>()\<close>.\<close>

fun foldE :: "('s \<Rightarrow> 'a \<Rightarrow> 'e + 's) \<Rightarrow> 's \<Rightarrow> 'a list \<Rightarrow> 'e + 's" where
  "foldE f s [] = Inr s"
| "foldE f s (x # xs) = and_then (f s x) (\<lambda>s'. foldE f s' xs)"

fun mapE :: "('a \<Rightarrow> 'e + 'b) \<Rightarrow> 'a list \<Rightarrow> 'e + 'b list" where
  "mapE f [] = Inr []"
| "mapE f (x # xs) = and_then (f x) (\<lambda>y. and_then (mapE f xs) (\<lambda>ys. Inr (y # ys)))"

lemma foldE_append: "foldE f s (xs @ ys) = and_then (foldE f s xs) (\<lambda>s'. foldE f s' ys)"
  by (induction xs arbitrary: s) (auto simp: and_then_assoc)

lemma mapE_Inr: "mapE f xs = Inr ys \<longleftrightarrow> list_all2 (\<lambda>x y. f x = Inr y) xs ys"
proof (induction xs arbitrary: ys)
  case Nil
  then show ?case by auto
next
  case (Cons x xs)
  then show ?case by (cases ys) (auto simp: result_simps)
qed

lemma mapE_length: "mapE f xs = Inr ys \<Longrightarrow> length ys = length xs"
  by (simp add: mapE_Inr list_all2_lengthD)

lemma mapE_in_set:
  "mapE f xs = Inr ys \<Longrightarrow> y \<in> set ys \<Longrightarrow> \<exists>x \<in> set xs. f x = Inr y"
  by (induction xs arbitrary: ys) (auto simp: result_simps)

lemma mapE_from_set:
  "mapE f xs = Inr ys \<Longrightarrow> x \<in> set xs \<Longrightarrow> \<exists>y \<in> set ys. f x = Inr y"
  by (induction xs arbitrary: ys) (auto simp: result_simps)

lemma mapE_total: "(\<And>x. x \<in> set xs \<Longrightarrow> f x = Inr (g x)) \<Longrightarrow> mapE f xs = Inr (map g xs)"
  by (induction xs) auto

lemma mapE_Inl: "mapE f xs = Inl e \<Longrightarrow> \<exists>x \<in> set xs. f x = Inl e"
  by (induction xs) (auto simp: result_simps)

text \<open>
  The contract of a loop body: it keeps an invariant on the values it is given. What holds
  of one round then holds of the whole loop.
\<close>

locale loop_body =
  fixes step :: "'s \<Rightarrow> 'a \<Rightarrow> 'e + 's"
    and inv :: "'s \<Rightarrow> bool"
    and dom :: "'a \<Rightarrow> bool"
  assumes step_inv: "inv s \<Longrightarrow> dom x \<Longrightarrow> step s x = Inr s' \<Longrightarrow> inv s'"
begin

lemma loop_inv: "inv s \<Longrightarrow> \<forall>x \<in> set xs. dom x \<Longrightarrow> foldE step s xs = Inr s' \<Longrightarrow> inv s'"
proof (induction xs arbitrary: s)
  case Nil
  then show ?case by simp
next
  case (Cons x xs)
  from Cons.prems(3) obtain t where t: "step s x = Inr t" "foldE step t xs = Inr s'"
    by (auto simp: result_simps)
  from Cons.prems(1,2) t(1) have "inv t" by (auto intro: step_inv)
  with Cons.IH Cons.prems(2) t(2) show ?case by auto
qed

end

text \<open>The plain form of the same rule, for a body that is only known in a proof.\<close>

lemma foldE_inv:
  assumes "foldE f s xs = Inr s'" and "P s"
    and "\<And>s x s'. P s \<Longrightarrow> x \<in> set xs \<Longrightarrow> f s x = Inr s' \<Longrightarrow> P s'"
  shows "P s'"
  using assms
proof (induction xs arbitrary: s)
  case Nil
  then show ?case by simp
next
  case (Cons x xs)
  from Cons.prems(1) obtain t where t: "f s x = Inr t" "foldE f t xs = Inr s'"
    by (auto simp: result_simps)
  have "P t" by (rule Cons.prems(3) [OF Cons.prems(2) _ t(1)]) simp
  then show ?case by (rule Cons.IH [OF t(2)]) (rule Cons.prems(3), simp_all)
qed

section \<open>Characters and white space\<close>

definition byte_of :: "char \<Rightarrow> nat" where
  [str_defs]: "byte_of c = of_char c"

definition is_ascii_digit :: "char \<Rightarrow> bool" where
  [str_defs]: "is_ascii_digit c \<longleftrightarrow> 48 \<le> byte_of c \<and> byte_of c \<le> 57"

definition is_ascii_upper :: "char \<Rightarrow> bool" where
  [str_defs]: "is_ascii_upper c \<longleftrightarrow> 65 \<le> byte_of c \<and> byte_of c \<le> 90"

definition is_ascii_lower :: "char \<Rightarrow> bool" where
  [str_defs]: "is_ascii_lower c \<longleftrightarrow> 97 \<le> byte_of c \<and> byte_of c \<le> 122"

definition is_ascii_alphanumeric :: "char \<Rightarrow> bool" where
  [str_defs]: "is_ascii_alphanumeric c \<longleftrightarrow> is_ascii_digit c \<or> is_ascii_upper c \<or> is_ascii_lower c"

definition to_ascii_lower :: "char \<Rightarrow> char" where
  [str_defs]: "to_ascii_lower c = (if is_ascii_upper c then char_of (byte_of c + 32) else c)"

definition to_ascii_lowercase :: "string \<Rightarrow> string" where
  [str_defs]: "to_ascii_lowercase s = map to_ascii_lower s"

definition eq_ignore_ascii_case :: "string \<Rightarrow> string \<Rightarrow> bool" where
  [str_defs]: "eq_ignore_ascii_case s t \<longleftrightarrow> to_ascii_lowercase s = to_ascii_lowercase t"

text \<open>
  \<open>char::is_whitespace\<close>: U+0009 to U+000D and U+0020 in one byte; U+0085 and U+00A0 in two;
  U+1680, U+2000 to U+200A, U+2028, U+2029, U+202F, U+205F and U+3000 in three.
  \<open>ws_len s\<close> is the length of the white-space character \<open>s\<close> starts with, 0 if there is none;
  \<open>ws_len_rev\<close> reads the reversed string, for the end.
\<close>

definition ws1 :: "nat \<Rightarrow> bool" where
  [str_defs]: "ws1 a \<longleftrightarrow> (9 \<le> a \<and> a \<le> 13) \<or> a = 32"

definition ws2 :: "nat \<Rightarrow> nat \<Rightarrow> bool" where
  [str_defs]: "ws2 a b \<longleftrightarrow> a = 194 \<and> (b = 133 \<or> b = 160)"

definition ws3 :: "nat \<Rightarrow> nat \<Rightarrow> nat \<Rightarrow> bool" where
  [str_defs]: "ws3 a b c \<longleftrightarrow> (a = 225 \<and> b = 154 \<and> c = 128)
     \<or> (a = 226 \<and> b = 128 \<and> ((128 \<le> c \<and> c \<le> 138) \<or> c = 168 \<or> c = 169 \<or> c = 175))
     \<or> (a = 226 \<and> b = 129 \<and> c = 159) \<or> (a = 227 \<and> b = 128 \<and> c = 128)"

fun ws_len :: "string \<Rightarrow> nat" where
  "ws_len [] = 0"
| "ws_len [a] = (if ws1 (byte_of a) then 1 else 0)"
| "ws_len [a, b] = (if ws1 (byte_of a) then 1 else if ws2 (byte_of a) (byte_of b) then 2 else 0)"
| "ws_len (a # b # c # _) = (if ws1 (byte_of a) then 1 else if ws2 (byte_of a) (byte_of b) then 2
     else if ws3 (byte_of a) (byte_of b) (byte_of c) then 3 else 0)"

fun ws_len_rev :: "string \<Rightarrow> nat" where
  "ws_len_rev [] = 0"
| "ws_len_rev [a] = (if ws1 (byte_of a) then 1 else 0)"
| "ws_len_rev [a, b] = (if ws1 (byte_of a) then 1 else if ws2 (byte_of b) (byte_of a) then 2 else 0)"
| "ws_len_rev (a # b # c # _) = (if ws1 (byte_of a) then 1 else if ws2 (byte_of b) (byte_of a) then 2
     else if ws3 (byte_of c) (byte_of b) (byte_of a) then 3 else 0)"

lemma ws_len_drop: "0 < ws_len s \<Longrightarrow> length (drop (ws_len s) s) < length s"
  by (cases s) auto

lemma ws_len_rev_drop: "0 < ws_len_rev s \<Longrightarrow> length (drop (ws_len_rev s) s) < length s"
  by (cases s) auto

function trim_start :: "string \<Rightarrow> string" where
  "trim_start s = (if ws_len s = 0 then s else trim_start (drop (ws_len s) s))"
  by pat_completeness auto
termination
  by (relation "measure length") (use ws_len_drop in auto)

function trim_start_rev :: "string \<Rightarrow> string" where
  "trim_start_rev s = (if ws_len_rev s = 0 then s else trim_start_rev (drop (ws_len_rev s) s))"
  by pat_completeness auto
termination
  by (relation "measure length") (use ws_len_rev_drop in auto)

declare trim_start.simps [simp del] trim_start_rev.simps [simp del]

definition trim_end :: "string \<Rightarrow> string" where
  "trim_end s = rev (trim_start_rev (rev s))"

definition trim :: "string \<Rightarrow> string" where
  "trim s = trim_end (trim_start s)"

lemma ws_len_trim_start [simp]: "ws_len (trim_start s) = 0"
  by (induction s rule: trim_start.induct) (subst trim_start.simps, auto)

lemma ws_len_rev_trim_start_rev [simp]: "ws_len_rev (trim_start_rev s) = 0"
  by (induction s rule: trim_start_rev.induct) (subst trim_start_rev.simps, auto)

lemma suffix_trim_start_rev: "suffix (trim_start_rev s) s"
proof (induction s rule: trim_start_rev.induct)
  case (1 s)
  show ?case
  proof (cases "ws_len_rev s = 0")
    case True
    then show ?thesis by (subst trim_start_rev.simps) simp
  next
    case False
    with 1 have "suffix (trim_start_rev (drop (ws_len_rev s) s)) (drop (ws_len_rev s) s)" by simp
    then have "suffix (trim_start_rev (drop (ws_len_rev s) s)) s"
      using suffix_drop suffix_order.trans by blast
    with False show ?thesis by (subst trim_start_rev.simps) simp
  qed
qed

lemma prefix_trim_end: "prefix (trim_end s) s"
  using suffix_trim_start_rev [of "rev s"] by (simp add: trim_end_def suffix_to_prefix)

text \<open>A prefix of a string that starts with no white space starts with none.\<close>

lemma ws_len_prefix: "ws_len s = 0 \<Longrightarrow> prefix p s \<Longrightarrow> ws_len p = 0"
proof (induction p rule: ws_len.induct)
  case (4 a b c v)
  then show ?case by (auto simp: prefix_def split: if_splits)
next
  case (3 a b)
  then obtain t where "s = a # b # t" by (auto simp: prefix_def)
  with 3 show ?case by (cases t) (auto split: if_splits)
next
  case (2 a)
  then obtain t where "s = a # t" by (auto simp: prefix_def)
  with 2 show ?case by (cases t; cases "tl t") (auto split: if_splits)
qed simp

lemma ws_len_trim [simp]: "ws_len (trim s) = 0"
  unfolding trim_def by (rule ws_len_prefix [OF ws_len_trim_start prefix_trim_end])

lemma trim_start_id: "ws_len s = 0 \<Longrightarrow> trim_start s = s"
  by (simp add: trim_start.simps [of s])

lemma trim_start_rev_id: "ws_len_rev s = 0 \<Longrightarrow> trim_start_rev s = s"
  by (simp add: trim_start_rev.simps [of s])

text \<open>Trimming what has been trimmed changes nothing.\<close>

lemma trim_trim [simp]: "trim (trim s) = trim s"
proof -
  have "trim_start (trim s) = trim s" by (rule trim_start_id) simp
  moreover have "trim_start_rev (rev (trim s)) = rev (trim s)"
    by (rule trim_start_rev_id) (simp add: trim_def trim_end_def)
  ultimately show ?thesis by (simp add: trim_def [of "trim s"] trim_end_def)
qed

lemma trim_Nil [simp]: "trim [] = []"
  by (simp add: trim_def trim_end_def trim_start.simps trim_start_rev.simps)

text \<open>A string with no white space at either end is its own trimming.\<close>

definition trimmed :: "string \<Rightarrow> bool" where
  "trimmed s \<longleftrightarrow> trim s = s"

lemma trimmedI: "ws_len s = 0 \<Longrightarrow> ws_len_rev (rev s) = 0 \<Longrightarrow> trimmed s"
  by (simp add: trimmed_def trim_def trim_end_def trim_start_id trim_start_rev_id)

lemma trimmed_trim [simp]: "trimmed (trim s)"
  by (simp add: trimmed_def)

end
