(* ===== verification/Models.thy ===== *)
theory Models
  imports Rust_Std
begin

text \<open>
  The data model, \<open>hop-core/src/models.rs\<close> and \<open>errors.rs\<close>: the resource structs, the new-resource
  requests, the checked conversions of database values, and the validation of ports,
  protocols and credential material. \<open>ext\<close> collects the third-party functions the program
  calls; every definition that needs one takes the record as its argument.
\<close>

section \<open>Errors (errors.rs)\<close>

text \<open>\<open>sqlx::Error\<close>, as far as the program tells its cases apart.\<close>

datatype db_error = RowNotFound | ConstraintViolation

datatype hop_error =
    Io
  | Config string
  | Validation string
  | Database db_error
  | UnsupportedDatabaseSchema string
  | CryptoError string
  | Json

section \<open>Third-party code\<close>

text \<open>A \<open>serde_json::Value\<close>.\<close>

datatype json = JNull | JBool bool | JNum int | JStr string | JArr "json list"
  | JObj "(string \<times> json) list"

text \<open>
  \<open>json_str\<close> is \<open>serde_json::to_string\<close>, \<open>json_tags\<close> is \<open>from_str::<Vec<String>>\<close>,
  \<open>uuid_v4 n\<close> the id drawn as the \<open>n\<close>-th one; base64 with and without padding, SHA-256,
  HMAC-SHA256, HKDF and XChaCha20-Poly1305 act on bytes; \<open>random_nonce n\<close> is the \<open>n\<close>-th
  draw of the random source; \<open>secret_key_ok\<close> tells whether \<open>decode_secret_key\<close> succeeds,
  and \<open>public_key\<close> is \<open>parse_public_key_base64\<close> with the algorithm name, the canonical
  base64 and the SHA-256 fingerprint of the key it returns.
\<close>

record ext =
  json_str :: "json \<Rightarrow> string"
  json_tags :: "string \<Rightarrow> string list option"
  uuid_v4 :: "nat \<Rightarrow> string"
  b64_nopad :: "string \<Rightarrow> string"
  b64_encode :: "string \<Rightarrow> string"
  b64_decode :: "string \<Rightarrow> string option"
  sha256 :: "string \<Rightarrow> string"
  hmac_sha256 :: "string \<Rightarrow> string \<Rightarrow> string"
  hkdf_expand :: "string \<Rightarrow> string \<Rightarrow> string \<Rightarrow> string option"
  aead_encrypt :: "string \<Rightarrow> string \<Rightarrow> string \<Rightarrow> string option"
  aead_decrypt :: "string \<Rightarrow> string \<Rightarrow> string \<Rightarrow> string option"
  random_nonce :: "nat \<Rightarrow> string"
  secret_key_ok :: "string \<Rightarrow> string option \<Rightarrow> bool"
  public_key :: "string \<Rightarrow> (string \<times> string \<times> string) option"

definition new_id :: "ext \<Rightarrow> nat \<Rightarrow> string" where
  "new_id X n = uuid_v4 X n"

text \<open>What the program relies on: JSON arrays of strings survive printing and parsing.\<close>

definition tags_codec :: "ext \<Rightarrow> bool" where
  "tags_codec X \<longleftrightarrow> (\<forall>ts. json_tags X (json_str X (JArr (map JStr ts))) = Some ts
     \<and> trim (json_str X (JArr (map JStr ts))) \<noteq> [])"

section \<open>Access mode\<close>

datatype asset_access_mode = All | Restricted

fun access_mode_as_str :: "asset_access_mode \<Rightarrow> string" where
  "access_mode_as_str All = ''all''"
| "access_mode_as_str Restricted = ''restricted''"

definition access_mode_try_from :: "string \<Rightarrow> hop_error + asset_access_mode" where
  "access_mode_try_from value =
     (if value = ''all'' then Inr All
      else if value = ''restricted'' then Inr Restricted
      else Inl (Validation (''asset access mode must be all or restricted, got '' @ value)))"

section \<open>Access keys\<close>

record authorized_key =
  ak_id :: string
  ak_name :: string
  ak_public_key :: string
  ak_fingerprint :: string
  ak_is_active :: bool
  ak_access_mode :: asset_access_mode
  ak_created_at :: "string option"

record authorized_key_row =
  akr_id :: string
  akr_name :: string
  akr_public_key :: string
  akr_fingerprint :: string
  akr_is_active :: bool
  akr_access_mode :: string
  akr_created_at :: "string option"

definition authorized_key_try_from :: "authorized_key_row \<Rightarrow> hop_error + authorized_key" where
  "authorized_key_try_from row =
     and_then (access_mode_try_from (akr_access_mode row)) (\<lambda>mode.
     Inr \<lparr>ak_id = akr_id row, ak_name = akr_name row, ak_public_key = akr_public_key row,
       ak_fingerprint = akr_fingerprint row, ak_is_active = akr_is_active row,
       ak_access_mode = mode, ak_created_at = akr_created_at row\<rparr>)"

record new_authorized_key =
  nk_name :: string
  nk_public_key :: string
  nk_fingerprint :: string
  nk_access_mode :: asset_access_mode

definition new_authorized_key_of :: "string \<Rightarrow> string \<Rightarrow> string \<Rightarrow> new_authorized_key" where
  "new_authorized_key_of name pk fp =
     \<lparr>nk_name = name, nk_public_key = pk, nk_fingerprint = fp, nk_access_mode = All\<rparr>"

section \<open>Ports, protocols, credentials\<close>

definition asset_protocol_ssh :: string where
  [str_defs]: "asset_protocol_ssh = ''ssh''"

definition asset_protocol_tcp :: string where
  [str_defs]: "asset_protocol_tcp = ''tcp''"

type_synonym u16 = "16 word"

text \<open>\<open>u16::try_from(i64)\<close>.\<close>

definition u16_try_from :: "int \<Rightarrow> u16 option" where
  "u16_try_from i = (if 0 \<le> i \<and> i < 2 ^ 16 then Some (word_of_int i) else None)"

definition validate_tcp_port :: "int \<Rightarrow> hop_error + u16" where
  "validate_tcp_port port =
     (case u16_try_from port of
        Some p \<Rightarrow> if 0 < p then Inr p
          else Inl (Validation (''tcp port must be between 1 and 65535, got '' @ show_int port))
      | None \<Rightarrow> Inl (Validation (''tcp port must be between 1 and 65535, got '' @ show_int port)))"

definition validate_asset_protocol :: "string \<Rightarrow> hop_error + string" where
  "validate_asset_protocol protocol =
     (let p = to_ascii_lowercase (trim protocol) in
      if p = asset_protocol_ssh then Inr asset_protocol_ssh
      else if p = asset_protocol_tcp then Inr asset_protocol_tcp
      else Inl (Validation (''asset protocol must be ssh or tcp, got '' @ p)))"

definition protocol_supports_managed_credentials :: "string \<Rightarrow> bool" where
  "protocol_supports_managed_credentials protocol \<longleftrightarrow> protocol = asset_protocol_ssh"

datatype auth_type = Password | Key | KeyWithPassphrase

fun auth_type_as_str :: "auth_type \<Rightarrow> string" where
  "auth_type_as_str Password = ''password''"
| "auth_type_as_str Key = ''key''"
| "auth_type_as_str KeyWithPassphrase = ''key+passphrase''"

definition auth_type_try_from :: "string \<Rightarrow> string + auth_type" where
  "auth_type_try_from value =
     (if value = ''password'' then Inr Password
      else if value = ''key'' then Inr Key
      else if value = ''key+passphrase'' then Inr KeyWithPassphrase
      else Inl (''unsupported auth type: '' @ value))"

definition has_secret :: "string option \<Rightarrow> bool" where
  "has_secret value = (case value of None \<Rightarrow> False | Some v \<Rightarrow> trim v \<noteq> [])"

definition validate_credential_material ::
  "auth_type \<Rightarrow> string option \<Rightarrow> string option \<Rightarrow> string option \<Rightarrow> hop_error + unit" where
  "validate_credential_material auth_type password_enc private_key_enc passphrase_enc =
     (let has_password = has_secret password_enc;
          has_private_key = has_secret private_key_enc;
          has_passphrase = has_secret passphrase_enc in
      case auth_type of
        Password \<Rightarrow> if \<not> has_password
          then Inl (Validation ''password auth requires a password'') else Inr ()
      | Key \<Rightarrow> if \<not> has_private_key
          then Inl (Validation ''key auth requires a private key'') else Inr ()
      | KeyWithPassphrase \<Rightarrow> if \<not> has_private_key \<or> \<not> has_passphrase
          then Inl (Validation ''key+passphrase auth requires a private key and passphrase'')
          else Inr ())"

section \<open>Assets\<close>

record asset =
  as_id :: string
  as_name :: string
  as_protocol :: string
  as_hostname :: string
  as_port :: int
  as_description :: "string option"
  as_tags :: "string list"
  as_credential_id :: "string option"
  as_created_at :: "string option"
  as_updated_at :: "string option"

record asset_row =
  ar_id :: string
  ar_name :: string
  ar_protocol :: string
  ar_hostname :: string
  ar_port :: int
  ar_description :: "string option"
  ar_tags :: "string option"
  ar_credential_id :: "string option"
  ar_created_at :: "string option"
  ar_updated_at :: "string option"

definition asset_try_from :: "ext \<Rightarrow> asset_row \<Rightarrow> hop_error + asset" where
  "asset_try_from X row =
     and_then (case ar_tags row of
         Some raw \<Rightarrow> if trim raw \<noteq> [] then ok_or (json_tags X raw) Json else Inr []
       | None \<Rightarrow> Inr []) (\<lambda>tags.
     and_then (validate_asset_protocol (ar_protocol row)) (\<lambda>protocol.
     Inr \<lparr>as_id = ar_id row, as_name = ar_name row, as_protocol = protocol,
       as_hostname = ar_hostname row, as_port = ar_port row,
       as_description = ar_description row, as_tags = tags,
       as_credential_id = ar_credential_id row, as_created_at = ar_created_at row,
       as_updated_at = ar_updated_at row\<rparr>))"

record new_asset =
  na_name :: string
  na_protocol :: string
  na_hostname :: string
  na_port :: int
  na_description :: "string option"
  na_tags :: "string list"
  na_credential_id :: "string option"

definition new_asset_of :: "string \<Rightarrow> string \<Rightarrow> int \<Rightarrow> new_asset" where
  "new_asset_of name hostname port =
     \<lparr>na_name = name, na_protocol = asset_protocol_ssh, na_hostname = hostname, na_port = port,
      na_description = None, na_tags = [], na_credential_id = None\<rparr>"

section \<open>Credentials, sessions, hosts, health, audit\<close>

record credential =
  cr_id :: string
  cr_name :: string
  cr_username :: string
  cr_auth_type :: string
  cr_password_enc :: "string option"
  cr_private_key_enc :: "string option"
  cr_passphrase_enc :: "string option"
  cr_created_at :: "string option"

record new_credential =
  nc_id :: "string option"
  nc_name :: string
  nc_username :: string
  nc_auth_type :: auth_type
  nc_password_enc :: "string option"
  nc_private_key_enc :: "string option"
  nc_passphrase_enc :: "string option"

record audit_event =
  ev_id :: string
  ev_occurred_at :: string
  ev_actor_label :: string
  ev_action :: string
  ev_target_type :: string
  ev_target_id :: "string option"
  ev_target_label :: "string option"
  ev_result :: string
  ev_source_ip :: "string option"
  ev_details_json :: "string option"

record asset_health =
  ah_asset_id :: string
  ah_status :: string
  ah_checked_at :: "string option"
  ah_last_success_at :: "string option"
  ah_latency_ms :: "int option"
  ah_error_code :: "string option"
  ah_error_message :: "string option"

record session =
  se_id :: string
  se_key_finger :: string
  se_key_name :: "string option"
  se_mode :: string
  se_asset_name :: "string option"
  se_target_host :: "string option"
  se_target_port :: "int option"
  se_client_ip :: "string option"
  se_status :: string
  se_error :: "string option"
  se_started_at :: string
  se_ended_at :: "string option"

record new_session =
  ns_key_finger :: string
  ns_key_name :: "string option"
  ns_mode :: string
  ns_asset_name :: "string option"
  ns_target_host :: "string option"
  ns_target_port :: "int option"
  ns_client_ip :: "string option"

record known_host =
  kh_hostname :: string
  kh_port :: int
  kh_key_type :: string
  kh_fingerprint :: string
  kh_first_seen :: string

record new_known_host =
  nkh_hostname :: string
  nkh_port :: int
  nkh_key_type :: string
  nkh_fingerprint :: string

section \<open>Facts about the conversions\<close>

lemma access_mode_round_trip [simp]: "access_mode_try_from (access_mode_as_str m) = Inr m"
  by (cases m) (simp_all add: access_mode_try_from_def)

lemma access_mode_try_from_Inr [result_simps]:
  "access_mode_try_from v = Inr m \<longleftrightarrow> v = access_mode_as_str m"
  by (cases m) (auto simp: access_mode_try_from_def)

lemma auth_type_round_trip [simp]: "auth_type_try_from (auth_type_as_str t) = Inr t"
  by (cases t) (simp_all add: auth_type_try_from_def)

lemma u16_try_from_Some: "u16_try_from i = Some p \<longleftrightarrow> 0 \<le> i \<and> i < 65536 \<and> p = word_of_int i"
  by (auto simp: u16_try_from_def)

lemma word16_pos: "0 \<le> i \<Longrightarrow> i < 65536 \<Longrightarrow> (0::u16) < word_of_int i \<longleftrightarrow> 0 < i"
  by (simp add: word_less_def unsigned_of_int take_bit_int_eq_self)

lemma validate_tcp_port_Inr [result_simps]:
  "validate_tcp_port port = Inr p \<longleftrightarrow> 1 \<le> port \<and> port \<le> 65535 \<and> p = word_of_int port"
  by (auto simp: validate_tcp_port_def u16_try_from_def word16_pos split: option.splits)

lemma validate_tcp_port_uint: "validate_tcp_port port = Inr p \<Longrightarrow> uint p = port"
  by (auto simp: result_simps unsigned_of_int take_bit_int_eq_self)

lemma protocols_trimmed [simp]:
  "trim ''ssh'' = ''ssh''" "trim ''tcp'' = ''tcp''"
  by (simp_all add: trim_def trim_end_def trim_start.simps trim_start_rev.simps str_defs)

lemma protocols_lower [simp]:
  "to_ascii_lowercase ''ssh'' = ''ssh''" "to_ascii_lowercase ''tcp'' = ''tcp''"
  by (simp_all add: str_defs)

lemma validate_asset_protocol_Inr:
  "validate_asset_protocol s = Inr p \<Longrightarrow> p = ''ssh'' \<or> p = ''tcp''"
  by (auto simp: validate_asset_protocol_def str_defs Let_def split: if_splits)

text \<open>What a stored protocol reads back as.\<close>

lemma validate_asset_protocol_idem:
  "validate_asset_protocol s = Inr p \<Longrightarrow> validate_asset_protocol p = Inr p"
  by (drule validate_asset_protocol_Inr)
    (auto simp: validate_asset_protocol_def asset_protocol_ssh_def asset_protocol_tcp_def)

lemma has_secret_Some [simp]: "has_secret (Some v) \<longleftrightarrow> trim v \<noteq> []" "\<not> has_secret None"
  by (simp_all add: has_secret_def)

lemma validate_credential_material_Inr [result_simps]:
  "validate_credential_material t pw pk pp = Inr u \<longleftrightarrow>
     (case t of Password \<Rightarrow> has_secret pw | Key \<Rightarrow> has_secret pk
      | KeyWithPassphrase \<Rightarrow> has_secret pk \<and> has_secret pp)"
  by (cases t) (auto simp: validate_credential_material_def)

end
