(* ===== verification/Schema.thy ===== *)
theory Schema
  imports Models
begin

text \<open>
  The database of \<open>catalog/schema_v0_2.sql\<close> and the SQL statements the catalog runs against
  it. A table is the list of its rows, in insertion order; the schema's \<open>PRIMARY KEY\<close>,
  \<open>UNIQUE\<close>, \<open>CHECK\<close> and \<open>REFERENCES\<close> clauses are \<open>constraints\<close>, and a statement whose
  result would break one fails with \<open>ConstraintViolation\<close> and changes nothing, which is what
  SQLite promises of a statement. \<open>ON DELETE CASCADE\<close> and the trigger on \<open>assets\<close> are part of
  the statements that set them off. \<open>now\<close> is the value of \<open>CURRENT_TIMESTAMP\<close>.
\<close>

section \<open>Tables\<close>

record credential_tbl =
  c_id :: string
  c_name :: string
  c_username :: string
  c_auth_type :: string
  c_password_enc :: "string option"
  c_private_key_enc :: "string option"
  c_passphrase_enc :: "string option"
  c_secret_hmac :: "string option"
  c_created_at :: string
  c_updated_at :: string

record asset_tbl =
  a_id :: string
  a_name :: string
  a_asset_type :: string
  a_host :: string
  a_port :: int
  a_display_name :: "string option"
  a_description :: "string option"
  a_tags_json :: "string option"
  a_credential_id :: "string option"
  a_created_at :: string
  a_updated_at :: string

record access_key_tbl =
  k_id :: string
  k_name :: string
  k_public_key :: string
  k_fingerprint :: string
  k_enabled :: bool
  k_access_mode :: string
  k_created_at :: string
  k_updated_at :: string

record ownership_tbl =
  o_type :: string
  o_id :: string
  o_mode :: string
  o_source_id :: "string option"
  o_source_key :: "string option"
  o_generation :: "int option"
  o_hash :: "string option"
  o_applied_at :: "string option"
  o_orphaned_at :: "string option"

record config_source_tbl =
  s_id :: string
  s_generation :: int
  s_success_at :: "string option"
  s_success_revision :: "int option"
  s_error_at :: "string option"
  s_error_code :: "string option"
  s_error_message :: "string option"

record catalog =
  t_revision :: int
  t_credentials :: "credential_tbl list"
  t_assets :: "asset_tbl list"
  t_access_keys :: "access_key_tbl list"
  t_access_key_assets :: "(string \<times> string) list"
  t_ownership :: "ownership_tbl list"
  t_config_sources :: "config_source_tbl list"
  t_known_hosts :: "known_host list"
  t_sessions :: "session list"
  t_asset_health :: "asset_health list"
  t_audit_events :: "audit_event list"

text \<open>The catalog after \<open>initialize\<close> ran the baseline script on an empty file.\<close>

definition baseline :: catalog where
  "baseline = \<lparr>t_revision = 0, t_credentials = [], t_assets = [], t_access_keys = [],
     t_access_key_assets = [], t_ownership = [], t_config_sources = [], t_known_hosts = [],
     t_sessions = [], t_asset_health = [], t_audit_events = []\<rparr>"

section \<open>Constraints\<close>

definition credentials_ok :: "credential_tbl list \<Rightarrow> bool" where
  "credentials_ok cs \<longleftrightarrow> distinct (map c_id cs) \<and> distinct (map c_name cs)
     \<and> (\<forall>c \<in> set cs. c_auth_type c = ''password'' \<or> c_auth_type c = ''ssh_key'')"

definition assets_ok :: "credential_tbl list \<Rightarrow> asset_tbl list \<Rightarrow> bool" where
  "assets_ok cs as \<longleftrightarrow> distinct (map a_id as) \<and> distinct (map a_name as)
     \<and> (\<forall>a \<in> set as. (a_asset_type a = ''ssh'' \<or> a_asset_type a = ''tcp'')
          \<and> 1 \<le> a_port a \<and> a_port a \<le> 65535
          \<and> (a_asset_type a = ''ssh'' \<or> a_credential_id a = None)
          \<and> (case a_credential_id a of None \<Rightarrow> True | Some c \<Rightarrow> c \<in> set (map c_id cs)))"

definition access_keys_ok :: "access_key_tbl list \<Rightarrow> bool" where
  "access_keys_ok ks \<longleftrightarrow> distinct (map k_id ks) \<and> distinct (map k_name ks)
     \<and> distinct (map k_public_key ks) \<and> distinct (map k_fingerprint ks)
     \<and> (\<forall>k \<in> set ks. k_access_mode k = ''all'' \<or> k_access_mode k = ''restricted'')"

definition assignments_ok ::
  "access_key_tbl list \<Rightarrow> asset_tbl list \<Rightarrow> (string \<times> string) list \<Rightarrow> bool" where
  "assignments_ok ks as kas \<longleftrightarrow> distinct kas
     \<and> (\<forall>(k, a) \<in> set kas. k \<in> set (map k_id ks) \<and> a \<in> set (map a_id as))"

definition ownership_check :: "ownership_tbl \<Rightarrow> bool" where
  "ownership_check r \<longleftrightarrow>
     (o_type r = ''credential'' \<or> o_type r = ''asset'' \<or> o_type r = ''access_key'')
     \<and> ((o_mode r = ''local'' \<and> o_source_id r = None \<and> o_source_key r = None)
        \<or> (o_mode r = ''declarative'' \<and> o_source_id r \<noteq> None \<and> o_source_key r \<noteq> None))"

text \<open>\<open>UNIQUE (resource_type, source_id, source_key)\<close>: rows with a NULL never collide.\<close>

definition ownership_ok :: "ownership_tbl list \<Rightarrow> bool" where
  "ownership_ok os \<longleftrightarrow> distinct (map (\<lambda>r. (o_type r, o_id r)) os)
     \<and> distinct (map (\<lambda>r. (o_type r, o_source_id r, o_source_key r))
          (filter (\<lambda>r. o_source_id r \<noteq> None \<and> o_source_key r \<noteq> None) os))
     \<and> (\<forall>r \<in> set os. ownership_check r)"

definition known_hosts_ok :: "known_host list \<Rightarrow> bool" where
  "known_hosts_ok hs \<longleftrightarrow> distinct (map (\<lambda>h. (kh_hostname h, kh_port h, kh_key_type h)) hs)
     \<and> (\<forall>h \<in> set hs. 1 \<le> kh_port h \<and> kh_port h \<le> 65535)"

definition asset_health_ok :: "asset_tbl list \<Rightarrow> asset_health list \<Rightarrow> bool" where
  "asset_health_ok as hs \<longleftrightarrow> distinct (map ah_asset_id hs)
     \<and> (\<forall>h \<in> set hs. ah_asset_id h \<in> set (map a_id as)
          \<and> (ah_status h = ''unknown'' \<or> ah_status h = ''healthy'' \<or> ah_status h = ''failed''))"

definition constraints :: "catalog \<Rightarrow> bool" where
  "constraints db \<longleftrightarrow> 0 \<le> t_revision db \<and> credentials_ok (t_credentials db)
     \<and> assets_ok (t_credentials db) (t_assets db) \<and> access_keys_ok (t_access_keys db)
     \<and> assignments_ok (t_access_keys db) (t_assets db) (t_access_key_assets db)
     \<and> ownership_ok (t_ownership db)
     \<and> distinct (map s_id (t_config_sources db))
     \<and> (\<forall>s \<in> set (t_config_sources db). 0 \<le> s_generation s)
     \<and> known_hosts_ok (t_known_hosts db) \<and> distinct (map se_id (t_sessions db))
     \<and> asset_health_ok (t_assets db) (t_asset_health db)
     \<and> distinct (map ev_id (t_audit_events db))"

text \<open>A statement takes effect if its result satisfies the schema.\<close>

definition enforce :: "catalog \<Rightarrow> hop_error + catalog" where
  "enforce db = (if constraints db then Inr db else Inl (Database ConstraintViolation))"

lemma enforce_Inr [result_simps]: "enforce db = Inr db' \<longleftrightarrow> constraints db \<and> db' = db"
  by (auto simp: enforce_def)

lemma enforce_Inl [result_simps]:
  "enforce db = Inl e \<longleftrightarrow> \<not> constraints db \<and> e = Database ConstraintViolation"
  by (auto simp: enforce_def)

lemma constraints_baseline [simp]: "constraints baseline"
  by (simp add: constraints_def baseline_def credentials_ok_def assets_ok_def access_keys_ok_def
      assignments_ok_def ownership_ok_def known_hosts_ok_def asset_health_ok_def)

section \<open>Statements\<close>

definition update_where :: "('r \<Rightarrow> bool) \<Rightarrow> ('r \<Rightarrow> 'r) \<Rightarrow> 'r list \<Rightarrow> 'r list" where
  "update_where p f rows = map (\<lambda>r. if p r then f r else r) rows"

definition delete_where :: "('r \<Rightarrow> bool) \<Rightarrow> 'r list \<Rightarrow> 'r list" where
  "delete_where p rows = filter (\<lambda>r. \<not> p r) rows"

text \<open>\<open>INSERT .. ON CONFLICT(key) DO UPDATE SET\<close>.\<close>

definition upsert_where :: "('r \<Rightarrow> bool) \<Rightarrow> ('r \<Rightarrow> 'r) \<Rightarrow> 'r \<Rightarrow> 'r list \<Rightarrow> 'r list" where
  "upsert_where p f new rows =
     (if \<exists>r \<in> set rows. p r then update_where p f rows else rows @ [new])"

text \<open>The trigger \<open>assets_create_health\<close>: \<open>INSERT OR IGNORE INTO asset_health\<close>.\<close>

definition health_row :: "string \<Rightarrow> asset_health" where
  "health_row aid = \<lparr>ah_asset_id = aid, ah_status = ''unknown'', ah_checked_at = None,
     ah_last_success_at = None, ah_latency_ms = None, ah_error_code = None,
     ah_error_message = None\<rparr>"

definition create_health :: "string \<Rightarrow> asset_health list \<Rightarrow> asset_health list" where
  "create_health aid hs = (if aid \<in> set (map ah_asset_id hs) then hs else hs @ [health_row aid])"

definition insert_credential :: "credential_tbl \<Rightarrow> catalog \<Rightarrow> hop_error + catalog" where
  "insert_credential r db = enforce (db\<lparr>t_credentials := t_credentials db @ [r]\<rparr>)"

definition insert_asset :: "asset_tbl \<Rightarrow> catalog \<Rightarrow> hop_error + catalog" where
  "insert_asset r db = enforce (db\<lparr>t_assets := t_assets db @ [r],
     t_asset_health := create_health (a_id r) (t_asset_health db)\<rparr>)"

definition insert_access_key :: "access_key_tbl \<Rightarrow> catalog \<Rightarrow> hop_error + catalog" where
  "insert_access_key r db = enforce (db\<lparr>t_access_keys := t_access_keys db @ [r]\<rparr>)"

definition insert_assignment :: "string \<Rightarrow> string \<Rightarrow> catalog \<Rightarrow> hop_error + catalog" where
  "insert_assignment key_id asset_id db =
     enforce (db\<lparr>t_access_key_assets := t_access_key_assets db @ [(key_id, asset_id)]\<rparr>)"

definition insert_ownership :: "ownership_tbl \<Rightarrow> catalog \<Rightarrow> hop_error + catalog" where
  "insert_ownership r db = enforce (db\<lparr>t_ownership := t_ownership db @ [r]\<rparr>)"

definition insert_session :: "session \<Rightarrow> catalog \<Rightarrow> hop_error + catalog" where
  "insert_session r db = enforce (db\<lparr>t_sessions := t_sessions db @ [r]\<rparr>)"

definition insert_audit :: "audit_event \<Rightarrow> catalog \<Rightarrow> hop_error + catalog" where
  "insert_audit r db = enforce (db\<lparr>t_audit_events := t_audit_events db @ [r]\<rparr>)"

definition update_credentials ::
  "(credential_tbl \<Rightarrow> bool) \<Rightarrow> (credential_tbl \<Rightarrow> credential_tbl) \<Rightarrow> catalog \<Rightarrow> hop_error + catalog" where
  "update_credentials p f db = enforce (db\<lparr>t_credentials := update_where p f (t_credentials db)\<rparr>)"

definition update_assets ::
  "(asset_tbl \<Rightarrow> bool) \<Rightarrow> (asset_tbl \<Rightarrow> asset_tbl) \<Rightarrow> catalog \<Rightarrow> hop_error + catalog" where
  "update_assets p f db = enforce (db\<lparr>t_assets := update_where p f (t_assets db)\<rparr>)"

definition update_access_keys ::
  "(access_key_tbl \<Rightarrow> bool) \<Rightarrow> (access_key_tbl \<Rightarrow> access_key_tbl) \<Rightarrow> catalog \<Rightarrow> hop_error + catalog" where
  "update_access_keys p f db = enforce (db\<lparr>t_access_keys := update_where p f (t_access_keys db)\<rparr>)"

definition update_ownership ::
  "(ownership_tbl \<Rightarrow> bool) \<Rightarrow> (ownership_tbl \<Rightarrow> ownership_tbl) \<Rightarrow> catalog \<Rightarrow> hop_error + catalog" where
  "update_ownership p f db = enforce (db\<lparr>t_ownership := update_where p f (t_ownership db)\<rparr>)"

definition update_revision :: "int \<Rightarrow> catalog \<Rightarrow> hop_error + catalog" where
  "update_revision r db = enforce (db\<lparr>t_revision := r\<rparr>)"

text \<open>\<open>ON DELETE RESTRICT\<close>: a credential that an asset names cannot be deleted.\<close>

definition delete_credential_row :: "string \<Rightarrow> catalog \<Rightarrow> hop_error + catalog" where
  "delete_credential_row i db =
     enforce (db\<lparr>t_credentials := delete_where (\<lambda>c. c_id c = i) (t_credentials db)\<rparr>)"

text \<open>\<open>ON DELETE CASCADE\<close>: assignments and health of an asset, assignments of a key.\<close>

definition delete_asset_row :: "string \<Rightarrow> catalog \<Rightarrow> hop_error + catalog" where
  "delete_asset_row i db =
     enforce (db\<lparr>t_assets := delete_where (\<lambda>a. a_id a = i) (t_assets db),
       t_access_key_assets := delete_where (\<lambda>(_, a). a = i) (t_access_key_assets db),
       t_asset_health := delete_where (\<lambda>h. ah_asset_id h = i) (t_asset_health db)\<rparr>)"

definition delete_access_key_row :: "string \<Rightarrow> catalog \<Rightarrow> hop_error + catalog" where
  "delete_access_key_row i db =
     enforce (db\<lparr>t_access_keys := delete_where (\<lambda>k. k_id k = i) (t_access_keys db),
       t_access_key_assets := delete_where (\<lambda>(k, _). k = i) (t_access_key_assets db)\<rparr>)"

definition delete_assignments :: "string \<Rightarrow> catalog \<Rightarrow> hop_error + catalog" where
  "delete_assignments key_id db =
     enforce (db\<lparr>t_access_key_assets := delete_where (\<lambda>(k, _). k = key_id) (t_access_key_assets db)\<rparr>)"

definition delete_ownership :: "string \<Rightarrow> string \<Rightarrow> catalog \<Rightarrow> hop_error + catalog" where
  "delete_ownership rtype rid db =
     enforce (db\<lparr>t_ownership :=
       delete_where (\<lambda>r. o_type r = rtype \<and> o_id r = rid) (t_ownership db)\<rparr>)"

lemmas statement_defs = insert_credential_def insert_asset_def insert_access_key_def
  insert_assignment_def insert_ownership_def insert_session_def insert_audit_def
  update_credentials_def update_assets_def update_access_keys_def update_ownership_def
  update_revision_def delete_credential_row_def delete_asset_row_def delete_access_key_row_def
  delete_assignments_def delete_ownership_def

section \<open>Facts about rows\<close>

lemma set_update_where: "set (update_where p f rows) = (\<lambda>r. if p r then f r else r) ` set rows"
  by (simp add: update_where_def)

lemma map_update_where:
  "(\<And>r. p r \<Longrightarrow> g (f r) = g r) \<Longrightarrow> map g (update_where p f rows) = map g rows"
  by (auto simp: update_where_def)

lemma length_update_where [simp]: "length (update_where p f rows) = length rows"
  by (simp add: update_where_def)

lemma set_delete_where [simp]: "set (delete_where p rows) = {r \<in> set rows. \<not> p r}"
  by (simp add: delete_where_def)

lemma find_unique:
  assumes "distinct (map g rows)" and "r \<in> set rows"
  shows "find (\<lambda>x. g x = g r) rows = Some r"
proof -
  obtain y where y: "find (\<lambda>x. g x = g r) rows = Some y"
    using assms(2) by (cases "find (\<lambda>x. g x = g r) rows") (auto simp: find_None_iff)
  then have "y \<in> set rows" "g y = g r"
    by (auto simp: find_Some_iff)
  with assms have "y = r" by (auto simp: distinct_map inj_on_def)
  with y show ?thesis by simp
qed

lemma find_Some_in: "find p rows = Some r \<Longrightarrow> r \<in> set rows \<and> p r"
  by (auto simp: find_Some_iff)

lemma find_unique_iff:
  "distinct (map g rows) \<Longrightarrow> find (\<lambda>x. g x = v) rows = Some r \<longleftrightarrow> r \<in> set rows \<and> g r = v"
  using find_unique [of g rows r] by (auto dest: find_Some_in)

lemma constraintsD:
  assumes "constraints db"
  shows "distinct (map c_id (t_credentials db))" "distinct (map c_name (t_credentials db))"
    "distinct (map a_id (t_assets db))" "distinct (map a_name (t_assets db))"
    "distinct (map k_id (t_access_keys db))" "distinct (map k_name (t_access_keys db))"
    "distinct (map k_fingerprint (t_access_keys db))"
    "distinct (map (\<lambda>r. (o_type r, o_id r)) (t_ownership db))"
    "distinct (t_access_key_assets db)"
    "distinct (map s_id (t_config_sources db))"
  using assms by (simp_all add: constraints_def credentials_ok_def assets_ok_def
      access_keys_ok_def ownership_ok_def assignments_ok_def)

lemma asset_type_cases:
  "constraints db \<Longrightarrow> a \<in> set (t_assets db) \<Longrightarrow> a_asset_type a = ''ssh'' \<or> a_asset_type a = ''tcp''"
  by (simp add: constraints_def assets_ok_def)

lemma asset_credential_exists:
  assumes "constraints db" and "a \<in> set (t_assets db)" and "a_credential_id a = Some c"
  shows "\<exists>r \<in> set (t_credentials db). c_id r = c"
proof -
  have "assets_ok (t_credentials db) (t_assets db)" using assms(1) by (simp add: constraints_def)
  then have "c \<in> c_id ` set (t_credentials db)"
    using assms(2,3) by (simp add: assets_ok_def split: option.split_asm)
  then show ?thesis by blast
qed

end
