(* ===== verification/Runtime.thy ===== *)
theory Runtime
  imports Schema
begin

text \<open>
  The storage operations of \<open>catalog/runtime.rs\<close>, one definition per method of \<open>Catalog\<close>.
  A transaction's body runs on a copy of the catalog and yields \<open>hop_error + catalog\<close>: an
  error drops the transaction, so the catalog is the one before it. A method returns the
  catalog after it and its result; one that reads a row back after its commit can fail with
  its change already committed, and the model says so. \<open>now\<close> is \<open>CURRENT_TIMESTAMP\<close> and \<open>n\<close>
  the number of ids drawn before.
\<close>

section \<open>Shared pieces\<close>

definition commit :: "catalog \<Rightarrow> hop_error + catalog \<Rightarrow> catalog \<times> (hop_error + unit)" where
  "commit db r = (case r of Inl e \<Rightarrow> (db, Inl e) | Inr db' \<Rightarrow> (db', Inr ()))"

text \<open>Commit, then read the result back from the new catalog.\<close>

definition commit_read ::
  "catalog \<Rightarrow> hop_error + catalog \<Rightarrow> (catalog \<Rightarrow> hop_error + 'a) \<Rightarrow> catalog \<times> (hop_error + 'a)" where
  "commit_read db r rd = (case r of Inl e \<Rightarrow> (db, Inl e) | Inr db' \<Rightarrow> (db', rd db'))"

definition row_not_found :: hop_error where
  "row_not_found = Database RowNotFound"

text \<open>\<open>ORDER BY\<close>: a stable insertion sort under the given comparison.\<close>

fun insert_by :: "('a \<Rightarrow> 'a \<Rightarrow> bool) \<Rightarrow> 'a \<Rightarrow> 'a list \<Rightarrow> 'a list" where
  "insert_by le x [] = [x]"
| "insert_by le x (y # ys) = (if le x y then x # y # ys else y # insert_by le x ys)"

definition order_by :: "('a \<Rightarrow> 'a \<Rightarrow> bool) \<Rightarrow> 'a list \<Rightarrow> 'a list" where
  "order_by le xs = foldr (insert_by le) xs []"

text \<open>\<open>BTreeSet::from_iter\<close>, in its iteration order.\<close>

definition sorted_set :: "string list \<Rightarrow> string list" where
  "sorted_set xs = sort (remdups xs)"

definition local_auth_type :: "auth_type \<Rightarrow> string" where
  "local_auth_type t = (case t of Password \<Rightarrow> ''password'' | Key \<Rightarrow> ''ssh_key''
     | KeyWithPassphrase \<Rightarrow> ''ssh_key'')"

definition increment_revision :: "catalog \<Rightarrow> hop_error + catalog" where
  "increment_revision db = update_revision (t_revision db + 1) db"

definition owner_of :: "string \<Rightarrow> string \<Rightarrow> catalog \<Rightarrow> ownership_tbl option" where
  "owner_of rtype rid db = find (\<lambda>r. (o_type r, o_id r) = (rtype, rid)) (t_ownership db)"

definition insert_local_ownership :: "string \<Rightarrow> string \<Rightarrow> catalog \<Rightarrow> hop_error + catalog" where
  "insert_local_ownership rtype rid db =
     insert_ownership \<lparr>o_type = rtype, o_id = rid, o_mode = ''local'', o_source_id = None,
       o_source_key = None, o_generation = None, o_hash = None, o_applied_at = None,
       o_orphaned_at = None\<rparr> db"

definition ensure_local :: "string \<Rightarrow> string \<Rightarrow> catalog \<Rightarrow> hop_error + unit" where
  "ensure_local rtype rid db =
     (case owner_of rtype rid db of
        Some r \<Rightarrow> if o_mode r = ''local'' then Inr ()
          else Inl (Validation (''managed_by_source: resource is managed by ''
            @ (case o_source_id r of Some src \<Rightarrow> src | None \<Rightarrow> ''a declarative source'')))
      | None \<Rightarrow> Inl (Validation (''unknown '' @ rtype @ '' id: '' @ rid)))"

datatype ownership_kind = LocalOwned | ConfigOwned

definition resource_ownership :: "string \<Rightarrow> string \<Rightarrow> catalog \<Rightarrow> ownership_kind" where
  "resource_ownership rtype rid db =
     (case map_option o_mode (owner_of rtype rid db) of
        Some m \<Rightarrow> if m = ''declarative'' then ConfigOwned else LocalOwned
      | None \<Rightarrow> LocalOwned)"

definition validate_asset_ids :: "string list \<Rightarrow> catalog \<Rightarrow> hop_error + unit" where
  "validate_asset_ids asset_ids db =
     foldE (\<lambda>_ asset_id. check (\<exists>a \<in> set (t_assets db). a_id a = asset_id)
         (Validation (''unknown asset id: '' @ asset_id))) () (sorted_set asset_ids)"

definition replace_access_assignments ::
  "string \<Rightarrow> string list \<Rightarrow> catalog \<Rightarrow> hop_error + catalog" where
  "replace_access_assignments key_id asset_ids db =
     and_then (delete_assignments key_id db) (\<lambda>db1.
     foldE (\<lambda>db asset_id. insert_assignment key_id asset_id db) db1 (sorted_set asset_ids))"

text \<open>\<open>delete_local_resource\<close>; the table is chosen by the name the callers pass.\<close>

definition delete_local_resource ::
  "string \<Rightarrow> string \<Rightarrow> string \<Rightarrow> catalog \<Rightarrow> catalog \<times> (hop_error + unit)" where
  "delete_local_resource rtype table rid db = commit db (
     and_then (ensure_local rtype rid db) (\<lambda>_.
     and_then (delete_ownership rtype rid db) (\<lambda>db1.
     and_then (if table = ''access_keys'' then delete_access_key_row rid db1
        else if table = ''credentials'' then delete_credential_row rid db1
        else if table = ''assets'' then delete_asset_row rid db1
        else Inl (Validation ''invalid catalog table'')) increment_revision)))"

section \<open>Access keys\<close>

definition key_row_of :: "access_key_tbl \<Rightarrow> authorized_key_row" where
  "key_row_of k = \<lparr>akr_id = k_id k, akr_name = k_name k, akr_public_key = k_public_key k,
     akr_fingerprint = k_fingerprint k, akr_is_active = k_enabled k,
     akr_access_mode = k_access_mode k, akr_created_at = Some (k_created_at k)\<rparr>"

definition get_authorized_key_by_id :: "string \<Rightarrow> catalog \<Rightarrow> hop_error + authorized_key option" where
  "get_authorized_key_by_id i db =
     opt_mapE (\<lambda>k. authorized_key_try_from (key_row_of k))
       (find (\<lambda>k. k_id k = i) (t_access_keys db))"

definition get_active_authorized_key_by_fingerprint ::
  "string \<Rightarrow> catalog \<Rightarrow> hop_error + authorized_key option" where
  "get_active_authorized_key_by_fingerprint fingerprint db =
     opt_mapE (\<lambda>k. authorized_key_try_from (key_row_of k))
       (find (\<lambda>k. k_fingerprint k = fingerprint \<and> k_enabled k) (t_access_keys db))"

definition list_authorized_keys :: "catalog \<Rightarrow> hop_error + authorized_key list" where
  "list_authorized_keys db =
     mapE (\<lambda>k. authorized_key_try_from (key_row_of k))
       (order_by (\<lambda>k l. k_created_at l < k_created_at k
          \<or> (k_created_at k = k_created_at l \<and> k_name k \<le> k_name l)) (t_access_keys db))"

definition list_asset_ids_for_key :: "string \<Rightarrow> catalog \<Rightarrow> string list" where
  "list_asset_ids_for_key key_id db =
     sort (map snd (filter (\<lambda>(k, _). k = key_id) (t_access_key_assets db)))"

definition add_authorized_key_with_access ::
  "ext \<Rightarrow> string \<Rightarrow> nat \<Rightarrow> new_authorized_key \<Rightarrow> asset_access_mode \<Rightarrow> string list \<Rightarrow> catalog
    \<Rightarrow> catalog \<times> (hop_error + authorized_key)" where
  "add_authorized_key_with_access X now n key mode asset_ids db =
     (let i = new_id X n in
      commit_read db (
        and_then (validate_asset_ids asset_ids db) (\<lambda>_.
        and_then (insert_access_key \<lparr>k_id = i, k_name = nk_name key,
            k_public_key = nk_public_key key, k_fingerprint = nk_fingerprint key,
            k_enabled = True, k_access_mode = access_mode_as_str mode,
            k_created_at = now, k_updated_at = now\<rparr> db) (\<lambda>db1.
        and_then (insert_local_ownership ''access_key'' i db1) (\<lambda>db2.
        and_then (replace_access_assignments i asset_ids db2) increment_revision))))
      (\<lambda>db'. and_then (get_authorized_key_by_id i db') (\<lambda>k. ok_or k row_not_found)))"

definition add_authorized_key ::
  "ext \<Rightarrow> string \<Rightarrow> nat \<Rightarrow> new_authorized_key \<Rightarrow> catalog
    \<Rightarrow> catalog \<times> (hop_error + authorized_key)" where
  "add_authorized_key X now n key db = add_authorized_key_with_access X now n key All [] db"

text \<open>\<open>rows_affected\<close> counts the rows the \<open>WHERE\<close> clause selects.\<close>

definition set_authorized_key_active ::
  "string \<Rightarrow> string \<Rightarrow> bool \<Rightarrow> catalog \<Rightarrow> catalog \<times> (hop_error + unit)" where
  "set_authorized_key_active now i active db = commit db (
     and_then (ensure_local ''access_key'' i db) (\<lambda>_.
     let selected = (\<lambda>k. k_id k = i \<and> k_enabled k \<noteq> active);
         changed = length (filter selected (t_access_keys db)) in
     and_then (update_access_keys selected
         (\<lambda>k. k\<lparr>k_enabled := active, k_updated_at := now\<rparr>) db) (\<lambda>db1.
     if changed > 0 then increment_revision db1 else Inr db1)))"

definition set_authorized_key_access ::
  "string \<Rightarrow> string \<Rightarrow> asset_access_mode \<Rightarrow> string list \<Rightarrow> catalog
    \<Rightarrow> catalog \<times> (hop_error + unit)" where
  "set_authorized_key_access now i mode asset_ids db =
     (if mode = All \<and> asset_ids \<noteq> []
      then (db, Inl (Validation ''all access mode cannot contain asset assignments''))
      else commit db (
        and_then (ensure_local ''access_key'' i db) (\<lambda>_.
        and_then (validate_asset_ids asset_ids db) (\<lambda>_.
        and_then (update_access_keys (\<lambda>k. k_id k = i)
            (\<lambda>k. k\<lparr>k_access_mode := access_mode_as_str mode, k_updated_at := now\<rparr>) db) (\<lambda>db1.
        and_then (replace_access_assignments i asset_ids db1) increment_revision)))))"

definition delete_authorized_key :: "string \<Rightarrow> catalog \<Rightarrow> catalog \<times> (hop_error + unit)" where
  "delete_authorized_key i db = delete_local_resource ''access_key'' ''access_keys'' i db"

section \<open>Credentials\<close>

text \<open>\<open>credential_select\<close> shows the stored type as one of the three of \<open>AuthType\<close>.\<close>

definition credential_of_row :: "credential_tbl \<Rightarrow> credential" where
  "credential_of_row c = \<lparr>cr_id = c_id c, cr_name = c_name c, cr_username = c_username c,
     cr_auth_type = (if c_auth_type c = ''password'' then ''password''
       else if c_passphrase_enc c = None then ''key'' else ''key+passphrase''),
     cr_password_enc = c_password_enc c, cr_private_key_enc = c_private_key_enc c,
     cr_passphrase_enc = c_passphrase_enc c, cr_created_at = Some (c_created_at c)\<rparr>"

definition get_credential :: "string \<Rightarrow> catalog \<Rightarrow> credential option" where
  "get_credential i db =
     map_option credential_of_row (find (\<lambda>c. c_id c = i) (t_credentials db))"

definition list_credentials :: "catalog \<Rightarrow> credential list" where
  "list_credentials db = map credential_of_row
     (order_by (\<lambda>c d. c_created_at d < c_created_at c
        \<or> (c_created_at c = c_created_at d \<and> c_name c \<le> c_name d)) (t_credentials db))"

definition add_credential ::
  "ext \<Rightarrow> string \<Rightarrow> nat \<Rightarrow> new_credential \<Rightarrow> catalog \<Rightarrow> catalog \<times> (hop_error + credential)" where
  "add_credential X now n cred db =
     (case validate_credential_material (nc_auth_type cred) (nc_password_enc cred)
         (nc_private_key_enc cred) (nc_passphrase_enc cred) of
        Inl e \<Rightarrow> (db, Inl e)
      | Inr _ \<Rightarrow>
        (let i = (case nc_id cred of Some i \<Rightarrow> i | None \<Rightarrow> new_id X n) in
         commit_read db (
           and_then (insert_credential \<lparr>c_id = i, c_name = nc_name cred,
               c_username = nc_username cred, c_auth_type = local_auth_type (nc_auth_type cred),
               c_password_enc = nc_password_enc cred, c_private_key_enc = nc_private_key_enc cred,
               c_passphrase_enc = nc_passphrase_enc cred, c_secret_hmac = None,
               c_created_at = now, c_updated_at = now\<rparr> db) (\<lambda>db1.
           and_then (insert_local_ownership ''credential'' i db1) increment_revision))
         (\<lambda>db'. ok_or (get_credential i db') row_not_found)))"

definition update_credential ::
  "string \<Rightarrow> string \<Rightarrow> new_credential \<Rightarrow> catalog \<Rightarrow> catalog \<times> (hop_error + unit)" where
  "update_credential now i cred db =
     (case validate_credential_material (nc_auth_type cred) (nc_password_enc cred)
         (nc_private_key_enc cred) (nc_passphrase_enc cred) of
        Inl e \<Rightarrow> (db, Inl e)
      | Inr _ \<Rightarrow> commit db (
          and_then (ensure_local ''credential'' i db) (\<lambda>_.
          and_then (update_credentials (\<lambda>c. c_id c = i)
            (\<lambda>c. c\<lparr>c_name := nc_name cred, c_username := nc_username cred,
               c_auth_type := local_auth_type (nc_auth_type cred),
               c_password_enc := nc_password_enc cred,
               c_private_key_enc := nc_private_key_enc cred,
               c_passphrase_enc := nc_passphrase_enc cred, c_updated_at := now\<rparr>) db)
          increment_revision)))"

definition delete_credential :: "string \<Rightarrow> catalog \<Rightarrow> catalog \<times> (hop_error + unit)" where
  "delete_credential i db = delete_local_resource ''credential'' ''credentials'' i db"

section \<open>Assets\<close>

definition asset_row_of :: "asset_tbl \<Rightarrow> asset_row" where
  "asset_row_of a = \<lparr>ar_id = a_id a, ar_name = a_name a, ar_protocol = a_asset_type a,
     ar_hostname = a_host a, ar_port = a_port a, ar_description = a_description a,
     ar_tags = a_tags_json a, ar_credential_id = a_credential_id a,
     ar_created_at = Some (a_created_at a), ar_updated_at = Some (a_updated_at a)\<rparr>"

definition asset_rows :: "ext \<Rightarrow> asset_tbl list \<Rightarrow> hop_error + asset list" where
  "asset_rows X rows = mapE (\<lambda>a. asset_try_from X (asset_row_of a)) rows"

definition asset_row_opt :: "ext \<Rightarrow> asset_tbl option \<Rightarrow> hop_error + asset option" where
  "asset_row_opt X row = opt_mapE (\<lambda>a. asset_try_from X (asset_row_of a)) row"

definition get_asset_by_id :: "ext \<Rightarrow> string \<Rightarrow> catalog \<Rightarrow> hop_error + asset option" where
  "get_asset_by_id X i db = asset_row_opt X (find (\<lambda>a. a_id a = i) (t_assets db))"

definition get_asset_by_name :: "ext \<Rightarrow> string \<Rightarrow> catalog \<Rightarrow> hop_error + asset option" where
  "get_asset_by_name X name db = asset_row_opt X (find (\<lambda>a. a_name a = name) (t_assets db))"

definition list_assets :: "ext \<Rightarrow> catalog \<Rightarrow> hop_error + asset list" where
  "list_assets X db = asset_rows X (order_by (\<lambda>a b. a_name a \<le> a_name b) (t_assets db))"

definition write_asset ::
  "ext \<Rightarrow> string \<Rightarrow> string \<Rightarrow> new_asset \<Rightarrow> bool \<Rightarrow> catalog \<Rightarrow> hop_error + catalog" where
  "write_asset X now i asset update db =
     and_then (validate_asset_protocol (na_protocol asset)) (\<lambda>protocol.
     and_then (validate_tcp_port (na_port asset)) (\<lambda>port.
     let tags = json_str X (JArr (map JStr (na_tags asset)));
         credential_id = (if protocol_supports_managed_credentials protocol
           then na_credential_id asset else None) in
     if update then
       update_assets (\<lambda>a. a_id a = i)
         (\<lambda>a. a\<lparr>a_name := na_name asset, a_asset_type := protocol, a_host := na_hostname asset,
            a_port := uint port, a_description := na_description asset, a_tags_json := Some tags,
            a_credential_id := credential_id, a_updated_at := now\<rparr>) db
     else
       insert_asset \<lparr>a_id = i, a_name = na_name asset, a_asset_type = protocol,
         a_host = na_hostname asset, a_port = uint port, a_display_name = None,
         a_description = na_description asset, a_tags_json = Some tags,
         a_credential_id = credential_id, a_created_at = now, a_updated_at = now\<rparr> db))"

definition add_asset ::
  "ext \<Rightarrow> string \<Rightarrow> nat \<Rightarrow> new_asset \<Rightarrow> catalog \<Rightarrow> catalog \<times> (hop_error + asset)" where
  "add_asset X now n asset db =
     (let i = new_id X n in
      commit_read db (
        and_then (write_asset X now i asset False db) (\<lambda>db1.
        and_then (insert_local_ownership ''asset'' i db1) increment_revision))
      (\<lambda>db'. and_then (get_asset_by_id X i db') (\<lambda>a. ok_or a row_not_found)))"

definition update_asset ::
  "ext \<Rightarrow> string \<Rightarrow> string \<Rightarrow> new_asset \<Rightarrow> catalog \<Rightarrow> catalog \<times> (hop_error + unit)" where
  "update_asset X now i asset db = commit db (
     and_then (ensure_local ''asset'' i db) (\<lambda>_.
     and_then (write_asset X now i asset True db) increment_revision))"

definition delete_asset :: "string \<Rightarrow> catalog \<Rightarrow> catalog \<times> (hop_error + unit)" where
  "delete_asset i db = delete_local_resource ''asset'' ''assets'' i db"

section \<open>Outcomes of a transaction\<close>

lemma commit_read_Inr [result_simps]:
  "commit_read db r rd = (db', Inr x) \<longleftrightarrow> r = Inr db' \<and> rd db' = Inr x"
  by (auto simp: commit_read_def split: sum.splits)

lemma commit_Inr [result_simps]: "commit db r = (db', Inr u) \<longleftrightarrow> r = Inr db'"
  by (auto simp: commit_def split: sum.splits)

lemma commit_Inl [result_simps]: "commit db r = (db', Inl e) \<longleftrightarrow> db' = db \<and> r = Inl e"
  by (auto simp: commit_def split: sum.splits)

lemma fst_commit: "fst (commit db r) = (case r of Inl _ \<Rightarrow> db | Inr db' \<Rightarrow> db')"
  by (auto simp: commit_def split: sum.splits)

lemma fst_commit_read: "fst (commit_read db r rd) = (case r of Inl _ \<Rightarrow> db | Inr db' \<Rightarrow> db')"
  by (auto simp: commit_read_def split: sum.splits)

end
