(* ===== verification/Access.thy ===== *)
theory Access
  imports Runtime
begin

text \<open>
  Who may reach what: the four queries of \<open>catalog/runtime.rs\<close> that join an access key with the
  assets in its scope. \<open>permits\<close> is the condition their \<open>WHERE\<close> clauses share. The locale
  \<open>access_scope\<close> is the contract the SSH server relies on: discovery, direct login, proxying
  and the final check agree on one scope per key.
\<close>

section \<open>Queries\<close>

text \<open>\<open>k.access_mode = 'all' OR EXISTS (SELECT 1 FROM access_key_assets ..)\<close>.\<close>

definition permits :: "catalog \<Rightarrow> access_key_tbl \<Rightarrow> asset_tbl \<Rightarrow> bool" where
  "permits db k a \<longleftrightarrow> k_access_mode k = ''all'' \<or> (k_id k, a_id a) \<in> set (t_access_key_assets db)"

text \<open>\<open>FROM assets a JOIN access_keys k ON k.id = ?1 AND k.enabled = 1 WHERE ..\<close>.\<close>

definition scoped_assets :: "catalog \<Rightarrow> string \<Rightarrow> asset_tbl list" where
  "scoped_assets db key_id =
     [a. a \<leftarrow> t_assets db, k \<leftarrow> t_access_keys db, k_id k = key_id \<and> k_enabled k, permits db k a]"

definition list_assets_for_key :: "ext \<Rightarrow> string \<Rightarrow> catalog \<Rightarrow> hop_error + asset list" where
  "list_assets_for_key X key_id db =
     asset_rows X (order_by (\<lambda>a b. a_name a \<le> a_name b) (scoped_assets db key_id))"

text \<open>\<open>ORDER BY CASE WHEN .. THEN 0 ELSE 1 END, a.name ASC LIMIT 1\<close>.\<close>

definition first_by_rank :: "(asset_tbl \<Rightarrow> bool) \<Rightarrow> asset_tbl list \<Rightarrow> asset_tbl option" where
  "first_by_rank preferred rows =
     (case order_by (\<lambda>a b. (preferred a \<and> \<not> preferred b)
          \<or> (preferred a = preferred b \<and> a_name a \<le> a_name b)) rows of
        [] \<Rightarrow> None | a # _ \<Rightarrow> Some a)"

definition find_direct_asset_for_key ::
  "ext \<Rightarrow> string \<Rightarrow> string \<Rightarrow> catalog \<Rightarrow> hop_error + asset option" where
  "find_direct_asset_for_key X key_id target db =
     asset_row_opt X (first_by_rank (\<lambda>a. a_name a = target)
       (filter (\<lambda>a. a_name a = target \<or> a_host a = target) (scoped_assets db key_id)))"

definition key_can_access_asset :: "string \<Rightarrow> string \<Rightarrow> catalog \<Rightarrow> bool" where
  "key_can_access_asset key_id asset_id db \<longleftrightarrow>
     (\<exists>k \<in> set (t_access_keys db). \<exists>a \<in> set (t_assets db). a_id a = asset_id
        \<and> k_id k = key_id \<and> k_enabled k \<and> permits db k a)"

definition find_proxy_asset_for_key ::
  "ext \<Rightarrow> string \<Rightarrow> string \<Rightarrow> int \<Rightarrow> catalog \<Rightarrow> hop_error + asset option" where
  "find_proxy_asset_for_key X key_id host_to_connect port db =
     (let normalized_name = (case strip_suffix ''.hop'' host_to_connect of
            Some s \<Rightarrow> s | None \<Rightarrow> host_to_connect);
          exact = (\<lambda>a. a_host a = host_to_connect \<and> a_port a = port) in
      asset_row_opt X (first_by_rank exact
        (filter (\<lambda>a. exact a \<or> a_name a = normalized_name) (scoped_assets db key_id))))"

section \<open>Sorting\<close>

lemma set_insert_by [simp]: "set (insert_by le x xs) = insert x (set xs)"
  by (induction xs) auto

lemma set_order_by [simp]: "set (order_by le xs) = set xs"
  by (induction xs) (simp_all add: order_by_def)

lemma length_insert_by [simp]: "length (insert_by le x xs) = Suc (length xs)"
  by (induction xs) auto

lemma order_by_Nil [simp]: "order_by le [] = []" "order_by le xs = [] \<longleftrightarrow> xs = []"
  using set_order_by [of le xs] by (auto simp: order_by_def simp del: set_order_by)

definition total_preorder :: "('a \<Rightarrow> 'a \<Rightarrow> bool) \<Rightarrow> bool" where
  "total_preorder le \<longleftrightarrow> (\<forall>a b. \<not> le a b \<longrightarrow> le b a) \<and> (\<forall>a b c. le a b \<longrightarrow> le b c \<longrightarrow> le a c)"

lemma sorted_insert_by:
  assumes le: "total_preorder le" and "sorted_wrt le xs"
  shows "sorted_wrt le (insert_by le x xs)"
  using assms(2)
proof (induction xs)
  case (Cons y ys)
  show ?case
  proof (cases "le x y")
    case True
    with le Cons.prems have "\<forall>z \<in> set ys. le x z"
      unfolding total_preorder_def by (metis sorted_wrt.simps(2))
    with True Cons.prems show ?thesis by simp
  next
    case False
    with le have "le y x" unfolding total_preorder_def by metis
    with False Cons show ?thesis by simp
  qed
qed simp

lemma sorted_order_by: "total_preorder le \<Longrightarrow> sorted_wrt le (order_by le xs)"
  by (induction xs) (simp_all add: order_by_def sorted_insert_by)

lemma first_by_rank_Some:
  assumes "first_by_rank p rows = Some a"
  shows first_by_rank_in: "a \<in> set rows"
    and first_by_rank_preferred: "b \<in> set rows \<Longrightarrow> p b \<Longrightarrow> p a"
    and first_by_rank_least: "b \<in> set rows \<Longrightarrow> p a = p b \<Longrightarrow> a_name a \<le> a_name b"
proof -
  let ?le = "\<lambda>a b. (p a \<and> \<not> p b) \<or> (p a = p b \<and> a_name a \<le> a_name b)"
  from assms obtain as where as: "order_by ?le rows = a # as"
    by (auto simp: first_by_rank_def split: list.splits)
  then have set: "set rows = insert a (set as)" using set_order_by [of ?le rows] by simp
  then show "a \<in> set rows" by simp
  have "total_preorder ?le" by (auto simp: total_preorder_def)
  then have "sorted_wrt ?le (order_by ?le rows)" by (rule sorted_order_by)
  then have "\<forall>b \<in> set as. ?le a b" unfolding as by simp
  then have "\<forall>b \<in> set rows. ?le a b" unfolding set by simp
  then show "b \<in> set rows \<Longrightarrow> p b \<Longrightarrow> p a"
    and "b \<in> set rows \<Longrightarrow> p a = p b \<Longrightarrow> a_name a \<le> a_name b" by blast+
qed

lemma first_by_rank_None: "first_by_rank p rows = None \<longleftrightarrow> rows = []"
  by (cases rows) (auto simp: first_by_rank_def split: list.splits)

section \<open>One scope\<close>

lemma set_scoped_assets: "a \<in> set (scoped_assets db key_id) \<longleftrightarrow> a \<in> set (t_assets db)
    \<and> (\<exists>k \<in> set (t_access_keys db). k_id k = key_id \<and> k_enabled k \<and> permits db k a)"
  by (auto simp: scoped_assets_def)

lemma key_can_access_scoped:
  "key_can_access_asset key_id asset_id db \<longleftrightarrow> (\<exists>a \<in> set (scoped_assets db key_id). a_id a = asset_id)"
  unfolding key_can_access_asset_def Bex_def set_scoped_assets by blast

text \<open>What a row shows of its id, name, host and port.\<close>

lemma asset_try_from_Inr [result_simps]:
  assumes "asset_try_from X (asset_row_of a) = Inr x"
  shows "as_id x = a_id a" "as_name x = a_name a" "as_hostname x = a_host a"
    "as_port x = a_port a" "as_credential_id x = a_credential_id a"
    "validate_asset_protocol (a_asset_type a) = Inr (as_protocol x)"
  using assms by (auto simp: asset_try_from_def asset_row_of_def result_simps)

lemma asset_row_opt_Some:
  "asset_row_opt X r = Inr (Some x) \<Longrightarrow> \<exists>a. r = Some a \<and> asset_try_from X (asset_row_of a) = Inr x"
  by (auto simp: asset_row_opt_def result_simps)

lemma asset_row_opt_None: "asset_row_opt X r = Inr None \<Longrightarrow> r = None"
  by (simp add: asset_row_opt_def result_simps)

lemma list_assets_for_key_ids:
  assumes "list_assets_for_key X key_id db = Inr xs"
  shows "as_id ` set xs = a_id ` set (scoped_assets db key_id)"
proof -
  from assms have m: "mapE (\<lambda>a. asset_try_from X (asset_row_of a))
      (order_by (\<lambda>a b. a_name a \<le> a_name b) (scoped_assets db key_id)) = Inr xs"
    by (simp add: list_assets_for_key_def asset_rows_def)
  show ?thesis
  proof (intro set_eqI iffI)
    fix i assume "i \<in> as_id ` set xs"
    then obtain x where "x \<in> set xs" "i = as_id x" by blast
    with mapE_in_set [OF m] asset_try_from_Inr(1) show "i \<in> a_id ` set (scoped_assets db key_id)"
      by (metis image_eqI set_order_by)
  next
    fix i assume "i \<in> a_id ` set (scoped_assets db key_id)"
    then obtain a where "a \<in> set (scoped_assets db key_id)" "i = a_id a" by blast
    with mapE_from_set [OF m] asset_try_from_Inr(1) show "i \<in> as_id ` set xs"
      by (metis image_eqI set_order_by)
  qed
qed

text \<open>
  The contract between the catalog and its clients: for a fixed key, \<open>listed\<close> is what
  discovery shows, \<open>direct\<close> and \<open>proxy\<close> what a login target or a forwarded address resolves
  to, \<open>allowed\<close> the check made before a connection.
\<close>

locale access_scope =
  fixes listed :: "'key \<Rightarrow> 'asset list option"
    and direct :: "'key \<Rightarrow> 'target \<Rightarrow> 'asset option"
    and proxy :: "'key \<Rightarrow> 'addr \<Rightarrow> 'asset option"
    and allowed :: "'key \<Rightarrow> 'id \<Rightarrow> bool"
    and ident :: "'asset \<Rightarrow> 'id"
  assumes listed_allowed: "listed k = Some xs \<Longrightarrow> allowed k i \<longleftrightarrow> i \<in> ident ` set xs"
    and direct_allowed: "direct k t = Some x \<Longrightarrow> allowed k (ident x)"
    and proxy_allowed: "proxy k p = Some x \<Longrightarrow> allowed k (ident x)"
begin

text \<open>A key that discovery shows nothing reaches nothing by any route.\<close>

lemma nothing_listed:
  assumes "listed k = Some []"
  shows "\<not> allowed k i" "direct k t = None" "proxy k p = None"
  using listed_allowed [OF assms] direct_allowed [of k t] proxy_allowed [of k p]
  by (auto intro: ccontr)

text \<open>Whatever a route resolves to, discovery shows it too.\<close>

lemma routes_listed:
  assumes "listed k = Some xs" and "direct k t = Some x \<or> proxy k p = Some x"
  shows "ident x \<in> ident ` set xs"
  using assms listed_allowed [of k xs "ident x"] direct_allowed [of k t x] proxy_allowed [of k p x]
  by blast

end

definition ok_value :: "'e + 'a option \<Rightarrow> 'a option" where
  "ok_value r = (case r of Inl _ \<Rightarrow> None | Inr x \<Rightarrow> x)"

definition ok_list :: "'e + 'a list \<Rightarrow> 'a list option" where
  "ok_list r = (case r of Inl _ \<Rightarrow> None | Inr xs \<Rightarrow> Some xs)"

lemma ok_value_Some [simp]: "ok_value r = Some x \<longleftrightarrow> r = Inr (Some x)"
  by (auto simp: ok_value_def split: sum.splits)

lemma ok_list_Some [simp]: "ok_list r = Some xs \<longleftrightarrow> r = Inr xs"
  by (auto simp: ok_list_def split: sum.splits)

lemma find_direct_scoped:
  assumes "find_direct_asset_for_key X key_id target db = Inr (Some x)"
  shows "\<exists>a \<in> set (scoped_assets db key_id). asset_try_from X (asset_row_of a) = Inr x
    \<and> (a_name a = target \<or> a_host a = target)
    \<and> (\<forall>b \<in> set (scoped_assets db key_id). a_name b = target \<longrightarrow> a_name a = target)"
proof -
  from assms obtain a where a: "first_by_rank (\<lambda>a. a_name a = target)
      (filter (\<lambda>a. a_name a = target \<or> a_host a = target) (scoped_assets db key_id)) = Some a"
      "asset_try_from X (asset_row_of a) = Inr x"
    by (auto simp: find_direct_asset_for_key_def dest!: asset_row_opt_Some)
  from first_by_rank_Some(1,2) [OF a(1)] a(2) show ?thesis by force
qed

lemma find_proxy_scoped:
  assumes "find_proxy_asset_for_key X key_id host port db = Inr (Some x)"
  shows "\<exists>a \<in> set (scoped_assets db key_id). asset_try_from X (asset_row_of a) = Inr x
    \<and> ((a_host a = host \<and> a_port a = port)
       \<or> a_name a = (case strip_suffix ''.hop'' host of Some s \<Rightarrow> s | None \<Rightarrow> host))
    \<and> (\<forall>b \<in> set (scoped_assets db key_id). a_host b = host \<and> a_port b = port
         \<longrightarrow> a_host a = host \<and> a_port a = port)"
proof -
  let ?exact = "\<lambda>a. a_host a = host \<and> a_port a = port"
  from assms obtain a where a: "first_by_rank ?exact
      (filter (\<lambda>a. ?exact a \<or> a_name a = (case strip_suffix ''.hop'' host of Some s \<Rightarrow> s
         | None \<Rightarrow> host)) (scoped_assets db key_id)) = Some a"
      "asset_try_from X (asset_row_of a) = Inr x"
    by (auto simp: find_proxy_asset_for_key_def Let_def dest!: asset_row_opt_Some)
  from first_by_rank_Some(1,2) [OF a(1)] a(2) show ?thesis by fastforce
qed

interpretation scope: access_scope
  "\<lambda>key_id. ok_list (list_assets_for_key X key_id db)"
  "\<lambda>key_id target. ok_value (find_direct_asset_for_key X key_id target db)"
  "\<lambda>key_id (host, port). ok_value (find_proxy_asset_for_key X key_id host port db)"
  "\<lambda>key_id asset_id. key_can_access_asset key_id asset_id db" as_id for X db
proof
  show "key_can_access_asset k i db \<longleftrightarrow> i \<in> as_id ` set xs"
    if "ok_list (list_assets_for_key X k db) = Some xs" for k i xs
    using list_assets_for_key_ids [of X k db xs] that by (auto simp: key_can_access_scoped image_iff)
  show "key_can_access_asset k (as_id x) db"
    if "ok_value (find_direct_asset_for_key X k t db) = Some x" for k t x
    using that by (auto simp: key_can_access_scoped asset_try_from_Inr(1) dest!: find_direct_scoped)
  show "key_can_access_asset k (as_id x) db"
    if "(\<lambda>(host, port). ok_value (find_proxy_asset_for_key X k host port db)) p = Some x" for k p x
    using that
    by (cases p) (auto simp: key_can_access_scoped asset_try_from_Inr(1) dest!: find_proxy_scoped)
qed

end
