(* ===== verification/Manifest.thy ===== *)
theory Manifest
  imports Models
begin

text \<open>
  The declarative manifest, \<open>catalog/manifest.rs\<close>: its specs, secret sources, the merge of
  several files, the resolution of a manifest into checked material and the check of its
  references. The YAML and TOML deserialisers are parameters (a message and a path on
  failure), and so are the key parsers of \<open>ext\<close>; \<open>os\<close> is what reading a file or an
  environment variable returns.
\<close>

section \<open>Errors\<close>

datatype catalog_error_code =
    UnsupportedApiVersion | UnknownField | DuplicateResource | InvalidResourceName
  | InvalidSecretSource | SecretUnavailable | InvalidCredentialMaterial | UnknownReference
  | ResourceInUse | OwnershipConflict | ManagedBySource | RevisionConflict
  | SourceScanIncomplete | ApplyFailed

fun error_code_str :: "catalog_error_code \<Rightarrow> string" where
  "error_code_str UnsupportedApiVersion = ''unsupported_api_version''"
| "error_code_str UnknownField = ''unknown_field''"
| "error_code_str DuplicateResource = ''duplicate_resource''"
| "error_code_str InvalidResourceName = ''invalid_resource_name''"
| "error_code_str InvalidSecretSource = ''invalid_secret_source''"
| "error_code_str SecretUnavailable = ''secret_unavailable''"
| "error_code_str InvalidCredentialMaterial = ''invalid_credential_material''"
| "error_code_str UnknownReference = ''unknown_reference''"
| "error_code_str ResourceInUse = ''resource_in_use''"
| "error_code_str OwnershipConflict = ''ownership_conflict''"
| "error_code_str ManagedBySource = ''managed_by_source''"
| "error_code_str RevisionConflict = ''revision_conflict''"
| "error_code_str SourceScanIncomplete = ''source_scan_incomplete''"
| "error_code_str ApplyFailed = ''apply_failed''"

record catalog_error =
  ce_code :: catalog_error_code
  ce_path :: "string option"
  ce_message :: string

definition mk_error ::
  "catalog_error_code \<Rightarrow> string option \<Rightarrow> string \<Rightarrow> catalog_error" where
  "mk_error code path message = \<lparr>ce_code = code, ce_path = path, ce_message = message\<rparr>"

definition missing_field :: "string \<Rightarrow> string \<Rightarrow> catalog_error" where
  "missing_field path message = mk_error ApplyFailed (Some path) message"

definition invalid_material :: "string \<Rightarrow> string \<Rightarrow> catalog_error" where
  "invalid_material path message = mk_error InvalidCredentialMaterial (Some path) message"

definition unknown_reference :: "string \<Rightarrow> string \<Rightarrow> string \<Rightarrow> catalog_error" where
  "unknown_reference path kind name = mk_error UnknownReference (Some path)
     (''unknown '' @ kind @ '' reference: '' @ name)"

lemmas catalog_error_defs = missing_field_def invalid_material_def unknown_reference_def
  mk_error_def

lemma ce_catalog_error [simp]:
  "ce_code (mk_error c p m) = c" "ce_path (mk_error c p m) = p"
  "ce_message (mk_error c p m) = m"
  by (simp_all add: mk_error_def)

section \<open>Specs\<close>

datatype resource_state = Present | Absent

datatype credential_type = PasswordType | SshKey

fun credential_type_as_str :: "credential_type \<Rightarrow> string" where
  "credential_type_as_str PasswordType = ''password''"
| "credential_type_as_str SshKey = ''ssh_key''"

datatype asset_type = Ssh | Tcp

fun asset_type_as_str :: "asset_type \<Rightarrow> string" where
  "asset_type_as_str Ssh = ''ssh''"
| "asset_type_as_str Tcp = ''tcp''"

record secret_source =
  ss_file :: "string option"
  ss_env :: "string option"
  ss_inline :: "string option"

record credential_spec =
  cs_state :: resource_state
  cs_type :: "credential_type option"
  cs_username :: "string option"
  cs_password :: "secret_source option"
  cs_private_key :: "secret_source option"
  cs_passphrase :: "secret_source option"

record asset_spec =
  sp_state :: resource_state
  sp_type :: "asset_type option"
  sp_host :: "string option"
  sp_port :: "u16 option"
  sp_display_name :: "string option"
  sp_description :: "string option"
  sp_credential :: "string option"

record access_spec =
  xs_state :: resource_state
  xs_public_key :: "secret_source option"
  xs_enabled :: "bool option"
  xs_assets :: "string list option"

record manifest =
  m_api_version :: string
  m_credentials :: "credential_spec btree"
  m_assets :: "asset_spec btree"
  m_access :: "access_spec btree"

definition manifest_api_version :: string where
  "manifest_api_version = ''hop/v1alpha1''"

definition secret_inline :: "string \<Rightarrow> secret_source" where
  "secret_inline value = \<lparr>ss_file = None, ss_env = None, ss_inline = Some value\<rparr>"

definition secret_file :: "string \<Rightarrow> secret_source" where
  "secret_file path = \<lparr>ss_file = Some path, ss_env = None, ss_inline = None\<rparr>"

record os =
  os_file :: "string \<Rightarrow> string option"
  os_env :: "string \<Rightarrow> string option"

definition read_secret :: "os \<Rightarrow> secret_source \<Rightarrow> string \<Rightarrow> catalog_error + string" where
  "read_secret w src path =
     (let otherwise = Inl (mk_error InvalidSecretSource (Some path)
            ''secret source must set exactly one of file or env'') in
      case (ss_file src, ss_env src, ss_inline src) of
        (Some file, None, None) \<Rightarrow> ok_or (os_file w file)
          (mk_error SecretUnavailable (Some path) (''unable to read secret file '' @ file))
      | (None, Some variable, None) \<Rightarrow>
          if trim variable \<noteq> [] then ok_or (os_env w variable)
            (mk_error SecretUnavailable (Some path)
              (''secret environment variable '' @ variable @ '' is unavailable''))
          else otherwise
      | (None, None, Some value) \<Rightarrow> Inr value
      | _ \<Rightarrow> otherwise)"

section \<open>Parsing and merging\<close>

text \<open>\<open>parse_with_path\<close>: a failed deserialisation gives the parser's message and a path.\<close>

definition parse_with_path :: "(string \<times> string) + manifest \<Rightarrow> catalog_error + manifest" where
  "parse_with_path r = map_err (\<lambda>(parser_message, path).
     let code = (if sublist ''unknown field'' parser_message then UnknownField
                 else if sublist ''duplicate'' parser_message then DuplicateResource
                 else ApplyFailed) in
     mk_error code (if path \<noteq> [] then Some path else None)
       (case code of
          UnknownField \<Rightarrow> ''manifest contains an unknown field''
        | DuplicateResource \<Rightarrow> ''manifest contains a duplicate resource''
        | _ \<Rightarrow> ''invalid manifest syntax or field type'')) r"

definition merge_resources ::
  "string \<Rightarrow> 'v btree \<Rightarrow> 'v btree \<Rightarrow> catalog_error + 'v btree" where
  "merge_resources resource_type target source =
     foldE (\<lambda>t (name, resource).
       if bt_get t name \<noteq> None
       then Inl (mk_error DuplicateResource (Some (resource_type @ ''.'' @ name))
              ''resource is declared more than once in the apply scope'')
       else Inr (bt_insert name resource t)) target source"

definition check_api_version :: "manifest \<Rightarrow> catalog_error + unit" where
  "check_api_version m = check (m_api_version m = manifest_api_version)
     (mk_error UnsupportedApiVersion (Some ''api_version'')
        (''unsupported api_version; expected '' @ manifest_api_version))"

definition merge_one :: "manifest \<Rightarrow> manifest \<Rightarrow> catalog_error + manifest" where
  "merge_one merged m =
     and_then (check_api_version m) (\<lambda>_.
     and_then (merge_resources ''credentials'' (m_credentials merged) (m_credentials m)) (\<lambda>cs.
     and_then (merge_resources ''assets'' (m_assets merged) (m_assets m)) (\<lambda>as.
     and_then (merge_resources ''access'' (m_access merged) (m_access m)) (\<lambda>xs.
     Inr (merged\<lparr>m_credentials := cs, m_assets := as, m_access := xs\<rparr>)))))"

definition empty_manifest :: manifest where
  "empty_manifest = \<lparr>m_api_version = manifest_api_version, m_credentials = [], m_assets = [],
     m_access = []\<rparr>"

definition merge_manifests :: "manifest list \<Rightarrow> catalog_error + manifest" where
  "merge_manifests manifests =
     and_then (foldE merge_one empty_manifest manifests) (\<lambda>merged.
     if manifests = []
     then Inl (mk_error SourceScanIncomplete None ''manifest scope is empty'')
     else Inr merged)"

section \<open>Names and text\<close>

definition name_char :: "char \<Rightarrow> bool" where
  "name_char c \<longleftrightarrow> is_ascii_alphanumeric c \<or> c = CHR ''-'' \<or> c = CHR ''_'' \<or> c = CHR ''.''"

text \<open>A character between single quotes, as the messages show it.\<close>

definition quoted :: "char \<Rightarrow> string" where
  "quoted c = [CHR 0x27, c, CHR 0x27]"

definition validate_name :: "string \<Rightarrow> string \<Rightarrow> catalog_error + unit" where
  "validate_name name path =
     (let first_valid = (case name of [] \<Rightarrow> False | c # _ \<Rightarrow> is_ascii_alphanumeric c);
          rest_valid = (case name of [] \<Rightarrow> True | _ # cs \<Rightarrow> (\<forall>c \<in> set cs. name_char c)) in
      if first_valid \<and> rest_valid \<and> length name \<le> 128 then Inr ()
      else Inl (mk_error InvalidResourceName (Some path)
        (''resource name must start with an ASCII letter or digit and contain only letters, digits, ''
           @ quoted (CHR ''.'') @ '', '' @ quoted (CHR ''-'') @ '' or '' @ quoted (CHR ''_''))))"

definition optional_name :: "string option \<Rightarrow> string \<Rightarrow> catalog_error + string option" where
  "optional_name value path =
     opt_mapE (\<lambda>v. and_then (validate_name v path) (\<lambda>_. Inr v)) value"

definition trim_optional :: "string option \<Rightarrow> string option" where
  "trim_optional value = (case value of None \<Rightarrow> None
     | Some v \<Rightarrow> if trim v \<noteq> [] then Some (trim v) else None)"

definition required_text :: "string option \<Rightarrow> string \<Rightarrow> catalog_error + string" where
  "required_text value path =
     ok_or (trim_optional value) (missing_field path ''field must not be empty'')"

definition require_absent_only :: "string \<Rightarrow> bool list \<Rightarrow> catalog_error + unit" where
  "require_absent_only path set_fields =
     (if \<exists>b \<in> set set_fields. b
      then Inl (mk_error ApplyFailed (Some path)
             ''state absent cannot be combined with resource fields'')
      else Inr ())"

section \<open>Resolution\<close>

datatype resolved_credential =
    AbsentCredential
  | PresentCredential (rc_type: credential_type) (rc_username: string)
      (rc_password: "string option") (rc_private_key: "string option")
      (rc_passphrase: "string option")

datatype resolved_asset =
    AbsentAsset
  | PresentAsset (ra_type: asset_type) (ra_host: string) (ra_port: u16)
      (ra_display_name: "string option") (ra_description: "string option")
      (ra_credential: "string option")

datatype resolved_access =
    AbsentAccess
  | PresentAccess (rx_public_key: string) (rx_fingerprint: string) (rx_enabled: bool)
      (rx_assets: "string list option")

record resolved_manifest =
  r_credentials :: "resolved_credential btree"
  r_assets :: "resolved_asset btree"
  r_access :: "resolved_access btree"

definition parse_public_key :: "ext \<Rightarrow> string \<Rightarrow> string \<Rightarrow> catalog_error + (string \<times> string)" where
  "parse_public_key X value path =
     (let malformed = Inl (invalid_material path
            ''public key must use OpenSSH '<type> <base64>' format'') in
      case split_whitespace value of
        key_type # key_blob # _ \<Rightarrow>
          and_then (ok_or (public_key X key_blob)
             (invalid_material path ''public key material is invalid'')) (\<lambda>(algorithm, b64, fp).
          if algorithm \<noteq> key_type
          then Inl (invalid_material path ''public key type does not match its encoded material'')
          else Inr (key_type @ '' '' @ b64, fp))
      | _ \<Rightarrow> malformed)"

definition resolve_credential ::
  "ext \<Rightarrow> os \<Rightarrow> credential_spec \<Rightarrow> string \<Rightarrow> catalog_error + resolved_credential" where
  "resolve_credential X w spec path =
     (if cs_state spec = Absent then
        and_then (require_absent_only path [cs_type spec \<noteq> None, cs_username spec \<noteq> None,
            cs_password spec \<noteq> None, cs_private_key spec \<noteq> None, cs_passphrase spec \<noteq> None])
          (\<lambda>_. Inr AbsentCredential)
      else
        and_then (ok_or (cs_type spec)
            (missing_field (path @ ''.type'') ''credential type is required'')) (\<lambda>ctype.
        and_then (required_text (cs_username spec) (path @ ''.username'')) (\<lambda>username.
        case ctype of
          PasswordType \<Rightarrow>
            if cs_private_key spec \<noteq> None \<or> cs_passphrase spec \<noteq> None
            then Inl (invalid_material path
                   ''password credential cannot contain private_key or passphrase'')
            else
              and_then (ok_or (cs_password spec)
                  (missing_field (path @ ''.password'') ''password source is required'')) (\<lambda>src.
              and_then (read_secret w src (path @ ''.password'')) (\<lambda>password.
              if password = []
              then Inl (invalid_material (path @ ''.password'')
                     ''password material must not be empty'')
              else Inr (PresentCredential ctype username (Some password) None None)))
        | SshKey \<Rightarrow>
            if cs_password spec \<noteq> None
            then Inl (invalid_material path ''ssh_key credential cannot contain password'')
            else
              and_then (opt_mapE (\<lambda>src. read_secret w src (path @ ''.passphrase''))
                  (cs_passphrase spec)) (\<lambda>passphrase.
              and_then (ok_or (cs_private_key spec)
                  (missing_field (path @ ''.private_key'') ''private key source is required''))
                (\<lambda>src.
              and_then (read_secret w src (path @ ''.private_key'')) (\<lambda>private_key.
              if secret_key_ok X private_key passphrase
              then Inr (PresentCredential ctype username None (Some private_key) passphrase)
              else Inl (invalid_material (path @ ''.private_key'')
                     ''private key material is invalid or its passphrase is incorrect'')))))))"

definition resolve_asset :: "asset_spec \<Rightarrow> string \<Rightarrow> catalog_error + resolved_asset" where
  "resolve_asset spec path =
     (if sp_state spec = Absent then
        and_then (require_absent_only path [sp_type spec \<noteq> None, sp_host spec \<noteq> None,
            sp_port spec \<noteq> None, sp_display_name spec \<noteq> None, sp_description spec \<noteq> None,
            sp_credential spec \<noteq> None]) (\<lambda>_. Inr AbsentAsset)
      else
        and_then (ok_or (sp_type spec)
            (missing_field (path @ ''.type'') ''asset type is required'')) (\<lambda>atype.
        and_then (required_text (sp_host spec) (path @ ''.host'')) (\<lambda>host.
        and_then (ok_or (case sp_port spec of Some p \<Rightarrow> if 0 < p then Some p else None
              | None \<Rightarrow> None)
            (missing_field (path @ ''.port'') ''port must be between 1 and 65535'')) (\<lambda>port.
        and_then (optional_name (sp_credential spec) (path @ ''.credential'')) (\<lambda>credential.
        if atype = Tcp \<and> credential \<noteq> None
        then Inl (mk_error ApplyFailed (Some (path @ ''.credential''))
               ''tcp asset cannot reference an ssh credential'')
        else Inr (PresentAsset atype host port (trim_optional (sp_display_name spec))
               (trim_optional (sp_description spec)) credential))))))"

text \<open>The loop over an allowlist: every name is valid and none occurs twice.\<close>

definition normalize_assets ::
  "string \<Rightarrow> string list \<Rightarrow> catalog_error + string list" where
  "normalize_assets path names =
     foldE (\<lambda>normalized (index, name).
       and_then (validate_name name (path @ ''.assets.'' @ show_nat index)) (\<lambda>_.
       if name \<in> set normalized
       then Inl (mk_error DuplicateResource (Some (path @ ''.assets.'' @ show_nat index))
              ''asset appears more than once in the allowlist'')
       else Inr (normalized @ [name]))) [] (List.enumerate 0 names)"

definition resolve_access ::
  "ext \<Rightarrow> os \<Rightarrow> access_spec \<Rightarrow> string \<Rightarrow> catalog_error + resolved_access" where
  "resolve_access X w spec path =
     (if xs_state spec = Absent then
        and_then (require_absent_only path [xs_public_key spec \<noteq> None, xs_enabled spec \<noteq> None,
            xs_assets spec \<noteq> None]) (\<lambda>_. Inr AbsentAccess)
      else
        and_then (ok_or (xs_public_key spec)
            (missing_field (path @ ''.public_key'') ''public key source is required'')) (\<lambda>src.
        and_then (read_secret w src (path @ ''.public_key'')) (\<lambda>key_text.
        and_then (parse_public_key X key_text (path @ ''.public_key'')) (\<lambda>(pk, fp).
        and_then (opt_mapE (normalize_assets path) (xs_assets spec)) (\<lambda>assets.
        Inr (PresentAccess pk fp (case xs_enabled spec of Some b \<Rightarrow> b | None \<Rightarrow> True) assets))))))"

text \<open>One of the three loops of \<open>resolve_material\<close>.\<close>

definition resolve_all ::
  "string \<Rightarrow> ('s \<Rightarrow> string \<Rightarrow> catalog_error + 'r) \<Rightarrow> 's btree \<Rightarrow> catalog_error + 'r btree" where
  "resolve_all kind f specs =
     foldE (\<lambda>acc (name, spec). let path = kind @ ''.'' @ name in
       and_then (validate_name name path) (\<lambda>_.
       and_then (f spec path) (\<lambda>r. Inr (bt_insert name r acc)))) [] specs"

definition resolve_material :: "ext \<Rightarrow> os \<Rightarrow> manifest \<Rightarrow> catalog_error + resolved_manifest" where
  "resolve_material X w m =
     and_then (check_api_version m) (\<lambda>_.
     and_then (resolve_all ''credentials'' (resolve_credential X w) (m_credentials m)) (\<lambda>cs.
     and_then (resolve_all ''assets'' resolve_asset (m_assets m)) (\<lambda>as.
     and_then (resolve_all ''access'' (resolve_access X w) (m_access m)) (\<lambda>xs.
     Inr \<lparr>r_credentials = cs, r_assets = as, r_access = xs\<rparr>))))"

section \<open>References\<close>

definition present_credentials :: "resolved_manifest \<Rightarrow> string set" where
  "present_credentials r =
     set (map fst (filter (\<lambda>(_, v). v \<noteq> AbsentCredential) (r_credentials r)))"

definition present_assets :: "resolved_manifest \<Rightarrow> string set" where
  "present_assets r = set (map fst (filter (\<lambda>(_, v). v \<noteq> AbsentAsset) (r_assets r)))"

definition known_credential :: "resolved_manifest \<Rightarrow> bool \<Rightarrow> string set \<Rightarrow> string \<Rightarrow> bool" where
  "known_credential r allow_db db_credentials c \<longleftrightarrow>
     (c \<in> present_credentials r \<or> (allow_db \<and> c \<in> db_credentials))
     \<and> bt_get (r_credentials r) c \<noteq> Some AbsentCredential"

definition known_asset :: "resolved_manifest \<Rightarrow> bool \<Rightarrow> string set \<Rightarrow> string \<Rightarrow> bool" where
  "known_asset r allow_db db_assets a \<longleftrightarrow>
     (a \<in> present_assets r \<or> (allow_db \<and> a \<in> db_assets))
     \<and> bt_get (r_assets r) a \<noteq> Some AbsentAsset"

definition validate_references ::
  "resolved_manifest \<Rightarrow> bool \<Rightarrow> string set \<Rightarrow> string set \<Rightarrow> catalog_error + unit" where
  "validate_references r allow_db db_credentials db_assets =
     and_then (foldE (\<lambda>_ (name, asset). case asset of
         PresentAsset _ _ _ _ _ (Some credential) \<Rightarrow>
           check (known_credential r allow_db db_credentials credential)
             (unknown_reference (''assets.'' @ name @ ''.credential'') ''credential'' credential)
       | _ \<Rightarrow> Inr ()) () (r_assets r)) (\<lambda>_.
     foldE (\<lambda>_ (name, access). case access of
         PresentAccess _ _ _ (Some assets) \<Rightarrow>
           foldE (\<lambda>_ (index, asset). check (known_asset r allow_db db_assets asset)
               (unknown_reference (''access.'' @ name @ ''.assets.'' @ show_nat index)
                  ''asset'' asset)) () (List.enumerate 0 assets)
       | _ \<Rightarrow> Inr ()) () (r_access r))"

definition validate_offline :: "ext \<Rightarrow> os \<Rightarrow> manifest \<Rightarrow> catalog_error + unit" where
  "validate_offline X w m =
     and_then (resolve_material X w m) (\<lambda>r. validate_references r False {} {})"

end
