(* ===== verification/Crypto.thy ===== *)
theory Crypto
  imports Models
begin

text \<open>
  Credential envelopes and the master key file, \<open>hop-core/src/crypto.rs\<close>. The ciphers, HKDF,
  base64 and the random source are the functions of \<open>ext\<close>; what is modelled is the envelope
  format, its parser with every rejection, and the permission check of the key file.
  \<open>crypto_laws\<close> states what the code relies on: base64 decodes what it encoded and writes no
  colon and no white space, a nonce has 24 bytes, and decryption undoes encryption under the same key and nonce.
\<close>

section \<open>Envelopes\<close>

type_synonym master_key = string

definition envelope_version :: string where
  "envelope_version = ''v1''"

definition envelope_alg :: string where
  "envelope_alg = ''xchacha20poly1305''"

definition nonce_len :: nat where
  "nonce_len = 24"

definition key_len :: nat where
  "key_len = 32"

definition derive_key :: "ext \<Rightarrow> master_key \<Rightarrow> string \<Rightarrow> hop_error + string" where
  "derive_key X master context =
     ok_or (hkdf_expand X ''hop-credential-envelope-v1'' master context)
       (CryptoError ''hkdf expand failed'')"

text \<open>\<open>k\<close> counts the nonces drawn before.\<close>

definition encrypt_envelope ::
  "ext \<Rightarrow> nat \<Rightarrow> master_key \<Rightarrow> string \<Rightarrow> string \<Rightarrow> hop_error + string" where
  "encrypt_envelope X k master context plaintext =
     and_then (derive_key X master context) (\<lambda>key.
     let nonce = random_nonce X k in
     and_then (ok_or (aead_encrypt X key nonce plaintext) (CryptoError ''encrypt failed''))
       (\<lambda>ciphertext.
     Inr (envelope_version @ '':'' @ envelope_alg @ '':'' @ b64_encode X nonce @ '':''
       @ b64_encode X ciphertext)))"

definition colon :: "char \<Rightarrow> bool" where
  "colon c \<longleftrightarrow> c = CHR '':''"

definition decrypt_envelope ::
  "ext \<Rightarrow> master_key \<Rightarrow> string \<Rightarrow> string \<Rightarrow> hop_error + string" where
  "decrypt_envelope X master context envelope =
     (let parts = split_on colon envelope in
      if length parts \<noteq> 4 then Inl (CryptoError ''malformed envelope'')
      else if parts ! 0 \<noteq> envelope_version \<or> parts ! 1 \<noteq> envelope_alg
      then Inl (CryptoError ''unsupported envelope version or algorithm'')
      else and_then (ok_or (b64_decode X (parts ! 2)) (CryptoError ''invalid nonce base64''))
        (\<lambda>nonce.
      if length nonce \<noteq> nonce_len then Inl (CryptoError ''nonce must be 24 bytes'')
      else and_then (ok_or (b64_decode X (parts ! 3)) (CryptoError ''invalid ciphertext base64''))
        (\<lambda>ciphertext.
      and_then (derive_key X master context) (\<lambda>key.
      ok_or (aead_decrypt X key nonce ciphertext) (CryptoError ''decrypt failed'')))))"

section \<open>The key file\<close>

text \<open>
  The file at the key's path: its Unix mode and contents. The octal masks 0777 and 0077 are 511
  and 63, the mode 0600 is 384.
\<close>

record key_file =
  kf_mode :: "32 word"
  kf_contents :: string

fun show_octal :: "nat \<Rightarrow> string" where
  "show_octal n = (if n < 8 then [digit n] else show_octal (n div 8) @ [digit (n mod 8)])"

declare show_octal.simps [simp del]

definition check_secret_permissions :: "string \<Rightarrow> key_file \<Rightarrow> hop_error + unit" where
  "check_secret_permissions path f =
     (let mode = and (kf_mode f) 511 in
      if and mode 63 \<noteq> 0
      then Inl (CryptoError (''secret key file '' @ path
        @ '' permissions must not allow group or other access; current mode is ''
        @ show_octal (unat mode)))
      else Inr ())"

definition load_master_key ::
  "ext \<Rightarrow> string \<Rightarrow> key_file option \<Rightarrow> hop_error + master_key" where
  "load_master_key X path file =
     (case file of None \<Rightarrow> Inl Io
      | Some f \<Rightarrow>
          and_then (check_secret_permissions path f) (\<lambda>_.
          and_then (ok_or (b64_decode X (trim (kf_contents f)))
              (CryptoError ''invalid secret key base64'')) (\<lambda>decoded.
          if length decoded = key_len then Inr decoded
          else Inl (CryptoError ''secret key must decode to 32 bytes''))))"

text \<open>
  \<open>load_or_create_master_key\<close>: an existing file is loaded; a missing one is written with the
  encoding of the drawn key \<open>fresh\<close> and mode 0600, if the directory can be written.
\<close>

definition load_or_create_master_key ::
  "ext \<Rightarrow> string \<Rightarrow> bool \<Rightarrow> master_key \<Rightarrow> key_file option
    \<Rightarrow> key_file option \<times> (hop_error + master_key)" where
  "load_or_create_master_key X path writable fresh file =
     (case file of Some f \<Rightarrow> (file, load_master_key X path file)
      | None \<Rightarrow>
          if writable then (Some \<lparr>kf_mode = 384, kf_contents = b64_encode X fresh\<rparr>, Inr fresh)
          else (None, Inl Io))"

section \<open>Laws and facts\<close>

definition crypto_laws :: "ext \<Rightarrow> bool" where
  "crypto_laws X \<longleftrightarrow> (\<forall>s. b64_decode X (b64_encode X s) = Some s)
     \<and> (\<forall>s. \<forall>c \<in> set (b64_encode X s). \<not> colon c)
     \<and> (\<forall>s. trimmed (b64_encode X s))
     \<and> (\<forall>k. length (random_nonce X k) = 24)
     \<and> (\<forall>key nonce pt ct. aead_encrypt X key nonce pt = Some ct
          \<longrightarrow> aead_decrypt X key nonce ct = Some pt)"

lemma envelope_parts:
  assumes "crypto_laws X"
  shows "split_on colon (envelope_version @ '':'' @ envelope_alg @ '':'' @ b64_encode X a @ '':''
      @ b64_encode X b) = [envelope_version, envelope_alg, b64_encode X a, b64_encode X b]"
proof -
  have nc: "\<forall>c \<in> set w. \<not> colon c"
    if "w \<in> {envelope_version, envelope_alg, b64_encode X a, b64_encode X b}" for w
    using assms that
    by (auto simp: crypto_laws_def envelope_version_def envelope_alg_def colon_def)
  have "split_on colon (w @ '':'' @ s) = w # split_on colon s"
    if "w \<in> {envelope_version, envelope_alg, b64_encode X a, b64_encode X b}" for w s
    using split_on_append_sep [OF nc [OF that], of "CHR '':''" s] by (simp add: colon_def [of "CHR '':''"])
  moreover have "split_on colon (b64_encode X b) = [b64_encode X b]"
    by (rule split_on_no_sep) (rule nc, simp)
  ultimately show ?thesis by simp
qed

text \<open>Decryption in the same context gives the plaintext back.\<close>

lemma decrypt_encrypt:
  assumes laws: "crypto_laws X" and enc: "encrypt_envelope X k master context pt = Inr env"
  shows "decrypt_envelope X master context env = Inr pt"
proof -
  from enc obtain key ct where key: "derive_key X master context = Inr key"
    and ct: "aead_encrypt X key (random_nonce X k) pt = Some ct"
    and env: "env = envelope_version @ '':'' @ envelope_alg @ '':'' @ b64_encode X (random_nonce X k)
       @ '':'' @ b64_encode X ct"
    by (auto simp: encrypt_envelope_def Let_def result_simps)
  have parts: "split_on colon env
      = [envelope_version, envelope_alg, b64_encode X (random_nonce X k), b64_encode X ct]"
    unfolding env by (rule envelope_parts [OF laws])
  from laws ct have "aead_decrypt X key (random_nonce X k) ct = Some pt"
    and "length (random_nonce X k) = 24"
    and "\<And>s. b64_decode X (b64_encode X s) = Some s"
    by (auto simp: crypto_laws_def)
  with key show ?thesis by (simp add: decrypt_envelope_def parts Let_def nonce_len_def)
qed

text \<open>An envelope that does not have four fields, this version and this algorithm is refused.\<close>

lemma decrypt_envelope_format:
  assumes "decrypt_envelope X master context env = Inr pt"
  shows "\<exists>n c. env = join '':'' [envelope_version, envelope_alg, n, c]
    \<and> (\<exists>nonce. b64_decode X n = Some nonce \<and> length nonce = nonce_len)"
proof -
  have split: "join '':'' (split_on colon s) = s" for s
  proof (induction s)
    case (Cons c s)
    obtain w ws where w: "split_on colon s = w # ws"
      using split_on_not_Nil [of colon s] by (cases "split_on colon s") auto
    with Cons.IH show ?case by (cases ws) (auto simp: colon_def [of c])
  qed simp
  from assms have len: "length (split_on colon env) = 4"
    and "split_on colon env ! 0 = envelope_version" "split_on colon env ! 1 = envelope_alg"
    by (auto simp: decrypt_envelope_def Let_def split: if_splits)
  then obtain n c where nc: "split_on colon env = [envelope_version, envelope_alg, n, c]"
    by (auto simp: numeral_eq_Suc length_Suc_conv)
  with assms have "\<exists>nonce. b64_decode X n = Some nonce \<and> length nonce = nonce_len"
    by (auto simp: decrypt_envelope_def Let_def result_simps split: if_splits)
  with nc split [of env] show ?thesis by auto
qed

lemma encrypt_envelope_Inl:
  assumes "encrypt_envelope X k master context pt = Inl e"
  shows "hkdf_expand X ''hop-credential-envelope-v1'' master context = None
    \<or> (\<exists>key. aead_encrypt X key (random_nonce X k) pt = None)"
  using assms by (auto simp: encrypt_envelope_def derive_key_def Let_def result_simps)

text \<open>Loading succeeds on exactly the private files that hold an encoded 32-byte key.\<close>

lemma load_master_key_Inr:
  "load_master_key X path file = Inr key \<longleftrightarrow>
     (\<exists>f. file = Some f \<and> and (and (kf_mode f) 511) 63 = 0
        \<and> b64_decode X (trim (kf_contents f)) = Some key \<and> length key = key_len)"
  by (auto simp: load_master_key_def check_secret_permissions_def Let_def result_simps
      split: option.splits if_splits)

text \<open>A key that was created is the one that is loaded afterwards.\<close>

lemma create_then_load:
  assumes "crypto_laws X" and "length fresh = key_len"
    and "load_or_create_master_key X path writable fresh file = (file', Inr key)"
  shows "load_master_key X path file' = Inr key"
  using assms
  by (auto simp: load_or_create_master_key_def load_master_key_Inr crypto_laws_def trimmed_def
      split: option.splits if_splits)

end
