(* ===== verification/Apply.thy ===== *)
theory Apply
  imports Access Manifest Crypto
begin

text \<open>
  The declarative apply, \<open>catalog/apply.rs\<close>: loading what exists, planning (pure, over the loaded
  maps), and executing the plan in one transaction. A plan is built from reads made outside
  the transaction; \<open>snapshots\<close> holds the catalog each of those reads sees, and the transaction
  runs on the catalog that is current when it takes the lock. \<open>n\<close> counts the ids drawn before
  and \<open>k\<close> the nonces.
\<close>

section \<open>Options, changes, summary\<close>

record apply_options =
  ao_base_revision :: "int option"
  ao_prune :: bool
  ao_dry_run :: bool

datatype apply_action = Created | Updated | Deleted | Orphaned | Unchanged

record apply_change =
  ch_type :: string
  ch_name :: string
  ch_action :: apply_action

record apply_summary =
  sm_source_id :: string
  sm_base_revision :: int
  sm_new_revision :: int
  sm_generation :: int
  sm_dry_run :: bool
  sm_created :: nat
  sm_updated :: nat
  sm_deleted :: nat
  sm_orphaned :: nat
  sm_unchanged :: nat
  sm_changes :: "apply_change list"

record credential_upsert =
  cu_id :: string
  cu_name :: string
  cu_type :: credential_type
  cu_username :: string
  cu_password :: "string option"
  cu_private_key :: "string option"
  cu_passphrase :: "string option"
  cu_hash :: string

record asset_upsert =
  au_id :: string
  au_name :: string
  au_type :: asset_type
  au_host :: string
  au_port :: u16
  au_display_name :: "string option"
  au_description :: "string option"
  au_credential_id :: "string option"
  au_hash :: string

record access_upsert =
  xu_id :: string
  xu_name :: string
  xu_public_key :: string
  xu_fingerprint :: string
  xu_enabled :: bool
  xu_asset_ids :: "string list option"
  xu_hash :: string

record resource_ref =
  rr_type :: string
  rr_id :: string
  rr_name :: string

text \<open>\<open>p_drawn\<close> counts the calls of \<open>new_id\<close> the plan made.\<close>

record plan =
  p_credential_upserts :: "credential_upsert list"
  p_asset_upserts :: "asset_upsert list"
  p_access_upserts :: "access_upsert list"
  p_orphans :: "resource_ref list"
  p_deletes :: "resource_ref list"
  p_changes :: "apply_change list"
  p_drawn :: nat

definition empty_plan :: plan where
  "empty_plan = \<lparr>p_credential_upserts = [], p_asset_upserts = [], p_access_upserts = [],
     p_orphans = [], p_deletes = [], p_changes = [], p_drawn = 0\<rparr>"

definition plan_changed :: "plan \<Rightarrow> bool" where
  "plan_changed p \<longleftrightarrow> (\<exists>c \<in> set (p_changes p). ch_action c \<noteq> Unchanged)"

definition count_action :: "plan \<Rightarrow> apply_action \<Rightarrow> nat" where
  "count_action p act = length (filter (\<lambda>c. ch_action c = act) (p_changes p))"

definition plan_summary ::
  "plan \<Rightarrow> string \<Rightarrow> int \<Rightarrow> int \<Rightarrow> int \<Rightarrow> bool \<Rightarrow> apply_summary" where
  "plan_summary p source_id base_revision new_revision generation dry_run =
     \<lparr>sm_source_id = source_id, sm_base_revision = base_revision, sm_new_revision = new_revision,
      sm_generation = generation, sm_dry_run = dry_run, sm_created = count_action p Created,
      sm_updated = count_action p Updated, sm_deleted = count_action p Deleted,
      sm_orphaned = count_action p Orphaned, sm_unchanged = count_action p Unchanged,
      sm_changes = p_changes p\<rparr>"

section \<open>What exists\<close>

record existing_resource =
  er_id :: string
  er_name :: string
  er_mode :: "string option"
  er_source_id :: "string option"
  er_hash :: "string option"
  er_orphaned_at :: "string option"

record existing_asset =
  ea_id :: string
  ea_name :: string
  ea_credential_id :: "string option"
  ea_mode :: "string option"
  ea_source_id :: "string option"
  ea_hash :: "string option"
  ea_orphaned_at :: "string option"

definition ea_resource :: "existing_asset \<Rightarrow> existing_resource" where
  "ea_resource e = \<lparr>er_id = ea_id e, er_name = ea_name e, er_mode = ea_mode e,
     er_source_id = ea_source_id e, er_hash = ea_hash e, er_orphaned_at = ea_orphaned_at e\<rparr>"

text \<open>The columns of a \<open>LEFT JOIN resource_ownership\<close>: NULL where no row matches.\<close>

definition joined :: "(ownership_tbl \<Rightarrow> 'a option) \<Rightarrow> ownership_tbl option \<Rightarrow> 'a option" where
  "joined col row = (case row of None \<Rightarrow> None | Some r \<Rightarrow> col r)"

definition existing_row :: "string \<Rightarrow> string \<Rightarrow> string \<Rightarrow> catalog \<Rightarrow> existing_resource" where
  "existing_row rtype i name db = (let o' = owner_of rtype i db in
     \<lparr>er_id = i, er_name = name, er_mode = joined (\<lambda>r. Some (o_mode r)) o',
      er_source_id = joined o_source_id o', er_hash = joined o_hash o',
      er_orphaned_at = joined o_orphaned_at o'\<rparr>)"

definition load_credentials :: "catalog \<Rightarrow> existing_resource btree" where
  "load_credentials db = bt_collect (map (\<lambda>c. (c_name c,
     existing_row ''credential'' (c_id c) (c_name c) db)) (t_credentials db))"

definition existing_asset_row :: "asset_tbl \<Rightarrow> catalog \<Rightarrow> existing_asset" where
  "existing_asset_row a db = (let o' = owner_of ''asset'' (a_id a) db in
     \<lparr>ea_id = a_id a, ea_name = a_name a, ea_credential_id = a_credential_id a,
      ea_mode = joined (\<lambda>r. Some (o_mode r)) o', ea_source_id = joined o_source_id o',
      ea_hash = joined o_hash o', ea_orphaned_at = joined o_orphaned_at o'\<rparr>)"

definition load_assets :: "catalog \<Rightarrow> existing_asset btree" where
  "load_assets db = bt_collect (map (\<lambda>a. (a_name a, existing_asset_row a db)) (t_assets db))"

definition load_access :: "catalog \<Rightarrow> existing_resource btree" where
  "load_access db = bt_collect (map (\<lambda>k. (k_name k,
     existing_row ''access_key'' (k_id k) (k_name k) db)) (t_access_keys db))"

definition source_generation :: "catalog \<Rightarrow> string \<Rightarrow> int" where
  "source_generation db source_id =
     (case find (\<lambda>s. s_id s = source_id) (t_config_sources db) of
        None \<Rightarrow> 0 | Some s \<Rightarrow> s_generation s)"

definition validate_source_id :: "string \<Rightarrow> catalog_error + unit" where
  "validate_source_id source_id =
     (if source_id \<noteq> [] \<and> length source_id \<le> 128 \<and> (\<forall>c \<in> set source_id. name_char c)
      then Inr ()
      else Inl (mk_error InvalidResourceName (Some ''source_id'')
        (''source_id must contain only ASCII letters, digits, '' @ quoted (CHR ''.'') @ '', ''
           @ quoted (CHR ''-'') @ '' or '' @ quoted (CHR ''_''))))"

definition revision_conflict :: "int \<Rightarrow> int \<Rightarrow> catalog_error" where
  "revision_conflict expected actual = mk_error RevisionConflict (Some ''catalog_revision'')
     (''base revision '' @ show_int expected @ '' does not match current revision ''
        @ show_int actual)"

definition database_error :: "hop_error \<Rightarrow> catalog_error" where
  "database_error _ = mk_error ApplyFailed None ''catalog database operation failed''"

section \<open>Hashes\<close>

definition json_opt :: "string option \<Rightarrow> json" where
  "json_opt v = (case v of None \<Rightarrow> JNull | Some s \<Rightarrow> JStr s)"

definition hash_value :: "ext \<Rightarrow> json \<Rightarrow> string" where
  "hash_value X value = b64_nopad X (sha256 X (json_str X value))"

definition secret_hmac :: "ext \<Rightarrow> master_key \<Rightarrow> string \<Rightarrow> string \<Rightarrow> string \<Rightarrow> string" where
  "secret_hmac X master name field value =
     b64_nopad X (hmac_sha256 X master (name @ [CHR 0x00] @ field @ [CHR 0x00] @ value))"

definition credential_hash ::
  "ext \<Rightarrow> string \<Rightarrow> credential_type \<Rightarrow> string \<Rightarrow> string option \<Rightarrow> string option \<Rightarrow> string option
    \<Rightarrow> master_key \<Rightarrow> string" where
  "credential_hash X name ctype username password private_key passphrase master =
     hash_value X (JObj [(''type'', JStr (credential_type_as_str ctype)),
       (''username'', JStr username),
       (''password'', json_opt (map_option (secret_hmac X master name ''password'') password)),
       (''private_key'',
          json_opt (map_option (secret_hmac X master name ''private_key'') private_key)),
       (''passphrase'',
          json_opt (map_option (secret_hmac X master name ''passphrase'') passphrase))])"

definition asset_hash ::
  "ext \<Rightarrow> asset_type \<Rightarrow> string \<Rightarrow> u16 \<Rightarrow> string option \<Rightarrow> string option \<Rightarrow> string option
    \<Rightarrow> string" where
  "asset_hash X atype host port display_name description credential =
     hash_value X (JObj [(''type'', JStr (asset_type_as_str atype)), (''host'', JStr host),
       (''port'', JNum (uint port)), (''display_name'', json_opt display_name),
       (''description'', json_opt description), (''credential'', json_opt credential)])"

definition access_hash :: "ext \<Rightarrow> string \<Rightarrow> bool \<Rightarrow> string list option \<Rightarrow> string" where
  "access_hash X pk enabled assets =
     hash_value X (JObj [(''public_key'', JStr pk), (''enabled'', JBool enabled),
       (''assets'', case assets of None \<Rightarrow> JNull | Some as \<Rightarrow> JArr (map JStr as))])"

section \<open>Classification\<close>

definition push_change :: "string \<Rightarrow> string \<Rightarrow> apply_action \<Rightarrow> plan \<Rightarrow> plan" where
  "push_change rtype name action p = p\<lparr>p_changes := p_changes p
     @ [\<lparr>ch_type = rtype, ch_name = name, ch_action = action\<rparr>]\<rparr>"

definition ensure_owned ::
  "existing_resource \<Rightarrow> string \<Rightarrow> string \<Rightarrow> catalog_error + unit" where
  "ensure_owned e source_id path =
     (if er_mode e = Some ''declarative'' \<and> er_source_id e = Some source_id then Inr ()
      else
        let owner = (case (er_mode e, er_source_id e) of
            (Some m, Some s) \<Rightarrow>
              if m = ''declarative'' then ''declarative source '' @ s else ''local management''
          | _ \<Rightarrow> ''local management'') in
        Inl (mk_error OwnershipConflict (Some path)
          (''resource is already owned by '' @ owner)))"

text \<open>\<open>d\<close> is the number of ids the plan has drawn on top of \<open>n\<close>.\<close>

definition classify_present ::
  "ext \<Rightarrow> nat \<Rightarrow> existing_resource option \<Rightarrow> string \<Rightarrow> string \<Rightarrow> string
    \<Rightarrow> catalog_error + string \<times> apply_action" where
  "classify_present X d existing source_id hash path =
     (case existing of None \<Rightarrow> Inr (new_id X d, Created)
      | Some e \<Rightarrow>
          and_then (ensure_owned e source_id path) (\<lambda>_.
          Inr (er_id e, if er_hash e = Some hash \<and> er_orphaned_at e = None
             then Unchanged else Updated)))"

definition plan_absent ::
  "string \<Rightarrow> string \<Rightarrow> existing_resource option \<Rightarrow> string \<Rightarrow> string \<Rightarrow> plan
    \<Rightarrow> catalog_error + plan" where
  "plan_absent rtype name existing source_id path p =
     (case existing of
        Some e \<Rightarrow>
          and_then (ensure_owned e source_id path) (\<lambda>_.
          Inr (push_change rtype name Deleted (p\<lparr>p_deletes := p_deletes p
            @ [\<lparr>rr_type = rtype, rr_id = er_id e, rr_name = name\<rparr>]\<rparr>)))
      | None \<Rightarrow> Inr (push_change rtype name Unchanged p))"

definition plan_missing_one ::
  "string \<Rightarrow> string list \<Rightarrow> string \<Rightarrow> bool \<Rightarrow> plan \<Rightarrow> string \<times> existing_resource \<Rightarrow> plan" where
  "plan_missing_one rtype mentioned source_id prune p entry =
     (let name = fst entry; e = snd entry;
          ref = \<lparr>rr_type = rtype, rr_id = er_id e, rr_name = name\<rparr> in
      if er_source_id e \<noteq> Some source_id \<or> name \<in> set mentioned then p
      else if prune then push_change rtype name Deleted (p\<lparr>p_deletes := p_deletes p @ [ref]\<rparr>)
      else if er_orphaned_at e = None
      then push_change rtype name Orphaned (p\<lparr>p_orphans := p_orphans p @ [ref]\<rparr>)
      else push_change rtype name Unchanged p)"

definition plan_missing ::
  "string \<Rightarrow> existing_resource btree \<Rightarrow> string list \<Rightarrow> string \<Rightarrow> bool \<Rightarrow> plan \<Rightarrow> plan" where
  "plan_missing rtype existing mentioned source_id prune p =
     foldl (plan_missing_one rtype mentioned source_id prune) p existing"

definition apply_final_names :: "('t \<Rightarrow> bool) \<Rightarrow> 't btree \<Rightarrow> string set \<Rightarrow> string set" where
  "apply_final_names is_present resources names =
     foldl (\<lambda>s (name, r). if is_present r then insert name s else s - {name}) names resources"

definition remove_pruned_names ::
  "existing_resource btree \<Rightarrow> string list \<Rightarrow> string \<Rightarrow> string set \<Rightarrow> string set" where
  "remove_pruned_names existing mentioned source_id names =
     foldl (\<lambda>s (name, e). if er_source_id e = Some source_id \<and> name \<notin> set mentioned
       then s - {name} else s) names existing"

section \<open>Planning\<close>

text \<open>One round of each of the three loops of \<open>build_plan\<close>.\<close>

definition plan_credential ::
  "ext \<Rightarrow> nat \<Rightarrow> master_key \<Rightarrow> string \<Rightarrow> existing_resource btree \<Rightarrow> plan \<times> string btree
    \<Rightarrow> string \<times> resolved_credential \<Rightarrow> catalog_error + plan \<times> string btree" where
  "plan_credential X n master source_id existing st entry =
     (let p = fst st; credential_ids = snd st; name = fst entry;
          path = ''credentials.'' @ name in
      case snd entry of
        AbsentCredential \<Rightarrow>
          and_then (plan_absent ''credential'' name (bt_get existing name) source_id path p)
            (\<lambda>p'. Inr (p', bt_remove name credential_ids))
      | PresentCredential ctype username password private_key passphrase \<Rightarrow>
          let hash = credential_hash X name ctype username password private_key passphrase master in
          and_then (classify_present X (n + p_drawn p) (bt_get existing name) source_id hash path)
            (\<lambda>(i, action).
          let p' = push_change ''credential'' name action
                (if action = Created then p\<lparr>p_drawn := p_drawn p + 1\<rparr> else p) in
          Inr (if action \<noteq> Unchanged
               then p'\<lparr>p_credential_upserts := p_credential_upserts p' @
                 [\<lparr>cu_id = i, cu_name = name, cu_type = ctype, cu_username = username,
                   cu_password = password, cu_private_key = private_key,
                   cu_passphrase = passphrase, cu_hash = hash\<rparr>]\<rparr>
               else p', bt_insert name i credential_ids)))"

definition plan_asset ::
  "ext \<Rightarrow> nat \<Rightarrow> string \<Rightarrow> existing_asset btree \<Rightarrow> string btree \<Rightarrow> plan \<times> string btree
    \<Rightarrow> string \<times> resolved_asset \<Rightarrow> catalog_error + plan \<times> string btree" where
  "plan_asset X n source_id existing credential_ids st entry =
     (let p = fst st; asset_ids = snd st; name = fst entry; path = ''assets.'' @ name;
          e = map_option ea_resource (bt_get existing name) in
      case snd entry of
        AbsentAsset \<Rightarrow>
          and_then (plan_absent ''asset'' name e source_id path p)
            (\<lambda>p'. Inr (p', bt_remove name asset_ids))
      | PresentAsset atype host port display_name description credential \<Rightarrow>
          let credential_id = (case credential of None \<Rightarrow> None
                | Some c \<Rightarrow> bt_get credential_ids c) in
          if credential \<noteq> None \<and> credential_id = None
          then Inl (mk_error UnknownReference (Some (path @ ''.credential''))
                 ''credential is not present in the final catalog'')
          else
          let hash = asset_hash X atype host port display_name description credential in
          and_then (classify_present X (n + p_drawn p) e source_id hash path) (\<lambda>(i, action).
          let p' = push_change ''asset'' name action
                (if action = Created then p\<lparr>p_drawn := p_drawn p + 1\<rparr> else p) in
          Inr (if action \<noteq> Unchanged
               then p'\<lparr>p_asset_upserts := p_asset_upserts p' @
                 [\<lparr>au_id = i, au_name = name, au_type = atype, au_host = host, au_port = port,
                   au_display_name = display_name, au_description = description,
                   au_credential_id = credential_id, au_hash = hash\<rparr>]\<rparr>
               else p', bt_insert name i asset_ids)))"

definition asset_assignment_ids ::
  "string btree \<Rightarrow> string \<Rightarrow> string list option \<Rightarrow> catalog_error + string list option" where
  "asset_assignment_ids asset_ids path assets =
     opt_mapE (mapE (\<lambda>asset. ok_or (bt_get asset_ids asset)
       (mk_error UnknownReference (Some (path @ ''.assets''))
          ''asset is not present in the final catalog''))) assets"

definition plan_access ::
  "ext \<Rightarrow> nat \<Rightarrow> string \<Rightarrow> existing_resource btree \<Rightarrow> string btree \<Rightarrow> plan
    \<Rightarrow> string \<times> resolved_access \<Rightarrow> catalog_error + plan" where
  "plan_access X n source_id existing asset_ids p entry =
     (let name = fst entry; path = ''access.'' @ name in
      case snd entry of
        AbsentAccess \<Rightarrow> plan_absent ''access_key'' name (bt_get existing name) source_id path p
      | PresentAccess pk fingerprint enabled assets \<Rightarrow>
          let normalized_assets = map_option sort assets in
          and_then (asset_assignment_ids asset_ids path normalized_assets) (\<lambda>assignment_ids.
          let hash = access_hash X pk enabled normalized_assets in
          and_then (classify_present X (n + p_drawn p) (bt_get existing name) source_id hash path)
            (\<lambda>(i, action).
          let p' = push_change ''access_key'' name action
                (if action = Created then p\<lparr>p_drawn := p_drawn p + 1\<rparr> else p) in
          Inr (if action \<noteq> Unchanged
               then p'\<lparr>p_access_upserts := p_access_upserts p' @
                 [\<lparr>xu_id = i, xu_name = name, xu_public_key = pk, xu_fingerprint = fingerprint,
                   xu_enabled = enabled, xu_asset_ids = assignment_ids, xu_hash = hash\<rparr>]\<rparr>
               else p'))))"

text \<open>\<open>ids.retain(|_, id| id != &deletion.id)\<close> for every planned deletion of the type.\<close>

definition deleted_ids :: "string \<Rightarrow> plan \<Rightarrow> string list" where
  "deleted_ids rtype p = map rr_id (filter (\<lambda>r. rr_type r = rtype) (p_deletes p))"

definition retain_ids :: "string list \<Rightarrow> string btree \<Rightarrow> string btree" where
  "retain_ids dead ids = filter (\<lambda>(_, i). i \<notin> set dead) ids"

definition validate_credential_deletes ::
  "plan \<Rightarrow> existing_asset btree \<Rightarrow> catalog_error + unit" where
  "validate_credential_deletes p existing_assets =
     (let deleted_asset_ids = deleted_ids ''asset'' p;
          updated_assets = map_of (rev (map (\<lambda>u. (au_id u, au_credential_id u)) (p_asset_upserts p)))
      in foldE (\<lambda>_ credential. foldE (\<lambda>_ (name, asset).
          if ea_id asset \<in> set deleted_asset_ids then Inr ()
          else
            let final_credential = (case updated_assets (ea_id asset) of
                  Some c \<Rightarrow> c | None \<Rightarrow> ea_credential_id asset) in
            check (final_credential \<noteq> Some (rr_id credential))
              (mk_error ResourceInUse (Some (''credentials.'' @ rr_name credential))
                 (''credential is still referenced by asset '' @ ea_name asset)))
          () existing_assets)
        () (filter (\<lambda>r. rr_type r = ''credential'') (p_deletes p)))"

definition change_le :: "apply_change \<Rightarrow> apply_change \<Rightarrow> bool" where
  "change_le c d \<longleftrightarrow> ch_type c < ch_type d \<or> (ch_type c = ch_type d \<and> ch_name c \<le> ch_name d)"

definition final_credential_names ::
  "existing_resource btree \<Rightarrow> resolved_manifest \<Rightarrow> string \<Rightarrow> bool \<Rightarrow> string set" where
  "final_credential_names existing r source_id prune =
     (let names = apply_final_names (\<lambda>c. c \<noteq> AbsentCredential) (r_credentials r)
            (set (bt_keys existing)) in
      if prune then remove_pruned_names existing (bt_keys (r_credentials r)) source_id names
      else names)"

definition final_asset_names ::
  "existing_resource btree \<Rightarrow> resolved_manifest \<Rightarrow> string \<Rightarrow> bool \<Rightarrow> string set" where
  "final_asset_names existing r source_id prune =
     (let names = apply_final_names (\<lambda>c. c \<noteq> AbsentAsset) (r_assets r)
            (set (bt_keys existing)) in
      if prune then remove_pruned_names existing (bt_keys (r_assets r)) source_id names
      else names)"

text \<open>\<open>build_plan\<close>, given the three maps it loads.\<close>

definition build_plan ::
  "ext \<Rightarrow> nat \<Rightarrow> existing_resource btree \<Rightarrow> existing_asset btree \<Rightarrow> existing_resource btree
    \<Rightarrow> resolved_manifest \<Rightarrow> string \<Rightarrow> master_key \<Rightarrow> bool \<Rightarrow> catalog_error + plan" where
  "build_plan X n existing_credentials existing_assets existing_access r source_id master prune =
     (let asset_resources = bt_map ea_resource existing_assets in
      and_then (validate_references r True
          (final_credential_names existing_credentials r source_id prune)
          (final_asset_names asset_resources r source_id prune)) (\<lambda>_.
      and_then (foldE (plan_credential X n master source_id existing_credentials)
          (empty_plan, bt_map er_id existing_credentials) (r_credentials r)) (\<lambda>(p1, ids1).
      let p2 = plan_missing ''credential'' existing_credentials (bt_keys (r_credentials r))
            source_id prune p1;
          credential_ids = retain_ids (deleted_ids ''credential'' p2) ids1 in
      and_then (foldE (plan_asset X n source_id existing_assets credential_ids)
          (p2, bt_map ea_id existing_assets) (r_assets r)) (\<lambda>(p3, ids3).
      let p4 = plan_missing ''asset'' asset_resources (bt_keys (r_assets r)) source_id prune p3;
          asset_ids = retain_ids (deleted_ids ''asset'' p4) ids3 in
      and_then (foldE (plan_access X n source_id existing_access asset_ids) p4 (r_access r))
        (\<lambda>p5.
      let p6 = plan_missing ''access_key'' existing_access (bt_keys (r_access r)) source_id prune p5
      in and_then (validate_credential_deletes p6 existing_assets) (\<lambda>_.
      Inr (p6\<lparr>p_changes := order_by change_le (p_changes p6)\<rparr>)))))))"

section \<open>Execution\<close>

definition encrypt_optional ::
  "ext \<Rightarrow> nat \<Rightarrow> master_key \<Rightarrow> string \<Rightarrow> string \<Rightarrow> string option
    \<Rightarrow> catalog_error + string option \<times> nat" where
  "encrypt_optional X k master i field value =
     (case value of None \<Rightarrow> Inr (None, k)
      | Some v \<Rightarrow>
          and_then (map_err (\<lambda>_. mk_error ApplyFailed None
                ''failed to encrypt credential material'')
              (encrypt_envelope X k master (i @ '':'' @ field) v)) (\<lambda>env.
          Inr (Some env, k + 1)))"

definition source_key :: "string \<Rightarrow> string \<Rightarrow> string" where
  "source_key rtype name = rtype @ ''/'' @ name"

definition owned_row ::
  "string \<Rightarrow> string \<Rightarrow> string \<Rightarrow> string \<Rightarrow> string \<Rightarrow> int \<Rightarrow> string \<Rightarrow> ownership_tbl" where
  "owned_row now rtype i source_id name generation hash =
     \<lparr>o_type = rtype, o_id = i, o_mode = ''declarative'', o_source_id = Some source_id,
      o_source_key = Some (source_key rtype name), o_generation = Some generation,
      o_hash = Some hash, o_applied_at = Some now, o_orphaned_at = None\<rparr>"

definition upsert_ownership ::
  "string \<Rightarrow> string \<Rightarrow> string \<Rightarrow> string \<Rightarrow> string \<Rightarrow> int \<Rightarrow> string \<Rightarrow> catalog \<Rightarrow> hop_error + catalog" where
  "upsert_ownership now rtype i source_id name generation hash db =
     (let row = owned_row now rtype i source_id name generation hash in
      enforce (db\<lparr>t_ownership := upsert_where (\<lambda>r. o_type r = rtype \<and> o_id r = i)
        (\<lambda>r. r\<lparr>o_mode := o_mode row, o_source_id := o_source_id row, o_source_key := o_source_key row,
           o_generation := o_generation row, o_hash := o_hash row, o_applied_at := o_applied_at row,
           o_orphaned_at := None\<rparr>) row (t_ownership db)\<rparr>))"

definition upsert_credential_row ::
  "string \<Rightarrow> credential_upsert \<Rightarrow> string option \<Rightarrow> string option \<Rightarrow> string option \<Rightarrow> catalog
    \<Rightarrow> hop_error + catalog" where
  "upsert_credential_row now u password_enc private_key_enc passphrase_enc db =
     enforce (db\<lparr>t_credentials := upsert_where (\<lambda>c. c_id c = cu_id u)
       (\<lambda>c. c\<lparr>c_name := cu_name u, c_username := cu_username u,
          c_auth_type := credential_type_as_str (cu_type u), c_password_enc := password_enc,
          c_private_key_enc := private_key_enc, c_passphrase_enc := passphrase_enc,
          c_secret_hmac := Some (cu_hash u), c_updated_at := now\<rparr>)
       \<lparr>c_id = cu_id u, c_name = cu_name u, c_username = cu_username u,
        c_auth_type = credential_type_as_str (cu_type u), c_password_enc = password_enc,
        c_private_key_enc = private_key_enc, c_passphrase_enc = passphrase_enc,
        c_secret_hmac = Some (cu_hash u), c_created_at = now, c_updated_at = now\<rparr>
       (t_credentials db)\<rparr>)"

text \<open>A round of the loop over the credentials; the state carries the nonce counter.\<close>

definition execute_credential ::
  "ext \<Rightarrow> string \<Rightarrow> master_key \<Rightarrow> string \<Rightarrow> int \<Rightarrow> catalog \<times> nat \<Rightarrow> credential_upsert
    \<Rightarrow> catalog_error + catalog \<times> nat" where
  "execute_credential X now master source_id generation st u =
     (case st of (db, k) \<Rightarrow>
      and_then (encrypt_optional X k master (cu_id u) ''password'' (cu_password u)) (\<lambda>(pw, k1).
      and_then (encrypt_optional X k1 master (cu_id u) ''private_key'' (cu_private_key u))
        (\<lambda>(pk, k2).
      and_then (encrypt_optional X k2 master (cu_id u) ''passphrase'' (cu_passphrase u))
        (\<lambda>(pp, k3).
      and_then (map_err database_error (upsert_credential_row now u pw pk pp db)) (\<lambda>db1.
      and_then (map_err database_error (upsert_ownership now ''credential'' (cu_id u) source_id
          (cu_name u) generation (cu_hash u) db1)) (\<lambda>db2.
      Inr (db2, k3)))))))"

text \<open>The trigger \<open>assets_create_health\<close> fires for a new row only.\<close>

definition upsert_asset_row :: "string \<Rightarrow> asset_upsert \<Rightarrow> catalog \<Rightarrow> hop_error + catalog" where
  "upsert_asset_row now u db =
     enforce (db\<lparr>t_assets := upsert_where (\<lambda>a. a_id a = au_id u)
       (\<lambda>a. a\<lparr>a_name := au_name u, a_asset_type := asset_type_as_str (au_type u),
          a_host := au_host u, a_port := uint (au_port u), a_display_name := au_display_name u,
          a_description := au_description u, a_credential_id := au_credential_id u,
          a_updated_at := now\<rparr>)
       \<lparr>a_id = au_id u, a_name = au_name u, a_asset_type = asset_type_as_str (au_type u),
        a_host = au_host u, a_port = uint (au_port u), a_display_name = au_display_name u,
        a_description = au_description u, a_tags_json = None,
        a_credential_id = au_credential_id u, a_created_at = now, a_updated_at = now\<rparr>
       (t_assets db),
       t_asset_health := (if \<exists>a \<in> set (t_assets db). a_id a = au_id u then t_asset_health db
         else create_health (au_id u) (t_asset_health db))\<rparr>)"

definition execute_asset ::
  "string \<Rightarrow> string \<Rightarrow> int \<Rightarrow> catalog \<Rightarrow> asset_upsert \<Rightarrow> hop_error + catalog" where
  "execute_asset now source_id generation db u =
     and_then (upsert_asset_row now u db)
       (upsert_ownership now ''asset'' (au_id u) source_id (au_name u) generation (au_hash u))"

definition upsert_access_row :: "string \<Rightarrow> access_upsert \<Rightarrow> catalog \<Rightarrow> hop_error + catalog" where
  "upsert_access_row now u db =
     (let access_mode = (if xu_asset_ids u \<noteq> None then ''restricted'' else ''all'') in
      enforce (db\<lparr>t_access_keys := upsert_where (\<lambda>k. k_id k = xu_id u)
        (\<lambda>k. k\<lparr>k_name := xu_name u, k_public_key := xu_public_key u,
           k_fingerprint := xu_fingerprint u, k_enabled := xu_enabled u,
           k_access_mode := access_mode, k_updated_at := now\<rparr>)
        \<lparr>k_id = xu_id u, k_name = xu_name u, k_public_key = xu_public_key u,
         k_fingerprint = xu_fingerprint u, k_enabled = xu_enabled u,
         k_access_mode = access_mode, k_created_at = now, k_updated_at = now\<rparr>
        (t_access_keys db)\<rparr>))"

definition execute_access ::
  "string \<Rightarrow> string \<Rightarrow> int \<Rightarrow> catalog \<Rightarrow> access_upsert \<Rightarrow> hop_error + catalog" where
  "execute_access now source_id generation db u =
     and_then (upsert_access_row now u db) (\<lambda>db1.
     and_then (delete_assignments (xu_id u) db1) (\<lambda>db2.
     and_then (case xu_asset_ids u of None \<Rightarrow> Inr db2
        | Some asset_ids \<Rightarrow>
            foldE (\<lambda>db asset_id. insert_assignment (xu_id u) asset_id db) db2 asset_ids) (\<lambda>db3.
     upsert_ownership now ''access_key'' (xu_id u) source_id (xu_name u) generation
       (xu_hash u) db3)))"

definition execute_orphan :: "string \<Rightarrow> catalog \<Rightarrow> resource_ref \<Rightarrow> hop_error + catalog" where
  "execute_orphan now db ref =
     update_ownership (\<lambda>r. o_type r = rr_type ref \<and> o_id r = rr_id ref)
       (\<lambda>r. r\<lparr>o_orphaned_at := Some now\<rparr>) db"

definition delete_resource :: "catalog \<Rightarrow> resource_ref \<Rightarrow> catalog_error + catalog" where
  "delete_resource db ref =
     and_then (map_err database_error (delete_ownership (rr_type ref) (rr_id ref) db)) (\<lambda>db1.
     if rr_type ref = ''credential''
     then map_err database_error (delete_credential_row (rr_id ref) db1)
     else if rr_type ref = ''asset''
     then map_err database_error (delete_asset_row (rr_id ref) db1)
     else if rr_type ref = ''access_key''
     then map_err database_error (delete_access_key_row (rr_id ref) db1)
     else Inl (mk_error ApplyFailed None ''unsupported resource type in apply plan''))"

definition record_success ::
  "string \<Rightarrow> string \<Rightarrow> int \<Rightarrow> int \<Rightarrow> catalog \<Rightarrow> hop_error + catalog" where
  "record_success now source_id generation new_revision db =
     enforce (db\<lparr>t_config_sources := upsert_where (\<lambda>s. s_id s = source_id)
       (\<lambda>s. s\<lparr>s_generation := generation, s_success_at := Some now,
          s_success_revision := Some new_revision, s_error_at := None, s_error_code := None,
          s_error_message := None\<rparr>)
       \<lparr>s_id = source_id, s_generation = generation, s_success_at = Some now,
        s_success_revision = Some new_revision, s_error_at = None, s_error_code = None,
        s_error_message = None\<rparr> (t_config_sources db)\<rparr>)"

definition apply_details :: "string \<Rightarrow> apply_summary \<Rightarrow> json" where
  "apply_details source_id s =
     JObj [(''source_id'', JStr source_id), (''base_revision'', JNum (sm_base_revision s)),
       (''new_revision'', JNum (sm_new_revision s)), (''created'', JNum (int (sm_created s))),
       (''updated'', JNum (int (sm_updated s))), (''deleted'', JNum (int (sm_deleted s))),
       (''orphaned'', JNum (int (sm_orphaned s)))]"

definition execute_plan ::
  "ext \<Rightarrow> string \<Rightarrow> nat \<Rightarrow> nat \<Rightarrow> plan \<Rightarrow> string \<Rightarrow> int \<Rightarrow> int \<Rightarrow> master_key \<Rightarrow> apply_summary
    \<Rightarrow> catalog \<Rightarrow> catalog_error + catalog" where
  "execute_plan X now n k p source_id generation new_revision master summary db =
     and_then (foldE (execute_credential X now master source_id generation) (db, k)
         (p_credential_upserts p)) (\<lambda>(db1, _).
     and_then (map_err database_error
         (foldE (execute_asset now source_id generation) db1 (p_asset_upserts p))) (\<lambda>db2.
     and_then (map_err database_error
         (foldE (execute_access now source_id generation) db2 (p_access_upserts p))) (\<lambda>db3.
     and_then (map_err database_error (foldE (execute_orphan now) db3 (p_orphans p))) (\<lambda>db4.
     and_then (foldE (\<lambda>db rtype. foldE delete_resource db
            (filter (\<lambda>r. rr_type r = rtype) (p_deletes p)))
         db4 [''access_key'', ''asset'', ''credential'']) (\<lambda>db5.
     and_then (map_err database_error (update_revision new_revision db5)) (\<lambda>db6.
     and_then (map_err database_error (record_success now source_id generation new_revision db6))
       (\<lambda>db7.
     map_err database_error (insert_audit \<lparr>ev_id = new_id X (n + p_drawn p),
       ev_occurred_at = now, ev_actor_label = ''catalog-apply'', ev_action = ''config.apply'',
       ev_target_type = ''config_source'', ev_target_id = Some source_id,
       ev_target_label = Some source_id, ev_result = ''success'', ev_source_ip = None,
       ev_details_json = Some (json_str X (apply_details source_id summary))\<rparr> db7))))))))"

section \<open>Apply\<close>

record snapshots =
  sn_revision :: catalog
  sn_generation :: catalog
  sn_credentials :: catalog
  sn_assets :: catalog
  sn_access :: catalog

definition quiet :: "catalog \<Rightarrow> snapshots" where
  "quiet db = \<lparr>sn_revision = db, sn_generation = db, sn_credentials = db, sn_assets = db,
     sn_access = db\<rparr>"

text \<open>Everything before the transaction: the summary and the plan.\<close>

definition prepare ::
  "ext \<Rightarrow> nat \<Rightarrow> os \<Rightarrow> master_key \<Rightarrow> snapshots \<Rightarrow> manifest \<Rightarrow> string \<Rightarrow> apply_options
    \<Rightarrow> catalog_error + apply_summary \<times> plan" where
  "prepare X n w master sn m source_id opts =
     and_then (validate_source_id source_id) (\<lambda>_.
     let base_revision = t_revision (sn_revision sn) in
     and_then (case ao_base_revision opts of None \<Rightarrow> Inr ()
        | Some expected \<Rightarrow> check (expected = base_revision)
            (revision_conflict expected base_revision)) (\<lambda>_.
     let current_generation = source_generation (sn_generation sn) source_id in
     and_then (resolve_material X w m) (\<lambda>r.
     and_then (build_plan X n (load_credentials (sn_credentials sn)) (load_assets (sn_assets sn))
         (load_access (sn_access sn)) r source_id master (ao_prune opts)) (\<lambda>p.
     let changed = (if plan_changed p then 1 else 0) in
     Inr (plan_summary p source_id base_revision (base_revision + changed)
            (current_generation + changed) (ao_dry_run opts), p)))))"

definition apply_with ::
  "ext \<Rightarrow> string \<Rightarrow> nat \<Rightarrow> nat \<Rightarrow> os \<Rightarrow> master_key \<Rightarrow> snapshots \<Rightarrow> catalog \<Rightarrow> manifest \<Rightarrow> string
    \<Rightarrow> apply_options \<Rightarrow> catalog \<times> (catalog_error + apply_summary)" where
  "apply_with X now n k w master sn db m source_id opts =
     (case prepare X n w master sn m source_id opts of
        Inl e \<Rightarrow> (db, Inl e)
      | Inr (summary, p) \<Rightarrow>
          if ao_dry_run opts \<or> \<not> plan_changed p then (db, Inr summary)
          else if t_revision db \<noteq> sm_base_revision summary
          then (db, Inl (revision_conflict (sm_base_revision summary) (t_revision db)))
          else
            (case execute_plan X now n k p source_id (sm_generation summary)
               (sm_new_revision summary) master summary db of
               Inl e \<Rightarrow> (db, Inl e)
             | Inr db' \<Rightarrow> (db', Inr summary)))"

text \<open>No one else writes while it runs.\<close>

definition apply_manifest ::
  "ext \<Rightarrow> string \<Rightarrow> nat \<Rightarrow> nat \<Rightarrow> os \<Rightarrow> master_key \<Rightarrow> manifest \<Rightarrow> string \<Rightarrow> apply_options
    \<Rightarrow> catalog \<Rightarrow> catalog \<times> (catalog_error + apply_summary)" where
  "apply_manifest X now n k w master m source_id opts db =
     apply_with X now n k w master (quiet db) db m source_id opts"

definition diff ::
  "ext \<Rightarrow> string \<Rightarrow> nat \<Rightarrow> nat \<Rightarrow> os \<Rightarrow> master_key \<Rightarrow> manifest \<Rightarrow> string \<Rightarrow> bool
    \<Rightarrow> catalog \<Rightarrow> catalog \<times> (catalog_error + apply_summary)" where
  "diff X now n k w master m source_id prune db =
     apply_manifest X now n k w master m source_id
       \<lparr>ao_base_revision = None, ao_prune = prune, ao_dry_run = True\<rparr> db"

definition validate_manifest :: "ext \<Rightarrow> os \<Rightarrow> manifest \<Rightarrow> catalog \<Rightarrow> catalog_error + unit" where
  "validate_manifest X w m db =
     and_then (resolve_material X w m) (\<lambda>r.
     validate_references r True (set (bt_keys (load_credentials db)))
       (set (bt_keys (load_assets db))))"

end
