(* ===== verification/Apply_Effects.thy ===== *)
theory Apply_Effects
  imports Apply
begin

text \<open>
  What the statements of an apply do, seen through two maps per resource type: \<open>name_of\<close>, from
  ids to names, and \<open>owner_of\<close>, from ids to ownership rows. Every statement of
  \<open>execute_plan\<close> is an update of these maps (\<open>named_loop\<close> is the contract of its three upsert
  loops), so the tables refine two finite maps and the planning facts can be stated on them.
\<close>

section \<open>Rows by key\<close>

lemma find_update_where:
  assumes "\<And>r. key (f r) = key r"
  shows "find (\<lambda>r. key r = i) (update_where (\<lambda>r. key r = j) f rows)
    = (if i = j then map_option f (find (\<lambda>r. key r = i) rows) else find (\<lambda>r. key r = i) rows)"
  by (induction rows) (auto simp: update_where_def assms)

lemma find_append: "find p (xs @ ys) = (case find p xs of Some x \<Rightarrow> Some x | None \<Rightarrow> find p ys)"
  by (induction xs) auto

lemma find_upsert_where:
  assumes "\<And>r. key (f r) = key r" and "key new = j"
  shows "find (\<lambda>r. key r = i) (upsert_where (\<lambda>r. key r = j) f new rows)
    = (if i = j then Some (case find (\<lambda>r. key r = j) rows of Some r \<Rightarrow> f r | None \<Rightarrow> new)
       else find (\<lambda>r. key r = i) rows)"
proof (cases "\<exists>r \<in> set rows. key r = j")
  case True
  then obtain r where "find (\<lambda>r. key r = j) rows = Some r"
    by (cases "find (\<lambda>r. key r = j) rows") (auto simp: find_None_iff)
  with True find_update_where [of key f i j rows, OF assms(1)] show ?thesis
    by (simp add: upsert_where_def)
next
  case False
  then have "find (\<lambda>r. key r = j) rows = None" by (auto simp: find_None_iff)
  with False assms(2) show ?thesis
    by (auto simp: upsert_where_def find_append split: option.splits)
qed

lemma find_delete_where:
  "find (\<lambda>r. key r = i) (delete_where (\<lambda>r. key r = j) rows)
    = (if i = j then None else find (\<lambda>r. key r = i) rows)"
  by (induction rows) (auto simp: delete_where_def)

section \<open>The two maps\<close>

definition credential_row :: "string \<Rightarrow> catalog \<Rightarrow> credential_tbl option" where
  "credential_row i db = find (\<lambda>c. c_id c = i) (t_credentials db)"

definition asset_row_of_id :: "string \<Rightarrow> catalog \<Rightarrow> asset_tbl option" where
  "asset_row_of_id i db = find (\<lambda>a. a_id a = i) (t_assets db)"

definition access_row :: "string \<Rightarrow> catalog \<Rightarrow> access_key_tbl option" where
  "access_row i db = find (\<lambda>k. k_id k = i) (t_access_keys db)"

lemmas row_defs = credential_row_def asset_row_of_id_def access_row_def

definition name_of :: "string \<Rightarrow> catalog \<Rightarrow> string \<Rightarrow> string option" where
  "name_of rtype db i =
     (if rtype = ''credential'' then map_option c_name (credential_row i db)
      else if rtype = ''asset'' then map_option a_name (asset_row_of_id i db)
      else if rtype = ''access_key'' then map_option k_name (access_row i db)
      else None)"

definition owner_map :: "string \<Rightarrow> catalog \<Rightarrow> string \<Rightarrow> ownership_tbl option" where
  "owner_map rtype db i = owner_of rtype i db"

text \<open>Which tables a statement leaves alone.\<close>

lemma name_of_cong:
  "t_credentials db' = t_credentials db \<Longrightarrow> t_assets db' = t_assets db
    \<Longrightarrow> t_access_keys db' = t_access_keys db \<Longrightarrow> name_of rtype db' = name_of rtype db"
  by (simp add: name_of_def row_defs fun_eq_iff)

lemma owner_map_cong: "t_ownership db' = t_ownership db \<Longrightarrow> owner_map rtype db' = owner_map rtype db"
  by (simp add: owner_map_def owner_of_def fun_eq_iff)

lemma assignments_frame [simp]:
  "name_of rtype (db\<lparr>t_access_key_assets := as\<rparr>) = name_of rtype db"
  "owner_map rtype (db\<lparr>t_access_key_assets := as\<rparr>) = owner_map rtype db"
  by (rule name_of_cong, simp_all) (rule owner_map_cong, simp)

lemma owner_of_find: "owner_of rtype i db = find (\<lambda>r. (o_type r, o_id r) = (rtype, i)) (t_ownership db)"
  by (simp add: owner_of_def)

section \<open>Effects of the statements\<close>

lemma upsert_ownership_effect:
  assumes "upsert_ownership now rtype i source name g h db = Inr db'"
  shows "owner_map t db' = (if t = rtype
      then (owner_map t db)(i \<mapsto> owned_row now rtype i source name g h) else owner_map t db)"
    and "name_of t db' = name_of t db" and "constraints db'"
proof -
  let ?row = "owned_row now rtype i source name g h"
  let ?f = "\<lambda>r. r\<lparr>o_mode := o_mode ?row, o_source_id := o_source_id ?row,
      o_source_key := o_source_key ?row, o_generation := o_generation ?row, o_hash := o_hash ?row,
      o_applied_at := o_applied_at ?row, o_orphaned_at := None\<rparr>"
  have pred: "(\<lambda>r. o_type r = rtype \<and> o_id r = i) = (\<lambda>r. (o_type r, o_id r) = (rtype, i))" by auto
  from assms have db': "db' = db\<lparr>t_ownership := upsert_where
      (\<lambda>r. (o_type r, o_id r) = (rtype, i)) ?f ?row (t_ownership db)\<rparr>" and ok: "constraints db'"
    unfolding upsert_ownership_def Let_def enforce_Inr pred by simp_all
  have f: "?f r = ?row" if "(o_type r, o_id r) = (rtype, i)" for r
    using that by (intro ownership_tbl.equality) (simp_all add: owned_row_def)
  have "find (\<lambda>r. (o_type r, o_id r) = (t, j)) (upsert_where (\<lambda>r. (o_type r, o_id r) = (rtype, i))
      ?f ?row (t_ownership db)) = (if (t, j) = (rtype, i) then Some ?row
      else find (\<lambda>r. (o_type r, o_id r) = (t, j)) (t_ownership db))" for t j
    by (subst find_upsert_where [where key = "\<lambda>r. (o_type r, o_id r)"])
      (auto simp: owned_row_def dest!: find_Some_in split: option.splits)
  then show "owner_map t db' = (if t = rtype
      then (owner_map t db)(i \<mapsto> owned_row now rtype i source name g h) else owner_map t db)"
    by (auto simp: owner_map_def owner_of_def db' fun_eq_iff)
  show "name_of t db' = name_of t db" by (rule name_of_cong) (simp_all add: db')
  show "constraints db'" by (rule ok)
qed

lemma upsert_credential_effect:
  assumes "upsert_credential_row now u a b c db = Inr db'"
  shows "name_of t db' = (if t = ''credential'' then (name_of t db)(cu_id u \<mapsto> cu_name u)
      else name_of t db)"
    and "owner_map t db' = owner_map t db" and "constraints db'"
proof -
  from assms show "constraints db'" "owner_map t db' = owner_map t db"
    by (auto simp: upsert_credential_row_def result_simps intro: owner_map_cong)
  from assms show "name_of t db' = (if t = ''credential'' then (name_of t db)(cu_id u \<mapsto> cu_name u)
      else name_of t db)"
    by (auto simp: upsert_credential_row_def result_simps name_of_def row_defs fun_eq_iff
        find_upsert_where [where key = c_id] split: option.splits)
qed

lemma upsert_asset_effect:
  assumes "upsert_asset_row now u db = Inr db'"
  shows "name_of t db' = (if t = ''asset'' then (name_of t db)(au_id u \<mapsto> au_name u)
      else name_of t db)"
    and "owner_map t db' = owner_map t db" and "constraints db'"
proof -
  from assms show "constraints db'" "owner_map t db' = owner_map t db"
    by (auto simp: upsert_asset_row_def result_simps intro: owner_map_cong)
  from assms show "name_of t db' = (if t = ''asset'' then (name_of t db)(au_id u \<mapsto> au_name u)
      else name_of t db)"
    by (auto simp: upsert_asset_row_def result_simps name_of_def row_defs fun_eq_iff
        find_upsert_where [where key = a_id] split: option.splits)
qed

lemma upsert_access_effect:
  assumes "upsert_access_row now u db = Inr db'"
  shows "name_of t db' = (if t = ''access_key'' then (name_of t db)(xu_id u \<mapsto> xu_name u)
      else name_of t db)"
    and "owner_map t db' = owner_map t db" and "constraints db'"
proof -
  from assms show "constraints db'" "owner_map t db' = owner_map t db"
    by (auto simp: upsert_access_row_def Let_def result_simps intro: owner_map_cong)
  from assms show "name_of t db' = (if t = ''access_key'' then (name_of t db)(xu_id u \<mapsto> xu_name u)
      else name_of t db)"
    by (auto simp: upsert_access_row_def Let_def result_simps name_of_def row_defs fun_eq_iff
        find_upsert_where [where key = k_id] split: option.splits)
qed

text \<open>Only the rows of the join table change.\<close>

lemma insert_assignments_effect:
  assumes "foldE (\<lambda>db a. insert_assignment key a db) db as = Inr db'" and "constraints db"
  shows "name_of t db' = name_of t db \<and> owner_map t db' = owner_map t db \<and> constraints db'"
  by (rule foldE_inv [OF assms(1), where P = "\<lambda>d. name_of t d = name_of t db
        \<and> owner_map t d = owner_map t db \<and> constraints d"])
    (use assms(2) in \<open>auto simp: insert_assignment_def result_simps\<close>)

lemma delete_assignments_effect:
  assumes "delete_assignments key db = Inr db'"
  shows "name_of t db' = name_of t db" and "owner_map t db' = owner_map t db" and "constraints db'"
  using assms
  by (auto simp: delete_assignments_def result_simps intro: name_of_cong owner_map_cong)

section \<open>The upsert loops\<close>

text \<open>
  The contract of one round: it names the row of its id, makes the source its owner and
  leaves the other types alone.
\<close>

locale named_loop =
  fixes step :: "'s \<Rightarrow> 'u \<Rightarrow> 'e + 's"
    and view :: "'s \<Rightarrow> catalog"
    and rtype :: string
    and ident :: "'u \<Rightarrow> string"
    and naming :: "'u \<Rightarrow> string"
    and row :: "'u \<Rightarrow> ownership_tbl"
  assumes names: "step s u = Inr s' \<Longrightarrow> name_of t (view s') = (if t = rtype
        then (name_of t (view s))(ident u \<mapsto> naming u) else name_of t (view s))"
    and owners: "step s u = Inr s' \<Longrightarrow> owner_map t (view s') = (if t = rtype
        then (owner_map t (view s))(ident u \<mapsto> row u) else owner_map t (view s))"
    and keeps: "step s u = Inr s' \<Longrightarrow> constraints (view s) \<Longrightarrow> constraints (view s')"
begin

lemma loop_names: "foldE step s us = Inr s' \<Longrightarrow> name_of t (view s') = (if t = rtype
    then name_of t (view s) ++ map_of (rev (map (\<lambda>u. (ident u, naming u)) us))
    else name_of t (view s))"
proof (induction us arbitrary: s)
  case (Cons u us)
  then show ?case by (auto simp: result_simps names map_add_def fun_eq_iff split: option.splits)
qed simp

lemma loop_owners: "foldE step s us = Inr s' \<Longrightarrow> owner_map t (view s') = (if t = rtype
    then owner_map t (view s) ++ map_of (rev (map (\<lambda>u. (ident u, row u)) us))
    else owner_map t (view s))"
proof (induction us arbitrary: s)
  case (Cons u us)
  then show ?case by (auto simp: result_simps owners map_add_def fun_eq_iff split: option.splits)
qed simp

lemma loop_keeps: "foldE step s us = Inr s' \<Longrightarrow> constraints (view s) \<Longrightarrow> constraints (view s')"
  by (rule foldE_inv [where P = "\<lambda>s. constraints (view s)"]) (auto intro: keeps)

end

lemma execute_credential_parts:
  assumes "execute_credential X now mk source g (db, k) u = Inr (db', k')"
  obtains a b c db1 where "upsert_credential_row now u a b c db = Inr db1"
    "upsert_ownership now ''credential'' (cu_id u) source (cu_name u) g (cu_hash u) db1 = Inr db'"
  using assms by (auto simp: execute_credential_def result_simps split: prod.splits)

interpretation credential_loop: named_loop "execute_credential X now mk source g" fst "''credential''"
    cu_id cu_name "\<lambda>u. owned_row now ''credential'' (cu_id u) source (cu_name u) g (cu_hash u)"
  for X now mk source g
proof
  fix s u s' t
  assume step: "execute_credential X now mk source g s u = Inr s'"
  then obtain a b c db1 where p: "upsert_credential_row now u a b c (fst s) = Inr db1"
    "upsert_ownership now ''credential'' (cu_id u) source (cu_name u) g (cu_hash u) db1 = Inr (fst s')"
    by (cases s; cases s') (auto elim: execute_credential_parts)
  note e = upsert_credential_effect [OF p(1)] upsert_ownership_effect [OF p(2)]
  show "name_of t (fst s') = (if t = ''credential''
      then (name_of t (fst s))(cu_id u \<mapsto> cu_name u) else name_of t (fst s))"
    and "owner_map t (fst s') = (if t = ''credential'' then (owner_map t (fst s))(cu_id u \<mapsto>
      owned_row now ''credential'' (cu_id u) source (cu_name u) g (cu_hash u))
      else owner_map t (fst s))"
    and "constraints (fst s')"
    by (simp_all add: e(2,4,5,6) e(1))
qed

interpretation asset_loop: named_loop "execute_asset now source g" id "''asset''"
    au_id au_name "\<lambda>u. owned_row now ''asset'' (au_id u) source (au_name u) g (au_hash u)"
  for now source g
proof
  fix s u s' t
  assume "execute_asset now source g s u = Inr s'"
  then obtain db1 where p: "upsert_asset_row now u s = Inr db1"
    "upsert_ownership now ''asset'' (au_id u) source (au_name u) g (au_hash u) db1 = Inr s'"
    by (auto simp: execute_asset_def result_simps)
  note e = upsert_asset_effect [OF p(1)] upsert_ownership_effect [OF p(2)]
  show "name_of t (id s') = (if t = ''asset''
      then (name_of t (id s))(au_id u \<mapsto> au_name u) else name_of t (id s))"
    and "owner_map t (id s') = (if t = ''asset'' then (owner_map t (id s))(au_id u \<mapsto>
      owned_row now ''asset'' (au_id u) source (au_name u) g (au_hash u))
      else owner_map t (id s))"
    and "constraints (id s')"
    by (simp_all add: e(2,4,5,6) e(1))
qed

lemma execute_access_parts:
  assumes "execute_access now source g db u = Inr db'"
  obtains db1 db2 db3 where "upsert_access_row now u db = Inr db1"
    "delete_assignments (xu_id u) db1 = Inr db2"
    "foldE (\<lambda>db a. insert_assignment (xu_id u) a db) db2
       (case xu_asset_ids u of None \<Rightarrow> [] | Some as \<Rightarrow> as) = Inr db3"
    "upsert_ownership now ''access_key'' (xu_id u) source (xu_name u) g (xu_hash u) db3 = Inr db'"
proof -
  from assms obtain db1 db2 db3 where "upsert_access_row now u db = Inr db1"
    "delete_assignments (xu_id u) db1 = Inr db2"
    "(case xu_asset_ids u of None \<Rightarrow> Inr db2
      | Some as \<Rightarrow> foldE (\<lambda>db a. insert_assignment (xu_id u) a db) db2 as) = Inr db3"
    "upsert_ownership now ''access_key'' (xu_id u) source (xu_name u) g (xu_hash u) db3 = Inr db'"
    by (auto simp: execute_access_def and_then_Inr)
  then show thesis by (intro that [of db1 db2 db3]) (auto split: option.splits)
qed

interpretation access_loop: named_loop "execute_access now source g" id "''access_key''"
    xu_id xu_name "\<lambda>u. owned_row now ''access_key'' (xu_id u) source (xu_name u) g (xu_hash u)"
  for now source g
proof
  fix s u s' t
  assume "execute_access now source g s u = Inr s'"
  then obtain db1 db2 db3 where p: "upsert_access_row now u s = Inr db1"
    "delete_assignments (xu_id u) db1 = Inr db2"
    "foldE (\<lambda>db a. insert_assignment (xu_id u) a db) db2
       (case xu_asset_ids u of None \<Rightarrow> [] | Some as \<Rightarrow> as) = Inr db3"
    "upsert_ownership now ''access_key'' (xu_id u) source (xu_name u) g (xu_hash u) db3 = Inr s'"
    by (rule execute_access_parts)
  note d = delete_assignments_effect [OF p(2)]
  note e = upsert_access_effect [OF p(1)] upsert_ownership_effect [OF p(4)]
    insert_assignments_effect [OF p(3) d(3)]
  show "name_of t (id s') = (if t = ''access_key''
      then (name_of t (id s))(xu_id u \<mapsto> xu_name u) else name_of t (id s))"
    and "owner_map t (id s') = (if t = ''access_key'' then (owner_map t (id s))(xu_id u \<mapsto>
      owned_row now ''access_key'' (xu_id u) source (xu_name u) g (xu_hash u))
      else owner_map t (id s))"
    and "constraints (id s')"
    using e(7) by (simp_all add: e(2,4,5,6) e(1) d)
qed

section \<open>Orphans and deletions\<close>

lemma execute_orphan_effect:
  assumes "execute_orphan now db ref = Inr db'"
  shows "name_of t db' = name_of t db"
    and "owner_map t db' i = (if (t, i) = (rr_type ref, rr_id ref)
      then map_option (\<lambda>r. r\<lparr>o_orphaned_at := Some now\<rparr>) (owner_map t db i) else owner_map t db i)"
    and "constraints db'"
proof -
  have pred: "(\<lambda>r. o_type r = rr_type ref \<and> o_id r = rr_id ref)
      = (\<lambda>r. (o_type r, o_id r) = (rr_type ref, rr_id ref))" by auto
  from assms have db': "db' = db\<lparr>t_ownership := update_where
      (\<lambda>r. (o_type r, o_id r) = (rr_type ref, rr_id ref)) (\<lambda>r. r\<lparr>o_orphaned_at := Some now\<rparr>)
      (t_ownership db)\<rparr>" and ok: "constraints db'"
    unfolding execute_orphan_def update_ownership_def enforce_Inr pred by simp_all
  show "name_of t db' = name_of t db" by (rule name_of_cong) (simp_all add: db')
  show "constraints db'" by (rule ok)
  have "find (\<lambda>r. (o_type r, o_id r) = (t, i)) (update_where
      (\<lambda>r. (o_type r, o_id r) = (rr_type ref, rr_id ref)) (\<lambda>r. r\<lparr>o_orphaned_at := Some now\<rparr>)
      (t_ownership db)) = (if (t, i) = (rr_type ref, rr_id ref)
      then map_option (\<lambda>r. r\<lparr>o_orphaned_at := Some now\<rparr>)
        (find (\<lambda>r. (o_type r, o_id r) = (t, i)) (t_ownership db))
      else find (\<lambda>r. (o_type r, o_id r) = (t, i)) (t_ownership db))"
    by (rule find_update_where) simp
  then show "owner_map t db' i = (if (t, i) = (rr_type ref, rr_id ref)
      then map_option (\<lambda>r. r\<lparr>o_orphaned_at := Some now\<rparr>) (owner_map t db i) else owner_map t db i)"
    by (simp add: owner_map_def owner_of_def db')
qed

lemma execute_orphans_effect:
  assumes "foldE (execute_orphan now) db refs = Inr db'" and "constraints db"
  shows "name_of t db' = name_of t db"
    and "owner_map t db' i = (if \<exists>ref \<in> set refs. rr_type ref = t \<and> rr_id ref = i
      then map_option (\<lambda>r. r\<lparr>o_orphaned_at := Some now\<rparr>) (owner_map t db i) else owner_map t db i)"
    and "constraints db'"
proof -
  have "name_of t db' = name_of t db \<and> constraints db' \<and> owner_map t db' i
      = (if \<exists>ref \<in> set refs. rr_type ref = t \<and> rr_id ref = i
         then map_option (\<lambda>r. r\<lparr>o_orphaned_at := Some now\<rparr>) (owner_map t db i)
         else owner_map t db i)"
    using assms
  proof (induction refs arbitrary: db)
    case (Cons ref refs)
    from Cons.prems(1) obtain db1 where s: "execute_orphan now db ref = Inr db1"
      and rest: "foldE (execute_orphan now) db1 refs = Inr db'" by (auto simp: result_simps)
    note e = execute_orphan_effect [OF s]
    show ?case using Cons.IH [OF rest e(3)] e(1) e(2) [of t i]
      by (auto simp: option.map_comp comp_def)
  qed simp
  then show "name_of t db' = name_of t db" "constraints db'"
    and "owner_map t db' i = (if \<exists>ref \<in> set refs. rr_type ref = t \<and> rr_id ref = i
      then map_option (\<lambda>r. r\<lparr>o_orphaned_at := Some now\<rparr>) (owner_map t db i) else owner_map t db i)"
    by blast+
qed

lemma delete_ownership_effect:
  assumes "delete_ownership rtype rid db = Inr db'"
  shows "owner_map t db' i = (if (t, i) = (rtype, rid) then None else owner_map t db i)"
    and "name_of t db' = name_of t db" and "constraints db'"
proof -
  have pred: "(\<lambda>r. o_type r = rtype \<and> o_id r = rid) = (\<lambda>r. (o_type r, o_id r) = (rtype, rid))" by auto
  from assms have db': "db' = db\<lparr>t_ownership := delete_where
      (\<lambda>r. (o_type r, o_id r) = (rtype, rid)) (t_ownership db)\<rparr>" and ok: "constraints db'"
    unfolding delete_ownership_def enforce_Inr pred by simp_all
  show "name_of t db' = name_of t db" by (rule name_of_cong) (simp_all add: db')
  show "constraints db'" by (rule ok)
  show "owner_map t db' i = (if (t, i) = (rtype, rid) then None else owner_map t db i)"
    using find_delete_where [of "\<lambda>r. (o_type r, o_id r)" "(t, i)" "(rtype, rid)" "t_ownership db"]
    by (simp add: owner_map_def owner_of_def db')
qed

definition row_type :: "string \<Rightarrow> bool" where
  "row_type t \<longleftrightarrow> t = ''credential'' \<or> t = ''asset'' \<or> t = ''access_key''"

lemma delete_rows_effect:
  "delete_credential_row rid db = Inr db' \<Longrightarrow> owner_map t db' = owner_map t db \<and> constraints db'
     \<and> name_of t db' = (if t = ''credential'' then (name_of t db)(rid := None) else name_of t db)"
  "delete_asset_row rid db = Inr db' \<Longrightarrow> owner_map t db' = owner_map t db \<and> constraints db'
     \<and> name_of t db' = (if t = ''asset'' then (name_of t db)(rid := None) else name_of t db)"
  "delete_access_key_row rid db = Inr db' \<Longrightarrow> owner_map t db' = owner_map t db \<and> constraints db'
     \<and> name_of t db' = (if t = ''access_key'' then (name_of t db)(rid := None) else name_of t db)"
  by (auto simp: delete_credential_row_def delete_asset_row_def delete_access_key_row_def enforce_Inr
      name_of_def owner_map_def owner_of_def row_defs fun_eq_iff find_delete_where)

lemma delete_resource_effect:
  assumes "delete_resource db ref = Inr db'"
  shows "name_of t db' i = (if (t, i) = (rr_type ref, rr_id ref) then None else name_of t db i)"
    and "owner_map t db' i = (if (t, i) = (rr_type ref, rr_id ref) then None else owner_map t db i)"
    and "constraints db'" and "row_type (rr_type ref)"
proof -
  from assms obtain db1 where d: "delete_ownership (rr_type ref) (rr_id ref) db = Inr db1"
    and r: "(rr_type ref = ''credential'' \<and> delete_credential_row (rr_id ref) db1 = Inr db')
      \<or> (rr_type ref = ''asset'' \<and> delete_asset_row (rr_id ref) db1 = Inr db')
      \<or> (rr_type ref = ''access_key'' \<and> delete_access_key_row (rr_id ref) db1 = Inr db')"
    by (auto simp: delete_resource_def result_simps split: if_splits)
  note e = delete_ownership_effect [OF d]
  from r show "row_type (rr_type ref)" by (auto simp: row_type_def)
  from r delete_rows_effect [where rid = "rr_id ref" and db = db1 and db' = db'] e(2) [of t]
    e(1) [of t i]
  show "constraints db'"
    and "owner_map t db' i = (if (t, i) = (rr_type ref, rr_id ref) then None else owner_map t db i)"
    and "name_of t db' i = (if (t, i) = (rr_type ref, rr_id ref) then None else name_of t db i)"
    by (auto simp: fun_upd_def)
qed

lemma delete_resources_effect:
  assumes "foldE delete_resource db refs = Inr db'" and "constraints db"
  shows "constraints db'
    \<and> name_of t db' i = (if \<exists>ref \<in> set refs. rr_type ref = t \<and> rr_id ref = i then None
        else name_of t db i)
    \<and> owner_map t db' i = (if \<exists>ref \<in> set refs. rr_type ref = t \<and> rr_id ref = i then None
        else owner_map t db i)"
  using assms
proof (induction refs arbitrary: db)
  case (Cons ref refs)
  from Cons.prems(1) obtain db1 where s: "delete_resource db ref = Inr db1"
    and rest: "foldE delete_resource db1 refs = Inr db'" by (auto simp: result_simps)
  note e = delete_resource_effect [OF s]
  show ?case using Cons.IH [OF rest e(3)] e(1,2) [of t i] by auto
qed simp

section \<open>The plan as a whole\<close>

text \<open>Id, name and hash of the rows a plan writes, and the ids it orphans.\<close>

definition upserts :: "string \<Rightarrow> plan \<Rightarrow> (string \<times> string \<times> string) list" where
  "upserts rtype p =
     (if rtype = ''credential''
      then map (\<lambda>u. (cu_id u, cu_name u, cu_hash u)) (p_credential_upserts p)
      else if rtype = ''asset'' then map (\<lambda>u. (au_id u, au_name u, au_hash u)) (p_asset_upserts p)
      else if rtype = ''access_key''
      then map (\<lambda>u. (xu_id u, xu_name u, xu_hash u)) (p_access_upserts p)
      else [])"

definition orphan_ids :: "string \<Rightarrow> plan \<Rightarrow> string list" where
  "orphan_ids rtype p = map rr_id (filter (\<lambda>r. rr_type r = rtype) (p_orphans p))"

definition new_names :: "string \<Rightarrow> plan \<Rightarrow> string \<rightharpoonup> string" where
  "new_names rtype p = map_of (rev (map (\<lambda>(i, n, h). (i, n)) (upserts rtype p)))"

definition new_owners :: "string \<Rightarrow> string \<Rightarrow> int \<Rightarrow> string \<Rightarrow> plan \<Rightarrow> string \<rightharpoonup> ownership_tbl" where
  "new_owners now source g rtype p =
     map_of (rev (map (\<lambda>(i, n, h). (i, owned_row now rtype i source n g h)) (upserts rtype p)))"

lemma delete_type_effect:
  assumes "foldE delete_resource db (filter (\<lambda>r. rr_type r = rtype) (p_deletes p)) = Inr db'"
    and "constraints db"
  shows "constraints db'"
    and "name_of t db' i = (if t = rtype \<and> i \<in> set (deleted_ids rtype p) then None
        else name_of t db i)"
    and "owner_map t db' i = (if t = rtype \<and> i \<in> set (deleted_ids rtype p) then None
        else owner_map t db i)"
proof -
  have "(\<exists>ref \<in> set (filter (\<lambda>r. rr_type r = rtype) (p_deletes p)). rr_type ref = t \<and> rr_id ref = i)
      \<longleftrightarrow> t = rtype \<and> i \<in> set (deleted_ids rtype p)"
    by (auto simp: deleted_ids_def)
  with delete_resources_effect [OF assms, of t i] show "constraints db'"
    and "name_of t db' i = (if t = rtype \<and> i \<in> set (deleted_ids rtype p) then None
        else name_of t db i)"
    and "owner_map t db' i = (if t = rtype \<and> i \<in> set (deleted_ids rtype p) then None
        else owner_map t db i)"
    by simp_all
qed

lemma row_type_cases:
  "row_type t \<Longrightarrow> (t = ''credential'' \<Longrightarrow> P) \<Longrightarrow> (t = ''asset'' \<Longrightarrow> P) \<Longrightarrow> (t = ''access_key'' \<Longrightarrow> P) \<Longrightarrow> P"
  by (auto simp: row_type_def)

text \<open>The tables after a plan ran, as updates of the two maps.\<close>

lemma execute_plan_effect:
  assumes exec: "execute_plan X now n k p source g rev' mk summary db = Inr db'"
    and ok: "constraints db" and t: "row_type t"
  shows "name_of t db' i = (if i \<in> set (deleted_ids t p) then None
      else (name_of t db ++ new_names t p) i)"
    and "owner_map t db' i = (if i \<in> set (deleted_ids t p) then None
      else if i \<in> set (orphan_ids t p)
      then map_option (\<lambda>r. r\<lparr>o_orphaned_at := Some now\<rparr>)
        ((owner_map t db ++ new_owners now source g t p) i)
      else (owner_map t db ++ new_owners now source g t p) i)"
    and "constraints db'" and "t_revision db' = rev'"
proof -
  from exec obtain s1 db2 db3 db4 dx da db5 db6 db7 where
    1: "foldE (execute_credential X now mk source g) (db, k) (p_credential_upserts p) = Inr s1"
    and 2: "foldE (execute_asset now source g) (fst s1) (p_asset_upserts p) = Inr db2"
    and 3: "foldE (execute_access now source g) db2 (p_access_upserts p) = Inr db3"
    and 4: "foldE (execute_orphan now) db3 (p_orphans p) = Inr db4"
    and 5: "foldE delete_resource db4 (filter (\<lambda>r. rr_type r = ''access_key'') (p_deletes p)) = Inr dx"
      "foldE delete_resource dx (filter (\<lambda>r. rr_type r = ''asset'') (p_deletes p)) = Inr da"
      "foldE delete_resource da (filter (\<lambda>r. rr_type r = ''credential'') (p_deletes p)) = Inr db5"
    and 6: "update_revision rev' db5 = Inr db6"
    and 7: "record_success now source g rev' db6 = Inr db7"
    and 8: "enforce (db7\<lparr>t_audit_events := t_audit_events db7 @ [\<lparr>ev_id = new_id X (n + p_drawn p),
       ev_occurred_at = now, ev_actor_label = ''catalog-apply'', ev_action = ''config.apply'',
       ev_target_type = ''config_source'', ev_target_id = Some source,
       ev_target_label = Some source, ev_result = ''success'', ev_source_ip = None,
       ev_details_json = Some (json_str X (apply_details source summary))\<rparr>]\<rparr>) = Inr db'"
    unfolding execute_plan_def insert_audit_def by (auto simp: and_then_Inr map_err_Inr)
  have ok1: "constraints (fst s1)" using credential_loop.loop_keeps [OF 1] ok by simp
  have ok2: "constraints db2" using asset_loop.loop_keeps [OF 2] ok1 by simp
  have ok3: "constraints db3" using access_loop.loop_keeps [OF 3] ok2 by simp
  have l1: "name_of t (fst s1) = (if t = ''credential'' then name_of t db ++ map_of (rev (map
      (\<lambda>u. (cu_id u, cu_name u)) (p_credential_upserts p))) else name_of t db)"
    "owner_map t (fst s1) = (if t = ''credential'' then owner_map t db ++ map_of (rev (map
      (\<lambda>u. (cu_id u, owned_row now ''credential'' (cu_id u) source (cu_name u) g (cu_hash u)))
      (p_credential_upserts p))) else owner_map t db)"
    using credential_loop.loop_names [OF 1, of t] credential_loop.loop_owners [OF 1, of t] by simp_all
  have l2: "name_of t db2 = (if t = ''asset'' then name_of t (fst s1) ++ map_of (rev (map
      (\<lambda>u. (au_id u, au_name u)) (p_asset_upserts p))) else name_of t (fst s1))"
    "owner_map t db2 = (if t = ''asset'' then owner_map t (fst s1) ++ map_of (rev (map
      (\<lambda>u. (au_id u, owned_row now ''asset'' (au_id u) source (au_name u) g (au_hash u)))
      (p_asset_upserts p))) else owner_map t (fst s1))"
    using asset_loop.loop_names [OF 2, of t] asset_loop.loop_owners [OF 2, of t] by simp_all
  have l3: "name_of t db3 = (if t = ''access_key'' then name_of t db2 ++ map_of (rev (map
      (\<lambda>u. (xu_id u, xu_name u)) (p_access_upserts p))) else name_of t db2)"
    "owner_map t db3 = (if t = ''access_key'' then owner_map t db2 ++ map_of (rev (map
      (\<lambda>u. (xu_id u, owned_row now ''access_key'' (xu_id u) source (xu_name u) g (xu_hash u)))
      (p_access_upserts p))) else owner_map t db2)"
    using access_loop.loop_names [OF 3, of t] access_loop.loop_owners [OF 3, of t] by simp_all
  have n3: "name_of t db3 = name_of t db ++ new_names t p"
    using t l1(1) l2(1) l3(1)
    by (elim row_type_cases) (simp_all add: new_names_def upserts_def comp_def)
  have o3: "owner_map t db3 = owner_map t db ++ new_owners now source g t p"
    using t l1(2) l2(2) l3(2)
    by (elim row_type_cases) (simp_all add: new_owners_def upserts_def comp_def)
  note e4 = execute_orphans_effect [OF 4 ok3]
  have d: "constraints db5 \<and> name_of t db5 i = (if i \<in> set (deleted_ids t p) then None
      else name_of t db4 i) \<and> owner_map t db5 i = (if i \<in> set (deleted_ids t p) then None
      else owner_map t db4 i)"
  proof -
    note x = delete_type_effect [OF 5(1) e4(3)]
    note a = delete_type_effect [OF 5(2) x(1)]
    note c = delete_type_effect [OF 5(3) a(1)]
    from t show ?thesis
      by (rule row_type_cases) (simp_all add: c a(2,3) x(2,3))
  qed
  from 6 have e6: "db6 = db5\<lparr>t_revision := rev'\<rparr>" by (simp add: update_revision_def enforce_Inr)
  from 7 have e7: "t_credentials db7 = t_credentials db6" "t_assets db7 = t_assets db6"
    "t_access_keys db7 = t_access_keys db6" "t_ownership db7 = t_ownership db6"
    "t_revision db7 = t_revision db6"
    by (simp_all add: record_success_def enforce_Inr)
  from 8 have e8: "t_credentials db' = t_credentials db7" "t_assets db' = t_assets db7"
    "t_access_keys db' = t_access_keys db7" "t_ownership db' = t_ownership db7"
    "t_revision db' = t_revision db7" "constraints db'"
    by (simp_all add: enforce_Inr)
  have n: "name_of t db' = name_of t db5" by (rule name_of_cong) (simp_all add: e8 e7 e6)
  have o: "owner_map t db' = owner_map t db5" by (rule owner_map_cong) (simp_all add: e8 e7 e6)
  show "constraints db'" by (rule e8(6))
  show "t_revision db' = rev'" by (simp add: e8 e7 e6)
  show "name_of t db' i = (if i \<in> set (deleted_ids t p) then None
      else (name_of t db ++ new_names t p) i)"
    using d by (simp add: n e4(1) n3)
  show "owner_map t db' i = (if i \<in> set (deleted_ids t p) then None
      else if i \<in> set (orphan_ids t p)
      then map_option (\<lambda>r. r\<lparr>o_orphaned_at := Some now\<rparr>)
        ((owner_map t db ++ new_owners now source g t p) i)
      else (owner_map t db ++ new_owners now source g t p) i)"
    using d e4(2) [of t i] by (auto simp: o o3 orphan_ids_def)
qed

end
