(* ===== verification/Plan_Facts.thy ===== *)
theory Plan_Facts
  imports Apply_Effects
begin

text \<open>
  What \<open>build_plan\<close> plans. \<open>declared\<close> lists, for a resource type, the names a manifest
  mentions with the hash they should have (\<open>None\<close> for a resource declared absent), and
  \<open>existing_of\<close> looks a name up in the catalog. Over these, the rows a plan writes, orphans and
  deletes are plain functions (\<open>writes\<close>, \<open>absent_refs\<close>, \<open>missing_refs\<close>), the same for the three
  types: \<open>planning_loop\<close> is the contract of one round of a loop, interpreted for each of them.
\<close>

section \<open>Existing resources by name\<close>

definition existing_of :: "string \<Rightarrow> catalog \<Rightarrow> string \<Rightarrow> existing_resource option" where
  "existing_of rtype db =
     (if rtype = ''credential'' then bt_get (load_credentials db)
      else if rtype = ''asset'' then bt_get (bt_map ea_resource (load_assets db))
      else bt_get (load_access db))"

lemma ea_resource_row [simp]:
  "ea_resource (existing_asset_row a db) = existing_row ''asset'' (a_id a) (a_name a) db"
  by (simp add: ea_resource_def existing_asset_row_def existing_row_def Let_def)

lemma er_existing_row [simp]:
  "er_id (existing_row t i n db) = i" "er_name (existing_row t i n db) = n"
  "er_mode (existing_row t i n db) = joined (\<lambda>r. Some (o_mode r)) (owner_map t db i)"
  "er_source_id (existing_row t i n db) = joined o_source_id (owner_map t db i)"
  "er_hash (existing_row t i n db) = joined o_hash (owner_map t db i)"
  "er_orphaned_at (existing_row t i n db) = joined o_orphaned_at (owner_map t db i)"
  by (simp_all add: existing_row_def owner_map_def Let_def)

lemma joined_simps [simp]: "joined col None = None" "joined col (Some r) = col r"
  by (simp_all add: joined_def)

lemma collect_rows:
  assumes "distinct (map nm rows)"
  shows "bt_get (bt_collect (map (\<lambda>r. (nm r, f r)) rows)) n = Some e
    \<longleftrightarrow> (\<exists>r \<in> set rows. nm r = n \<and> e = f r)"
proof -
  have "distinct (map fst (rev (map (\<lambda>r. (nm r, f r)) rows)))"
    using assms by (simp add: rev_map [symmetric] comp_def)
  from map_of_eq_Some_iff [OF this, of n e] show ?thesis by (auto simp: bt_get_collect)
qed

lemma find_name:
  assumes "distinct (map key rows)"
  shows "map_option nm (find (\<lambda>r. key r = i) rows) = Some n \<longleftrightarrow> (\<exists>r \<in> set rows. key r = i \<and> nm r = n)"
  using find_unique_iff [OF assms] by auto

text \<open>Names are unique, and a name's id is the key of the row it comes from.\<close>

lemma name_of_rows:
  assumes "constraints db"
  shows "name_of ''credential'' db i = Some n \<longleftrightarrow> (\<exists>c \<in> set (t_credentials db). c_id c = i \<and> c_name c = n)"
    and "name_of ''asset'' db i = Some n \<longleftrightarrow> (\<exists>a \<in> set (t_assets db). a_id a = i \<and> a_name a = n)"
    and "name_of ''access_key'' db i = Some n \<longleftrightarrow> (\<exists>k \<in> set (t_access_keys db). k_id k = i \<and> k_name k = n)"
  unfolding name_of_def row_defs
  using find_name [OF constraintsD(1) [OF assms], of c_name i n]
    find_name [OF constraintsD(3) [OF assms], of a_name i n]
    find_name [OF constraintsD(5) [OF assms], of k_name i n]
  by simp_all

lemma existing_of_rows:
  assumes "constraints db"
  shows "existing_of ''credential'' db n = Some e
      \<longleftrightarrow> (\<exists>c \<in> set (t_credentials db). c_name c = n \<and> e = existing_row ''credential'' (c_id c) n db)"
    and "existing_of ''asset'' db n = Some e
      \<longleftrightarrow> (\<exists>a \<in> set (t_assets db). a_name a = n \<and> e = existing_row ''asset'' (a_id a) n db)"
    and "existing_of ''access_key'' db n = Some e
      \<longleftrightarrow> (\<exists>k \<in> set (t_access_keys db). k_name k = n \<and> e = existing_row ''access_key'' (k_id k) n db)"
proof -
  note d = constraintsD [OF assms]
  show "existing_of ''credential'' db n = Some e
      \<longleftrightarrow> (\<exists>c \<in> set (t_credentials db). c_name c = n \<and> e = existing_row ''credential'' (c_id c) n db)"
    by (auto simp: existing_of_def load_credentials_def collect_rows [OF d(2)])
  show "existing_of ''asset'' db n = Some e
      \<longleftrightarrow> (\<exists>a \<in> set (t_assets db). a_name a = n \<and> e = existing_row ''asset'' (a_id a) n db)"
    by (auto simp: existing_of_def load_assets_def collect_rows [OF d(4)] bt_get_map)
  show "existing_of ''access_key'' db n = Some e
      \<longleftrightarrow> (\<exists>k \<in> set (t_access_keys db). k_name k = n \<and> e = existing_row ''access_key'' (k_id k) n db)"
    by (auto simp: existing_of_def load_access_def collect_rows [OF d(6)])
qed

lemma existing_of_Some:
  assumes "constraints db" and "row_type t"
  shows "existing_of t db n = Some e \<longleftrightarrow> (\<exists>i. name_of t db i = Some n \<and> e = existing_row t i n db)"
  using assms(2)
  by (rule row_type_cases)
    (simp only: existing_of_rows [OF assms(1)] name_of_rows [OF assms(1)], blast)+

lemma name_of_inj:
  assumes ok: "constraints db" and "row_type t"
    and "name_of t db i = Some n" and "name_of t db j = Some n"
  shows "i = j"
proof -
  have "existing_of t db n = Some (existing_row t i n db)"
    and "existing_of t db n = Some (existing_row t j n db)"
    using assms by (auto simp: existing_of_Some)
  then have "er_id (existing_row t i n db) = er_id (existing_row t j n db)" by simp
  then show ?thesis by simp
qed

lemma existing_of_id:
  assumes "constraints db" "row_type t" "existing_of t db n = Some e"
  shows "name_of t db (er_id e) = Some n" and "e = existing_row t (er_id e) n db"
  using assms by (auto simp: existing_of_Some)

lemma existing_of_inj:
  assumes "constraints db" "row_type t" "existing_of t db n = Some e" "existing_of t db m = Some e'"
    and "er_id e = er_id e'"
  shows "n = m"
  using existing_of_id [OF assms(1-3)] existing_of_id [OF assms(1,2,4)] assms(5) by simp

section \<open>The pure plan of one type\<close>

definition owned_by :: "string \<Rightarrow> existing_resource \<Rightarrow> bool" where
  "owned_by source e \<longleftrightarrow> er_mode e = Some ''declarative'' \<and> er_source_id e = Some source"

lemma ensure_owned_Inr [result_simps]: "ensure_owned e source path = Inr u \<longleftrightarrow> owned_by source e"
  by (simp add: ensure_owned_def owned_by_def Let_def)

definition action_of :: "existing_resource option \<Rightarrow> string option \<Rightarrow> apply_action" where
  "action_of existing wanted =
     (case wanted of
        None \<Rightarrow> if existing = None then Unchanged else Deleted
      | Some h \<Rightarrow> (case existing of None \<Rightarrow> Created
          | Some e \<Rightarrow> if er_hash e = Some h \<and> er_orphaned_at e = None then Unchanged else Updated))"

definition change_of ::
  "string \<Rightarrow> (string \<Rightarrow> existing_resource option) \<Rightarrow> string \<times> string option \<Rightarrow> apply_change" where
  "change_of rtype existing entry = \<lparr>ch_type = rtype, ch_name = fst entry,
     ch_action = action_of (existing (fst entry)) (snd entry)\<rparr>"

definition absent_refs ::
  "string \<Rightarrow> (string \<Rightarrow> existing_resource option) \<Rightarrow> string \<times> string option \<Rightarrow> resource_ref list" where
  "absent_refs rtype existing entry =
     (case (snd entry, existing (fst entry)) of
        (None, Some e) \<Rightarrow> [\<lparr>rr_type = rtype, rr_id = er_id e, rr_name = fst entry\<rparr>]
      | _ \<Rightarrow> [])"

text \<open>The rows a loop writes, drawing the ids from \<open>d\<close> on.\<close>

definition write_one ::
  "ext \<Rightarrow> (string \<Rightarrow> existing_resource option) \<Rightarrow> nat \<Rightarrow> string \<times> string option
    \<Rightarrow> (string \<times> string \<times> string) list" where
  "write_one X existing d entry =
     (case snd entry of None \<Rightarrow> []
      | Some h \<Rightarrow> if action_of (existing (fst entry)) (Some h) = Unchanged then []
          else [(case existing (fst entry) of None \<Rightarrow> new_id X d | Some e \<Rightarrow> er_id e,
                 fst entry, h)])"

definition draws :: "(string \<Rightarrow> existing_resource option) \<Rightarrow> string \<times> string option \<Rightarrow> nat" where
  "draws existing entry = (if action_of (existing (fst entry)) (snd entry) = Created then 1 else 0)"

fun writes ::
  "ext \<Rightarrow> (string \<Rightarrow> existing_resource option) \<Rightarrow> nat \<Rightarrow> (string \<times> string option) list
    \<Rightarrow> (string \<times> string \<times> string) list" where
  "writes X existing d [] = []"
| "writes X existing d (entry # rs) =
     write_one X existing d entry @ writes X existing (d + draws existing entry) rs"

lemma writes_from:
  "(i, name, h) \<in> set (writes X existing d rs) \<Longrightarrow> (name, Some h) \<in> set rs
     \<and> action_of (existing name) (Some h) \<noteq> Unchanged
     \<and> (\<forall>e. existing name = Some e \<longrightarrow> i = er_id e)
     \<and> (existing name = None \<longrightarrow> (\<exists>j\<ge>d. i = new_id X j))"
proof (induction rs arbitrary: d)
  case (Cons entry rs)
  show ?case
  proof (cases "(i, name, h) \<in> set (write_one X existing d entry)")
    case True
    then show ?thesis
      by (cases entry) (auto simp: write_one_def split: option.splits if_splits)
  next
    case False
    with Cons have "(name, Some h) \<in> set rs \<and> action_of (existing name) (Some h) \<noteq> Unchanged
     \<and> (\<forall>e. existing name = Some e \<longrightarrow> i = er_id e)
     \<and> (existing name = None \<longrightarrow> (\<exists>j\<ge>d + draws existing entry. i = new_id X j))" by auto
    moreover have "\<exists>j\<ge>d. i = new_id X j" if "\<exists>j\<ge>d + draws existing entry. i = new_id X j"
    proof -
      from that obtain j where "d + draws existing entry \<le> j" "i = new_id X j" by blast
      then show ?thesis by (intro exI [of _ j]) simp
    qed
    ultimately show ?thesis by auto
  qed
qed simp

lemma writes_in:
  "(name, Some h) \<in> set rs \<Longrightarrow> action_of (existing name) (Some h) \<noteq> Unchanged
     \<Longrightarrow> \<exists>i. (i, name, h) \<in> set (writes X existing d rs)"
proof (induction rs arbitrary: d)
  case (Cons entry rs)
  show ?case
  proof (cases "entry = (name, Some h)")
    case True
    with Cons.prems(2) show ?thesis by (auto simp: write_one_def)
  next
    case False
    with Cons obtain i where "(i, name, h) \<in> set (writes X existing (d + draws existing entry) rs)"
      by fastforce
    then show ?thesis by auto
  qed
qed simp

text \<open>No id is written twice, if ids are fresh and the ids of existing resources differ.\<close>

lemma writes_distinct:
  assumes "distinct (map fst rs)" and inj: "inj (uuid_v4 X)"
    and fresh: "\<And>name e j. existing name = Some e \<Longrightarrow> d \<le> j \<Longrightarrow> er_id e \<noteq> new_id X j"
    and ids: "\<And>name e name' e'. existing name = Some e \<Longrightarrow> existing name' = Some e'
       \<Longrightarrow> er_id e = er_id e' \<Longrightarrow> name = name'"
  shows "distinct (map fst (writes X existing d rs))"
  using assms(1) fresh
proof (induction rs arbitrary: d)
  case (Cons entry rs)
  let ?d = "d + draws existing entry"
  have rest: "distinct (map fst (writes X existing ?d rs))"
    using Cons by (metis distinct.simps(2) list.simps(9) add_leD1)
  have new: "i \<noteq> i'" if one: "(i, m, g) \<in> set (write_one X existing d entry)"
    and "(i', m', g') \<in> set (writes X existing ?d rs)" for i m g i' m' g'
  proof -
    from one have m: "m = fst entry" "snd entry = Some g" "action_of (existing m) (Some g) \<noteq> Unchanged"
      and i: "i = (case existing m of None \<Rightarrow> new_id X d | Some e \<Rightarrow> er_id e)"
      by (auto simp: write_one_def split: option.splits if_splits)
    from writes_from [OF that(2)] have m': "(m', Some g') \<in> set rs"
      and old: "\<And>e. existing m' = Some e \<Longrightarrow> i' = er_id e"
      and drawn: "existing m' = None \<Longrightarrow> \<exists>j\<ge>?d. i' = new_id X j" by blast+
    from Cons.prems(1) have "fst entry \<notin> fst ` set rs" by simp
    with m' m(1) have "m \<noteq> m'" by (auto simp: image_iff)
    show ?thesis
    proof (cases "existing m")
      case None
      with m i have d: "?d = Suc d" "i = new_id X d" by (auto simp: draws_def action_of_def)
      show ?thesis
      proof (cases "existing m'")
        case None
        with drawn obtain j where "j \<ge> ?d" "i' = new_id X j" by blast
        with d inj show ?thesis by (auto simp: new_id_def inj_eq)
      next
        case (Some e)
        with old Cons.prems(2) [OF Some order_refl] d show ?thesis by metis
      qed
    next
      case (Some e)
      with i have ie: "i = er_id e" by simp
      show ?thesis
      proof (cases "existing m'")
        case None
        with drawn obtain j where "j \<ge> ?d" "i' = new_id X j" by blast
        with Cons.prems(2) [OF Some, of j] ie show ?thesis by auto
      next
        case (Some e')
        with old ids [OF \<open>existing m = Some e\<close> Some] \<open>m \<noteq> m'\<close> ie show ?thesis by auto
      qed
    qed
  qed
  have "distinct (map fst (write_one X existing d entry))"
    by (simp add: write_one_def split: option.splits)
  with rest new show ?case by (force simp: image_iff)
qed simp

section \<open>One round\<close>

locale planning_loop =
  fixes step :: "'s \<Rightarrow> string \<times> 'r \<Rightarrow> catalog_error + 's"
    and pl :: "'s \<Rightarrow> plan"
    and rtype :: string
    and X :: ext
    and n :: nat
    and existing :: "string \<Rightarrow> existing_resource option"
    and source :: string
    and wanted :: "string \<times> 'r \<Rightarrow> string \<times> string option"
  assumes wanted_fst: "fst (wanted entry) = fst entry"
    and owned: "step s entry = Inr s' \<Longrightarrow> existing (fst entry) = Some e \<Longrightarrow> owned_by source e"
    and changes: "step s entry = Inr s' \<Longrightarrow>
      p_changes (pl s') = p_changes (pl s) @ [change_of rtype existing (wanted entry)]"
    and orphans: "step s entry = Inr s' \<Longrightarrow> p_orphans (pl s') = p_orphans (pl s)"
    and deletes: "step s entry = Inr s' \<Longrightarrow>
      p_deletes (pl s') = p_deletes (pl s) @ absent_refs rtype existing (wanted entry)"
    and written: "step s entry = Inr s' \<Longrightarrow> upserts t (pl s') = upserts t (pl s)
      @ (if t = rtype then writes X existing (n + p_drawn (pl s)) [wanted entry] else [])"
    and drawn: "step s entry = Inr s' \<Longrightarrow> p_drawn (pl s') = p_drawn (pl s)
      + draws existing (wanted entry)"
begin

lemma loop_owned: "foldE step s rs = Inr s' \<Longrightarrow> entry \<in> set rs \<Longrightarrow> existing (fst entry) = Some e
    \<Longrightarrow> owned_by source e"
  by (induction rs arbitrary: s) (auto simp: result_simps dest: owned)

lemma loop_changes: "foldE step s rs = Inr s' \<Longrightarrow>
    p_changes (pl s') = p_changes (pl s) @ map (\<lambda>r. change_of rtype existing (wanted r)) rs"
  by (induction rs arbitrary: s) (auto simp: result_simps changes)

lemma loop_orphans: "foldE step s rs = Inr s' \<Longrightarrow> p_orphans (pl s') = p_orphans (pl s)"
  by (induction rs arbitrary: s) (auto simp: result_simps orphans)

lemma loop_deletes: "foldE step s rs = Inr s' \<Longrightarrow> p_deletes (pl s') = p_deletes (pl s)
    @ concat (map (\<lambda>r. absent_refs rtype existing (wanted r)) rs)"
  by (induction rs arbitrary: s) (auto simp: result_simps deletes)

lemma loop_drawn: "foldE step s rs = Inr s' \<Longrightarrow> p_drawn (pl s) \<le> p_drawn (pl s')"
proof (induction rs arbitrary: s)
  case (Cons r rs)
  then obtain s1 where "step s r = Inr s1" "foldE step s1 rs = Inr s'" by (auto simp: result_simps)
  with Cons.IH drawn [of s r s1] show ?case by fastforce
qed simp

lemma loop_written: "foldE step s rs = Inr s' \<Longrightarrow> upserts t (pl s') = upserts t (pl s)
    @ (if t = rtype then writes X existing (n + p_drawn (pl s)) (map wanted rs) else [])"
proof (induction rs arbitrary: s)
  case (Cons r rs)
  from Cons.prems obtain s1 where s1: "step s r = Inr s1" "foldE step s1 rs = Inr s'"
    by (auto simp: result_simps)
  with Cons.IH [OF s1(2)] written [OF s1(1), of t] drawn [OF s1(1)] show ?case
    by (auto simp: add.assoc)
qed simp

end

section \<open>The three loops\<close>

lemma classify_present_Inr:
  "classify_present X d ex source h path = Inr (i, act) \<longleftrightarrow> act = action_of ex (Some h)
     \<and> i = (case ex of None \<Rightarrow> new_id X d | Some e \<Rightarrow> er_id e)
     \<and> (\<forall>e. ex = Some e \<longrightarrow> owned_by source e)"
  by (cases ex) (auto simp: classify_present_def action_of_def and_then_Inr ensure_owned_Inr)

lemma plan_absent_Inr:
  "plan_absent rtype name ex source path p = Inr p' \<longleftrightarrow> (\<forall>e. ex = Some e \<longrightarrow> owned_by source e)
     \<and> p' = push_change rtype name (action_of ex None) (p\<lparr>p_deletes := p_deletes p
         @ (case ex of None \<Rightarrow> [] | Some e \<Rightarrow>
             [\<lparr>rr_type = rtype, rr_id = er_id e, rr_name = name\<rparr>])\<rparr>)"
  by (cases ex) (auto simp: plan_absent_def action_of_def and_then_Inr ensure_owned_Inr)

lemma push_change_simps [simp]:
  "p_changes (push_change t m act p)
     = p_changes p @ [\<lparr>ch_type = t, ch_name = m, ch_action = act\<rparr>]"
  "p_deletes (push_change t m act p) = p_deletes p"
  "p_orphans (push_change t m act p) = p_orphans p"
  "p_drawn (push_change t m act p) = p_drawn p"
  "p_credential_upserts (push_change t m act p) = p_credential_upserts p"
  "p_asset_upserts (push_change t m act p) = p_asset_upserts p"
  "p_access_upserts (push_change t m act p) = p_access_upserts p"
  by (simp_all add: push_change_def)

lemma upserts_frame [simp]:
  "upserts t (push_change u m act p) = upserts t p"
  "upserts t (p\<lparr>p_deletes := ds\<rparr>) = upserts t p"
  "upserts t (p\<lparr>p_orphans := os\<rparr>) = upserts t p"
  "upserts t (p\<lparr>p_changes := cs\<rparr>) = upserts t p"
  "upserts t (p\<lparr>p_drawn := d\<rparr>) = upserts t p"
  by (simp_all add: upserts_def)

lemmas round_simps = change_of_def absent_refs_def write_one_def draws_def Let_def

fun credential_wanted :: "ext \<Rightarrow> master_key \<Rightarrow> string \<times> resolved_credential \<Rightarrow> string \<times> string option" where
  "credential_wanted X mk (name, AbsentCredential) = (name, None)"
| "credential_wanted X mk (name, PresentCredential ctype u pw pk pp) =
     (name, Some (credential_hash X name ctype u pw pk pp mk))"

fun asset_wanted :: "ext \<Rightarrow> string \<times> resolved_asset \<Rightarrow> string \<times> string option" where
  "asset_wanted X (name, AbsentAsset) = (name, None)"
| "asset_wanted X (name, PresentAsset atype host port dn de cr) =
     (name, Some (asset_hash X atype host port dn de cr))"

fun access_wanted :: "ext \<Rightarrow> string \<times> resolved_access \<Rightarrow> string \<times> string option" where
  "access_wanted X (name, AbsentAccess) = (name, None)"
| "access_wanted X (name, PresentAccess pk fp en as) =
     (name, Some (access_hash X pk en (map_option sort as)))"

lemma credential_wanted_fst [simp]: "fst (credential_wanted X mk entry) = fst entry"
  by (cases entry; cases "snd entry") simp_all

lemma asset_wanted_fst [simp]: "fst (asset_wanted X entry) = fst entry"
  by (cases entry; cases "snd entry") simp_all

lemma access_wanted_fst [simp]: "fst (access_wanted X entry) = fst entry"
  by (cases entry; cases "snd entry") simp_all

text \<open>What a round does to a plan that gets one more change, deletion or row.\<close>

definition round_effect ::
  "string \<Rightarrow> ext \<Rightarrow> nat \<Rightarrow> (string \<Rightarrow> existing_resource option) \<Rightarrow> string
    \<Rightarrow> string \<times> string option \<Rightarrow> plan \<Rightarrow> plan \<Rightarrow> bool" where
  "round_effect rtype X n existing source entry p p' \<longleftrightarrow>
     (\<forall>e. existing (fst entry) = Some e \<longrightarrow> owned_by source e)
     \<and> p_changes p' = p_changes p @ [change_of rtype existing entry]
     \<and> p_orphans p' = p_orphans p
     \<and> p_deletes p' = p_deletes p @ absent_refs rtype existing entry
     \<and> (\<forall>t. upserts t p' = upserts t p
          @ (if t = rtype then writes X existing (n + p_drawn p) [entry] else []))
     \<and> p_drawn p' = p_drawn p + draws existing entry"

lemma round_absent:
  assumes "plan_absent rtype name (existing name) source path p = Inr p'"
  shows "round_effect rtype X n existing source (name, None) p p'"
proof (cases "existing name")
  case None
  with assms show ?thesis
    by (simp add: plan_absent_Inr round_effect_def round_simps action_of_def)
next
  case (Some e)
  with assms show ?thesis
    by (simp add: plan_absent_Inr round_effect_def round_simps action_of_def)
qed

text \<open>The plan of a present resource, before its row is appended.\<close>

lemma round_present:
  assumes cl: "classify_present X (n + p_drawn p) (existing name) source h path = Inr (i, act)"
    and p1: "p1 = push_change rtype name act (if act = Created then p\<lparr>p_drawn := p_drawn p + 1\<rparr> else p)"
    and same: "p_changes p' = p_changes p1" "p_orphans p' = p_orphans p1"
      "p_deletes p' = p_deletes p1" "p_drawn p' = p_drawn p1"
    and up: "\<And>t. upserts t p' = upserts t p1
      @ (if t = rtype \<and> act \<noteq> Unchanged then [(i, name, h)] else [])"
  shows "round_effect rtype X n existing source (name, Some h) p p'"
proof -
  from cl have act: "act = action_of (existing name) (Some h)"
    and i: "i = (case existing name of None \<Rightarrow> new_id X (n + p_drawn p) | Some e \<Rightarrow> er_id e)"
    and own: "\<forall>e. existing name = Some e \<longrightarrow> owned_by source e"
    by (simp_all add: classify_present_Inr)
  from own show ?thesis
    by (auto simp: round_effect_def round_simps same up p1 act i)
qed

lemma plan_credential_round:
  assumes "plan_credential X n mk source ex s entry = Inr s'"
  shows "round_effect ''credential'' X n (bt_get ex) source (credential_wanted X mk entry)
    (fst s) (fst s')"
proof (cases "snd entry")
  case AbsentCredential
  with assms obtain path where
    "plan_absent ''credential'' (fst entry) (bt_get ex (fst entry)) source path (fst s) = Inr (fst s')"
    by (auto simp: plan_credential_def Let_def and_then_Inr)
  from round_absent [where existing = "bt_get ex", OF this] AbsentCredential show ?thesis
    by (cases entry) simp
next
  case (PresentCredential ctype u pw pk pp)
  let ?h = "credential_hash X (fst entry) ctype u pw pk pp mk"
  from assms PresentCredential obtain i act path where
    cl: "classify_present X (n + p_drawn (fst s)) (bt_get ex (fst entry)) source ?h path = Inr (i, act)"
    and s': "fst s' = (let p1 = push_change ''credential'' (fst entry) act
        (if act = Created then (fst s)\<lparr>p_drawn := p_drawn (fst s) + 1\<rparr> else fst s) in
        if act \<noteq> Unchanged then p1\<lparr>p_credential_upserts := p_credential_upserts p1 @
          [\<lparr>cu_id = i, cu_name = fst entry, cu_type = ctype, cu_username = u, cu_password = pw,
            cu_private_key = pk, cu_passphrase = pp, cu_hash = ?h\<rparr>]\<rparr> else p1)"
    by (auto simp: plan_credential_def Let_def and_then_Inr)
  from cl have "round_effect ''credential'' X n (bt_get ex) source (fst entry, Some ?h) (fst s) (fst s')"
    by (rule round_present [OF _ refl]) (auto simp: s' Let_def upserts_def)
  with PresentCredential show ?thesis by (cases entry) simp
qed

lemma plan_asset_round:
  assumes "plan_asset X n source ex ids s entry = Inr s'"
  shows "round_effect ''asset'' X n (bt_get (bt_map ea_resource ex)) source (asset_wanted X entry)
    (fst s) (fst s')"
proof (cases "snd entry")
  case AbsentAsset
  with assms obtain path where "plan_absent ''asset'' (fst entry)
      (bt_get (bt_map ea_resource ex) (fst entry)) source path (fst s) = Inr (fst s')"
    by (auto simp: plan_asset_def Let_def and_then_Inr bt_get_map)
  from round_absent [where existing = "bt_get (bt_map ea_resource ex)", OF this] AbsentAsset
  show ?thesis by (cases entry) simp
next
  case (PresentAsset atype host port dn de cr)
  let ?h = "asset_hash X atype host port dn de cr"
  define cid where "cid = (case cr of None \<Rightarrow> None | Some c \<Rightarrow> bt_get ids c)"
  have nc: "\<not> (cr \<noteq> None \<and> cid = None)"
  proof
    assume "cr \<noteq> None \<and> cid = None"
    then obtain c where "cr = Some c" "bt_get ids c = None" by (auto simp: cid_def)
    with assms PresentAsset show False by (simp add: plan_asset_def Let_def)
  qed
  from assms have "and_then (classify_present X (n + p_drawn (fst s))
        (map_option ea_resource (bt_get ex (fst entry))) source ?h (''assets.'' @ fst entry))
      (\<lambda>(i, action). let p' = push_change ''asset'' (fst entry) action
          (if action = Created then (fst s)\<lparr>p_drawn := p_drawn (fst s) + 1\<rparr> else fst s) in
        Inr (if action \<noteq> Unchanged then p'\<lparr>p_asset_upserts := p_asset_upserts p' @
          [\<lparr>au_id = i, au_name = fst entry, au_type = atype, au_host = host, au_port = port,
            au_display_name = dn, au_description = de, au_credential_id = cid,
            au_hash = ?h\<rparr>]\<rparr> else p', bt_insert (fst entry) i (snd s))) = Inr s'"
    unfolding plan_asset_def Let_def PresentAsset resolved_asset.case cid_def [symmetric]
      if_not_P [OF nc] .
  then obtain i act where
    cl: "classify_present X (n + p_drawn (fst s)) (bt_get (bt_map ea_resource ex) (fst entry))
      source ?h (''assets.'' @ fst entry) = Inr (i, act)"
    and s': "fst s' = (let p1 = push_change ''asset'' (fst entry) act
        (if act = Created then (fst s)\<lparr>p_drawn := p_drawn (fst s) + 1\<rparr> else fst s) in
        if act \<noteq> Unchanged then p1\<lparr>p_asset_upserts := p_asset_upserts p1 @
          [\<lparr>au_id = i, au_name = fst entry, au_type = atype, au_host = host, au_port = port,
            au_display_name = dn, au_description = de, au_credential_id = cid,
            au_hash = ?h\<rparr>]\<rparr> else p1)"
    by (auto simp: and_then_Inr bt_get_map Let_def)
  from cl have "round_effect ''asset'' X n (bt_get (bt_map ea_resource ex)) source
      (fst entry, Some ?h) (fst s) (fst s')"
    by (rule round_present [OF _ refl]) (auto simp: s' Let_def upserts_def)
  with PresentAsset show ?thesis by (cases entry) simp
qed

lemma plan_access_round:
  assumes "plan_access X n source ex ids p entry = Inr p'"
  shows "round_effect ''access_key'' X n (bt_get ex) source (access_wanted X entry) p p'"
proof (cases "snd entry")
  case AbsentAccess
  with assms obtain path where
    "plan_absent ''access_key'' (fst entry) (bt_get ex (fst entry)) source path p = Inr p'"
    by (auto simp: plan_access_def Let_def)
  from round_absent [where existing = "bt_get ex", OF this] AbsentAccess show ?thesis
    by (cases entry) simp
next
  case (PresentAccess pk fp en as)
  let ?h = "access_hash X pk en (map_option sort as)"
  from assms PresentAccess obtain i act path aids where
    cl: "classify_present X (n + p_drawn p) (bt_get ex (fst entry)) source ?h path = Inr (i, act)"
    and p': "p' = (let p1 = push_change ''access_key'' (fst entry) act
        (if act = Created then p\<lparr>p_drawn := p_drawn p + 1\<rparr> else p) in
        if act \<noteq> Unchanged then p1\<lparr>p_access_upserts := p_access_upserts p1 @
          [\<lparr>xu_id = i, xu_name = fst entry, xu_public_key = pk, xu_fingerprint = fp,
            xu_enabled = en, xu_asset_ids = aids, xu_hash = ?h\<rparr>]\<rparr> else p1)"
    by (auto simp: plan_access_def Let_def and_then_Inr)
  from cl have "round_effect ''access_key'' X n (bt_get ex) source (fst entry, Some ?h) p p'"
    by (rule round_present [OF _ refl]) (auto simp: p' Let_def upserts_def)
  with PresentAccess show ?thesis by (cases entry) simp
qed

lemma planning_loopI:
  assumes "\<And>entry. fst (wanted entry) = fst entry"
    and "\<And>s entry s'. step s entry = Inr s'
      \<Longrightarrow> round_effect rtype X n existing source (wanted entry) (pl s) (pl s')"
  shows "planning_loop step pl rtype X n existing source wanted"
  using assms by unfold_locales (auto simp: round_effect_def)

interpretation credential_plan: planning_loop "plan_credential X n mk source ex" fst
    "''credential''" X n "bt_get ex" source "credential_wanted X mk" for X n mk source ex
  by (rule planning_loopI) (simp, rule plan_credential_round)

interpretation asset_plan: planning_loop "plan_asset X n source ex ids" fst
    "''asset''" X n "bt_get (bt_map ea_resource ex)" source "asset_wanted X" for X n source ex ids
  by (rule planning_loopI) (simp, rule plan_asset_round)

interpretation access_plan: planning_loop "plan_access X n source ex ids" id
    "''access_key''" X n "bt_get ex" source "access_wanted X" for X n source ex ids
  by (rule planning_loopI) (simp, simp add: plan_access_round)

end
