(* ===== verification/Plan_Spec.thy ===== *)
theory Plan_Spec
  imports Plan_Facts
begin

text \<open>
  The specification of \<open>build_plan\<close>: per resource type, the rows it writes are \<open>writes\<close> of the
  declared names, the rows it deletes are those declared absent and, with pruning, those the
  source owns and no longer mentions; the latter are orphaned when pruning is off.
\<close>

section \<open>Resources no longer mentioned\<close>

definition unmentioned ::
  "existing_resource btree \<Rightarrow> string list \<Rightarrow> string \<Rightarrow> (string \<times> existing_resource) list" where
  "unmentioned existing mentioned source =
     filter (\<lambda>(m, e). er_source_id e = Some source \<and> m \<notin> set mentioned) existing"

definition ref_of :: "string \<Rightarrow> string \<times> existing_resource \<Rightarrow> resource_ref" where
  "ref_of rtype entry = \<lparr>rr_type = rtype, rr_id = er_id (snd entry), rr_name = fst entry\<rparr>"

definition missing_change :: "string \<Rightarrow> bool \<Rightarrow> string \<times> existing_resource \<Rightarrow> apply_change" where
  "missing_change rtype prune entry = \<lparr>ch_type = rtype, ch_name = fst entry,
     ch_action = (if prune then Deleted
       else if er_orphaned_at (snd entry) = None then Orphaned else Unchanged)\<rparr>"

definition delete_refs ::
  "string \<Rightarrow> existing_resource btree \<Rightarrow> string list \<Rightarrow> string \<Rightarrow> bool \<Rightarrow> resource_ref list" where
  "delete_refs rtype existing mentioned source prune =
     (if prune then map (ref_of rtype) (unmentioned existing mentioned source) else [])"

definition orphan_refs ::
  "string \<Rightarrow> existing_resource btree \<Rightarrow> string list \<Rightarrow> string \<Rightarrow> bool \<Rightarrow> resource_ref list" where
  "orphan_refs rtype existing mentioned source prune =
     (if prune then [] else map (ref_of rtype)
        (filter (\<lambda>(m, e). er_orphaned_at e = None) (unmentioned existing mentioned source)))"

lemma plan_missing_effect:
  "upserts t (plan_missing rtype existing mentioned source prune p) = upserts t p"
  "p_drawn (plan_missing rtype existing mentioned source prune p) = p_drawn p"
  "p_deletes (plan_missing rtype existing mentioned source prune p)
     = p_deletes p @ delete_refs rtype existing mentioned source prune"
  "p_orphans (plan_missing rtype existing mentioned source prune p)
     = p_orphans p @ orphan_refs rtype existing mentioned source prune"
  "p_changes (plan_missing rtype existing mentioned source prune p) = p_changes p
     @ map (missing_change rtype prune) (unmentioned existing mentioned source)"
proof -
  let ?new = "\<lambda>p existing. plan_missing rtype existing mentioned source prune p"
  have "upserts t (?new p existing) = upserts t p \<and> p_drawn (?new p existing) = p_drawn p
      \<and> p_deletes (?new p existing) = p_deletes p @ delete_refs rtype existing mentioned source prune
      \<and> p_orphans (?new p existing) = p_orphans p @ orphan_refs rtype existing mentioned source prune
      \<and> p_changes (?new p existing) = p_changes p
          @ map (missing_change rtype prune) (unmentioned existing mentioned source)"
  proof (induction existing arbitrary: p)
    case Nil
    show ?case by (simp add: plan_missing_def delete_refs_def orphan_refs_def unmentioned_def)
  next
    case (Cons entry existing)
    have step: "?new p (entry # existing)
        = ?new (plan_missing_one rtype mentioned source prune p entry) existing"
      by (simp add: plan_missing_def)
    show ?case
      unfolding step
      using Cons.IH [of "plan_missing_one rtype mentioned source prune p entry"]
      by (cases entry) (simp add: plan_missing_one_def delete_refs_def orphan_refs_def
          unmentioned_def ref_of_def missing_change_def Let_def)
  qed
  then show "upserts t (?new p existing) = upserts t p" "p_drawn (?new p existing) = p_drawn p"
    "p_deletes (?new p existing) = p_deletes p @ delete_refs rtype existing mentioned source prune"
    "p_orphans (?new p existing) = p_orphans p @ orphan_refs rtype existing mentioned source prune"
    "p_changes (?new p existing) = p_changes p
      @ map (missing_change rtype prune) (unmentioned existing mentioned source)"
    by blast+
qed

section \<open>What a manifest declares\<close>

definition declared :: "string \<Rightarrow> ext \<Rightarrow> master_key \<Rightarrow> resolved_manifest \<Rightarrow> (string \<times> string option) list" where
  "declared rtype X mk r =
     (if rtype = ''credential'' then map (credential_wanted X mk) (r_credentials r)
      else if rtype = ''asset'' then map (asset_wanted X) (r_assets r)
      else map (access_wanted X) (r_access r))"

definition mentioned_of :: "string \<Rightarrow> resolved_manifest \<Rightarrow> string list" where
  "mentioned_of rtype r =
     (if rtype = ''credential'' then bt_keys (r_credentials r)
      else if rtype = ''asset'' then bt_keys (r_assets r) else bt_keys (r_access r))"

lemma fst_declared [simp]: "map fst (declared t X mk r) = mentioned_of t r"
  by (simp add: declared_def mentioned_of_def bt_keys_def comp_def)

lemma declared_names [simp]: "fst ` set (declared t X mk r) = set (mentioned_of t r)"
  by (metis fst_declared list.set_map)

definition existing_tree :: "string \<Rightarrow> catalog \<Rightarrow> existing_resource btree" where
  "existing_tree rtype db =
     (if rtype = ''credential'' then load_credentials db
      else if rtype = ''asset'' then bt_map ea_resource (load_assets db)
      else load_access db)"

lemma bt_get_existing_tree: "bt_get (existing_tree t db) = existing_of t db"
  by (simp add: existing_tree_def existing_of_def)

lemma bt_ok_existing_tree [simp]: "bt_ok (existing_tree t db)"
  by (simp add: existing_tree_def load_credentials_def load_assets_def load_access_def)

lemma existing_tree_in: "(m, e) \<in> set (existing_tree t db) \<longleftrightarrow> existing_of t db m = Some e"
  using bt_get_in_set [OF bt_ok_existing_tree, of t db m e] by (simp add: bt_get_existing_tree)

section \<open>The plan\<close>

definition plan_for ::
  "ext \<Rightarrow> nat \<Rightarrow> catalog \<Rightarrow> resolved_manifest \<Rightarrow> string \<Rightarrow> master_key \<Rightarrow> bool \<Rightarrow> plan \<Rightarrow> bool" where
  "plan_for X n db r source mk prune p \<longleftrightarrow>
     build_plan X n (load_credentials db) (load_assets db) (load_access db) r source mk prune = Inr p"

definition type_deletes ::
  "string \<Rightarrow> ext \<Rightarrow> catalog \<Rightarrow> resolved_manifest \<Rightarrow> string \<Rightarrow> master_key \<Rightarrow> bool \<Rightarrow> resource_ref list" where
  "type_deletes t X db r source mk prune =
     concat (map (absent_refs t (existing_of t db)) (declared t X mk r))
     @ delete_refs t (existing_tree t db) (mentioned_of t r) source prune"

definition type_orphans ::
  "string \<Rightarrow> catalog \<Rightarrow> resolved_manifest \<Rightarrow> string \<Rightarrow> bool \<Rightarrow> resource_ref list" where
  "type_orphans t db r source prune =
     orphan_refs t (existing_tree t db) (mentioned_of t r) source prune"

definition type_changes ::
  "string \<Rightarrow> ext \<Rightarrow> catalog \<Rightarrow> resolved_manifest \<Rightarrow> string \<Rightarrow> master_key \<Rightarrow> bool \<Rightarrow> apply_change list" where
  "type_changes t X db r source mk prune =
     map (change_of t (existing_of t db)) (declared t X mk r)
     @ map (missing_change t prune) (unmentioned (existing_tree t db) (mentioned_of t r) source)"

text \<open>The plan, as a function of what exists and what is declared.\<close>

lemma plan_for_parts:
  assumes "plan_for X n db r source mk prune p"
  obtains d1 d2 where
    "upserts ''credential'' p
       = writes X (existing_of ''credential'' db) n (declared ''credential'' X mk r)"
    "upserts ''asset'' p
       = writes X (existing_of ''asset'' db) (n + d1) (declared ''asset'' X mk r)"
    "upserts ''access_key'' p
       = writes X (existing_of ''access_key'' db) (n + d2) (declared ''access_key'' X mk r)"
    "p_deletes p = type_deletes ''credential'' X db r source mk prune
       @ type_deletes ''asset'' X db r source mk prune
       @ type_deletes ''access_key'' X db r source mk prune"
    "p_orphans p = type_orphans ''credential'' db r source prune
       @ type_orphans ''asset'' db r source prune @ type_orphans ''access_key'' db r source prune"
    "p_changes p = order_by change_le (type_changes ''credential'' X db r source mk prune
       @ type_changes ''asset'' X db r source mk prune
       @ type_changes ''access_key'' X db r source mk prune)"
    "\<forall>t m e. row_type t \<longrightarrow> m \<in> set (mentioned_of t r) \<longrightarrow> existing_of t db m = Some e
       \<longrightarrow> owned_by source e"
    "validate_references r True
       (final_credential_names (load_credentials db) r source prune)
       (final_asset_names (existing_tree ''asset'' db) r source prune) = Inr ()"
proof -
  let ?pm = "\<lambda>t. plan_missing t (existing_tree t db) (mentioned_of t r) source prune"
  from assms obtain s1 s3 p5 cids aids where
    refs: "validate_references r True
       (final_credential_names (load_credentials db) r source prune)
       (final_asset_names (existing_tree ''asset'' db) r source prune) = Inr ()"
    and 1: "foldE (plan_credential X n mk source (load_credentials db))
      (empty_plan, bt_map er_id (load_credentials db)) (r_credentials r) = Inr s1"
    and 3: "foldE (plan_asset X n source (load_assets db) cids)
      (?pm ''credential'' (fst s1), bt_map ea_id (load_assets db)) (r_assets r) = Inr s3"
    and 5: "foldE (plan_access X n source (load_access db) aids) (?pm ''asset'' (fst s3))
      (r_access r) = Inr p5"
    and p: "p = (?pm ''access_key'' p5)\<lparr>p_changes := order_by change_le
      (p_changes (?pm ''access_key'' p5))\<rparr>"
    unfolding plan_for_def build_plan_def
    by (auto simp: and_then_Inr Let_def existing_tree_def mentioned_of_def)
  have ex: "bt_get (load_credentials db) = existing_of ''credential'' db"
    "bt_get (bt_map ea_resource (load_assets db)) = existing_of ''asset'' db"
    "bt_get (load_access db) = existing_of ''access_key'' db"
    by (simp_all add: existing_of_def)
  have dec: "map (credential_wanted X mk) (r_credentials r) = declared ''credential'' X mk r"
    "map (asset_wanted X) (r_assets r) = declared ''asset'' X mk r"
    "map (access_wanted X) (r_access r) = declared ''access_key'' X mk r"
    by (simp_all add: declared_def)
  have dec_map: "map (\<lambda>x. f (credential_wanted X mk x)) (r_credentials r)
      = map f (declared ''credential'' X mk r)"
    "map (\<lambda>x. f (asset_wanted X x)) (r_assets r) = map f (declared ''asset'' X mk r)"
    "map (\<lambda>x. f (access_wanted X x)) (r_access r) = map f (declared ''access_key'' X mk r)" for f
    by (simp_all add: declared_def comp_def)
  have dec_concat: "map (\<lambda>x. g (credential_wanted X mk x)) (r_credentials r)
      = map g (declared ''credential'' X mk r)"
    "map (\<lambda>x. g (asset_wanted X x)) (r_assets r) = map g (declared ''asset'' X mk r)"
    "map (\<lambda>x. g (access_wanted X x)) (r_access r) = map g (declared ''access_key'' X mk r)" for g
    by (simp_all add: declared_def comp_def)
  have e: "upserts t empty_plan = []" "p_deletes empty_plan = []" "p_orphans empty_plan = []"
    "p_changes empty_plan = []" "p_drawn empty_plan = 0" for t
    by (simp_all add: empty_plan_def upserts_def)
  note c = credential_plan.loop_written [OF 1] credential_plan.loop_deletes [OF 1]
    credential_plan.loop_orphans [OF 1] credential_plan.loop_changes [OF 1]
  note a = asset_plan.loop_written [OF 3] asset_plan.loop_deletes [OF 3]
    asset_plan.loop_orphans [OF 3] asset_plan.loop_changes [OF 3]
  note k = access_plan.loop_written [OF 5] access_plan.loop_deletes [OF 5]
    access_plan.loop_orphans [OF 5] access_plan.loop_changes [OF 5]
  note up = c(1) a(1) k(1)
  note cs = c(2-4) a(2-4) k(2-4)
  show thesis
  proof (rule that)
    show "upserts ''credential'' p
       = writes X (existing_of ''credential'' db) n (declared ''credential'' X mk r)"
      using up [of "''credential''"] by (simp add: p plan_missing_effect e ex dec)
    show "upserts ''asset'' p
       = writes X (existing_of ''asset'' db) (n + p_drawn (fst s1)) (declared ''asset'' X mk r)"
      using up [of "''asset''"] by (simp add: p plan_missing_effect e ex dec)
    show "upserts ''access_key'' p
       = writes X (existing_of ''access_key'' db) (n + p_drawn (fst s3)) (declared ''access_key'' X mk r)"
      using up [of "''access_key''"] by (simp add: p plan_missing_effect e ex dec)
    show "p_deletes p = type_deletes ''credential'' X db r source mk prune
       @ type_deletes ''asset'' X db r source mk prune
       @ type_deletes ''access_key'' X db r source mk prune"
      using cs by (simp add: p plan_missing_effect e ex type_deletes_def dec_concat)
    show "p_orphans p = type_orphans ''credential'' db r source prune
       @ type_orphans ''asset'' db r source prune @ type_orphans ''access_key'' db r source prune"
      using cs by (simp add: p plan_missing_effect e type_orphans_def)
    show "p_changes p = order_by change_le (type_changes ''credential'' X db r source mk prune
       @ type_changes ''asset'' X db r source mk prune
       @ type_changes ''access_key'' X db r source mk prune)"
      using cs by (simp add: p plan_missing_effect e ex type_changes_def dec_map)
    show "\<forall>t m e. row_type t \<longrightarrow> m \<in> set (mentioned_of t r) \<longrightarrow> existing_of t db m = Some e
       \<longrightarrow> owned_by source e"
      using credential_plan.loop_owned [OF 1] asset_plan.loop_owned [OF 3]
        access_plan.loop_owned [OF 5]
      by (auto simp: row_type_def mentioned_of_def bt_keys_def ex)
    show "validate_references r True
       (final_credential_names (load_credentials db) r source prune)
       (final_asset_names (existing_tree ''asset'' db) r source prune) = Inr ()"
      by (rule refs)
  qed
qed

end
