(* ===== verification/Manifest_Facts.thy ===== *)
theory Manifest_Facts
  imports Manifest
begin

text \<open>
  Merging and resolving manifests. A merge is the disjoint union of its files, and fails exactly
  when there is none, one has another API version, or two declare the same name; resolution
  yields material of the declared shape.
\<close>

section \<open>Merging\<close>

definition manifest_ok :: "manifest \<Rightarrow> bool" where
  "manifest_ok m \<longleftrightarrow> bt_ok (m_credentials m) \<and> bt_ok (m_assets m) \<and> bt_ok (m_access m)"

lemma merge_resources_Inr:
  assumes "merge_resources kind t src = Inr t'" and "bt_ok t"
  shows "bt_ok t' \<and> (\<forall>n \<in> fst ` set src. bt_get t n = None)
    \<and> (\<forall>n v. bt_get t' n = Some v \<longleftrightarrow> bt_get t n = Some v \<or> (n, v) \<in> set src)"
  using assms
proof (induction src arbitrary: t)
  case Nil
  then show ?case by (simp add: merge_resources_def)
next
  case (Cons entry src)
  obtain n v where e: "entry = (n, v)" by (cases entry)
  from Cons.prems(1) have new: "bt_get t n = None"
    and rest: "merge_resources kind (bt_insert n v t) src = Inr t'"
    by (auto simp: merge_resources_def e split: if_splits)
  have ok: "bt_ok (bt_insert n v t)" by (rule bt_ok_insert [OF Cons.prems(2)])
  note IH = Cons.IH [OF rest ok]
  note get = bt_get_insert [OF Cons.prems(2), of n v]
  have free: "bt_get t m = None \<and> m \<noteq> n" if "m \<in> fst ` set src" for m
    using IH that by (auto simp: get split: if_splits)
  have "bt_get t' m = Some w \<longleftrightarrow> bt_get t m = Some w \<or> (m, w) \<in> set (entry # src)" for m w
    using IH new by (auto simp: get e split: if_splits)
  with IH free new show ?case by (auto simp: e)
qed

lemma merge_resources_total:
  assumes "bt_ok t" and "distinct (map fst src)" and "\<forall>n \<in> fst ` set src. bt_get t n = None"
  shows "\<exists>t'. merge_resources kind t src = Inr t'"
  using assms
proof (induction src arbitrary: t)
  case Nil
  then show ?case by (simp add: merge_resources_def)
next
  case (Cons entry src)
  obtain n v where e: "entry = (n, v)" by (cases entry)
  have "\<exists>t'. merge_resources kind (bt_insert n v t) src = Inr t'"
  proof (rule Cons.IH)
    show "bt_ok (bt_insert n v t)" by (rule bt_ok_insert [OF Cons.prems(1)])
    show "distinct (map fst src)" using Cons.prems(2) by simp
    show "\<forall>m \<in> fst ` set src. bt_get (bt_insert n v t) m = None"
      using Cons.prems by (auto simp: bt_get_insert e)
  qed
  with Cons.prems(3) show ?case by (simp add: merge_resources_def e)
qed

text \<open>Two manifests that declare nothing in common.\<close>

definition disjoint_manifests :: "manifest \<Rightarrow> manifest \<Rightarrow> bool" where
  "disjoint_manifests m m' \<longleftrightarrow> set (bt_keys (m_credentials m)) \<inter> set (bt_keys (m_credentials m')) = {}
     \<and> set (bt_keys (m_assets m)) \<inter> set (bt_keys (m_assets m')) = {}
     \<and> set (bt_keys (m_access m)) \<inter> set (bt_keys (m_access m')) = {}"

text \<open>\<open>m\<close> holds what \<open>a\<close> holds and what the members of \<open>ms\<close> hold.\<close>

definition union_of :: "manifest \<Rightarrow> manifest list \<Rightarrow> manifest \<Rightarrow> bool" where
  "union_of a ms m \<longleftrightarrow>
     (\<forall>n v. bt_get (m_credentials m) n = Some v
        \<longleftrightarrow> (\<exists>x \<in> set (a # ms). bt_get (m_credentials x) n = Some v))
     \<and> (\<forall>n v. bt_get (m_assets m) n = Some v
        \<longleftrightarrow> (\<exists>x \<in> set (a # ms). bt_get (m_assets x) n = Some v))
     \<and> (\<forall>n v. bt_get (m_access m) n = Some v
        \<longleftrightarrow> (\<exists>x \<in> set (a # ms). bt_get (m_access x) n = Some v))"

lemma bt_keys_set: "set (bt_keys m) = fst ` set m"
  by (simp add: bt_keys_def)

lemma bt_keys_Some: "n \<in> set (bt_keys m) \<longleftrightarrow> bt_get m n \<noteq> None"
  using bt_get_None [of m n] by metis

lemma keys_disjoint:
  "set (bt_keys a) \<inter> set (bt_keys b) = {} \<longleftrightarrow> (\<forall>n \<in> fst ` set b. bt_get a n = None)"
  unfolding bt_get_None bt_keys_def disjoint_iff set_map by blast

lemma merge_one_Inr:
  assumes "merge_one a x = Inr m" and "manifest_ok a" and "manifest_ok x"
  shows "manifest_ok m" "m_api_version x = manifest_api_version" "disjoint_manifests a x"
    "union_of a [x] m" "m_api_version m = m_api_version a"
proof -
  from assms(1) obtain cs as xs where api: "check_api_version x = Inr ()"
    and c: "merge_resources ''credentials'' (m_credentials a) (m_credentials x) = Inr cs"
    and s: "merge_resources ''assets'' (m_assets a) (m_assets x) = Inr as"
    and k: "merge_resources ''access'' (m_access a) (m_access x) = Inr xs"
    and m: "m = a\<lparr>m_credentials := cs, m_assets := as, m_access := xs\<rparr>"
    by (auto simp: merge_one_def and_then_Inr)
  note facts = merge_resources_Inr [OF c] merge_resources_Inr [OF s] merge_resources_Inr [OF k]
  have ok: "bt_ok (m_credentials a)" "bt_ok (m_assets a)" "bt_ok (m_access a)"
    and okx: "bt_ok (m_credentials x)" "bt_ok (m_assets x)" "bt_ok (m_access x)"
    using assms(2,3) by (simp_all add: manifest_ok_def)
  show "manifest_ok m" using facts ok by (simp add: manifest_ok_def m)
  show "m_api_version m = m_api_version a" by (simp add: m)
  show "m_api_version x = manifest_api_version" using api by (simp add: check_api_version_def check_Inr)
  show "disjoint_manifests a x"
    using facts(1) [OF ok(1)] facts(2) [OF ok(2)] facts(3) [OF ok(3)]
    unfolding disjoint_manifests_def keys_disjoint by (elim conjE) (intro conjI; assumption)
  show "union_of a [x] m"
    using facts(1) [OF ok(1)] facts(2) [OF ok(2)] facts(3) [OF ok(3)] okx
    by (simp add: union_of_def m bt_get_in_set)
qed

lemma merge_one_total:
  assumes "manifest_ok a" and "manifest_ok x" and "m_api_version x = manifest_api_version"
    and "disjoint_manifests a x"
  shows "\<exists>m. merge_one a x = Inr m"
proof -
  have ok: "bt_ok (m_credentials a)" "bt_ok (m_assets a)" "bt_ok (m_access a)"
    and d: "distinct (map fst (m_credentials x))" "distinct (map fst (m_assets x))"
      "distinct (map fst (m_access x))"
    using assms(1,2) by (auto simp: manifest_ok_def intro: bt_ok_distinct)
  have free: "\<forall>n \<in> fst ` set (m_credentials x). bt_get (m_credentials a) n = None"
    "\<forall>n \<in> fst ` set (m_assets x). bt_get (m_assets a) n = None"
    "\<forall>n \<in> fst ` set (m_access x). bt_get (m_access a) n = None"
    using assms(4) by (simp_all only: disjoint_manifests_def keys_disjoint) (elim conjE, assumption)+
  from merge_resources_total [OF ok(1) d(1) free(1), of "''credentials''"]
    merge_resources_total [OF ok(2) d(2) free(2), of "''assets''"]
    merge_resources_total [OF ok(3) d(3) free(3), of "''access''"] assms(3)
  show ?thesis by (auto simp: merge_one_def check_api_version_def)
qed

lemma union_disjoint:
  assumes "union_of a [x] m"
  shows "disjoint_manifests m y \<longleftrightarrow> disjoint_manifests a y \<and> disjoint_manifests x y"
proof -
  have "set (bt_keys (m_credentials m)) = set (bt_keys (m_credentials a)) \<union> set (bt_keys (m_credentials x))"
    "set (bt_keys (m_assets m)) = set (bt_keys (m_assets a)) \<union> set (bt_keys (m_assets x))"
    "set (bt_keys (m_access m)) = set (bt_keys (m_access a)) \<union> set (bt_keys (m_access x))"
    using assms unfolding union_of_def set_eq_iff bt_keys_Some Un_iff
    by (simp_all, (metis not_Some_eq)+)
  then show ?thesis unfolding disjoint_manifests_def by blast
qed

lemma union_of_trans: "union_of a [x] b \<Longrightarrow> union_of b ms m \<Longrightarrow> union_of a (x # ms) m"
  by (simp add: union_of_def)

text \<open>The fold over the files, from any accumulator.\<close>

lemma merge_fold_Inr:
  assumes "foldE merge_one a ms = Inr m" and "manifest_ok a" and "\<forall>x \<in> set ms. manifest_ok x"
  shows "manifest_ok m \<and> union_of a ms m \<and> sorted_wrt disjoint_manifests ms
    \<and> (\<forall>x \<in> set ms. m_api_version x = manifest_api_version \<and> disjoint_manifests a x)"
  using assms
proof (induction ms arbitrary: a)
  case Nil
  then show ?case by (simp add: union_of_def)
next
  case (Cons x ms)
  from Cons.prems(1) obtain b where b: "merge_one a x = Inr b" and f: "foldE merge_one b ms = Inr m"
    by (auto simp: and_then_Inr)
  have okx: "manifest_ok x" using Cons.prems(3) by simp
  note one = merge_one_Inr [OF b Cons.prems(2) okx]
  have "manifest_ok m \<and> union_of b ms m \<and> sorted_wrt disjoint_manifests ms
    \<and> (\<forall>x \<in> set ms. m_api_version x = manifest_api_version \<and> disjoint_manifests b x)"
    using Cons.IH [OF f one(1)] Cons.prems(3) by simp
  with one union_disjoint [OF one(4)] union_of_trans [OF one(4)] show ?case by auto
qed

lemma merge_fold_total:
  assumes "manifest_ok a" and "\<forall>x \<in> set ms. manifest_ok x" and "sorted_wrt disjoint_manifests ms"
    and "\<forall>x \<in> set ms. m_api_version x = manifest_api_version \<and> disjoint_manifests a x"
  shows "\<exists>m. foldE merge_one a ms = Inr m"
  using assms
proof (induction ms arbitrary: a)
  case (Cons x ms)
  obtain b where b: "merge_one a x = Inr b"
    using merge_one_total [of a x] Cons.prems by auto
  note one = merge_one_Inr [OF b Cons.prems(1)]
  have okx: "manifest_ok x" using Cons.prems(2) by simp
  have "\<exists>m. foldE merge_one b ms = Inr m"
  proof (rule Cons.IH)
    show "manifest_ok b" by (rule one(1) [OF okx])
    show "\<forall>x \<in> set ms. manifest_ok x" using Cons.prems(2) by simp
    show "sorted_wrt disjoint_manifests ms" using Cons.prems(3) by simp
    show "\<forall>y \<in> set ms. m_api_version y = manifest_api_version \<and> disjoint_manifests b y"
      using Cons.prems(3,4) union_disjoint [OF one(4) [OF okx]] by simp
  qed
  with b show ?case by simp
qed simp

lemma empty_manifest_facts [simp]: "manifest_ok empty_manifest" "disjoint_manifests empty_manifest x"
  by (simp_all add: manifest_ok_def empty_manifest_def disjoint_manifests_def bt_keys_def)

lemma union_of_empty: "union_of empty_manifest ms m \<longleftrightarrow>
    (\<forall>n v. bt_get (m_credentials m) n = Some v \<longleftrightarrow> (\<exists>x \<in> set ms. bt_get (m_credentials x) n = Some v))
     \<and> (\<forall>n v. bt_get (m_assets m) n = Some v \<longleftrightarrow> (\<exists>x \<in> set ms. bt_get (m_assets x) n = Some v))
     \<and> (\<forall>n v. bt_get (m_access m) n = Some v \<longleftrightarrow> (\<exists>x \<in> set ms. bt_get (m_access x) n = Some v))"
  by (simp add: union_of_def empty_manifest_def bt_get_def)

section \<open>Names\<close>

lemma validate_name_Inr:
  "validate_name name path = Inr () \<longleftrightarrow> (\<exists>c cs. name = c # cs \<and> is_ascii_alphanumeric c
     \<and> (\<forall>d \<in> set cs. name_char d) \<and> length cs \<le> 127)"
  by (cases name) (auto simp: validate_name_def Let_def)

lemma name_char_not_slash: "name_char c \<Longrightarrow> c \<noteq> CHR ''/''"
  by (auto simp: name_char_def is_ascii_alphanumeric_def is_ascii_digit_def is_ascii_upper_def
      is_ascii_lower_def byte_of_def)

section \<open>Resolved material\<close>

text \<open>What each kind of credential carries once it is resolved.\<close>

definition material_ok :: "ext \<Rightarrow> resolved_credential \<Rightarrow> bool" where
  "material_ok X c = (case c of AbsentCredential \<Rightarrow> True
     | PresentCredential ctype username pw pk pp \<Rightarrow> trimmed username \<and> username \<noteq> []
         \<and> (case ctype of
              PasswordType \<Rightarrow> (\<exists>s. pw = Some s \<and> s \<noteq> []) \<and> pk = None \<and> pp = None
            | SshKey \<Rightarrow> pw = None \<and> (\<exists>s. pk = Some s \<and> secret_key_ok X s pp)))"

lemma required_text_Inr:
  "required_text v path = Inr s \<longleftrightarrow> (\<exists>t. v = Some t \<and> s = trim t \<and> s \<noteq> [])"
  by (auto simp: required_text_def trim_optional_def ok_or_Inr split: option.splits if_splits)

lemma resolve_credential_material:
  assumes "resolve_credential X w spec path = Inr c"
  shows "material_ok X c"
proof (cases "cs_state spec")
  case Absent
  with assms show ?thesis by (auto simp: resolve_credential_def and_then_Inr material_ok_def)
next
  case Present
  then have np: "\<not> cs_state spec = Absent" by simp
  from assms obtain ctype username where u: "required_text (cs_username spec) (path @ ''.username'') = Inr username"
    and ct: "cs_type spec = Some ctype"
    by (auto simp: resolve_credential_def if_not_P [OF np] and_then_Inr ok_or_Inr)
  from u have name: "trimmed username" "username \<noteq> []" by (auto simp: required_text_Inr)
  show ?thesis
  proof (cases ctype)
    case PasswordType
    with assms u ct name show ?thesis
      by (auto simp: resolve_credential_def if_not_P [OF np] and_then_Inr material_ok_def
          split: if_splits)
  next
    case SshKey
    with assms u ct name show ?thesis
      by (auto simp: resolve_credential_def if_not_P [OF np] and_then_Inr ok_or_Inr material_ok_def
          split: if_splits)
  qed
qed

definition asset_resolved_ok :: "resolved_asset \<Rightarrow> bool" where
  "asset_resolved_ok a = (case a of AbsentAsset \<Rightarrow> True
     | PresentAsset atype host port _ _ cr \<Rightarrow> trimmed host \<and> host \<noteq> [] \<and> 1 \<le> uint port
         \<and> (atype = Tcp \<longrightarrow> cr = None) \<and> (\<forall>c. cr = Some c \<longrightarrow> validate_name c [] = Inr ()))"

lemma u16_pos: "0 < (p :: u16) \<Longrightarrow> 1 \<le> uint p"
  by (simp add: word_less_def)

lemma validate_name_path: "validate_name n p = Inr () \<longleftrightarrow> validate_name n q = Inr ()"
  by (simp add: validate_name_Inr)

lemma resolve_asset_ok:
  assumes "resolve_asset spec path = Inr a"
  shows "asset_resolved_ok a"
proof (cases "sp_state spec")
  case Absent
  with assms show ?thesis by (auto simp: resolve_asset_def and_then_Inr asset_resolved_ok_def)
next
  case Present
  then have np: "\<not> sp_state spec = Absent" by simp
  from assms obtain atype host port cr where
    h: "required_text (sp_host spec) (path @ ''.host'') = Inr host"
    and p: "(case sp_port spec of Some p \<Rightarrow> if 0 < p then Some p else None | None \<Rightarrow> None) = Some port"
    and c: "optional_name (sp_credential spec) (path @ ''.credential'') = Inr cr"
    and t: "\<not> (atype = Tcp \<and> cr \<noteq> None)"
    and a: "a = PresentAsset atype host port (trim_optional (sp_display_name spec))
        (trim_optional (sp_description spec)) cr"
    by (auto simp: resolve_asset_def if_not_P [OF np] and_then_Inr ok_or_Inr split: if_splits)
  have "validate_name d [] = Inr ()" if "cr = Some d" for d
    using c that validate_name_path [of d "path @ ''.credential''" "[]"]
    by (auto simp: optional_name_def opt_mapE_Some and_then_Inr)
  moreover have "1 \<le> uint port" using p by (intro u16_pos) (auto split: option.splits if_splits)
  ultimately show ?thesis using h t by (auto simp: a asset_resolved_ok_def required_text_Inr)
qed

text \<open>Allowlists come out as they went in: valid names, none of them twice.\<close>

lemma normalize_assets_Inr:
  assumes "normalize_assets path names = Inr ys"
  shows "ys = names \<and> distinct names \<and> (\<forall>a \<in> set names. validate_name a [] = Inr ())"
proof -
  have loop: "ys = acc @ names \<and> distinct ys \<and> (\<forall>a \<in> set names. validate_name a [] = Inr ())"
    if "foldE (\<lambda>normalized (index, name).
       and_then (validate_name name (path @ ''.assets.'' @ show_nat index)) (\<lambda>_.
       if name \<in> set normalized
       then Inl (mk_error DuplicateResource (Some (path @ ''.assets.'' @ show_nat index))
              ''asset appears more than once in the allowlist'')
       else Inr (normalized @ [name]))) acc (List.enumerate k names) = Inr ys" and "distinct acc"
    for acc k names
    using that
  proof (induction names arbitrary: acc k)
    case (Cons a names)
    from Cons.prems have v: "validate_name a (path @ ''.assets.'' @ show_nat k) = Inr ()"
      and new: "a \<notin> set acc"
      by (auto simp: and_then_Inr split: if_splits)
    from Cons.prems new v have "ys = (acc @ [a]) @ names \<and> distinct ys
        \<and> (\<forall>a \<in> set names. validate_name a [] = Inr ())"
      by (intro Cons.IH [of "acc @ [a]" "Suc k"]) (auto simp: and_then_Inr split: if_splits)
    with v validate_name_path [of a _ "[]"] show ?case by auto
  qed simp
  have "ys = [] @ names \<and> distinct ys \<and> (\<forall>a \<in> set names. validate_name a [] = Inr ())"
    by (rule loop [of "[]" 0 names]) (use assms in \<open>simp_all add: normalize_assets_def\<close>)
  then show ?thesis by auto
qed

section \<open>Resolved manifests\<close>

lemma resolve_all_ok: "resolve_all kind f specs = Inr m \<Longrightarrow> bt_ok m"
  unfolding resolve_all_def
  by (erule foldE_inv [where P = bt_ok]) (auto simp: Let_def and_then_Inr bt_ok_insert)

lemma bt_insert_in: "(a, b) \<in> set (bt_insert k v m) \<Longrightarrow> (a = k \<and> b = v) \<or> (a, b) \<in> set m"
  by (induction k v m rule: bt_insert.induct) (auto split: if_splits)

lemma resolve_all_values:
  assumes "resolve_all kind f specs = Inr m" and "(n, v) \<in> set m"
  shows "validate_name n [] = Inr () \<and> (\<exists>spec path. f spec path = Inr v)"
proof -
  let ?ok = "\<lambda>n v. validate_name n [] = Inr () \<and> (\<exists>spec path. f spec path = Inr v)"
  let ?P = "\<lambda>acc. \<forall>n v. (n, v) \<in> set acc \<longrightarrow> ?ok n v"
  have "?P m"
    using assms(1) unfolding resolve_all_def
  proof (rule foldE_inv [where P = ?P])
    show "?P []" by simp
    fix acc acc' entry
    assume P: "?P acc" and step: "(\<lambda>acc (name, spec). let path = kind @ ''.'' @ name in
       and_then (validate_name name path) (\<lambda>_.
       and_then (f spec path) (\<lambda>r. Inr (bt_insert name r acc)))) acc entry = Inr acc'"
    obtain name spec where e: "entry = (name, spec)" by (cases entry)
    from step obtain r where "validate_name name (kind @ ''.'' @ name) = Inr ()"
      and f: "f spec (kind @ ''.'' @ name) = Inr r" and acc': "acc' = bt_insert name r acc"
      by (auto simp: e Let_def and_then_Inr)
    then have "?ok name r" using validate_name_path by blast
    with P show "?P acc'" unfolding acc' using bt_insert_in by metis
  qed
  with assms(2) show ?thesis by blast
qed

lemma resolve_access_assets:
  assumes "resolve_access X w spec path = Inr (PresentAccess pk fp en (Some xs))"
  shows "distinct xs \<and> (\<forall>a \<in> set xs. validate_name a [] = Inr ())"
  using assms
  by (auto simp: resolve_access_def and_then_Inr opt_mapE_Some dest!: normalize_assets_Inr
      split: if_splits prod.splits)

text \<open>Without a catalog, a reference must lead to what the manifest declares.\<close>

lemma known_offline:
  assumes "resolve_material X w m = Inr r"
  shows "known_credential r False cs c \<longleftrightarrow> (\<exists>v. bt_get (r_credentials r) c = Some v \<and> v \<noteq> AbsentCredential)"
    and "known_asset r False as a \<longleftrightarrow> (\<exists>v. bt_get (r_assets r) a = Some v \<and> v \<noteq> AbsentAsset)"
proof -
  from assms have ok: "bt_ok (r_credentials r)" "bt_ok (r_assets r)"
    by (auto simp: resolve_material_def and_then_Inr dest: resolve_all_ok)
  have present: "n \<in> set (map fst (filter (\<lambda>(_, v). v \<noteq> d) t))
      \<longleftrightarrow> (\<exists>v. bt_get t n = Some v \<and> v \<noteq> d)" if "bt_ok t" for t :: "'v btree" and n d
    by (force simp: bt_get_in_set [OF that])
  show "known_credential r False cs c \<longleftrightarrow> (\<exists>v. bt_get (r_credentials r) c = Some v \<and> v \<noteq> AbsentCredential)"
    unfolding known_credential_def present_credentials_def present [OF ok(1)] by auto
  show "known_asset r False as a \<longleftrightarrow> (\<exists>v. bt_get (r_assets r) a = Some v \<and> v \<noteq> AbsentAsset)"
    unfolding known_asset_def present_assets_def present [OF ok(2)] by auto
qed

end
