(* ===== verification/Apply_Post.thy ===== *)
theory Apply_Post
  imports Plan_Spec Manifest_Facts
begin

text \<open>
  The catalog after an apply, resource by resource. \<open>ran\<close> says that a plan was built from a
  catalog and executed on it; ids are fresh (\<open>fresh_ids\<close>), which is what \<open>new_id\<close> relies on
  version 4 UUIDs for. What is declared present is there, owned by the source under its hash;
  what is declared absent is gone; what the source no longer mentions is gone or orphaned; all
  else is as it was.
\<close>

definition fresh_ids :: "ext \<Rightarrow> nat \<Rightarrow> catalog \<Rightarrow> bool" where
  "fresh_ids X n db \<longleftrightarrow> inj (uuid_v4 X) \<and> (\<forall>j \<ge> n. \<forall>t. name_of t db (new_id X j) = None)"

definition resolved_ok :: "resolved_manifest \<Rightarrow> bool" where
  "resolved_ok r \<longleftrightarrow> distinct (bt_keys (r_credentials r)) \<and> distinct (bt_keys (r_assets r))
     \<and> distinct (bt_keys (r_access r))"

lemma resolved_ok_mentioned: "resolved_ok r \<Longrightarrow> distinct (mentioned_of t r)"
  by (simp add: resolved_ok_def mentioned_of_def)

lemma resolve_material_ok: "resolve_material X w m = Inr r \<Longrightarrow> resolved_ok r"
  by (auto simp: resolve_material_def and_then_Inr resolved_ok_def bt_keys_def
      intro!: bt_ok_distinct dest!: resolve_all_ok)

definition ran ::
  "ext \<Rightarrow> string \<Rightarrow> nat \<Rightarrow> nat \<Rightarrow> resolved_manifest \<Rightarrow> string \<Rightarrow> master_key \<Rightarrow> bool \<Rightarrow> plan
    \<Rightarrow> catalog \<Rightarrow> catalog \<Rightarrow> bool" where
  "ran X now n k r source mk prune p db db' \<longleftrightarrow>
     plan_for X n db r source mk prune p
     \<and> (\<exists>g rev' summary. execute_plan X now n k p source g rev' mk summary db = Inr db')
     \<and> constraints db \<and> fresh_ids X n db \<and> resolved_ok r"

section \<open>The plan by type\<close>

lemma plan_upserts:
  assumes "plan_for X n db r source mk prune p" and "row_type t"
  shows "\<exists>d. upserts t p = writes X (existing_of t db) (n + d) (declared t X mk r)"
  using assms(1)
proof (rule plan_for_parts)
  fix d1 d2
  assume u: "upserts ''credential'' p
       = writes X (existing_of ''credential'' db) n (declared ''credential'' X mk r)"
    "upserts ''asset'' p
       = writes X (existing_of ''asset'' db) (n + d1) (declared ''asset'' X mk r)"
    "upserts ''access_key'' p
       = writes X (existing_of ''access_key'' db) (n + d2) (declared ''access_key'' X mk r)"
  have "upserts ''credential'' p
       = writes X (existing_of ''credential'' db) (n + 0) (declared ''credential'' X mk r)"
    using u(1) by simp
  with u(2,3) assms(2) show ?thesis by (elim row_type_cases) blast+
qed

lemma plan_owned:
  assumes "plan_for X n db r source mk prune p" and "row_type t"
    and "m \<in> set (mentioned_of t r)" and "existing_of t db m = Some e"
  shows "owned_by source e"
  using assms(1) by (rule plan_for_parts) (use assms in blast)

lemma type_deletes_in:
  "ref \<in> set (type_deletes t X db r source mk prune) \<longleftrightarrow>
     (\<exists>m e. existing_of t db m = Some e \<and> ref = ref_of t (m, e)
       \<and> ((m, None) \<in> set (declared t X mk r)
          \<or> (prune \<and> er_source_id e = Some source \<and> m \<notin> set (mentioned_of t r))))"
proof -
  have "ref \<in> set (absent_refs t (existing_of t db) (m, w))
      \<longleftrightarrow> w = None \<and> (\<exists>e. existing_of t db m = Some e \<and> ref = ref_of t (m, e))" for m w
    by (cases w; cases "existing_of t db m") (auto simp: absent_refs_def ref_of_def)
  then have "ref \<in> set (concat (map (absent_refs t (existing_of t db)) (declared t X mk r)))
      \<longleftrightarrow> (\<exists>m e. existing_of t db m = Some e \<and> ref = ref_of t (m, e)
        \<and> (m, None) \<in> set (declared t X mk r))"
    by (simp add: Bex_def) (metis (no_types) surj_pair)
  moreover have "ref \<in> set (delete_refs t (existing_tree t db) (mentioned_of t r) source prune)
      \<longleftrightarrow> (\<exists>m e. existing_of t db m = Some e \<and> ref = ref_of t (m, e)
        \<and> prune \<and> er_source_id e = Some source \<and> m \<notin> set (mentioned_of t r))"
    by (auto simp: delete_refs_def unmentioned_def existing_tree_in image_iff)
  ultimately show ?thesis unfolding type_deletes_def by auto
qed

lemma rr_id_ref_of: "rr_id (ref_of t (m, e)) = er_id e"
  by (simp add: ref_of_def)

lemma ref_exists:
  "(\<exists>ref. (\<exists>m e. P m e \<and> ref = ref_of t (m, e) \<and> Q m e) \<and> i = rr_id ref)
     \<longleftrightarrow> (\<exists>m e. P m e \<and> i = er_id e \<and> Q m e)"
  by (metis rr_id_ref_of)

lemma plan_deleted_ids:
  assumes "plan_for X n db r source mk prune p" and "row_type t"
  shows "i \<in> set (deleted_ids t p) \<longleftrightarrow> (\<exists>m e. existing_of t db m = Some e \<and> i = er_id e
       \<and> ((m, None) \<in> set (declared t X mk r)
          \<or> (prune \<and> er_source_id e = Some source \<and> m \<notin> set (mentioned_of t r))))"
  using assms(1)
proof (rule plan_for_parts)
  assume d: "p_deletes p = type_deletes ''credential'' X db r source mk prune
       @ type_deletes ''asset'' X db r source mk prune
       @ type_deletes ''access_key'' X db r source mk prune"
  have ty: "rr_type ref = u" if "ref \<in> set (type_deletes u X db r source mk prune)" for ref u
    using that by (auto simp: type_deletes_in ref_of_def)
  have "ref \<in> set (p_deletes p) \<and> rr_type ref = t \<longleftrightarrow> ref \<in> set (type_deletes t X db r source mk prune)"
    for ref
    using assms(2) unfolding d set_append row_type_def by (auto dest: ty)
  then have "i \<in> set (deleted_ids t p) \<longleftrightarrow>
      (\<exists>ref \<in> set (type_deletes t X db r source mk prune). i = rr_id ref)"
    by (auto simp: deleted_ids_def)
  then show ?thesis unfolding Bex_def type_deletes_in ref_exists .
qed

lemma plan_orphan_ids:
  assumes "plan_for X n db r source mk prune p" and "row_type t"
  shows "i \<in> set (orphan_ids t p) \<longleftrightarrow> (\<exists>m e. existing_of t db m = Some e \<and> i = er_id e \<and> \<not> prune
       \<and> er_source_id e = Some source \<and> m \<notin> set (mentioned_of t r) \<and> er_orphaned_at e = None)"
  using assms(1)
proof (rule plan_for_parts)
  assume o: "p_orphans p = type_orphans ''credential'' db r source prune
       @ type_orphans ''asset'' db r source prune @ type_orphans ''access_key'' db r source prune"
  have inn: "ref \<in> set (type_orphans u db r source prune) \<longleftrightarrow> (\<exists>m e. existing_of u db m = Some e
       \<and> ref = ref_of u (m, e) \<and> \<not> prune \<and> er_source_id e = Some source
       \<and> m \<notin> set (mentioned_of u r) \<and> er_orphaned_at e = None)" for ref u
    by (auto simp: type_orphans_def orphan_refs_def unmentioned_def existing_tree_in image_iff)
  have ty: "rr_type ref = u" if "ref \<in> set (type_orphans u db r source prune)" for ref u
    using that by (auto simp: inn ref_of_def)
  have "ref \<in> set (p_orphans p) \<and> rr_type ref = t \<longleftrightarrow> ref \<in> set (type_orphans t db r source prune)"
    for ref
    using assms(2) unfolding o set_append row_type_def by (auto dest: ty)
  then have "i \<in> set (orphan_ids t p) \<longleftrightarrow>
      (\<exists>ref \<in> set (type_orphans t db r source prune). i = rr_id ref)"
    by (auto simp: orphan_ids_def)
  then show ?thesis unfolding Bex_def inn ref_exists .
qed

section \<open>Written rows\<close>

lemma map_of_triples:
  assumes "distinct (map fst W)"
  shows "map_of (rev (map (\<lambda>(i, m, h). (i, f i m h)) W)) i = Some v
    \<longleftrightarrow> (\<exists>m h. (i, m, h) \<in> set W \<and> v = f i m h)"
proof -
  have "map fst (map (\<lambda>(i, m, h). (i, f i m h)) W) = map fst W" by (induction W) auto
  then have "distinct (map fst (rev (map (\<lambda>(i, m, h). (i, f i m h)) W)))"
    using assms by (metis distinct_rev rev_map)
  from map_of_eq_Some_iff [OF this, of i v] show ?thesis by force
qed

lemma ran_writes_distinct:
  assumes "ran X now n k r source mk prune p db db'" and t: "row_type t"
  shows "distinct (map fst (upserts t p))"
proof -
  from assms have pf: "plan_for X n db r source mk prune p" and ok: "constraints db"
    and fr: "fresh_ids X n db" and r: "resolved_ok r" by (auto simp: ran_def)
  from plan_upserts [OF pf t] obtain d where
    d: "upserts t p = writes X (existing_of t db) (n + d) (declared t X mk r)" by blast
  show ?thesis
    unfolding d
  proof (rule writes_distinct)
    show "distinct (map fst (declared t X mk r))" using resolved_ok_mentioned [OF r] by simp
    show "inj (uuid_v4 X)" using fr by (simp add: fresh_ids_def)
    show "er_id e \<noteq> new_id X j" if "existing_of t db m = Some e" "n + d \<le> j" for m e j
      using existing_of_id(1) [OF ok t that(1)] fr that(2) by (auto simp: fresh_ids_def)
    show "m = m'" if "existing_of t db m = Some e" "existing_of t db m' = Some e'" "er_id e = er_id e'"
      for m e m' e'
      using existing_of_inj [OF ok t that] .
  qed
qed

lemma ran_new_names:
  assumes "ran X now n k r source mk prune p db db'" and "row_type t"
  shows "new_names t p i = Some m \<longleftrightarrow> (\<exists>h. (i, m, h) \<in> set (upserts t p))"
  using map_of_triples [OF ran_writes_distinct [OF assms], of "\<lambda>i m h. m" i m]
  by (simp add: new_names_def)

lemma ran_new_owners:
  assumes "ran X now n k r source mk prune p db db'" and "row_type t"
  shows "new_owners now source g t p i = Some v
    \<longleftrightarrow> (\<exists>m h. (i, m, h) \<in> set (upserts t p) \<and> v = owned_row now t i source m g h)"
  using map_of_triples [OF ran_writes_distinct [OF assms],
      of "\<lambda>i m h. owned_row now t i source m g h" i v]
  by (simp add: new_owners_def)

text \<open>An id that is written belongs to a name that is declared present and not up to date.\<close>

lemma ran_written:
  assumes run: "ran X now n k r source mk prune p db db'" and t: "row_type t"
    and w: "(i, m, h) \<in> set (upserts t p)"
  shows "(m, Some h) \<in> set (declared t X mk r)"
    and "action_of (existing_of t db m) (Some h) \<noteq> Unchanged"
    and "existing_of t db m' = Some e \<Longrightarrow> er_id e = i \<Longrightarrow> m' = m"
    and "existing_of t db m = Some e \<Longrightarrow> er_id e = i"
proof -
  from run have pf: "plan_for X n db r source mk prune p" and ok: "constraints db"
    and fr: "fresh_ids X n db" by (auto simp: ran_def)
  from plan_upserts [OF pf t] obtain d where
    "upserts t p = writes X (existing_of t db) (n + d) (declared t X mk r)" by blast
  with w writes_from have wf: "(m, Some h) \<in> set (declared t X mk r)"
    "action_of (existing_of t db m) (Some h) \<noteq> Unchanged"
    "\<forall>e. existing_of t db m = Some e \<longrightarrow> i = er_id e"
    "existing_of t db m = None \<longrightarrow> (\<exists>j\<ge>n + d. i = new_id X j)"
    by metis+
  show "(m, Some h) \<in> set (declared t X mk r)"
    and "action_of (existing_of t db m) (Some h) \<noteq> Unchanged" by (fact wf)+
  show "existing_of t db m = Some e \<Longrightarrow> er_id e = i" using wf(3) by simp
  show "m' = m" if e: "existing_of t db m' = Some e" "er_id e = i"
  proof (cases "existing_of t db m")
    case None
    with wf(4) obtain j where "n \<le> j" "i = new_id X j" using add_leD1 by blast
    with existing_of_id(1) [OF ok t e(1)] e(2) fr show ?thesis by (auto simp: fresh_ids_def)
  next
    case (Some e')
    with wf(3) e(2) existing_of_inj [OF ok t e(1) Some] show ?thesis by simp
  qed
qed

section \<open>After the run\<close>

lemma existing_after:
  assumes "constraints db'" "row_type t" "name_of t db' i = Some m"
  shows "existing_of t db' m = Some (existing_row t i m db')"
  using assms by (auto simp: existing_of_Some)

text \<open>The row of a declared, present resource.\<close>

lemma ran_present:
  assumes run: "ran X now n k r source mk prune p db db'" and t: "row_type t"
    and dec: "(m, Some h) \<in> set (declared t X mk r)"
  obtains e where "existing_of t db' m = Some e" "owned_by source e" "er_hash e = Some h"
    "er_orphaned_at e = None"
    "\<And>e0. existing_of t db m = Some e0 \<Longrightarrow> er_id e = er_id e0"
    "action_of (existing_of t db m) (Some h) = Unchanged \<Longrightarrow> existing_of t db m = Some e"
proof -
  from run obtain g rev' summary where pf: "plan_for X n db r source mk prune p"
    and ex: "execute_plan X now n k p source g rev' mk summary db = Inr db'"
    and ok: "constraints db" and r: "resolved_ok r" by (auto simp: ran_def)
  note eff = execute_plan_effect [OF ex ok t]
  have ment: "m \<in> set (mentioned_of t r)" using dec by (metis declared_names fst_conv image_eqI)
  have one: "w = Some h" if "(m, w) \<in> set (declared t X mk r)" for w
    using resolved_ok_mentioned [OF r, of t] that dec
    by (metis eq_key_imp_eq_value fst_declared)
  have kept: "i \<notin> set (deleted_ids t p)" "i \<notin> set (orphan_ids t p)"
    if "\<And>m' e. existing_of t db m' = Some e \<Longrightarrow> er_id e = i \<Longrightarrow> m' = m" for i
    using that ment one unfolding plan_deleted_ids [OF pf t] plan_orphan_ids [OF pf t] by blast+
  show thesis
  proof (cases "action_of (existing_of t db m) (Some h) = Unchanged")
    case True
    then obtain e0 where e0: "existing_of t db m = Some e0" "er_hash e0 = Some h"
      "er_orphaned_at e0 = None"
      by (auto simp: action_of_def split: option.splits if_splits)
    note id0 = existing_of_id [OF ok t e0(1)]
    have sole: "m' = m" if "existing_of t db m' = Some e" "er_id e = er_id e0" for m' e
      using existing_of_inj [OF ok t that(1) e0(1) that(2)] .
    have fresh: "new_names t p (er_id e0) = None" "new_owners now source g t p (er_id e0) = None"
    proof -
      have "(er_id e0, m', h') \<notin> set (upserts t p)" for m' h'
      proof
        assume w: "(er_id e0, m', h') \<in> set (upserts t p)"
        from ran_written(3) [OF run t w e0(1)] have "m' = m" by simp
        with ran_written(1,2) [OF run t w] one True show False by auto
      qed
      then show "new_names t p (er_id e0) = None" "new_owners now source g t p (er_id e0) = None"
        using ran_new_names [OF run t] ran_new_owners [OF run t] by (metis option.exhaust)+
    qed
    have "name_of t db' (er_id e0) = Some m" "owner_map t db' (er_id e0) = owner_map t db (er_id e0)"
      using kept [OF sole] id0(1) fresh by (simp_all add: eff map_add_def)
    with existing_after [OF eff(3) t this(1)] id0(2)
    have "existing_of t db' m = Some e0" by (simp add: existing_row_def owner_map_def)
    with that e0 plan_owned [OF pf t ment e0(1)] show thesis by simp
  next
    case False
    from plan_upserts [OF pf t] writes_in [where existing = "existing_of t db", OF dec False] obtain i
      where w: "(i, m, h) \<in> set (upserts t p)" by metis
    have "name_of t db' i = Some m" "owner_map t db' i = Some (owned_row now t i source m g h)"
      using kept [OF ran_written(3) [OF run t w]] w ran_new_names [OF run t, of i m]
        ran_new_owners [OF run t, of g i "owned_row now t i source m g h"]
      by (auto simp: eff map_add_def split: option.splits)
    with existing_after [OF eff(3) t this(1)] ran_written(4) [OF run t w] show thesis
      using False by (intro that) (auto simp: owned_by_def owned_row_def)
  qed
qed

text \<open>Names the manifest does not declare present.\<close>

lemma ran_not_present:
  assumes run: "ran X now n k r source mk prune p db db'" and t: "row_type t"
    and no: "\<And>h. (m, Some h) \<notin> set (declared t X mk r)"
  shows "existing_of t db' m = (case existing_of t db m of None \<Rightarrow> None
    | Some e \<Rightarrow> if er_id e \<in> set (deleted_ids t p) then None
        else if er_id e \<in> set (orphan_ids t p) then Some (e\<lparr>er_orphaned_at := Some now\<rparr>)
        else Some e)"
proof -
  from run obtain g rev' summary where pf: "plan_for X n db r source mk prune p"
    and ex: "execute_plan X now n k p source g rev' mk summary db = Inr db'"
    and ok: "constraints db" by (auto simp: ran_def)
  note eff = execute_plan_effect [OF ex ok t]
  have nn: "new_names t p i \<noteq> Some m" for i
    using no ran_written(1) [OF run t] by (auto simp: ran_new_names [OF run t])
  show ?thesis
  proof (cases "existing_of t db m")
    case None
    have "name_of t db' i \<noteq> Some m" for i
    proof
      assume "name_of t db' i = Some m"
      with nn have "name_of t db i = Some m"
        by (auto simp: eff map_add_def split: if_splits option.splits)
      with existing_of_Some [OF ok t, of m "existing_row t i m db"] None show False by auto
    qed
    then have "existing_of t db' m = None"
      using existing_of_Some [OF eff(3) t, of m] by (metis option.exhaust)
    with None show ?thesis by simp
  next
    case (Some e)
    note id = existing_of_id [OF ok t Some]
    have fresh: "new_names t p (er_id e) = None" "new_owners now source g t p (er_id e) = None"
    proof -
      have "(er_id e, m', h') \<notin> set (upserts t p)" for m' h'
        using ran_written(1,3) [OF run t, of "er_id e" m' h'] Some no by metis
      then show "new_names t p (er_id e) = None" "new_owners now source g t p (er_id e) = None"
        using ran_new_names [OF run t] ran_new_owners [OF run t] by (metis option.exhaust)+
    qed
    show ?thesis
    proof (cases "er_id e \<in> set (deleted_ids t p)")
      case True
      have "name_of t db' i \<noteq> Some m" for i
      proof
        assume i: "name_of t db' i = Some m"
        with nn have "name_of t db i = Some m" "i \<notin> set (deleted_ids t p)"
          by (auto simp: eff map_add_def split: if_splits option.splits)
        with name_of_inj [OF ok t this(1) id(1)] True show False by simp
      qed
      then have "existing_of t db' m = None"
        using existing_of_Some [OF eff(3) t, of m] by (metis option.exhaust)
      with Some True show ?thesis by simp
    next
      case False
      then have nm: "name_of t db' (er_id e) = Some m"
        using id(1) fresh by (simp add: eff map_add_def)
      have own: "owner_map t db' (er_id e) = (if er_id e \<in> set (orphan_ids t p)
          then map_option (\<lambda>r. r\<lparr>o_orphaned_at := Some now\<rparr>) (owner_map t db (er_id e))
          else owner_map t db (er_id e))"
        using False fresh by (simp add: eff map_add_def)
      show ?thesis
      proof (cases "er_id e \<in> set (orphan_ids t p)")
        case True
        with plan_orphan_ids [OF pf t] existing_of_inj [OF ok t _ Some]
        have "er_source_id e = Some source" using Some by (metis option.inject)
        then obtain o' where o': "owner_map t db (er_id e) = Some o'"
          by (metis er_existing_row(4) id(2) joined_simps(1) not_None_eq)
        have "existing_row t (er_id e) m db' = e\<lparr>er_orphaned_at := Some now\<rparr>"
          by (rule existing_resource.equality)
            (use own o' True id(2) in \<open>auto, (metis er_existing_row joined_simps(2))+\<close>)
        with existing_after [OF eff(3) t nm] Some True False show ?thesis by simp
      next
        case no: False
        then have "existing_row t (er_id e) m db' = e"
          using own id(2) by (simp add: existing_row_def owner_map_def)
        with existing_after [OF eff(3) t nm] Some no False show ?thesis by simp
      qed
    qed
  qed
qed

end
