(* ===== verification/Apply_Settled.thy ===== *)
theory Apply_Settled
  imports Apply_Post
begin

text \<open>
  A catalog is settled for a manifest when a plan has nothing to do: every declared resource is
  as declared, and nothing the source owns is left unmentioned, unless it is orphaned already.
  A catalog is settled after an apply, planning on a settled catalog succeeds and plans no
  change; together, applying twice is applying once.
\<close>

definition settled ::
  "ext \<Rightarrow> master_key \<Rightarrow> resolved_manifest \<Rightarrow> string \<Rightarrow> bool \<Rightarrow> catalog \<Rightarrow> bool" where
  "settled X mk r source prune db \<longleftrightarrow> (\<forall>t. row_type t \<longrightarrow>
     (\<forall>m h. (m, Some h) \<in> set (declared t X mk r) \<longrightarrow> (\<exists>e. existing_of t db m = Some e
        \<and> owned_by source e \<and> er_hash e = Some h \<and> er_orphaned_at e = None))
     \<and> (\<forall>m. (m, None) \<in> set (declared t X mk r) \<longrightarrow> existing_of t db m = None)
     \<and> (\<forall>m e. existing_of t db m = Some e \<longrightarrow> m \<notin> set (mentioned_of t r)
        \<longrightarrow> er_source_id e = Some source \<longrightarrow> \<not> prune \<and> er_orphaned_at e \<noteq> None))"

lemma settledD:
  assumes "settled X mk r source prune db" and "row_type t"
  shows "(m, Some h) \<in> set (declared t X mk r) \<Longrightarrow> \<exists>e. existing_of t db m = Some e
        \<and> owned_by source e \<and> er_hash e = Some h \<and> er_orphaned_at e = None"
    and "(m, None) \<in> set (declared t X mk r) \<Longrightarrow> existing_of t db m = None"
    and "existing_of t db m = Some e \<Longrightarrow> m \<notin> set (mentioned_of t r)
        \<Longrightarrow> er_source_id e = Some source \<Longrightarrow> \<not> prune \<and> er_orphaned_at e \<noteq> None"
  using assms by (auto simp: settled_def)

lemma row_types [simp]: "row_type ''credential''" "row_type ''asset''" "row_type ''access_key''"
  by (simp_all add: row_type_def)

section \<open>Final names\<close>

lemma apply_final_names_in:
  "distinct (map fst rs) \<Longrightarrow> c \<in> apply_final_names pres rs names
     \<longleftrightarrow> (case map_of rs c of Some v \<Rightarrow> pres v | None \<Rightarrow> c \<in> names)"
proof (induction rs arbitrary: names)
  case Nil
  then show ?case by (simp add: apply_final_names_def)
next
  case (Cons entry rs)
  obtain a v where e: "entry = (a, v)" by (cases entry)
  have step: "apply_final_names pres (entry # rs) names
      = apply_final_names pres rs (if pres v then insert a names else names - {a})"
    by (simp add: apply_final_names_def e)
  show ?case
  proof (cases "c = a")
    case True
    with Cons.prems e have "map_of rs c = None" by (simp add: map_of_eq_None_iff)
    with Cons e True show ?thesis unfolding step by simp
  next
    case False
    with Cons e show ?thesis unfolding step by (auto split: option.splits)
  qed
qed

lemma remove_pruned_names_in:
  "c \<in> remove_pruned_names existing mentioned source names \<longleftrightarrow> c \<in> names
     \<and> (\<forall>e. (c, e) \<in> set existing \<longrightarrow> er_source_id e = Some source \<longrightarrow> c \<in> set mentioned)"
proof (induction existing arbitrary: names)
  case Nil
  then show ?case by (simp add: remove_pruned_names_def)
next
  case (Cons entry existing)
  obtain a v where e: "entry = (a, v)" by (cases entry)
  have step: "remove_pruned_names (entry # existing) mentioned source names
      = remove_pruned_names existing mentioned source
          (if er_source_id v = Some source \<and> a \<notin> set mentioned then names - {a} else names)"
    by (simp add: remove_pruned_names_def e)
  show ?case unfolding step Cons.IH by (auto simp: e)
qed

text \<open>Which names a plan expects to exist afterwards.\<close>

definition expected :: "string \<Rightarrow> ext \<Rightarrow> master_key \<Rightarrow> resolved_manifest \<Rightarrow> string \<Rightarrow> bool \<Rightarrow> catalog
    \<Rightarrow> string \<Rightarrow> bool" where
  "expected t X mk r source prune db c \<longleftrightarrow>
     (if c \<in> set (mentioned_of t r) then \<exists>h. (c, Some h) \<in> set (declared t X mk r)
      else \<exists>e. existing_of t db c = Some e \<and> \<not> (prune \<and> er_source_id e = Some source))"

lemma existing_tree_keys: "c \<in> set (bt_keys (existing_tree t db)) \<longleftrightarrow> existing_of t db c \<noteq> None"
  using bt_get_None [of "existing_tree t db" c] by (simp add: bt_get_existing_tree)

lemma final_names_generic:
  assumes d: "distinct (map fst rs)"
    and pres: "\<And>v. (c, v) \<in> set rs \<Longrightarrow> pres v \<longleftrightarrow> (\<exists>h. (c, Some h) \<in> set (declared t X mk r))"
    and ment: "bt_keys rs = mentioned_of t r"
  shows "c \<in> (let names = apply_final_names pres rs (set (bt_keys (existing_tree t db))) in
      if prune then remove_pruned_names (existing_tree t db) (bt_keys rs) source names else names)
    \<longleftrightarrow> expected t X mk r source prune db c"
proof (cases "map_of rs c")
  case None
  then have "c \<notin> set (mentioned_of t r)" by (simp add: ment [symmetric] bt_keys_def map_of_eq_None_iff)
  with None show ?thesis
    by (auto simp: Let_def remove_pruned_names_in apply_final_names_in [OF d] expected_def
        existing_tree_keys existing_tree_in ment)
next
  case (Some v)
  then have "(c, v) \<in> set rs" "c \<in> set (mentioned_of t r)"
    by (auto simp: ment [symmetric] bt_keys_def dest!: map_of_SomeD) (metis fst_conv image_eqI)
  with Some pres show ?thesis
    by (simp add: Let_def remove_pruned_names_in apply_final_names_in [OF d] expected_def ment)
qed

lemma declared_credential:
  "(c, Some h) \<in> set (declared ''credential'' X mk r)
    \<Longrightarrow> \<exists>v. (c, v) \<in> set (r_credentials r) \<and> v \<noteq> AbsentCredential"
  "(c, v) \<in> set (r_credentials r) \<Longrightarrow> v \<noteq> AbsentCredential
    \<Longrightarrow> \<exists>h. (c, Some h) \<in> set (declared ''credential'' X mk r)"
  "(c, AbsentCredential) \<in> set (r_credentials r) \<Longrightarrow> (c, None) \<in> set (declared ''credential'' X mk r)"
proof -
  assume "(c, Some h) \<in> set (declared ''credential'' X mk r)"
  then obtain a v where "(a, v) \<in> set (r_credentials r)" "(c, Some h) = credential_wanted X mk (a, v)"
    by (auto simp: declared_def)
  then show "\<exists>v. (c, v) \<in> set (r_credentials r) \<and> v \<noteq> AbsentCredential"
    by (cases v rule: resolved_credential.exhaust) auto
next
  assume "(c, v) \<in> set (r_credentials r)" "v \<noteq> AbsentCredential"
  then show "\<exists>h. (c, Some h) \<in> set (declared ''credential'' X mk r)"
    by (cases v) (force simp: declared_def image_iff)+
next
  assume "(c, AbsentCredential) \<in> set (r_credentials r)"
  then show "(c, None) \<in> set (declared ''credential'' X mk r)"
    by (force simp: declared_def image_iff)
qed

lemma declared_asset:
  "(c, Some h) \<in> set (declared ''asset'' X mk r)
    \<Longrightarrow> \<exists>v. (c, v) \<in> set (r_assets r) \<and> v \<noteq> AbsentAsset"
  "(c, v) \<in> set (r_assets r) \<Longrightarrow> v \<noteq> AbsentAsset
    \<Longrightarrow> \<exists>h. (c, Some h) \<in> set (declared ''asset'' X mk r)"
  "(c, AbsentAsset) \<in> set (r_assets r) \<Longrightarrow> (c, None) \<in> set (declared ''asset'' X mk r)"
proof -
  assume "(c, Some h) \<in> set (declared ''asset'' X mk r)"
  then obtain a v where "(a, v) \<in> set (r_assets r)" "(c, Some h) = asset_wanted X (a, v)"
    by (auto simp: declared_def)
  then show "\<exists>v. (c, v) \<in> set (r_assets r) \<and> v \<noteq> AbsentAsset"
    by (cases v rule: resolved_asset.exhaust) auto
next
  assume "(c, v) \<in> set (r_assets r)" "v \<noteq> AbsentAsset"
  then show "\<exists>h. (c, Some h) \<in> set (declared ''asset'' X mk r)"
    by (cases v) (force simp: declared_def image_iff)+
next
  assume "(c, AbsentAsset) \<in> set (r_assets r)"
  then show "(c, None) \<in> set (declared ''asset'' X mk r)"
    by (force simp: declared_def image_iff)
qed

lemma final_credential_names_in:
  assumes "resolved_ok r"
  shows "c \<in> final_credential_names (load_credentials db) r source prune
    \<longleftrightarrow> expected ''credential'' X mk r source prune db c"
proof -
  have d: "distinct (map fst (r_credentials r))" using assms by (simp add: resolved_ok_def bt_keys_def)
  have p: "v \<noteq> AbsentCredential \<longleftrightarrow> (\<exists>h. (c, Some h) \<in> set (declared ''credential'' X mk r))"
    if "(c, v) \<in> set (r_credentials r)" for v
    using that declared_credential(1,2) d by (metis eq_key_imp_eq_value)
  have ment: "bt_keys (r_credentials r) = mentioned_of ''credential'' r" by (simp add: mentioned_of_def)
  have tree: "load_credentials db = existing_tree ''credential'' db" by (simp add: existing_tree_def)
  show ?thesis
    unfolding final_credential_names_def tree
    by (rule final_names_generic [OF d p ment])
qed

lemma final_asset_names_in:
  assumes "resolved_ok r"
  shows "c \<in> final_asset_names (existing_tree ''asset'' db) r source prune
    \<longleftrightarrow> expected ''asset'' X mk r source prune db c"
proof -
  have d: "distinct (map fst (r_assets r))" using assms by (simp add: resolved_ok_def bt_keys_def)
  have p: "v \<noteq> AbsentAsset \<longleftrightarrow> (\<exists>h. (c, Some h) \<in> set (declared ''asset'' X mk r))"
    if "(c, v) \<in> set (r_assets r)" for v
    using that declared_asset(1,2) d by (metis eq_key_imp_eq_value)
  have ment: "bt_keys (r_assets r) = mentioned_of ''asset'' r" by (simp add: mentioned_of_def)
  show ?thesis
    unfolding final_asset_names_def
    by (rule final_names_generic [OF d p ment])
qed

section \<open>References\<close>

definition references_known :: "resolved_manifest \<Rightarrow> bool \<Rightarrow> string set \<Rightarrow> string set \<Rightarrow> bool" where
  "references_known r allow cs as \<longleftrightarrow>
     (\<forall>m a b c d e cr. (m, PresentAsset a b c d e (Some cr)) \<in> set (r_assets r)
        \<longrightarrow> known_credential r allow cs cr)
     \<and> (\<forall>m a b c xs x. (m, PresentAccess a b c (Some xs)) \<in> set (r_access r) \<longrightarrow> x \<in> set xs
        \<longrightarrow> known_asset r allow as x)"

lemma foldE_check: "foldE (\<lambda>_ x. f x) () xs = Inr () \<longleftrightarrow> (\<forall>x \<in> set xs. f x = Inr ())"
  by (induction xs) (auto simp: and_then_Inr)

lemma and_then_unit: "and_then a (\<lambda>_. b) = Inr () \<longleftrightarrow> a = Inr () \<and> b = Inr ()"
  by (cases a) auto

text \<open>The check passes exactly when every reference is known.\<close>

lemma validate_references_Inr:
  "validate_references r allow cs as = Inr () \<longleftrightarrow> references_known r allow cs as"
proof -
  let ?f = "\<lambda>(name, asset). case asset of
         PresentAsset _ _ _ _ _ (Some credential) \<Rightarrow>
           check (known_credential r allow cs credential)
             (unknown_reference (''assets.'' @ name @ ''.credential'') ''credential'' credential)
       | _ \<Rightarrow> Inr ()"
  let ?h = "\<lambda>name (index, asset). check (known_asset r allow as asset)
               (unknown_reference (''access.'' @ name @ ''.assets.'' @ show_nat index)
                  ''asset'' asset)"
  let ?g = "\<lambda>(name, access). case access of
         PresentAccess _ _ _ (Some assets) \<Rightarrow>
           foldE (\<lambda>_ x. ?h name x) () (List.enumerate 0 assets)
       | _ \<Rightarrow> Inr ()"
  have f: "?f (m, v) = Inr () \<longleftrightarrow> (\<forall>a b c d e cr. v = PresentAsset a b c d e (Some cr)
      \<longrightarrow> known_credential r allow cs cr)" for m v
    by (cases v) (auto simp: check_Inr split: option.splits)
  have h: "(\<forall>x \<in> set (List.enumerate 0 xs). ?h m x = Inr ()) \<longleftrightarrow> (\<forall>x \<in> set xs. known_asset r allow as x)"
    for m and xs :: "string list"
  proof -
    have "(\<forall>x \<in> set (List.enumerate 0 xs). ?h m x = Inr ())
        \<longleftrightarrow> (\<forall>x \<in> snd ` set (List.enumerate 0 xs). known_asset r allow as x)"
      by (auto simp: check_Inr)
    also have "snd ` set (List.enumerate 0 xs) = set xs"
      by (metis list.set_map map_snd_enumerate)
    finally show ?thesis .
  qed
  have g: "?g (m, v) = Inr () \<longleftrightarrow> (\<forall>a b c xs x. v = PresentAccess a b c (Some xs) \<longrightarrow> x \<in> set xs
      \<longrightarrow> known_asset r allow as x)" for m v
  proof (cases v)
    case (PresentAccess a b c xs)
    show ?thesis
    proof (cases xs)
      case (Some l)
      have "?g (m, v) = foldE (\<lambda>_ x. ?h m x) () (List.enumerate 0 l)"
        by (simp add: PresentAccess Some)
      with foldE_check [of "?h m" "List.enumerate 0 l"] h [of l m] PresentAccess Some show ?thesis
        by auto
    qed (simp add: PresentAccess)
  qed simp
  have v: "validate_references r allow cs as
      = and_then (foldE (\<lambda>_ x. ?f x) () (r_assets r)) (\<lambda>_. foldE (\<lambda>_ x. ?g x) () (r_access r))"
    unfolding validate_references_def by (rule refl)
  have "validate_references r allow cs as = Inr ()
      \<longleftrightarrow> (\<forall>x \<in> set (r_assets r). ?f x = Inr ()) \<and> (\<forall>x \<in> set (r_access r). ?g x = Inr ())"
    unfolding v and_then_unit foldE_check by (rule refl)
  also have "\<dots> \<longleftrightarrow> references_known r allow cs as"
    unfolding references_known_def using f g by (metis (no_types, lifting) surj_pair)
  finally show ?thesis .
qed

lemma references_known_mono:
  "references_known r True cs as \<Longrightarrow> cs \<subseteq> cs' \<Longrightarrow> as \<subseteq> as' \<Longrightarrow> references_known r True cs' as'"
  unfolding references_known_def known_credential_def known_asset_def by blast

end
