(* ===== verification/Apply_Idempotent.thy ===== *)
theory Apply_Idempotent
  imports Apply_Settled
begin

text \<open>
  Planning on a settled catalog succeeds and changes nothing, and every apply leaves a settled
  catalog behind.
\<close>

lemma foldE_total:
  assumes "I s" and "\<And>s x. I s \<Longrightarrow> x \<in> set xs \<Longrightarrow> \<exists>s'. f s x = Inr s' \<and> I s'"
  shows "\<exists>s'. foldE f s xs = Inr s' \<and> I s'"
  using assms
proof (induction xs arbitrary: s)
  case (Cons x xs)
  from Cons.prems(2) [OF Cons.prems(1), of x] obtain s1 where s1: "f s x = Inr s1" "I s1" by auto
  obtain s' where "foldE f s1 xs = Inr s'" "I s'"
    using Cons.IH [OF s1(2)] Cons.prems(2) by auto
  with s1(1) show ?case by simp
qed simp

text \<open>The id maps know every existing name.\<close>

definition ids_known :: "string \<Rightarrow> catalog \<Rightarrow> string btree \<Rightarrow> bool" where
  "ids_known t db ids \<longleftrightarrow> bt_ok ids \<and> (\<forall>c. existing_of t db c \<noteq> None \<longrightarrow> bt_get ids c \<noteq> None)"

lemma ids_known_insert: "ids_known t db ids \<Longrightarrow> ids_known t db (bt_insert m i ids)"
  by (auto simp: ids_known_def bt_ok_insert bt_get_insert)

lemma ids_known_remove:
  "ids_known t db ids \<Longrightarrow> existing_of t db m = None \<Longrightarrow> ids_known t db (bt_remove m ids)"
  by (auto simp: ids_known_def bt_ok_remove bt_get_remove)

lemma ids_known_load:
  "ids_known ''credential'' db (bt_map er_id (load_credentials db))"
  "ids_known ''asset'' db (bt_map ea_id (load_assets db))"
  by (auto simp: ids_known_def existing_of_def bt_get_map load_credentials_def load_assets_def)

lemma mentioned_declared:
  "m \<in> set (mentioned_of t r) \<longleftrightarrow> (\<exists>w. (m, w) \<in> set (declared t X mk r))"
  unfolding declared_names [where X = X and mk = mk, symmetric]
  by (force simp del: declared_names)

lemma settled_owned:
  assumes "settled X mk r source prune db" "row_type t" "m \<in> set (mentioned_of t r)"
    and "existing_of t db m = Some e"
  shows "owned_by source e"
proof -
  from assms(3) obtain w where "(m, w) \<in> set (declared t X mk r)"
    using mentioned_declared [of m t r X mk] by blast
  with settledD(1,2) [OF assms(1,2)] assms(4) show ?thesis by (cases w) fastforce+
qed

lemma settled_no_deletes:
  assumes "settled X mk r source prune db" "row_type t"
  shows "type_deletes t X db r source mk prune = []"
proof -
  have "\<not> (existing_of t db m = Some e \<and> ((m, None) \<in> set (declared t X mk r)
      \<or> (prune \<and> er_source_id e = Some source \<and> m \<notin> set (mentioned_of t r))))" for m e
    using settledD(2,3) [OF assms] by fastforce
  then have "ref \<notin> set (type_deletes t X db r source mk prune)" for ref
    unfolding type_deletes_in by blast
  then show ?thesis by (metis last_in_set)
qed

lemma settled_loop_deletes:
  assumes "settled X mk r source prune db" "row_type t"
  shows "concat (map (absent_refs t (existing_of t db)) (declared t X mk r)) = []"
    and "delete_refs t (existing_tree t db) (mentioned_of t r) source prune = []"
  using settled_no_deletes [OF assms] by (simp_all add: type_deletes_def)

section \<open>The loops on a settled catalog\<close>

lemma settled_credential_loop:
  assumes s: "settled X mk r source prune db"
  shows "\<exists>s1. foldE (plan_credential X n mk source (load_credentials db))
      (p, bt_map er_id (load_credentials db)) (r_credentials r) = Inr s1
    \<and> ids_known ''credential'' db (snd s1)"
proof (rule foldE_total)
  show "ids_known ''credential'' db (snd (p, bt_map er_id (load_credentials db)))"
    by (simp add: ids_known_load)
  fix st :: "plan \<times> string btree" and entry
  assume ids: "ids_known ''credential'' db (snd st)" and entry: "entry \<in> set (r_credentials r)"
  let ?ex = "bt_get (load_credentials db) (fst entry)"
  have ex: "?ex = existing_of ''credential'' db (fst entry)" by (simp add: existing_of_def)
  have "fst entry \<in> set (mentioned_of ''credential'' r)"
    using entry by (auto simp: mentioned_of_def bt_keys_def)
  with settled_owned [OF s row_types(1)] have own: "\<forall>e. ?ex = Some e \<longrightarrow> owned_by source e"
    by (simp add: ex)
  show "\<exists>st'. plan_credential X n mk source (load_credentials db) st entry = Inr st'
      \<and> ids_known ''credential'' db (snd st')"
  proof (cases "snd entry")
    case AbsentCredential
    with entry have "(fst entry, None) \<in> set (declared ''credential'' X mk r)"
      by (metis declared_credential(3) prod.collapse)
    then have "existing_of ''credential'' db (fst entry) = None"
      by (rule settledD(2) [OF s row_types(1)])
    with AbsentCredential ids ids_known_remove [OF ids this] ex show ?thesis
      by (simp add: plan_credential_def Let_def plan_absent_def)
  next
    case (PresentCredential ctype u pw pk pp)
    have "\<exists>i act. classify_present X (n + p_drawn (fst st)) ?ex source h path = Inr (i, act)"
      for h path
      using own by (auto simp: classify_present_Inr)
    then obtain i act where "classify_present X (n + p_drawn (fst st)) ?ex source
        (credential_hash X (fst entry) ctype u pw pk pp mk) (''credentials.'' @ fst entry) = Inr (i, act)"
      by blast
    with PresentCredential ids_known_insert [OF ids] show ?thesis
      by (simp add: plan_credential_def Let_def)
  qed
qed

lemma settled_asset_loop:
  assumes s: "settled X mk r source prune db"
    and refs: "\<And>m a b c d e cr. (m, PresentAsset a b c d e (Some cr)) \<in> set (r_assets r)
      \<Longrightarrow> bt_get cids cr \<noteq> None"
  shows "\<exists>s1. foldE (plan_asset X n source (load_assets db) cids)
      (p, bt_map ea_id (load_assets db)) (r_assets r) = Inr s1 \<and> ids_known ''asset'' db (snd s1)"
proof (rule foldE_total)
  show "ids_known ''asset'' db (snd (p, bt_map ea_id (load_assets db)))"
    by (simp add: ids_known_load)
  fix st :: "plan \<times> string btree" and entry
  assume ids: "ids_known ''asset'' db (snd st)" and entry: "entry \<in> set (r_assets r)"
  let ?ex = "map_option ea_resource (bt_get (load_assets db) (fst entry))"
  have ex: "?ex = existing_of ''asset'' db (fst entry)" by (simp add: existing_of_def bt_get_map)
  have "fst entry \<in> set (mentioned_of ''asset'' r)"
    using entry by (auto simp: mentioned_of_def bt_keys_def)
  with settled_owned [OF s row_types(2)] have own: "\<forall>e. ?ex = Some e \<longrightarrow> owned_by source e"
    unfolding ex by blast
  show "\<exists>st'. plan_asset X n source (load_assets db) cids st entry = Inr st'
      \<and> ids_known ''asset'' db (snd st')"
  proof (cases "snd entry")
    case AbsentAsset
    with entry have "(fst entry, None) \<in> set (declared ''asset'' X mk r)"
      by (metis declared_asset(3) prod.collapse)
    then have none: "existing_of ''asset'' db (fst entry) = None"
      by (rule settledD(2) [OF s row_types(2)])
    then have "bt_get (load_assets db) (fst entry) = None" unfolding ex [symmetric] by simp
    with AbsentAsset ids_known_remove [OF ids none] show ?thesis
      by (simp add: plan_asset_def Let_def plan_absent_def)
  next
    case (PresentAsset a b c d e cr)
    define cid where "cid = (case cr of None \<Rightarrow> None | Some c \<Rightarrow> bt_get cids c)"
    from refs [of "fst entry" a b c d e] entry PresentAsset
    have nc: "\<not> (cr \<noteq> None \<and> cid = None)"
      by (metis cid_def option.collapse option.simps(5) prod.collapse)
    have "\<exists>i act. classify_present X (n + p_drawn (fst st)) ?ex source h path = Inr (i, act)"
      for h path
      using own by (auto simp: classify_present_Inr)
    then obtain i act where cl: "classify_present X (n + p_drawn (fst st)) ?ex source
        (asset_hash X a b c d e cr) (''assets.'' @ fst entry) = Inr (i, act)"
      by blast
    show ?thesis
      unfolding plan_asset_def Let_def PresentAsset resolved_asset.case cid_def [symmetric]
        if_not_P [OF nc]
      using cl ids_known_insert [OF ids] by simp
  qed
qed

lemma mapE_ok: "(\<And>x. x \<in> set xs \<Longrightarrow> \<exists>y. f x = Inr y) \<Longrightarrow> \<exists>ys. mapE f xs = Inr ys"
proof (induction xs)
  case (Cons x xs)
  then obtain y ys where "f x = Inr y" "mapE f xs = Inr ys" by (meson list.set_intros)
  then show ?case by simp
qed simp

lemma settled_access_loop:
  assumes s: "settled X mk r source prune db"
    and refs: "\<And>m a b c xs x. (m, PresentAccess a b c (Some xs)) \<in> set (r_access r) \<Longrightarrow> x \<in> set xs
      \<Longrightarrow> bt_get aids x \<noteq> None"
  shows "\<exists>p'. foldE (plan_access X n source (load_access db) aids) p (r_access r) = Inr p' \<and> True"
proof (rule foldE_total)
  show True ..
  fix p entry
  assume entry: "entry \<in> set (r_access r)"
  let ?ex = "bt_get (load_access db) (fst entry)"
  have ex: "?ex = existing_of ''access_key'' db (fst entry)" by (simp add: existing_of_def)
  have "fst entry \<in> set (mentioned_of ''access_key'' r)"
    using entry by (auto simp: mentioned_of_def bt_keys_def)
  with settled_owned [OF s row_types(3)] have own: "\<forall>e. ?ex = Some e \<longrightarrow> owned_by source e"
    by (simp add: ex)
  show "\<exists>p'. plan_access X n source (load_access db) aids p entry = Inr p' \<and> True"
  proof (cases "snd entry")
    case AbsentAccess
    with own have "\<exists>p'. plan_absent ''access_key'' (fst entry) ?ex source (''access.'' @ fst entry) p
        = Inr p'" by (simp add: plan_absent_Inr)
    with AbsentAccess show ?thesis by (simp add: plan_access_def Let_def)
  next
    case (PresentAccess pk fp en as)
    have "\<exists>ids. asset_assignment_ids aids (''access.'' @ fst entry) (map_option sort as) = Inr ids"
    proof (cases as)
      case (Some l)
      define err where "err = mk_error UnknownReference (Some ((''access.'' @ fst entry)
          @ ''.assets'')) ''asset is not present in the final catalog''"
      have "\<exists>ids. mapE (\<lambda>asset. ok_or (bt_get aids asset) err) (sort l) = Inr ids"
      proof (rule mapE_ok)
        fix x assume "x \<in> set (sort l)"
        with refs [of "fst entry" pk fp en l x] entry PresentAccess Some obtain i where
          "bt_get aids x = Some i" by (metis not_None_eq prod.collapse set_sort)
        then show "\<exists>y. ok_or (bt_get aids x) err = Inr y" by simp
      qed
      then show ?thesis unfolding Some asset_assignment_ids_def err_def [symmetric] by auto
    qed (simp add: asset_assignment_ids_def)
    then obtain ids where
      ids: "asset_assignment_ids aids (''access.'' @ fst entry) (map_option sort as) = Inr ids" ..
    have "\<exists>i act. classify_present X (n + p_drawn p) ?ex source h path = Inr (i, act)" for h path
      using own by (auto simp: classify_present_Inr)
    then obtain i act where "classify_present X (n + p_drawn p) ?ex source
        (access_hash X pk en (map_option sort as)) (''access.'' @ fst entry) = Inr (i, act)"
      by blast
    with PresentAccess ids show ?thesis by (simp add: plan_access_def Let_def)
  qed
qed

section \<open>Planning on a settled catalog\<close>

text \<open>A known reference resolves to an existing resource.\<close>

lemma settled_expected:
  assumes "settled X mk r source prune db" "row_type t" "expected t X mk r source prune db c"
  shows "existing_of t db c \<noteq> None"
  using assms(3) settledD(1) [OF assms(1,2), of c] by (auto simp: expected_def split: if_splits)

lemma known_exists:
  assumes s: "settled X mk r source prune db" and ok: "resolved_ok r"
    and refs: "references_known r True
       (final_credential_names (load_credentials db) r source prune)
       (final_asset_names (existing_tree ''asset'' db) r source prune)"
  shows "(m, PresentAsset a b c d e (Some cr)) \<in> set (r_assets r)
      \<Longrightarrow> existing_of ''credential'' db cr \<noteq> None"
    and "(m, PresentAccess pk fp en (Some xs)) \<in> set (r_access r) \<Longrightarrow> x \<in> set xs
      \<Longrightarrow> existing_of ''asset'' db x \<noteq> None"
proof -
  assume "(m, PresentAsset a b c d e (Some cr)) \<in> set (r_assets r)"
  with refs have "known_credential r True (final_credential_names (load_credentials db) r source prune) cr"
    unfolding references_known_def by blast
  then consider v where "(cr, v) \<in> set (r_credentials r)" "v \<noteq> AbsentCredential"
    | "expected ''credential'' X mk r source prune db cr"
    unfolding known_credential_def present_credentials_def
    using final_credential_names_in [OF ok, of cr db source prune X mk] by auto
  then show "existing_of ''credential'' db cr \<noteq> None"
  proof cases
    case 1
    with declared_credential(2) obtain h where "(cr, Some h) \<in> set (declared ''credential'' X mk r)"
      by blast
    with settledD(1) [OF s row_types(1)] show ?thesis by fastforce
  next
    case 2
    with settled_expected [OF s row_types(1)] show ?thesis by blast
  qed
next
  assume "(m, PresentAccess pk fp en (Some xs)) \<in> set (r_access r)" "x \<in> set xs"
  with refs have "known_asset r True (final_asset_names (existing_tree ''asset'' db) r source prune) x"
    unfolding references_known_def by blast
  then consider v where "(x, v) \<in> set (r_assets r)" "v \<noteq> AbsentAsset"
    | "expected ''asset'' X mk r source prune db x"
    unfolding known_asset_def present_assets_def
    using final_asset_names_in [OF ok, of x db source prune X mk] by auto
  then show "existing_of ''asset'' db x \<noteq> None"
  proof cases
    case 1
    with declared_asset(2) obtain h where "(x, Some h) \<in> set (declared ''asset'' X mk r)" by blast
    with settledD(1) [OF s row_types(2)] show ?thesis by fastforce
  next
    case 2
    with settled_expected [OF s row_types(2)] show ?thesis by blast
  qed
qed

lemma validate_credential_deletes_none:
  "p_deletes p = [] \<Longrightarrow> validate_credential_deletes p existing = Inr ()"
  by (simp add: validate_credential_deletes_def Let_def)

lemma settled_plan:
  assumes s: "settled X mk r source prune db" and ok: "resolved_ok r"
    and refs: "references_known r True
       (final_credential_names (load_credentials db) r source prune)
       (final_asset_names (existing_tree ''asset'' db) r source prune)"
  shows "\<exists>p. plan_for X n db r source mk prune p"
proof -
  let ?pm = "\<lambda>t. plan_missing t (existing_tree t db) (mentioned_of t r) source prune"
  have tree: "load_credentials db = existing_tree ''credential'' db"
    "bt_map ea_resource (load_assets db) = existing_tree ''asset'' db"
    "load_access db = existing_tree ''access_key'' db"
    by (simp_all add: existing_tree_def)
  have ment: "bt_keys (r_credentials r) = mentioned_of ''credential'' r"
    "bt_keys (r_assets r) = mentioned_of ''asset'' r" "bt_keys (r_access r) = mentioned_of ''access_key'' r"
    by (simp_all add: mentioned_of_def)
  have retain: "retain_ids [] ids = ids" for ids by (simp add: retain_ids_def)
  have dels: "concat (map (\<lambda>x. absent_refs ''credential'' (existing_of ''credential'' db)
        (credential_wanted X mk x)) (r_credentials r)) = []"
    "concat (map (\<lambda>x. absent_refs ''asset'' (existing_of ''asset'' db) (asset_wanted X x))
        (r_assets r)) = []"
    "concat (map (\<lambda>x. absent_refs ''access_key'' (existing_of ''access_key'' db) (access_wanted X x))
        (r_access r)) = []"
    using settled_loop_deletes(1) [OF s row_types(1)] settled_loop_deletes(1) [OF s row_types(2)]
      settled_loop_deletes(1) [OF s row_types(3)]
    by (simp_all add: declared_def comp_def)
  note none = settled_loop_deletes(2) [OF s row_types(1)] settled_loop_deletes(2) [OF s row_types(2)]
    settled_loop_deletes(2) [OF s row_types(3)]
  have ex: "bt_get (existing_tree t db) = existing_of t db" for t by (rule bt_get_existing_tree)
  obtain s1 where 1: "foldE (plan_credential X n mk source (load_credentials db))
      (empty_plan, bt_map er_id (load_credentials db)) (r_credentials r) = Inr s1"
    and ids1: "ids_known ''credential'' db (snd s1)"
    using settled_credential_loop [OF s] by blast
  have d1: "p_deletes (?pm ''credential'' (fst s1)) = []"
    using credential_plan.loop_deletes [OF 1] dels none
    by (simp add: plan_missing_effect tree ex empty_plan_def)
  have cr: "bt_get (snd s1) cr \<noteq> None"
    if "(m, PresentAsset a b c d e (Some cr)) \<in> set (r_assets r)" for m a b c d e cr
    using known_exists(1) [OF s ok refs that] ids1 by (simp add: ids_known_def)
  have "\<exists>s3. foldE (plan_asset X n source (load_assets db) (snd s1))
      (?pm ''credential'' (fst s1), bt_map ea_id (load_assets db)) (r_assets r) = Inr s3
      \<and> ids_known ''asset'' db (snd s3)"
    by (rule settled_asset_loop [OF s]) (rule cr)
  then obtain s3 where 3: "foldE (plan_asset X n source (load_assets db) (snd s1))
      (?pm ''credential'' (fst s1), bt_map ea_id (load_assets db)) (r_assets r) = Inr s3"
    and ids3: "ids_known ''asset'' db (snd s3)" by blast
  have d3: "p_deletes (?pm ''asset'' (fst s3)) = []"
    using asset_plan.loop_deletes [OF 3] d1 dels none
    by (simp add: plan_missing_effect tree ex)
  have xr: "bt_get (snd s3) x \<noteq> None"
    if "(m, PresentAccess a b c (Some xs)) \<in> set (r_access r)" "x \<in> set xs" for m a b c xs x
    using known_exists(2) [OF s ok refs that] ids3 by (simp add: ids_known_def)
  have "\<exists>p5. foldE (plan_access X n source (load_access db) (snd s3))
      (?pm ''asset'' (fst s3)) (r_access r) = Inr p5 \<and> True"
    by (rule settled_access_loop [OF s]) (rule xr)
  then obtain p5 where 5: "foldE (plan_access X n source (load_access db) (snd s3))
      (?pm ''asset'' (fst s3)) (r_access r) = Inr p5" by blast
  have d5: "p_deletes (?pm ''access_key'' p5) = []"
    using access_plan.loop_deletes [OF 5] d3 dels none
    by (simp add: plan_missing_effect tree ex)
  have "validate_references r True
       (final_credential_names (load_credentials db) r source prune)
       (final_asset_names (existing_tree ''asset'' db) r source prune) = Inr ()"
    using refs by (simp add: validate_references_Inr)
  then show ?thesis
    using 1 3 5 validate_credential_deletes_none [OF d5] d1 d3
    by (auto simp: plan_for_def build_plan_def tree ment Let_def deleted_ids_def retain
        split: prod.splits)
qed

section \<open>Nothing to do\<close>

lemma set_plan_changes:
  assumes "plan_for X n db r source mk prune p"
  shows "c \<in> set (p_changes p) \<longleftrightarrow>
    (\<exists>t. row_type t \<and> c \<in> set (type_changes t X db r source mk prune))"
  using assms by (rule plan_for_parts) (auto simp: row_type_def)

lemma type_changes_unchanged:
  "(\<forall>c \<in> set (type_changes t X db r source mk prune). ch_action c = Unchanged) \<longleftrightarrow>
     (\<forall>m w. (m, w) \<in> set (declared t X mk r) \<longrightarrow> action_of (existing_of t db m) w = Unchanged)
     \<and> (\<forall>m e. existing_of t db m = Some e \<longrightarrow> er_source_id e = Some source
          \<longrightarrow> m \<notin> set (mentioned_of t r) \<longrightarrow> \<not> prune \<and> er_orphaned_at e \<noteq> None)"
proof -
  have "(\<forall>c \<in> set (map (change_of t (existing_of t db)) (declared t X mk r)). ch_action c = Unchanged)
      \<longleftrightarrow> (\<forall>m w. (m, w) \<in> set (declared t X mk r) \<longrightarrow> action_of (existing_of t db m) w = Unchanged)"
    by (auto simp: change_of_def)
  moreover have "(\<forall>c \<in> set (map (missing_change t prune)
        (unmentioned (existing_tree t db) (mentioned_of t r) source)). ch_action c = Unchanged)
      \<longleftrightarrow> (\<forall>m e. (m, e) \<in> set (existing_tree t db) \<longrightarrow> er_source_id e = Some source
          \<longrightarrow> m \<notin> set (mentioned_of t r) \<longrightarrow> \<not> prune \<and> er_orphaned_at e \<noteq> None)"
    by (force simp: missing_change_def unmentioned_def split: if_splits)
  ultimately show ?thesis unfolding type_changes_def set_append ball_Un existing_tree_in by blast
qed

text \<open>A plan changes nothing exactly when the catalog is settled.\<close>

lemma plan_unchanged_iff:
  assumes pf: "plan_for X n db r source mk prune p"
  shows "\<not> plan_changed p \<longleftrightarrow> settled X mk r source prune db"
proof -
  have present: "action_of (existing_of t db m) (Some h) = Unchanged \<longleftrightarrow> (\<exists>e. existing_of t db m = Some e
      \<and> owned_by source e \<and> er_hash e = Some h \<and> er_orphaned_at e = None)"
    if t: "row_type t" and d: "(m, Some h) \<in> set (declared t X mk r)" for t m h
  proof -
    have "m \<in> set (mentioned_of t r)" using d mentioned_declared [of m t r X mk] by blast
    with plan_owned [OF pf t] show ?thesis
      by (cases "existing_of t db m") (auto simp: action_of_def)
  qed
  have absent: "action_of ex None = Unchanged \<longleftrightarrow> ex = None" for ex
    by (simp add: action_of_def)
  have "\<not> plan_changed p \<longleftrightarrow> (\<forall>t. row_type t \<longrightarrow>
      (\<forall>c \<in> set (type_changes t X db r source mk prune). ch_action c = Unchanged))"
    using set_plan_changes [OF pf] by (auto simp: plan_changed_def)
  also have "\<dots> \<longleftrightarrow> settled X mk r source prune db"
    unfolding type_changes_unchanged settled_def
  proof (rule iff_allI, rule imp_cong [OF refl])
    fix t assume t: "row_type t"
    show "(\<forall>m w. (m, w) \<in> set (declared t X mk r) \<longrightarrow> action_of (existing_of t db m) w = Unchanged)
        \<and> (\<forall>m e. existing_of t db m = Some e \<longrightarrow> er_source_id e = Some source
          \<longrightarrow> m \<notin> set (mentioned_of t r) \<longrightarrow> \<not> prune \<and> er_orphaned_at e \<noteq> None)
      \<longleftrightarrow> (\<forall>m h. (m, Some h) \<in> set (declared t X mk r) \<longrightarrow> (\<exists>e. existing_of t db m = Some e
          \<and> owned_by source e \<and> er_hash e = Some h \<and> er_orphaned_at e = None))
        \<and> (\<forall>m. (m, None) \<in> set (declared t X mk r) \<longrightarrow> existing_of t db m = None)
        \<and> (\<forall>m e. existing_of t db m = Some e \<longrightarrow> m \<notin> set (mentioned_of t r)
          \<longrightarrow> er_source_id e = Some source \<longrightarrow> \<not> prune \<and> er_orphaned_at e \<noteq> None)"
    proof -
      have "(\<forall>m w. (m, w) \<in> set (declared t X mk r) \<longrightarrow> action_of (existing_of t db m) w = Unchanged)
        \<longleftrightarrow> (\<forall>m h. (m, Some h) \<in> set (declared t X mk r) \<longrightarrow> (\<exists>e. existing_of t db m = Some e
            \<and> owned_by source e \<and> er_hash e = Some h \<and> er_orphaned_at e = None))
          \<and> (\<forall>m. (m, None) \<in> set (declared t X mk r) \<longrightarrow> existing_of t db m = None)"
        unfolding split_option_all using present [OF t] absent by (simp cong: imp_cong) blast
      then show ?thesis by blast
    qed
  qed
  finally show ?thesis .
qed

section \<open>After an apply\<close>

lemma ran_settled:
  assumes run: "ran X now n k r source mk prune p db db'"
  shows "settled X mk r source prune db'"
proof -
  from run have pf: "plan_for X n db r source mk prune p" and ok: "constraints db"
    and r: "resolved_ok r" by (auto simp: ran_def)
  show ?thesis
    unfolding settled_def
  proof (intro allI impI conjI)
    fix t assume t: "row_type t"
    show "\<exists>e. existing_of t db' m = Some e \<and> owned_by source e \<and> er_hash e = Some h
        \<and> er_orphaned_at e = None" if "(m, Some h) \<in> set (declared t X mk r)" for m h
      using ran_present [OF run t that] by metis
    show "existing_of t db' m = None" if d: "(m, None) \<in> set (declared t X mk r)" for m
    proof -
      have no: "(m, Some h) \<notin> set (declared t X mk r)" for h
        using d resolved_ok_mentioned [OF r, of t] by (metis eq_key_imp_eq_value fst_declared
            option.distinct(1))
      show ?thesis
      proof (cases "existing_of t db m")
        case None
        with ran_not_present [OF run t no] show ?thesis by simp
      next
        case (Some e)
        with d plan_deleted_ids [OF pf t] have "er_id e \<in> set (deleted_ids t p)" by blast
        with ran_not_present [OF run t no] Some show ?thesis by simp
      qed
    qed
    fix m e
    assume e: "existing_of t db' m = Some e" and m: "m \<notin> set (mentioned_of t r)"
      and src: "er_source_id e = Some source"
    have no: "(m, Some h) \<notin> set (declared t X mk r)" for h
      using m mentioned_declared [of m t r X mk] by blast
    from ran_not_present [OF run t no] e obtain e0 where e0: "existing_of t db m = Some e0"
      and nd: "er_id e0 \<notin> set (deleted_ids t p)"
      and ec: "e = (if er_id e0 \<in> set (orphan_ids t p) then e0\<lparr>er_orphaned_at := Some now\<rparr> else e0)"
      by (auto split: option.splits if_splits)
    from ec src have src0: "er_source_id e0 = Some source" by (auto split: if_splits)
    show np: "\<not> prune" using plan_deleted_ids [OF pf t] e0 m src0 nd by blast
    show "er_orphaned_at e \<noteq> None"
    proof (cases "er_orphaned_at e0")
      case None
      with plan_orphan_ids [OF pf t] e0 m src0 np have "er_id e0 \<in> set (orphan_ids t p)" by blast
      with ec show ?thesis by simp
    next
      case (Some _)
      with ec show ?thesis by (auto split: if_splits)
    qed
  qed
qed

lemma ran_expected:
  assumes run: "ran X now n k r source mk prune p db db'" and t: "row_type t"
    and ex: "expected t X mk r source prune db c"
  shows "expected t X mk r source prune db' c"
proof (cases "c \<in> set (mentioned_of t r)")
  case True
  with ex show ?thesis by (simp add: expected_def)
next
  case False
  from run have pf: "plan_for X n db r source mk prune p" and ok: "constraints db"
    by (auto simp: ran_def)
  from False ex obtain e where e: "existing_of t db c = Some e"
    and ne: "\<not> (prune \<and> er_source_id e = Some source)" by (auto simp: expected_def)
  have no: "(c, w) \<notin> set (declared t X mk r)" for w
    using False mentioned_declared [of c t r X mk] by blast
  have "er_id e \<notin> set (deleted_ids t p)"
  proof
    assume "er_id e \<in> set (deleted_ids t p)"
    then obtain m e' where e': "existing_of t db m = Some e'" "er_id e = er_id e'"
      and d: "(m, None) \<in> set (declared t X mk r)
          \<or> (prune \<and> er_source_id e' = Some source \<and> m \<notin> set (mentioned_of t r))"
      unfolding plan_deleted_ids [OF pf t] by blast
    from existing_of_inj [OF ok t e e'(1,2)] have "m = c" by simp
    with d e e'(1) ne no show False by simp
  qed
  with ran_not_present [OF run t no] e ne False show ?thesis
    by (auto simp: expected_def split: if_splits)
qed

lemma ran_references:
  assumes run: "ran X now n k r source mk prune p db db'"
  shows "references_known r True
       (final_credential_names (load_credentials db') r source prune)
       (final_asset_names (existing_tree ''asset'' db') r source prune)"
proof -
  from run have pf: "plan_for X n db r source mk prune p" and r: "resolved_ok r"
    by (auto simp: ran_def)
  from pf have "references_known r True
       (final_credential_names (load_credentials db) r source prune)
       (final_asset_names (existing_tree ''asset'' db) r source prune)"
    by (rule plan_for_parts) (simp add: validate_references_Inr)
  then show ?thesis
  proof (rule references_known_mono)
    show "final_credential_names (load_credentials db) r source prune
        \<subseteq> final_credential_names (load_credentials db') r source prune"
      using ran_expected [OF run row_types(1)] final_credential_names_in [OF r] by blast
    show "final_asset_names (existing_tree ''asset'' db) r source prune
        \<subseteq> final_asset_names (existing_tree ''asset'' db') r source prune"
      using ran_expected [OF run row_types(2)] final_asset_names_in [OF r] by blast
  qed
qed

text \<open>A later plan for the same manifest exists and has nothing to do.\<close>

lemma ran_again:
  assumes "ran X now n k r source mk prune p db db'"
  shows "\<exists>p'. plan_for X n' db' r source mk prune p' \<and> \<not> plan_changed p'"
proof -
  have "resolved_ok r" using assms by (simp add: ran_def)
  from settled_plan [OF ran_settled [OF assms] this ran_references [OF assms]]
  obtain p' where "plan_for X n' db' r source mk prune p'" by blast
  with plan_unchanged_iff ran_settled [OF assms] show ?thesis by blast
qed

lemma unchanged_again:
  assumes pf: "plan_for X n db r source mk prune p" and un: "\<not> plan_changed p" and r: "resolved_ok r"
  shows "\<exists>p'. plan_for X n' db r source mk prune p' \<and> \<not> plan_changed p'"
proof -
  have s: "settled X mk r source prune db" using plan_unchanged_iff [OF pf] un by simp
  from pf have "references_known r True
       (final_credential_names (load_credentials db) r source prune)
       (final_asset_names (existing_tree ''asset'' db) r source prune)"
    by (rule plan_for_parts) (simp add: validate_references_Inr)
  from settled_plan [OF s r this] obtain p' where "plan_for X n' db r source mk prune p'" by blast
  with plan_unchanged_iff s show ?thesis by blast
qed

section \<open>The outcome of \<open>apply\<close>\<close>

lemma prepare_quiet:
  "prepare X n w mk (quiet db) m source opts = Inr (s, p) \<longleftrightarrow>
     validate_source_id source = Inr ()
     \<and> (\<forall>b. ao_base_revision opts = Some b \<longrightarrow> b = t_revision db)
     \<and> (\<exists>r. resolve_material X w m = Inr r \<and> plan_for X n db r source mk (ao_prune opts) p)
     \<and> s = plan_summary p source (t_revision db) (t_revision db + (if plan_changed p then 1 else 0))
         (source_generation db source + (if plan_changed p then 1 else 0)) (ao_dry_run opts)"
  by (auto simp: prepare_def quiet_def plan_for_def and_then_Inr check_Inr Let_def
      split: option.splits)

text \<open>A successful apply either had nothing to do or ran its plan.\<close>

lemma apply_manifest_Inr:
  assumes "apply_manifest X now n k w mk m source opts db = (db', Inr s)"
    and "\<not> ao_dry_run opts" and "constraints db" and "fresh_ids X n db"
  obtains r p where "resolve_material X w m = Inr r" "validate_source_id source = Inr ()"
    "plan_for X n db r source mk (ao_prune opts) p" "resolved_ok r"
    "s = plan_summary p source (t_revision db) (t_revision db + (if plan_changed p then 1 else 0))
       (source_generation db source + (if plan_changed p then 1 else 0)) False"
    "\<not> plan_changed p \<Longrightarrow> db' = db"
    "plan_changed p \<Longrightarrow> ran X now n k r source mk (ao_prune opts) p db db'"
    "plan_changed p \<Longrightarrow> t_revision db' = t_revision db + 1" "constraints db'"
proof -
  from assms(1) obtain p where prep: "prepare X n w mk (quiet db) m source opts = Inr (s, p)"
    by (auto simp: apply_manifest_def apply_with_def split: sum.splits prod.splits if_splits)
  then obtain r where r: "resolve_material X w m = Inr r" "validate_source_id source = Inr ()"
    "plan_for X n db r source mk (ao_prune opts) p"
    and s: "s = plan_summary p source (t_revision db) (t_revision db + (if plan_changed p then 1 else 0))
       (source_generation db source + (if plan_changed p then 1 else 0)) False"
    using assms(2) unfolding prepare_quiet by auto
  have rok: "resolved_ok r" using r(1) by (rule resolve_material_ok)
  have un: "db' = db" if "\<not> plan_changed p"
    using assms(1) prep that by (simp add: apply_manifest_def apply_with_def)
  have ch: "execute_plan X now n k p source (sm_generation s) (sm_new_revision s) mk s db = Inr db'"
    if "plan_changed p"
    using assms(1,2) prep that
    by (auto simp: apply_manifest_def apply_with_def split: sum.splits if_splits)
  have ran: "ran X now n k r source mk (ao_prune opts) p db db'" if "plan_changed p"
    using ch [OF that] r(3) assms(3,4) rok unfolding ran_def by blast
  have rev: "t_revision db' = t_revision db + 1" if "plan_changed p"
    using execute_plan_effect(4) [OF ch [OF that] assms(3) row_types(1)] that
    by (simp add: s plan_summary_def)
  have "constraints db'"
    using execute_plan_effect(3) [OF ch assms(3) row_types(1)] un assms(3) by (cases "plan_changed p") auto
  with r s rok un ran rev show thesis by (rule_tac that)
qed

lemma apply_manifest_unchanged:
  assumes "validate_source_id source = Inr ()" "resolve_material X w m = Inr r"
    and "plan_for X n db r source mk (ao_prune opts) p" "\<not> plan_changed p"
    and "ao_base_revision opts = None"
  shows "apply_manifest X now n k w mk m source opts db = (db, Inr (plan_summary p source
    (t_revision db) (t_revision db) (source_generation db source) (ao_dry_run opts)))"
proof -
  have "prepare X n w mk (quiet db) m source opts = Inr (plan_summary p source
      (t_revision db) (t_revision db) (source_generation db source) (ao_dry_run opts), p)"
    unfolding prepare_quiet using assms by auto
  with assms(4) show ?thesis by (simp add: apply_manifest_def apply_with_def)
qed

lemma count_action_unchanged: "\<not> plan_changed p \<Longrightarrow> a \<noteq> Unchanged \<Longrightarrow> count_action p a = 0"
  by (auto simp: plan_changed_def count_action_def filter_empty_conv)

section \<open>The second apply\<close>

text \<open>After a successful apply, a plan for the same manifest has nothing to do.\<close>

lemma apply_settles:
  assumes "apply_manifest X now n k w mk m source opts db = (db', Inr s)"
    and "\<not> ao_dry_run opts" and "constraints db" and "fresh_ids X n db"
  shows "\<exists>r p. resolve_material X w m = Inr r \<and> validate_source_id source = Inr ()
    \<and> plan_for X n' db' r source mk (ao_prune opts) p \<and> \<not> plan_changed p \<and> constraints db'"
proof -
  obtain r p where rp: "resolve_material X w m = Inr r" "validate_source_id source = Inr ()"
      "plan_for X n db r source mk (ao_prune opts) p" "resolved_ok r"
    and same: "\<not> plan_changed p \<Longrightarrow> db' = db"
    and ran: "plan_changed p \<Longrightarrow> ran X now n k r source mk (ao_prune opts) p db db'"
    and ok: "constraints db'"
    using apply_manifest_Inr [OF assms] by metis
  have "\<exists>p'. plan_for X n' db' r source mk (ao_prune opts) p' \<and> \<not> plan_changed p'"
  proof (cases "plan_changed p")
    case True
    from ran_again [OF ran [OF True]] show ?thesis by blast
  next
    case False
    with same have "db' = db" by blast
    with unchanged_again [OF rp(3) False rp(4)] show ?thesis by blast
  qed
  with rp ok show ?thesis by blast
qed

lemma apply_nothing_to_do:
  assumes "resolve_material X w m = Inr r" and "validate_source_id source = Inr ()"
    and "plan_for X n db r source mk (ao_prune opts) p" and "\<not> plan_changed p"
    and "ao_base_revision opts = None"
  shows "\<exists>s. apply_manifest X now n k w mk m source opts db = (db, Inr s)
    \<and> sm_created s = 0 \<and> sm_updated s = 0 \<and> sm_deleted s = 0 \<and> sm_orphaned s = 0
    \<and> sm_base_revision s = t_revision db \<and> sm_new_revision s = t_revision db"
  using apply_manifest_unchanged [OF assms(2,1,3,4,5)] count_action_unchanged [OF assms(4)]
  by (simp add: plan_summary_def)

lemma apply_manifest_again:
  assumes "apply_manifest X now n k w mk m source opts db = (db', Inr s)"
    and "\<not> ao_dry_run opts" and "constraints db" and "fresh_ids X n db"
  shows "\<exists>s'. apply_manifest X now' n' k' w mk m source (opts\<lparr>ao_base_revision := None\<rparr>) db'
      = (db', Inr s')
    \<and> sm_created s' = 0 \<and> sm_updated s' = 0 \<and> sm_deleted s' = 0 \<and> sm_orphaned s' = 0
    \<and> sm_base_revision s' = t_revision db' \<and> sm_new_revision s' = t_revision db'"
proof -
  obtain r p where "resolve_material X w m = Inr r" "validate_source_id source = Inr ()"
    "plan_for X n' db' r source mk (ao_prune opts) p" "\<not> plan_changed p"
    using apply_settles [OF assms, of n'] by blast
  then show ?thesis by (intro apply_nothing_to_do) simp_all
qed

end
