(* ===== verification/Apply_Frame.thy ===== *)
theory Apply_Frame
  imports Apply_Idempotent
begin

text \<open>
  What an apply leaves alone. \<open>untouched T db0 db\<close> says that every row outside the ids \<open>T\<close> is in
  \<open>db\<close> as it was in \<open>db0\<close>, its owner included; the loops of \<open>execute_plan\<close> keep it, and a plan only
  touches rows its source owns or creates.
\<close>

definition untouched :: "(string \<Rightarrow> string \<Rightarrow> bool) \<Rightarrow> catalog \<Rightarrow> catalog \<Rightarrow> bool" where
  "untouched T db0 db \<longleftrightarrow>
     (\<forall>i. \<not> T ''credential'' i \<longrightarrow> credential_row i db = credential_row i db0)
     \<and> (\<forall>i. \<not> T ''asset'' i \<longrightarrow> asset_row_of_id i db = asset_row_of_id i db0)
     \<and> (\<forall>i. \<not> T ''access_key'' i \<longrightarrow> access_row i db = access_row i db0)
     \<and> (\<forall>t i. \<not> T t i \<longrightarrow> owner_map t db i = owner_map t db0 i)
     \<and> (\<forall>k a. \<not> T ''access_key'' k \<longrightarrow> \<not> T ''asset'' a \<longrightarrow>
          (k, a) \<in> set (t_access_key_assets db) \<longleftrightarrow> (k, a) \<in> set (t_access_key_assets db0))
     \<and> t_sessions db = t_sessions db0 \<and> t_known_hosts db = t_known_hosts db0"

lemma untouched_refl: "untouched T db db"
  by (simp add: untouched_def)

lemma untouched_same:
  "untouched T db0 db \<Longrightarrow> t_credentials db' = t_credentials db \<Longrightarrow> t_assets db' = t_assets db
    \<Longrightarrow> t_access_keys db' = t_access_keys db \<Longrightarrow> t_ownership db' = t_ownership db
    \<Longrightarrow> t_access_key_assets db' = t_access_key_assets db \<Longrightarrow> t_sessions db' = t_sessions db
    \<Longrightarrow> t_known_hosts db' = t_known_hosts db \<Longrightarrow> untouched T db0 db'"
  by (simp add: untouched_def row_defs owner_map_def owner_of_def)

lemma untouched_owner: "untouched T db0 db \<Longrightarrow> \<not> T t i \<Longrightarrow> owner_map t db i = owner_map t db0 i"
  by (simp add: untouched_def)

lemma untouchedD:
  assumes "untouched T db0 db"
  shows "\<not> T ''credential'' i \<Longrightarrow> credential_row i db = credential_row i db0"
    and "\<not> T ''asset'' i \<Longrightarrow> asset_row_of_id i db = asset_row_of_id i db0"
    and "\<not> T ''access_key'' i \<Longrightarrow> access_row i db = access_row i db0"
  using assms by (simp_all add: untouched_def)

section \<open>Statements\<close>

lemma upsert_ownership_frame:
  assumes u: "upsert_ownership now rtype i source m g h db = Inr db'" and un: "untouched T db0 db"
    and t: "T rtype i"
  shows "untouched T db0 db'"
proof -
  note e = upsert_ownership_effect(1) [OF u]
  from u have same: "t_credentials db' = t_credentials db" "t_assets db' = t_assets db"
    "t_access_keys db' = t_access_keys db" "t_access_key_assets db' = t_access_key_assets db"
    "t_sessions db' = t_sessions db" "t_known_hosts db' = t_known_hosts db"
    by (simp_all add: upsert_ownership_def Let_def enforce_Inr)
  have "owner_map s db' j = owner_map s db0 j" if "\<not> T s j" for s j
    using that t untouched_owner [OF un that] by (auto simp: e)
  with un same show ?thesis by (simp add: untouched_def row_defs)
qed

lemma upsert_credential_frame:
  assumes "upsert_credential_row now u a b c db = Inr db'" and "untouched T db0 db"
    and "T ''credential'' (cu_id u)"
  shows "untouched T db0 db'"
proof -
  from assms(1) have same: "t_assets db' = t_assets db" "t_ownership db' = t_ownership db"
    "t_access_keys db' = t_access_keys db" "t_access_key_assets db' = t_access_key_assets db"
    "t_sessions db' = t_sessions db" "t_known_hosts db' = t_known_hosts db"
    by (simp_all add: upsert_credential_row_def enforce_Inr)
  have "credential_row i db' = credential_row i db" if "i \<noteq> cu_id u" for i
    using assms(1) that
    by (auto simp: upsert_credential_row_def enforce_Inr row_defs find_upsert_where [where key = c_id])
  then have "credential_row i db' = credential_row i db0" if "\<not> T ''credential'' i" for i
    using that assms(3) untouchedD(1) [where T = T, OF assms(2) that] by (cases "i = cu_id u") auto
  with assms(2) same show ?thesis
    by (simp add: untouched_def asset_row_of_id_def access_row_def owner_map_def owner_of_def)
qed

lemma upsert_asset_frame:
  assumes "upsert_asset_row now u db = Inr db'" and "untouched T db0 db"
    and "T ''asset'' (au_id u)"
  shows "untouched T db0 db'"
proof -
  from assms(1) have same: "t_credentials db' = t_credentials db" "t_ownership db' = t_ownership db"
    "t_access_keys db' = t_access_keys db" "t_access_key_assets db' = t_access_key_assets db"
    "t_sessions db' = t_sessions db" "t_known_hosts db' = t_known_hosts db"
    by (simp_all add: upsert_asset_row_def enforce_Inr)
  have "asset_row_of_id i db' = asset_row_of_id i db" if "i \<noteq> au_id u" for i
    using assms(1) that
    by (auto simp: upsert_asset_row_def enforce_Inr row_defs find_upsert_where [where key = a_id])
  then have "asset_row_of_id i db' = asset_row_of_id i db0" if "\<not> T ''asset'' i" for i
    using that assms(3) untouchedD(2) [where T = T, OF assms(2) that] by (cases "i = au_id u") auto
  with assms(2) same show ?thesis
    by (simp add: untouched_def credential_row_def access_row_def owner_map_def owner_of_def)
qed

lemma upsert_access_frame:
  assumes "upsert_access_row now u db = Inr db'" and "untouched T db0 db"
    and "T ''access_key'' (xu_id u)"
  shows "untouched T db0 db'"
proof -
  from assms(1) have same: "t_credentials db' = t_credentials db" "t_ownership db' = t_ownership db"
    "t_assets db' = t_assets db" "t_access_key_assets db' = t_access_key_assets db"
    "t_sessions db' = t_sessions db" "t_known_hosts db' = t_known_hosts db"
    by (simp_all add: upsert_access_row_def Let_def enforce_Inr)
  have "access_row i db' = access_row i db" if "i \<noteq> xu_id u" for i
    using assms(1) that
    by (auto simp: upsert_access_row_def Let_def enforce_Inr row_defs
        find_upsert_where [where key = k_id])
  then have "access_row i db' = access_row i db0" if "\<not> T ''access_key'' i" for i
    using that assms(3) untouchedD(3) [where T = T, OF assms(2) that] by (cases "i = xu_id u") auto
  with assms(2) same show ?thesis
    by (simp add: untouched_def credential_row_def asset_row_of_id_def owner_map_def owner_of_def)
qed

lemma assignments_untouched:
  assumes "untouched T db0 db" and "T ''access_key'' key"
    and "\<And>k a. k \<noteq> key \<Longrightarrow> (k, a) \<in> set as \<longleftrightarrow> (k, a) \<in> set (t_access_key_assets db)"
  shows "untouched T db0 (db\<lparr>t_access_key_assets := as\<rparr>)"
proof -
  have "(k, a) \<in> set as \<longleftrightarrow> (k, a) \<in> set (t_access_key_assets db0)"
    if "\<not> T ''access_key'' k" "\<not> T ''asset'' a" for k a
    using that assms unfolding untouched_def by metis
  with assms(1) show ?thesis by (simp add: untouched_def row_defs owner_map_def owner_of_def)
qed

lemma delete_assignments_frame:
  "delete_assignments key db = Inr db' \<Longrightarrow> untouched T db0 db \<Longrightarrow> T ''access_key'' key
    \<Longrightarrow> untouched T db0 db'"
  by (auto simp: delete_assignments_def enforce_Inr intro!: assignments_untouched)

lemma insert_assignment_frame:
  "insert_assignment key a db = Inr db' \<Longrightarrow> untouched T db0 db \<Longrightarrow> T ''access_key'' key
    \<Longrightarrow> untouched T db0 db'"
  by (auto simp: insert_assignment_def enforce_Inr intro!: assignments_untouched)

section \<open>Loops\<close>

interpretation assignment_frame: loop_body "\<lambda>db a. insert_assignment key a db"
    "untouched T db0" "\<lambda>_. T ''access_key'' key" for key T db0
  by unfold_locales (rule insert_assignment_frame)

interpretation credential_frame: loop_body "execute_credential X now mk source g"
    "\<lambda>s. untouched T db0 (fst s)" "\<lambda>u. T ''credential'' (cu_id u)" for X now mk source g T db0
proof
  fix s u s'
  assume un: "untouched T db0 (fst s)" and t: "T ''credential'' (cu_id u)"
    and "execute_credential X now mk source g s u = Inr s'"
  then obtain a b c db1 where p: "upsert_credential_row now u a b c (fst s) = Inr db1"
    "upsert_ownership now ''credential'' (cu_id u) source (cu_name u) g (cu_hash u) db1 = Inr (fst s')"
    by (cases s; cases s') (auto elim: execute_credential_parts)
  show "untouched T db0 (fst s')"
    by (rule upsert_ownership_frame [OF p(2) upsert_credential_frame [OF p(1) un] t]) (rule t)
qed

interpretation asset_frame: loop_body "execute_asset now source g"
    "untouched T db0" "\<lambda>u. T ''asset'' (au_id u)" for now source g T db0
proof
  fix s u s'
  assume un: "untouched T db0 s" and t: "T ''asset'' (au_id u)"
    and "execute_asset now source g s u = Inr s'"
  then obtain db1 where p: "upsert_asset_row now u s = Inr db1"
    "upsert_ownership now ''asset'' (au_id u) source (au_name u) g (au_hash u) db1 = Inr s'"
    by (auto simp: execute_asset_def and_then_Inr)
  show "untouched T db0 s'"
    by (rule upsert_ownership_frame [OF p(2) upsert_asset_frame [OF p(1) un] t]) (rule t)
qed

interpretation access_frame: loop_body "execute_access now source g"
    "untouched T db0" "\<lambda>u. T ''access_key'' (xu_id u)" for now source g T db0
proof
  fix s u s'
  assume un: "untouched T db0 s" and t: "T ''access_key'' (xu_id u)"
    and "execute_access now source g s u = Inr s'"
  then obtain db1 db2 db3 where p: "upsert_access_row now u s = Inr db1"
    "delete_assignments (xu_id u) db1 = Inr db2"
    "foldE (\<lambda>db a. insert_assignment (xu_id u) a db) db2
       (case xu_asset_ids u of None \<Rightarrow> [] | Some as \<Rightarrow> as) = Inr db3"
    "upsert_ownership now ''access_key'' (xu_id u) source (xu_name u) g (xu_hash u) db3 = Inr s'"
    by (auto elim: execute_access_parts)
  have "untouched T db0 db2"
    by (rule delete_assignments_frame [OF p(2) upsert_access_frame [OF p(1) un] t]) (rule t)
  from assignment_frame.loop_inv [OF this _ p(3)] t have "untouched T db0 db3" by simp
  from upsert_ownership_frame [OF p(4) this t] show "untouched T db0 s'" .
qed

interpretation orphan_frame: loop_body "execute_orphan now"
    "untouched T db0" "\<lambda>ref. T (rr_type ref) (rr_id ref)" for now T db0
proof
  fix s ref s'
  assume un: "untouched T db0 s" and t: "T (rr_type ref) (rr_id ref)"
    and o: "execute_orphan now s ref = Inr s'"
  from o have same: "t_credentials s' = t_credentials s" "t_assets s' = t_assets s"
    "t_access_keys s' = t_access_keys s" "t_access_key_assets s' = t_access_key_assets s"
    "t_sessions s' = t_sessions s" "t_known_hosts s' = t_known_hosts s"
    by (simp_all add: execute_orphan_def update_ownership_def enforce_Inr)
  have "owner_map u s' j = owner_map u db0 j" if "\<not> T u j" for u j
    using that t untouched_owner [OF un that] by (auto simp: execute_orphan_effect(2) [OF o])
  with un same show "untouched T db0 s'" by (simp add: untouched_def row_defs)
qed

lemma delete_rows_frame:
  "delete_credential_row i db = Inr db' \<Longrightarrow> untouched T db0 db \<Longrightarrow> T ''credential'' i \<Longrightarrow> untouched T db0 db'"
  "delete_asset_row i db = Inr db' \<Longrightarrow> untouched T db0 db \<Longrightarrow> T ''asset'' i \<Longrightarrow> untouched T db0 db'"
  "delete_access_key_row i db = Inr db' \<Longrightarrow> untouched T db0 db \<Longrightarrow> T ''access_key'' i \<Longrightarrow> untouched T db0 db'"
  by (auto simp: delete_credential_row_def delete_asset_row_def delete_access_key_row_def enforce_Inr
      untouched_def row_defs owner_map_def owner_of_def find_delete_where)

interpretation delete_frame: loop_body delete_resource
    "untouched T db0" "\<lambda>ref. T (rr_type ref) (rr_id ref)" for T db0
proof
  fix s ref s'
  assume un: "untouched T db0 s" and t: "T (rr_type ref) (rr_id ref)"
    and "delete_resource s ref = Inr s'"
  then obtain db1 where d: "delete_ownership (rr_type ref) (rr_id ref) s = Inr db1"
    and r: "(rr_type ref = ''credential'' \<and> delete_credential_row (rr_id ref) db1 = Inr s')
      \<or> (rr_type ref = ''asset'' \<and> delete_asset_row (rr_id ref) db1 = Inr s')
      \<or> (rr_type ref = ''access_key'' \<and> delete_access_key_row (rr_id ref) db1 = Inr s')"
    by (auto simp: delete_resource_def result_simps split: if_splits)
  from d have same: "t_credentials db1 = t_credentials s" "t_assets db1 = t_assets s"
    "t_access_keys db1 = t_access_keys s" "t_access_key_assets db1 = t_access_key_assets s"
    "t_sessions db1 = t_sessions s" "t_known_hosts db1 = t_known_hosts s"
    by (simp_all add: delete_ownership_def enforce_Inr)
  have "owner_map u db1 j = owner_map u db0 j" if "\<not> T u j" for u j
    using that t untouched_owner [OF un that] by (auto simp: delete_ownership_effect(1) [OF d])
  with un same have un1: "untouched T db0 db1" by (simp add: untouched_def row_defs)
  from r show "untouched T db0 s'"
  proof (elim disjE conjE)
    show "untouched T db0 s'" if "rr_type ref = ''credential''" "delete_credential_row (rr_id ref) db1 = Inr s'"
      using delete_rows_frame(1) [where T = T, OF that(2) un1] t that(1) by simp
    show "untouched T db0 s'" if "rr_type ref = ''asset''" "delete_asset_row (rr_id ref) db1 = Inr s'"
      using delete_rows_frame(2) [where T = T, OF that(2) un1] t that(1) by simp
    show "untouched T db0 s'" if "rr_type ref = ''access_key''" "delete_access_key_row (rr_id ref) db1 = Inr s'"
      using delete_rows_frame(3) [where T = T, OF that(2) un1] t that(1) by simp
  qed
qed

section \<open>The plan\<close>

definition touches :: "plan \<Rightarrow> string \<Rightarrow> string \<Rightarrow> bool" where
  "touches p t i \<longleftrightarrow> i \<in> fst ` set (upserts t p) \<or> i \<in> set (orphan_ids t p) \<or> i \<in> set (deleted_ids t p)"

lemma touches_parts:
  "u \<in> set (p_credential_upserts p) \<Longrightarrow> touches p ''credential'' (cu_id u)"
  "v \<in> set (p_asset_upserts p) \<Longrightarrow> touches p ''asset'' (au_id v)"
  "x \<in> set (p_access_upserts p) \<Longrightarrow> touches p ''access_key'' (xu_id x)"
  "ref \<in> set (p_orphans p) \<or> ref \<in> set (p_deletes p) \<Longrightarrow> touches p (rr_type ref) (rr_id ref)"
  by (force simp: touches_def upserts_def orphan_ids_def deleted_ids_def image_iff)+

lemma touches_deletes:
  "\<forall>x \<in> set (filter P (p_deletes p)). touches p (rr_type x) (rr_id x)"
  by (auto intro: touches_parts(4))

lemma execute_plan_untouched:
  assumes exec: "execute_plan X now n k p source g rev' mk summary db = Inr db'"
  shows "untouched (touches p) db db'"
proof -
  let ?un = "untouched (touches p) db"
  from exec obtain s1 db2 db3 db4 dx da db5 db6 db7 where
    1: "foldE (execute_credential X now mk source g) (db, k) (p_credential_upserts p) = Inr s1"
    and 2: "foldE (execute_asset now source g) (fst s1) (p_asset_upserts p) = Inr db2"
    and 3: "foldE (execute_access now source g) db2 (p_access_upserts p) = Inr db3"
    and 4: "foldE (execute_orphan now) db3 (p_orphans p) = Inr db4"
    and 5: "foldE delete_resource db4 (filter (\<lambda>r. rr_type r = ''access_key'') (p_deletes p)) = Inr dx"
      "foldE delete_resource dx (filter (\<lambda>r. rr_type r = ''asset'') (p_deletes p)) = Inr da"
      "foldE delete_resource da (filter (\<lambda>r. rr_type r = ''credential'') (p_deletes p)) = Inr db5"
    and 6: "update_revision rev' db5 = Inr db6"
    and 7: "record_success now source g rev' db6 = Inr db7"
    and 8: "enforce (db7\<lparr>t_audit_events := t_audit_events db7 @ [\<lparr>ev_id = new_id X (n + p_drawn p),
       ev_occurred_at = now, ev_actor_label = ''catalog-apply'', ev_action = ''config.apply'',
       ev_target_type = ''config_source'', ev_target_id = Some source,
       ev_target_label = Some source, ev_result = ''success'', ev_source_ip = None,
       ev_details_json = Some (json_str X (apply_details source summary))\<rparr>]\<rparr>) = Inr db'"
    unfolding execute_plan_def insert_audit_def by (auto simp: and_then_Inr map_err_Inr)
  have u1: "?un (fst s1)"
    by (rule credential_frame.loop_inv [OF _ _ 1]) (simp_all add: untouched_refl touches_parts)
  have u2: "?un db2" by (rule asset_frame.loop_inv [OF u1 _ 2]) (simp add: touches_parts)
  have u3: "?un db3" by (rule access_frame.loop_inv [OF u2 _ 3]) (simp add: touches_parts)
  have u4: "?un db4" by (rule orphan_frame.loop_inv [OF u3 _ 4]) (simp add: touches_parts)
  have ux: "?un dx" by (rule delete_frame.loop_inv [OF u4 _ 5(1)]) (rule touches_deletes)
  have ua: "?un da" by (rule delete_frame.loop_inv [OF ux _ 5(2)]) (rule touches_deletes)
  have u5: "?un db5" by (rule delete_frame.loop_inv [OF ua _ 5(3)]) (rule touches_deletes)
  have u6: "?un db6" by (rule untouched_same [OF u5])
    (use 6 in \<open>simp_all add: update_revision_def enforce_Inr\<close>)
  have u7: "?un db7" by (rule untouched_same [OF u6])
    (use 7 in \<open>simp_all add: record_success_def enforce_Inr\<close>)
  show ?thesis by (rule untouched_same [OF u7]) (use 8 in \<open>simp_all add: enforce_Inr\<close>)
qed

text \<open>An existing row that a plan touches belongs to its source.\<close>

lemma ran_touches_own:
  assumes run: "ran X now n k r source mk prune p db db'" and t: "row_type t"
    and nm: "name_of t db i = Some m" and "touches p t i"
  shows "joined o_source_id (owner_map t db i) = Some source"
proof -
  from run have pf: "plan_for X n db r source mk prune p" and ok: "constraints db"
    by (auto simp: ran_def)
  let ?e = "existing_row t i m db"
  have e: "existing_of t db m = Some ?e" by (rule existing_after [OF ok t nm])
  have own: "er_source_id ?e = Some source" if "m \<in> set (mentioned_of t r)"
    using plan_owned [OF pf t that e] by (simp add: owned_by_def)
  from assms(4) consider m' h where "(i, m', h) \<in> set (upserts t p)"
    | "i \<in> set (orphan_ids t p)" | "i \<in> set (deleted_ids t p)"
    unfolding touches_def by (metis imageE prod.collapse)
  then have "er_source_id ?e = Some source"
  proof cases
    case 1
    from ran_written(3) [OF run t 1 e] have "m = m'" by simp
    moreover have "m' \<in> set (mentioned_of t r)"
      using ran_written(1) [OF run t 1] mentioned_declared [of m' t r X mk] by blast
    ultimately show ?thesis using own by simp
  next
    case 2
    then obtain m' e' where "existing_of t db m' = Some e'" "i = er_id e'" "er_source_id e' = Some source"
      unfolding plan_orphan_ids [OF pf t] by blast
    with existing_of_id [OF ok t this(1)] nm show ?thesis by simp
  next
    case 3
    then obtain m' e' where e': "existing_of t db m' = Some e'" "i = er_id e'"
      and d: "(m', None) \<in> set (declared t X mk r)
          \<or> (prune \<and> er_source_id e' = Some source \<and> m' \<notin> set (mentioned_of t r))"
      unfolding plan_deleted_ids [OF pf t] by blast
    from existing_of_id [OF ok t e'(1)] e'(2) nm have "m' = m" "e' = ?e" by simp_all
    with d own mentioned_declared [of m' t r X mk] show ?thesis by blast
  qed
  then show ?thesis by simp
qed

text \<open>Rows that another source or local management owns come out as they went in.\<close>

lemma ran_foreign:
  assumes run: "ran X now n k r source mk prune p db db'"
  shows "c \<in> set (t_credentials db)
      \<Longrightarrow> joined o_source_id (owner_of ''credential'' (c_id c) db) \<noteq> Some source
      \<Longrightarrow> c \<in> set (t_credentials db')
        \<and> owner_of ''credential'' (c_id c) db' = owner_of ''credential'' (c_id c) db"
    and "a \<in> set (t_assets db) \<Longrightarrow> joined o_source_id (owner_of ''asset'' (a_id a) db) \<noteq> Some source
      \<Longrightarrow> a \<in> set (t_assets db') \<and> owner_of ''asset'' (a_id a) db' = owner_of ''asset'' (a_id a) db"
    and "x \<in> set (t_access_keys db)
      \<Longrightarrow> joined o_source_id (owner_of ''access_key'' (k_id x) db) \<noteq> Some source
      \<Longrightarrow> x \<in> set (t_access_keys db')
        \<and> owner_of ''access_key'' (k_id x) db' = owner_of ''access_key'' (k_id x) db"
proof -
  from run obtain g rev' summary where
    ex: "execute_plan X now n k p source g rev' mk summary db = Inr db'" and ok: "constraints db"
    by (auto simp: ran_def)
  note un = execute_plan_untouched [OF ex]
  have keep: "\<not> touches p t i"
    if "row_type t" "name_of t db i \<noteq> None" "joined o_source_id (owner_of t i db) \<noteq> Some source" for t i
    using that ran_touches_own [OF run that(1)] by (auto simp: owner_map_def)
  show "c \<in> set (t_credentials db') \<and> owner_of ''credential'' (c_id c) db' = owner_of ''credential'' (c_id c) db"
    if c: "c \<in> set (t_credentials db)" "joined o_source_id (owner_of ''credential'' (c_id c) db) \<noteq> Some source"
  proof -
    have f: "credential_row (c_id c) db = Some c"
      unfolding credential_row_def by (rule find_unique [OF constraintsD(1) [OF ok] c(1)])
    with keep [OF row_types(1) _ c(2)] have "\<not> touches p ''credential'' (c_id c)"
      by (simp add: name_of_def)
    with un f have "credential_row (c_id c) db' = Some c"
      and "owner_map ''credential'' db' (c_id c) = owner_map ''credential'' db (c_id c)"
      by (simp_all add: untouched_def)
    then show ?thesis by (auto simp: credential_row_def owner_map_def dest: find_Some_in)
  qed
  show "a \<in> set (t_assets db') \<and> owner_of ''asset'' (a_id a) db' = owner_of ''asset'' (a_id a) db"
    if a: "a \<in> set (t_assets db)" "joined o_source_id (owner_of ''asset'' (a_id a) db) \<noteq> Some source"
  proof -
    have f: "asset_row_of_id (a_id a) db = Some a"
      unfolding asset_row_of_id_def by (rule find_unique [OF constraintsD(3) [OF ok] a(1)])
    with keep [OF row_types(2) _ a(2)] have "\<not> touches p ''asset'' (a_id a)"
      by (simp add: name_of_def)
    with un f have "asset_row_of_id (a_id a) db' = Some a"
      and "owner_map ''asset'' db' (a_id a) = owner_map ''asset'' db (a_id a)"
      by (simp_all add: untouched_def)
    then show ?thesis by (auto simp: asset_row_of_id_def owner_map_def dest: find_Some_in)
  qed
  show "x \<in> set (t_access_keys db') \<and> owner_of ''access_key'' (k_id x) db' = owner_of ''access_key'' (k_id x) db"
    if x: "x \<in> set (t_access_keys db)" "joined o_source_id (owner_of ''access_key'' (k_id x) db) \<noteq> Some source"
  proof -
    have f: "access_row (k_id x) db = Some x"
      unfolding access_row_def by (rule find_unique [OF constraintsD(5) [OF ok] x(1)])
    with keep [OF row_types(3) _ x(2)] have "\<not> touches p ''access_key'' (k_id x)"
      by (simp add: name_of_def)
    with un f have "access_row (k_id x) db' = Some x"
      and "owner_map ''access_key'' db' (k_id x) = owner_map ''access_key'' db (k_id x)"
      by (simp_all add: untouched_def)
    then show ?thesis by (auto simp: access_row_def owner_map_def dest: find_Some_in)
  qed
qed

end
