(* ===== verification/Sessions.thy ===== *)
theory Sessions
  imports Runtime
begin

text \<open>
  Sessions, known hosts and health records (\<open>catalog/runtime.rs\<close>), trust on first use
  (\<open>ssh/tofu.rs\<close>) and the registry of sessions that can be terminated
  (\<open>ssh/session_registry.rs\<close>). Timestamps compare as text, as SQLite compares them;
  \<open>days_ago d\<close> stands for \<open>datetime('now', '-d days')\<close>. A sender of the registry is a value of
  type \<open>'tx\<close>, and \<open>alive tx\<close> tells whether its receiver still exists, so that \<open>send\<close> succeeds.
\<close>

section \<open>Sessions\<close>

definition get_session :: "string \<Rightarrow> catalog \<Rightarrow> session option" where
  "get_session i db = find (\<lambda>s. se_id s = i) (t_sessions db)"

definition start_session ::
  "ext \<Rightarrow> string \<Rightarrow> nat \<Rightarrow> new_session \<Rightarrow> catalog \<Rightarrow> catalog \<times> (hop_error + session)" where
  "start_session X now n s db =
     (let i = new_id X n in
      commit_read db (insert_session \<lparr>se_id = i, se_key_finger = ns_key_finger s,
          se_key_name = ns_key_name s, se_mode = ns_mode s, se_asset_name = ns_asset_name s,
          se_target_host = ns_target_host s, se_target_port = ns_target_port s,
          se_client_ip = ns_client_ip s, se_status = ''started'', se_error = None,
          se_started_at = now, se_ended_at = None\<rparr> db)
        (\<lambda>db'. ok_or (get_session i db') row_not_found))"

definition finish_session ::
  "string \<Rightarrow> string \<Rightarrow> string \<Rightarrow> string option \<Rightarrow> catalog \<Rightarrow> catalog \<times> (hop_error + unit)" where
  "finish_session now i status error db = commit db (
     enforce (db\<lparr>t_sessions := update_where (\<lambda>s. se_id s = i)
       (\<lambda>s. s\<lparr>se_status := status, se_error := error, se_ended_at := Some now\<rparr>) (t_sessions db)\<rparr>))"

text \<open>A negative \<open>LIMIT\<close> is no limit.\<close>

definition list_sessions :: "int \<Rightarrow> catalog \<Rightarrow> session list" where
  "list_sessions limit db =
     (let rows = order_by (\<lambda>s t. se_started_at t \<le> se_started_at s) (t_sessions db)
      in if limit < 0 then rows else take (nat limit) rows)"

definition prune_finished_sessions ::
  "(nat \<Rightarrow> string) \<Rightarrow> nat \<Rightarrow> catalog \<Rightarrow> catalog \<times> (hop_error + nat)" where
  "prune_finished_sessions days_ago retention_days db =
     (if retention_days = 0 then (db, Inr 0)
      else let expired = (\<lambda>s. case se_ended_at s of None \<Rightarrow> False
               | Some t \<Rightarrow> t < days_ago retention_days) in
        commit_read db (enforce (db\<lparr>t_sessions := delete_where expired (t_sessions db)\<rparr>))
          (\<lambda>_. Inr (length (filter expired (t_sessions db)))))"

section \<open>Known hosts and trust on first use\<close>

definition same_host :: "string \<Rightarrow> int \<Rightarrow> string \<Rightarrow> known_host \<Rightarrow> bool" where
  "same_host hostname port key_type h \<longleftrightarrow>
     (kh_hostname h, kh_port h, kh_key_type h) = (hostname, port, key_type)"

definition get_known_host :: "string \<Rightarrow> int \<Rightarrow> string \<Rightarrow> catalog \<Rightarrow> known_host option" where
  "get_known_host hostname port key_type db =
     find (same_host hostname port key_type) (t_known_hosts db)"

definition list_known_hosts :: "catalog \<Rightarrow> known_host list" where
  "list_known_hosts db =
     sort_key (\<lambda>h. (kh_hostname h, kh_port h, kh_key_type h)) (t_known_hosts db)"

definition upsert_known_host ::
  "string \<Rightarrow> new_known_host \<Rightarrow> catalog \<Rightarrow> catalog \<times> (hop_error + unit)" where
  "upsert_known_host now h db = commit db (
     enforce (db\<lparr>t_known_hosts :=
       upsert_where (same_host (nkh_hostname h) (nkh_port h) (nkh_key_type h))
         (\<lambda>r. r\<lparr>kh_fingerprint := nkh_fingerprint h\<rparr>)
         \<lparr>kh_hostname = nkh_hostname h, kh_port = nkh_port h, kh_key_type = nkh_key_type h,
          kh_fingerprint = nkh_fingerprint h, kh_first_seen = now\<rparr> (t_known_hosts db)\<rparr>))"

definition delete_known_host ::
  "string \<Rightarrow> int \<Rightarrow> string \<Rightarrow> catalog \<Rightarrow> catalog \<times> (hop_error + bool)" where
  "delete_known_host hostname port key_type db =
     commit_read db (enforce (db\<lparr>t_known_hosts :=
         delete_where (same_host hostname port key_type) (t_known_hosts db)\<rparr>))
       (\<lambda>_. Inr (length (filter (same_host hostname port key_type) (t_known_hosts db)) > 0))"

text \<open>\<open>verify_or_learn\<close>; the key is given by its algorithm name and SHA-256 fingerprint.\<close>

definition verify_or_learn ::
  "string \<Rightarrow> string \<Rightarrow> int \<Rightarrow> string \<times> string \<Rightarrow> catalog \<Rightarrow> catalog \<times> (hop_error + bool)" where
  "verify_or_learn now hostname port key db =
     (let key_type = fst key; fingerprint = snd key in
      case get_known_host hostname port key_type db of
        Some existing \<Rightarrow> (db, Inr (kh_fingerprint existing = fingerprint))
      | None \<Rightarrow>
          (case upsert_known_host now \<lparr>nkh_hostname = hostname, nkh_port = port,
               nkh_key_type = key_type, nkh_fingerprint = fingerprint\<rparr> db of
             (db', Inl e) \<Rightarrow> (db', Inl e)
           | (db', Inr _) \<Rightarrow> (db', Inr True)))"

section \<open>Health\<close>

definition record_asset_health_success ::
  "string \<Rightarrow> string \<Rightarrow> int option \<Rightarrow> catalog \<Rightarrow> catalog \<times> (hop_error + unit)" where
  "record_asset_health_success now asset_id latency_ms db = commit db (
     enforce (db\<lparr>t_asset_health := upsert_where (\<lambda>h. ah_asset_id h = asset_id)
       (\<lambda>h. h\<lparr>ah_status := ''healthy'', ah_checked_at := Some now, ah_last_success_at := Some now,
          ah_latency_ms := latency_ms, ah_error_code := None, ah_error_message := None\<rparr>)
       \<lparr>ah_asset_id = asset_id, ah_status = ''healthy'', ah_checked_at = Some now,
        ah_last_success_at = Some now, ah_latency_ms = latency_ms, ah_error_code = None,
        ah_error_message = None\<rparr> (t_asset_health db)\<rparr>))"

definition record_asset_health_failure ::
  "string \<Rightarrow> string \<Rightarrow> string option \<Rightarrow> string option \<Rightarrow> catalog \<Rightarrow> catalog \<times> (hop_error + unit)" where
  "record_asset_health_failure now asset_id error_code error_message db = commit db (
     enforce (db\<lparr>t_asset_health := upsert_where (\<lambda>h. ah_asset_id h = asset_id)
       (\<lambda>h. h\<lparr>ah_status := ''failed'', ah_checked_at := Some now, ah_latency_ms := None,
          ah_error_code := error_code, ah_error_message := error_message\<rparr>)
       \<lparr>ah_asset_id = asset_id, ah_status = ''failed'', ah_checked_at = Some now,
        ah_last_success_at = None, ah_latency_ms = None, ah_error_code = error_code,
        ah_error_message = error_message\<rparr> (t_asset_health db)\<rparr>))"

section \<open>The registry of active sessions\<close>

definition terminated_by_management :: string where
  "terminated_by_management = ''terminated by management request''"

datatype terminate_session_result = Signaled | NotFound

type_synonym 'tx registry = "string \<rightharpoonup> 'tx"

definition register :: "string \<Rightarrow> 'tx \<Rightarrow> 'tx registry \<Rightarrow> 'tx registry" where
  "register session_id tx reg = reg(session_id \<mapsto> tx)"

definition unregister :: "string \<Rightarrow> 'tx registry \<Rightarrow> 'tx registry" where
  "unregister session_id reg = reg(session_id := None)"

text \<open>The registry after the call, the sender that was signalled, and the answer.\<close>

definition terminate ::
  "('tx \<Rightarrow> bool) \<Rightarrow> string \<Rightarrow> 'tx registry
    \<Rightarrow> 'tx registry \<times> 'tx option \<times> terminate_session_result" where
  "terminate alive session_id reg =
     (case reg session_id of
        None \<Rightarrow> (reg, None, NotFound)
      | Some tx \<Rightarrow> if alive tx then (reg, Some tx, Signaled)
          else (unregister session_id reg, None, NotFound))"

section \<open>Facts\<close>

text \<open>The session a start records is found again, under the id it was given.\<close>

lemma start_session_Inr:
  assumes "start_session X now n s db = (db', Inr r)"
  shows "se_id r = new_id X n" "se_status r = ''started''" "se_ended_at r = None"
    "t_sessions db' = t_sessions db @ [r]" "get_session (new_id X n) db' = Some r"
    "constraints db'"
proof -
  let ?row = "\<lparr>se_id = new_id X n, se_key_finger = ns_key_finger s,
          se_key_name = ns_key_name s, se_mode = ns_mode s, se_asset_name = ns_asset_name s,
          se_target_host = ns_target_host s, se_target_port = ns_target_port s,
          se_client_ip = ns_client_ip s, se_status = ''started'', se_error = None,
          se_started_at = now, se_ended_at = None\<rparr>"
  from assms have db': "constraints db'" "db' = db\<lparr>t_sessions := t_sessions db @ [?row]\<rparr>"
    and r: "get_session (new_id X n) db' = Some r"
    by (auto simp: start_session_def Let_def insert_session_def result_simps)
  from db' have "distinct (map se_id (t_sessions db'))" by (simp add: constraints_def)
  from find_unique [OF this, of ?row] db'(2) r have "r = ?row" by (simp add: get_session_def)
  with db' r show "se_id r = new_id X n" "se_status r = ''started''" "se_ended_at r = None"
    "t_sessions db' = t_sessions db @ [r]" "get_session (new_id X n) db' = Some r"
    "constraints db'"
    by simp_all
qed

end
