(* ===== verification/Catalog_Store.thy ===== *)
theory Catalog_Store
  imports Apply_Frame Sessions
begin

text \<open>
  \<open>hop-core/src/catalog.rs\<close>: opening a database file (the read-only preflight, the baseline and
  the check of the schema marker), the status report, and the record of a failed apply.
\<close>

section \<open>Opening a database\<close>

definition schema_version_text :: string where
  "schema_version_text = ''hop/v0.2''"

text \<open>
  A file at the database path: its length, the names of its tables, the version in
  \<open>hop_schema\<close> and, when it is a catalog, its tables.
\<close>

record database_file =
  df_len :: nat
  df_tables :: "string list"
  df_version :: "string option"
  df_catalog :: catalog

datatype database_state = EmptyDatabase | V0_2

text \<open>\<open>name NOT LIKE 'sqlite_%'\<close>: LIKE ignores ASCII case and \<open>_\<close> stands for any character.\<close>

definition internal_table :: "string \<Rightarrow> bool" where
  "internal_table name \<longleftrightarrow> 7 \<le> length name \<and> to_ascii_lowercase (take 6 name) = ''sqlite''"

definition preflight :: "string \<Rightarrow> database_file option \<Rightarrow> hop_error + database_state" where
  "preflight path file =
     (case file of
        None \<Rightarrow> Inr EmptyDatabase
      | Some f \<Rightarrow>
          if df_len f = 0 then Inr EmptyDatabase
          else if \<not> (\<exists>t \<in> set (df_tables f). \<not> internal_table t) then Inr EmptyDatabase
          else if ''hop_schema'' \<notin> set (df_tables f) then Inl (UnsupportedDatabaseSchema path)
          else if df_version f = Some schema_version_text then Inr V0_2
          else Inl (UnsupportedDatabaseSchema path))"

definition catalog_tables :: "string list" where
  "catalog_tables = [''hop_schema'', ''catalog_meta'', ''credentials'', ''assets'', ''access_keys'',
     ''access_key_assets'', ''resource_ownership'', ''config_sources'', ''known_hosts'',
     ''sessions'', ''asset_health'', ''audit_events'']"

text \<open>\<open>initialize\<close> runs the baseline script on a database without tables.\<close>

definition initialize :: database_file where
  "initialize = \<lparr>df_len = 1, df_tables = catalog_tables, df_version = Some schema_version_text,
     df_catalog = baseline\<rparr>"

definition verify_schema :: "string \<Rightarrow> database_file \<Rightarrow> hop_error + unit" where
  "verify_schema path f =
     (if df_version f = Some schema_version_text then Inr ()
      else Inl (UnsupportedDatabaseSchema path))"

text \<open>The file after the call, and the catalog it opened.\<close>

definition connect ::
  "string \<Rightarrow> database_file option \<Rightarrow> database_file option \<times> (hop_error + catalog)" where
  "connect path file =
     (case preflight path file of
        Inl e \<Rightarrow> (file, Inl e)
      | Inr state \<Rightarrow>
          (case (if state = EmptyDatabase then Some initialize else file) of
             None \<Rightarrow> (file, Inl (UnsupportedDatabaseSchema path))
           | Some f \<Rightarrow> (Some f, and_then (verify_schema path f) (\<lambda>_. Inr (df_catalog f)))))"

definition connect_read_only :: "string \<Rightarrow> database_file option \<Rightarrow> hop_error + catalog" where
  "connect_read_only path file =
     and_then (preflight path file) (\<lambda>state.
     case file of
       Some f \<Rightarrow>
         if state \<noteq> V0_2 then Inl (Config (''v0.2 catalog does not exist at '' @ path))
         else and_then (verify_schema path f) (\<lambda>_. Inr (df_catalog f))
     | None \<Rightarrow> Inl (Config (''v0.2 catalog does not exist at '' @ path)))"

text \<open>A database that is not a v0.2 catalog is refused as it is; one that is comes back as it was.\<close>

lemma connect_effect:
  "connect path file = (file', r) \<Longrightarrow>
     (case r of Inl e \<Rightarrow> file' = file \<and> e = UnsupportedDatabaseSchema path
      | Inr db \<Rightarrow> (file' = Some initialize \<and> db = baseline \<and> preflight path file = Inr EmptyDatabase)
          \<or> (file' = file \<and> (\<exists>f. file = Some f \<and> db = df_catalog f
               \<and> df_version f = Some schema_version_text)))"
proof (cases "file :: database_file option")
  case None
  moreover assume "connect path file = (file', r)"
  ultimately show ?thesis
    by (auto simp: connect_def preflight_def verify_schema_def initialize_def)
next
  case (Some f)
  moreover assume "connect path file = (file', r)"
  ultimately show ?thesis
    by (cases "preflight path file")
      (auto simp: connect_def preflight_def verify_schema_def initialize_def split: if_split_asm)
qed

lemma connect_again:
  assumes "connect path file = (file', Inr db)"
  shows "connect path file' = (file', Inr db)"
  using assms
  by (auto simp: connect_def preflight_def verify_schema_def initialize_def catalog_tables_def
      internal_table_def split: option.splits if_splits)

lemma connect_read_only_agrees:
  assumes "connect_read_only path file = Inr db"
  shows "connect path file = (file, Inr db)"
  using assms
  by (auto simp: connect_read_only_def connect_def and_then_Inr split: option.splits if_splits)

section \<open>Status\<close>

record orphan_status =
  os_type :: string
  os_source_id :: string
  os_source_key :: string
  os_orphaned_at :: string

record catalog_status =
  st_revision :: int
  st_manifest_api_version :: string
  st_sources :: "config_source_tbl list"
  st_orphans :: "orphan_status list"

text \<open>
  \<open>source_key\<close> is not NULL where \<open>source_id\<close> is not, by the table's CHECK.
\<close>

definition orphan_status_of :: "ownership_tbl \<Rightarrow> orphan_status list" where
  "orphan_status_of r =
     (case (o_source_id r, o_source_key r, o_orphaned_at r) of
        (Some s, Some k, Some t) \<Rightarrow> [\<lparr>os_type = o_type r, os_source_id = s, os_source_key = k,
          os_orphaned_at = t\<rparr>]
      | _ \<Rightarrow> [])"

definition status :: "catalog \<Rightarrow> catalog_status" where
  "status db = \<lparr>st_revision = t_revision db, st_manifest_api_version = manifest_api_version,
     st_sources = order_by (\<lambda>s t. s_id s \<le> s_id t) (t_config_sources db),
     st_orphans = order_by (\<lambda>o1 o2. (os_type o1, os_source_key o1) \<le> (os_type o2, os_source_key o2))
       (concat (map orphan_status_of (t_ownership db)))\<rparr>"

section \<open>Failed applies\<close>

definition record_error ::
  "string \<Rightarrow> string \<Rightarrow> catalog_error \<Rightarrow> catalog \<Rightarrow> hop_error + catalog" where
  "record_error now source_id e db =
     enforce (db\<lparr>t_config_sources := upsert_where (\<lambda>s. s_id s = source_id)
       (\<lambda>s. s\<lparr>s_error_at := Some now, s_error_code := Some (error_code_str (ce_code e)),
          s_error_message := Some (ce_message e)\<rparr>)
       \<lparr>s_id = source_id, s_generation = 0, s_success_at = None, s_success_revision = None,
        s_error_at = Some now, s_error_code = Some (error_code_str (ce_code e)),
        s_error_message = Some (ce_message e)\<rparr> (t_config_sources db)\<rparr>)"

definition failure_details :: "string \<Rightarrow> catalog_error \<Rightarrow> json" where
  "failure_details source_id e = JObj [(''source_id'', JStr source_id),
     (''error_code'', JStr (error_code_str (ce_code e))), (''path'', json_opt (ce_path e))]"

definition record_apply_failure ::
  "ext \<Rightarrow> string \<Rightarrow> nat \<Rightarrow> string \<Rightarrow> string \<Rightarrow> catalog_error \<Rightarrow> catalog
    \<Rightarrow> catalog \<times> (hop_error + unit)" where
  "record_apply_failure X now n source_id actor_label e db = commit db (
     and_then (record_error now source_id e db)
       (insert_audit \<lparr>ev_id = new_id X n, ev_occurred_at = now, ev_actor_label = actor_label,
          ev_action = ''config.apply'', ev_target_type = ''config_source'',
          ev_target_id = Some source_id, ev_target_label = Some source_id, ev_result = ''failed'',
          ev_source_ip = None, ev_details_json = Some (json_str X (failure_details source_id e))\<rparr>))"

text \<open>A failure leaves the generation and every resource as they are.\<close>

lemma record_error_generation:
  assumes "record_error now src e db = Inr db'"
  shows "source_generation db' s = source_generation db s"
proof -
  from assms have "t_config_sources db' = upsert_where (\<lambda>s. s_id s = src)
       (\<lambda>s. s\<lparr>s_error_at := Some now, s_error_code := Some (error_code_str (ce_code e)),
          s_error_message := Some (ce_message e)\<rparr>)
       \<lparr>s_id = src, s_generation = 0, s_success_at = None, s_success_revision = None,
        s_error_at = Some now, s_error_code = Some (error_code_str (ce_code e)),
        s_error_message = Some (ce_message e)\<rparr> (t_config_sources db)"
    by (simp add: record_error_def enforce_Inr)
  then show ?thesis
    by (simp add: source_generation_def find_upsert_where [where key = s_id] split: option.splits)
qed

end
