(* ===== verification/Catalog_Steps.thy ===== *)
theory Catalog_Steps
  imports Catalog_Store
begin

text \<open>
  The catalog as a state machine: a step is one call of one of its operations, successful or
  not. Three things hold of every step (\<open>step_ok\<close>): the schema's constraints, together with one
  ownership row per resource (\<open>catalog_wf\<close>), are kept; and either no resource, owner or
  generation changes, or the revision grows by exactly one. The second is what makes the
  revision check of \<open>apply\<close> a lock.
\<close>

section \<open>Well-formed catalogs\<close>

definition owners_match :: "catalog \<Rightarrow> bool" where
  "owners_match db \<longleftrightarrow> (\<forall>t. row_type t \<longrightarrow>
     (\<forall>i. name_of t db i = None \<longleftrightarrow> owner_map t db i = None)
     \<and> (\<forall>i m r. name_of t db i = Some m \<longrightarrow> owner_map t db i = Some r \<longrightarrow> o_mode r = ''declarative''
          \<longrightarrow> o_source_key r = Some (source_key t m)))"

definition catalog_wf :: "catalog \<Rightarrow> bool" where
  "catalog_wf db \<longleftrightarrow> constraints db \<and> owners_match db"

definition config_same :: "catalog \<Rightarrow> catalog \<Rightarrow> bool" where
  "config_same db db' \<longleftrightarrow> t_revision db' = t_revision db
     \<and> t_credentials db' = t_credentials db \<and> t_assets db' = t_assets db
     \<and> t_access_keys db' = t_access_keys db \<and> t_access_key_assets db' = t_access_key_assets db
     \<and> t_ownership db' = t_ownership db \<and> source_generation db' = source_generation db"

definition step_ok :: "catalog \<Rightarrow> catalog \<Rightarrow> bool" where
  "step_ok db db' \<longleftrightarrow> (constraints db \<longrightarrow> constraints db')
     \<and> (catalog_wf db \<longrightarrow> catalog_wf db')
     \<and> (constraints db \<longrightarrow> config_same db db' \<or> t_revision db' = t_revision db + 1)"

lemma step_ok_refl [simp]: "step_ok db db"
  by (simp add: step_ok_def config_same_def)

lemma config_same_views:
  assumes "config_same db db'"
  shows "name_of t db' = name_of t db" and "owner_map t db' = owner_map t db"
  using assms by (auto simp: config_same_def intro: name_of_cong owner_map_cong)

lemma owners_match_same:
  "owners_match db \<Longrightarrow> (\<And>t. name_of t db' = name_of t db) \<Longrightarrow> (\<And>t. owner_map t db' = owner_map t db)
    \<Longrightarrow> owners_match db'"
  by (simp add: owners_match_def)

lemma owners_match_insert:
  assumes "owners_match db"
    and "\<And>t. name_of t db' = (if t = rtype then (name_of t db)(i \<mapsto> m) else name_of t db)"
    and "\<And>t. owner_map t db' = (if t = rtype then (owner_map t db)(i \<mapsto> r) else owner_map t db)"
    and "o_mode r = ''declarative'' \<Longrightarrow> o_source_key r = Some (source_key rtype m)"
  shows "owners_match db'"
  using assms(1,4) by (auto simp: owners_match_def assms(2,3))

lemma owners_match_delete:
  assumes "owners_match db"
    and "\<And>t. name_of t db' = (if t = rtype then (name_of t db)(i := None) else name_of t db)"
    and "\<And>t. owner_map t db' = (if t = rtype then (owner_map t db)(i := None) else owner_map t db)"
  shows "owners_match db'"
  using assms(1) by (auto simp: owners_match_def assms(2,3))

text \<open>A row whose owner is local may be renamed.\<close>

lemma owners_match_rename:
  assumes "owners_match db"
    and "\<And>t. name_of t db' = (if t = rtype \<and> name_of t db i \<noteq> None then (name_of t db)(i \<mapsto> m)
      else name_of t db)"
    and "\<And>t. owner_map t db' = owner_map t db"
    and "owner_map rtype db i = Some r" "o_mode r = ''local''"
  shows "owners_match db'"
  using assms(1,4,5) by (auto simp: owners_match_def assms(2,3))

lemma step_ok_config_same:
  assumes "constraints db'" and "config_same db db'"
  shows "step_ok db db'"
  using assms owners_match_same [OF _ config_same_views [OF assms(2)]]
  by (auto simp: step_ok_def catalog_wf_def)

lemma step_okI:
  assumes "constraints db'" and "t_revision db' = t_revision db + 1"
    and "owners_match db \<Longrightarrow> owners_match db'"
  shows "step_ok db db'"
  using assms by (simp add: step_ok_def catalog_wf_def)

text \<open>A transaction that fails changes nothing.\<close>

lemma step_ok_commit:
  assumes "\<And>db'. r = Inr db' \<Longrightarrow> step_ok db db'"
  shows "step_ok db (fst (commit db r))" and "step_ok db (fst (commit_read db r rd))"
  using assms by (auto simp: fst_commit fst_commit_read split: sum.splits)

section \<open>Effects of the local statements\<close>

lemma find_append_new:
  assumes "distinct (map key (rows @ [r]))"
  shows "find (\<lambda>x. key x = i) (rows @ [r]) = (if i = key r then Some r else find (\<lambda>x. key x = i) rows)"
proof -
  from assms have "key r \<notin> key ` set rows" by simp
  then have "find (\<lambda>x. key x = key r) rows = None" unfolding find_None_iff by (metis image_eqI)
  then show ?thesis by (auto simp: find_append split: option.splits)
qed

lemma insert_rows_effect:
  "insert_credential c db = Inr db' \<Longrightarrow> constraints db' \<and> t_revision db' = t_revision db
     \<and> owner_map t db' = owner_map t db
     \<and> name_of t db' = (if t = ''credential'' then (name_of t db)(c_id c \<mapsto> c_name c) else name_of t db)"
  "insert_asset a db = Inr db' \<Longrightarrow> constraints db' \<and> t_revision db' = t_revision db
     \<and> owner_map t db' = owner_map t db
     \<and> name_of t db' = (if t = ''asset'' then (name_of t db)(a_id a \<mapsto> a_name a) else name_of t db)"
  "insert_access_key k db = Inr db' \<Longrightarrow> constraints db' \<and> t_revision db' = t_revision db
     \<and> owner_map t db' = owner_map t db
     \<and> name_of t db' = (if t = ''access_key'' then (name_of t db)(k_id k \<mapsto> k_name k) else name_of t db)"
proof -
  assume i: "insert_credential c db = Inr db'"
  then have d: "distinct (map c_id (t_credentials db @ [c]))"
    by (simp add: insert_credential_def enforce_Inr constraints_def credentials_ok_def)
  from i show "constraints db' \<and> t_revision db' = t_revision db \<and> owner_map t db' = owner_map t db
     \<and> name_of t db' = (if t = ''credential'' then (name_of t db)(c_id c \<mapsto> c_name c) else name_of t db)"
    by (auto simp: insert_credential_def enforce_Inr name_of_def row_defs fun_eq_iff
        find_append_new [OF d] owner_map_def owner_of_def)
next
  assume i: "insert_asset a db = Inr db'"
  then have d: "distinct (map a_id (t_assets db @ [a]))"
    by (simp add: insert_asset_def enforce_Inr constraints_def assets_ok_def)
  from i show "constraints db' \<and> t_revision db' = t_revision db \<and> owner_map t db' = owner_map t db
     \<and> name_of t db' = (if t = ''asset'' then (name_of t db)(a_id a \<mapsto> a_name a) else name_of t db)"
    by (auto simp: insert_asset_def enforce_Inr name_of_def row_defs fun_eq_iff
        find_append_new [OF d] owner_map_def owner_of_def)
next
  assume i: "insert_access_key k db = Inr db'"
  then have d: "distinct (map k_id (t_access_keys db @ [k]))"
    by (simp add: insert_access_key_def enforce_Inr constraints_def access_keys_ok_def)
  from i show "constraints db' \<and> t_revision db' = t_revision db \<and> owner_map t db' = owner_map t db
     \<and> name_of t db' = (if t = ''access_key'' then (name_of t db)(k_id k \<mapsto> k_name k) else name_of t db)"
    by (auto simp: insert_access_key_def enforce_Inr name_of_def row_defs fun_eq_iff
        find_append_new [OF d] owner_map_def owner_of_def)
qed

definition local_row :: "string \<Rightarrow> string \<Rightarrow> ownership_tbl" where
  "local_row rtype i = \<lparr>o_type = rtype, o_id = i, o_mode = ''local'', o_source_id = None,
     o_source_key = None, o_generation = None, o_hash = None, o_applied_at = None,
     o_orphaned_at = None\<rparr>"

lemma insert_local_ownership_effect:
  assumes "insert_local_ownership rtype i db = Inr db'"
  shows "constraints db'" and "t_revision db' = t_revision db" and "name_of t db' = name_of t db"
    and "owner_map t db' = (if t = rtype then (owner_map t db)(i \<mapsto> local_row rtype i) else owner_map t db)"
proof -
  from assms have db': "db' = db\<lparr>t_ownership := t_ownership db @ [local_row rtype i]\<rparr>"
    and ok: "constraints db'"
    by (simp_all add: insert_local_ownership_def insert_ownership_def enforce_Inr local_row_def)
  show "constraints db'" by (rule ok)
  show "t_revision db' = t_revision db" by (simp add: db')
  show "name_of t db' = name_of t db" by (rule name_of_cong) (simp_all add: db')
  have d: "distinct (map (\<lambda>r. (o_type r, o_id r)) (t_ownership db @ [local_row rtype i]))"
    using constraintsD(8) [OF ok] by (simp add: db')
  have "find (\<lambda>r. (o_type r, o_id r) = (t, j)) (t_ownership db @ [local_row rtype i])
      = (if (t, j) = (rtype, i) then Some (local_row rtype i)
         else find (\<lambda>r. (o_type r, o_id r) = (t, j)) (t_ownership db))" for j
    using find_append_new [OF d, of "(t, j)"] by (simp add: local_row_def)
  then show "owner_map t db' = (if t = rtype then (owner_map t db)(i \<mapsto> local_row rtype i)
      else owner_map t db)"
    by (auto simp: owner_map_def owner_of_def db' fun_eq_iff)
qed

lemma increment_revision_effect:
  assumes "increment_revision db = Inr db'"
  shows "constraints db'" and "t_revision db' = t_revision db + 1"
    and "name_of t db' = name_of t db" and "owner_map t db' = owner_map t db"
  using assms
  by (auto simp: increment_revision_def update_revision_def enforce_Inr intro: name_of_cong owner_map_cong)

lemma ensure_local_Inr:
  "ensure_local t i db = Inr () \<longleftrightarrow> (\<exists>r. owner_map t db i = Some r \<and> o_mode r = ''local'')"
  by (auto simp: ensure_local_def owner_map_def split: option.splits if_splits)

text \<open>Insert a row, make it local, count the revision up.\<close>

lemma step_ok_insert:
  assumes row: "constraints db1" "t_revision db1 = t_revision db" "\<And>t. owner_map t db1 = owner_map t db"
      "\<And>t. name_of t db1 = (if t = rtype then (name_of t db)(i \<mapsto> m) else name_of t db)"
    and own: "insert_local_ownership rtype i db1 = Inr db2"
    and mid: "t_revision db3 = t_revision db2" "\<And>t. owner_map t db3 = owner_map t db2"
      "\<And>t. name_of t db3 = name_of t db2"
    and rev: "increment_revision db3 = Inr db'"
  shows "step_ok db db'"
proof (rule step_okI)
  note o = insert_local_ownership_effect [OF own]
  note r = increment_revision_effect [OF rev]
  show "constraints db'" by (rule r(1))
  show "t_revision db' = t_revision db + 1" by (simp add: r(2) mid o(2) row(2))
  show "owners_match db'" if "owners_match db"
    by (rule owners_match_insert [OF that, where rtype = rtype and i = i and m = m
          and r = "local_row rtype i"])
      (simp_all add: r(3,4) mid o(3,4) row(3,4) local_row_def)
qed

section \<open>Local operations\<close>

lemma assignments_effect:
  assumes "replace_access_assignments key ids db = Inr db'" and "constraints db"
  shows "constraints db'" "t_revision db' = t_revision db" "name_of t db' = name_of t db"
    "owner_map t db' = owner_map t db"
proof -
  from assms(1) obtain db1 where d: "delete_assignments key db = Inr db1"
    and f: "foldE (\<lambda>db a. insert_assignment key a db) db1 (sorted_set ids) = Inr db'"
    by (auto simp: replace_access_assignments_def and_then_Inr)
  note e = delete_assignments_effect [OF d]
  note i = insert_assignments_effect [OF f e(3)]
  have "t_revision db' = t_revision db1"
    by (rule foldE_inv [OF f, where P = "\<lambda>d. t_revision d = t_revision db1"])
      (simp_all add: insert_assignment_def enforce_Inr)
  moreover have "t_revision db1 = t_revision db" using d by (simp add: delete_assignments_def enforce_Inr)
  ultimately show "t_revision db' = t_revision db" by simp
  show "constraints db'" "name_of t db' = name_of t db" "owner_map t db' = owner_map t db"
    using i e by auto
qed

lemma add_authorized_key_ok:
  "step_ok db (fst (add_authorized_key_with_access X now n key mode ids db))"
  unfolding add_authorized_key_with_access_def Let_def
proof (rule step_ok_commit(2))
  fix db'
  let ?row = "\<lparr>k_id = new_id X n, k_name = nk_name key, k_public_key = nk_public_key key,
      k_fingerprint = nk_fingerprint key, k_enabled = True, k_access_mode = access_mode_as_str mode,
      k_created_at = now, k_updated_at = now\<rparr>"
  assume "and_then (validate_asset_ids ids db) (\<lambda>_. and_then (insert_access_key ?row db)
      (\<lambda>db1. and_then (insert_local_ownership ''access_key'' (new_id X n) db1)
      (\<lambda>db2. and_then (replace_access_assignments (new_id X n) ids db2) increment_revision))) = Inr db'"
  then obtain db1 db2 db3 where 1: "insert_access_key ?row db = Inr db1"
    and 2: "insert_local_ownership ''access_key'' (new_id X n) db1 = Inr db2"
    and 3: "replace_access_assignments (new_id X n) ids db2 = Inr db3"
    and 4: "increment_revision db3 = Inr db'"
    by (auto simp: and_then_Inr)
  note a = assignments_effect [OF 3 insert_local_ownership_effect(1) [OF 2]]
  show "step_ok db db'"
    by (rule step_ok_insert [OF _ _ _ _ 2 a(2,4,3) 4, where m = "nk_name key"])
      (use insert_rows_effect(3) [OF 1] in simp_all)
qed

lemma add_credential_ok: "step_ok db (fst (add_credential X now n cred db))"
proof (cases "validate_credential_material (nc_auth_type cred) (nc_password_enc cred)
         (nc_private_key_enc cred) (nc_passphrase_enc cred)")
  case (Inl e)
  then show ?thesis by (simp add: add_credential_def)
next
  case (Inr u)
  define i where "i = (case nc_id cred of Some i \<Rightarrow> i | None \<Rightarrow> new_id X n)"
  show ?thesis
    unfolding add_credential_def Inr sum.case Let_def i_def [symmetric]
  proof (rule step_ok_commit(2))
    fix db'
    let ?row = "\<lparr>c_id = i, c_name = nc_name cred, c_username = nc_username cred,
        c_auth_type = local_auth_type (nc_auth_type cred), c_password_enc = nc_password_enc cred,
        c_private_key_enc = nc_private_key_enc cred, c_passphrase_enc = nc_passphrase_enc cred,
        c_secret_hmac = None, c_created_at = now, c_updated_at = now\<rparr>"
    assume "and_then (insert_credential ?row db)
        (\<lambda>db1. and_then (insert_local_ownership ''credential'' i db1) increment_revision) = Inr db'"
    then obtain db1 db2 where 1: "insert_credential ?row db = Inr db1"
      and 2: "insert_local_ownership ''credential'' i db1 = Inr db2"
      and 3: "increment_revision db2 = Inr db'" by (auto simp: and_then_Inr)
    show "step_ok db db'"
      by (rule step_ok_insert [OF _ _ _ _ 2 refl refl refl 3, where m = "nc_name cred"])
        (use insert_rows_effect(1) [OF 1] in simp_all)
  qed
qed

lemma write_asset_insert:
  assumes "write_asset X now i asset False db = Inr db'"
  obtains row where "insert_asset row db = Inr db'" "a_id row = i" "a_name row = na_name asset"
  using assms by (auto simp: write_asset_def and_then_Inr Let_def)

lemma add_asset_ok: "step_ok db (fst (add_asset X now n asset db))"
  unfolding add_asset_def Let_def
proof (rule step_ok_commit(2))
  fix db'
  assume "and_then (write_asset X now (new_id X n) asset False db)
      (\<lambda>db1. and_then (insert_local_ownership ''asset'' (new_id X n) db1) increment_revision) = Inr db'"
  then obtain db1 db2 where 1: "write_asset X now (new_id X n) asset False db = Inr db1"
    and 2: "insert_local_ownership ''asset'' (new_id X n) db1 = Inr db2"
    and 3: "increment_revision db2 = Inr db'" by (auto simp: and_then_Inr)
  from 1 obtain row where r: "insert_asset row db = Inr db1" "a_id row = new_id X n"
    "a_name row = na_name asset" by (rule write_asset_insert)
  show "step_ok db db'"
    by (rule step_ok_insert [OF _ _ _ _ 2 refl refl refl 3, where m = "na_name asset"])
      (use insert_rows_effect(2) [OF r(1)] r(2,3) in simp_all)
qed

text \<open>Updates of one row.\<close>

lemma find_update_id:
  assumes "\<And>r. key (f r) = key r"
  shows "map_option nm (find (\<lambda>r. key r = j) (update_where (\<lambda>r. key r = i) f rows))
    = (if j = i then map_option (\<lambda>r. nm (f r)) (find (\<lambda>r. key r = j) rows)
       else map_option nm (find (\<lambda>r. key r = j) rows))"
  by (simp add: find_update_where [where key = key, OF assms] option.map_comp comp_def)

lemma step_ok_rename:
  assumes "constraints db1" "t_revision db1 = t_revision db" "\<And>t. owner_map t db1 = owner_map t db"
    and "\<And>t. name_of t db1 = (if t = rtype \<and> name_of t db i \<noteq> None then (name_of t db)(i \<mapsto> m)
      else name_of t db)"
    and "ensure_local rtype i db = Inr ()" and rev: "increment_revision db1 = Inr db'"
  shows "step_ok db db'"
proof (rule step_okI)
  note r = increment_revision_effect [OF rev]
  show "constraints db'" by (rule r(1))
  show "t_revision db' = t_revision db + 1" by (simp add: r(2) assms(2))
  from assms(5) obtain row where "owner_map rtype db i = Some row" "o_mode row = ''local''"
    by (auto simp: ensure_local_Inr)
  then show "owners_match db'" if "owners_match db"
    by (intro owners_match_rename [OF that, where rtype = rtype and i = i and m = m])
      (simp_all add: r(3,4) assms(3,4))
qed

lemma update_credential_ok: "step_ok db (fst (update_credential now i cred db))"
proof (cases "validate_credential_material (nc_auth_type cred) (nc_password_enc cred)
         (nc_private_key_enc cred) (nc_passphrase_enc cred)")
  case (Inl e)
  then show ?thesis by (simp add: update_credential_def)
next
  case (Inr u)
  let ?f = "\<lambda>c. c\<lparr>c_name := nc_name cred, c_username := nc_username cred,
       c_auth_type := local_auth_type (nc_auth_type cred), c_password_enc := nc_password_enc cred,
       c_private_key_enc := nc_private_key_enc cred, c_passphrase_enc := nc_passphrase_enc cred,
       c_updated_at := now\<rparr>"
  show ?thesis
    unfolding update_credential_def Inr sum.case
  proof (rule step_ok_commit(1))
    fix db'
    assume "and_then (ensure_local ''credential'' i db) (\<lambda>_. and_then
        (update_credentials (\<lambda>c. c_id c = i) ?f db) increment_revision) = Inr db'"
    then obtain db1 where l: "ensure_local ''credential'' i db = Inr ()"
      and u: "update_credentials (\<lambda>c. c_id c = i) ?f db = Inr db1"
      and r: "increment_revision db1 = Inr db'" by (auto simp: and_then_Inr)
    from u have db1: "db1 = db\<lparr>t_credentials := update_where (\<lambda>c. c_id c = i) ?f (t_credentials db)\<rparr>"
      and ok: "constraints db1" by (simp_all add: update_credentials_def enforce_Inr)
    show "step_ok db db'"
    proof (rule step_ok_rename [OF ok _ _ _ l r])
      show "name_of t db1 = (if t = ''credential'' \<and> name_of t db i \<noteq> None
          then (name_of t db)(i \<mapsto> nc_name cred) else name_of t db)" for t
        by (auto simp: db1 name_of_def row_defs fun_eq_iff find_update_id [where key = c_id])
      show "owner_map t db1 = owner_map t db" for t by (rule owner_map_cong) (simp add: db1)
  qed (simp add: db1)
  qed
qed

lemma write_asset_update:
  assumes "write_asset X now i asset True db = Inr db'"
  obtains f where "update_assets (\<lambda>a. a_id a = i) f db = Inr db'" "\<And>a. a_id (f a) = a_id a"
    "\<And>a. a_name (f a) = na_name asset"
  using assms by (auto simp: write_asset_def and_then_Inr Let_def)

lemma update_asset_ok: "step_ok db (fst (update_asset X now i asset db))"
  unfolding update_asset_def
proof (rule step_ok_commit(1))
  fix db'
  assume "and_then (ensure_local ''asset'' i db)
      (\<lambda>_. and_then (write_asset X now i asset True db) increment_revision) = Inr db'"
  then obtain db1 where l: "ensure_local ''asset'' i db = Inr ()"
    and w: "write_asset X now i asset True db = Inr db1"
    and r: "increment_revision db1 = Inr db'" by (auto simp: and_then_Inr)
  from w obtain f where u: "update_assets (\<lambda>a. a_id a = i) f db = Inr db1"
    and f: "\<And>a. a_id (f a) = a_id a" "\<And>a. a_name (f a) = na_name asset"
    using write_asset_update by blast
  from u have db1: "db1 = db\<lparr>t_assets := update_where (\<lambda>a. a_id a = i) f (t_assets db)\<rparr>"
    and ok: "constraints db1" by (simp_all add: update_assets_def enforce_Inr)
  show "step_ok db db'"
  proof (rule step_ok_rename [OF ok _ _ _ l r])
    show "name_of t db1 = (if t = ''asset'' \<and> name_of t db i \<noteq> None
        then (name_of t db)(i \<mapsto> na_name asset) else name_of t db)" for t
      by (auto simp: db1 name_of_def row_defs fun_eq_iff find_update_id [where key = a_id] f)
    show "owner_map t db1 = owner_map t db" for t by (rule owner_map_cong) (simp add: db1)
  qed (simp add: db1)
qed

lemma set_active_ok: "step_ok db (fst (set_authorized_key_active now i active db))"
  unfolding set_authorized_key_active_def Let_def
proof (rule step_ok_commit(1))
  fix db'
  let ?sel = "\<lambda>k. k_id k = i \<and> k_enabled k \<noteq> active"
  let ?f = "\<lambda>k. k\<lparr>k_enabled := active, k_updated_at := now\<rparr>"
  assume "and_then (ensure_local ''access_key'' i db) (\<lambda>_. and_then (update_access_keys ?sel ?f db)
      (\<lambda>db1. if length (filter ?sel (t_access_keys db)) > 0 then increment_revision db1 else Inr db1))
      = Inr db'"
  then obtain db1 where u: "update_access_keys ?sel ?f db = Inr db1"
    and r: "(if length (filter ?sel (t_access_keys db)) > 0 then increment_revision db1 else Inr db1)
      = Inr db'" by (auto simp: and_then_Inr)
  from u have db1: "db1 = db\<lparr>t_access_keys := update_where ?sel ?f (t_access_keys db)\<rparr>"
    and ok: "constraints db1" by (simp_all add: update_access_keys_def enforce_Inr)
  show "step_ok db db'"
  proof (cases "filter ?sel (t_access_keys db) = []")
    case True
    then have "update_where ?sel ?f (t_access_keys db) = t_access_keys db"
      by (auto simp: update_where_def filter_empty_conv intro!: map_idI)
    with True r have "db' = db" by (simp add: db1)
    then show ?thesis by simp
  next
    case False
    with r have rev: "increment_revision db1 = Inr db'" by simp
    note e = increment_revision_effect [OF rev]
    have nm: "name_of t db1 = name_of t db" for t
    proof -
      have "map_option k_name (find (\<lambda>k. k_id k = j) (update_where ?sel ?f rows))
          = map_option k_name (find (\<lambda>k. k_id k = j) rows)" for j and rows :: "access_key_tbl list"
        by (induction rows) (auto simp: update_where_def)
      then show ?thesis by (simp add: db1 name_of_def row_defs fun_eq_iff)
    qed
    have ow: "owner_map t db1 = owner_map t db" for t by (rule owner_map_cong) (simp add: db1)
    show ?thesis
    proof (rule step_okI)
      show "constraints db'" by (rule e(1))
      show "t_revision db' = t_revision db + 1" by (simp add: e(2) db1)
      show "owners_match db'" if "owners_match db"
        by (rule owners_match_same [OF that]) (simp_all add: e(3,4) nm ow)
    qed
  qed
qed

lemma set_access_ok: "step_ok db (fst (set_authorized_key_access now i mode ids db))"
proof (cases "mode = All \<and> ids \<noteq> []")
  case True
  then show ?thesis by (simp add: set_authorized_key_access_def)
next
  case False
  let ?f = "\<lambda>k. k\<lparr>k_access_mode := access_mode_as_str mode, k_updated_at := now\<rparr>"
  show ?thesis
    unfolding set_authorized_key_access_def if_not_P [OF False]
  proof (rule step_ok_commit(1))
    fix db'
    assume "and_then (ensure_local ''access_key'' i db) (\<lambda>_. and_then (validate_asset_ids ids db)
      (\<lambda>_. and_then (update_access_keys (\<lambda>k. k_id k = i) ?f db)
      (\<lambda>db1. and_then (replace_access_assignments i ids db1) increment_revision))) = Inr db'"
    then obtain db1 db2 where u: "update_access_keys (\<lambda>k. k_id k = i) ?f db = Inr db1"
      and a: "replace_access_assignments i ids db1 = Inr db2"
      and r: "increment_revision db2 = Inr db'" by (auto simp: and_then_Inr)
    from u have db1: "db1 = db\<lparr>t_access_keys := update_where (\<lambda>k. k_id k = i) ?f (t_access_keys db)\<rparr>"
      and ok: "constraints db1" by (simp_all add: update_access_keys_def enforce_Inr)
    have nm: "name_of t db1 = name_of t db" for t
      by (auto simp: db1 name_of_def row_defs fun_eq_iff find_update_id [where key = k_id])
    have ow: "owner_map t db1 = owner_map t db" for t by (rule owner_map_cong) (simp add: db1)
    note e = assignments_effect [OF a ok] and f = increment_revision_effect [OF r]
    show "step_ok db db'"
    proof (rule step_okI)
      show "constraints db'" by (rule f(1))
      show "t_revision db' = t_revision db + 1" by (simp add: f(2) e(2) db1)
      show "owners_match db'" if "owners_match db"
        by (rule owners_match_same [OF that]) (simp_all add: f(3,4) e(3,4) nm ow)
    qed
  qed
qed

lemma delete_local_ok:
  assumes "(rtype, table) \<in> {(''access_key'', ''access_keys''), (''credential'', ''credentials''),
    (''asset'', ''assets'')}"
  shows "step_ok db (fst (delete_local_resource rtype table i db))"
  unfolding delete_local_resource_def
proof (rule step_ok_commit(1))
  fix db'
  assume "and_then (ensure_local rtype i db) (\<lambda>_. and_then (delete_ownership rtype i db)
      (\<lambda>db1. and_then (if table = ''access_keys'' then delete_access_key_row i db1
        else if table = ''credentials'' then delete_credential_row i db1
        else if table = ''assets'' then delete_asset_row i db1
        else Inl (Validation ''invalid catalog table'')) increment_revision)) = Inr db'"
  then obtain db1 db2 where d: "delete_ownership rtype i db = Inr db1"
    and row: "(rtype = ''credential'' \<and> delete_credential_row i db1 = Inr db2)
      \<or> (rtype = ''asset'' \<and> delete_asset_row i db1 = Inr db2)
      \<or> (rtype = ''access_key'' \<and> delete_access_key_row i db1 = Inr db2)"
    and r: "increment_revision db2 = Inr db'"
    using assms by (auto simp: and_then_Inr)
  note e = delete_ownership_effect [OF d] and f = increment_revision_effect [OF r]
  have rows: "name_of t db2 = (if t = rtype then (name_of t db1)(i := None) else name_of t db1)"
    "owner_map t db2 = owner_map t db1" for t
    using row delete_rows_effect [where rid = i and db = db1 and db' = db2 and t = t] by auto
  have rev: "t_revision db2 = t_revision db"
    using row d by (auto simp: delete_ownership_def delete_credential_row_def delete_asset_row_def
        delete_access_key_row_def enforce_Inr)
  show "step_ok db db'"
  proof (rule step_okI)
    show "constraints db'" by (rule f(1))
    show "t_revision db' = t_revision db + 1" by (simp add: f(2) rev)
    show "owners_match db'" if "owners_match db"
      by (rule owners_match_delete [OF that, where rtype = rtype and i = i])
        (simp_all add: f(3,4) rows e(2), simp add: fun_eq_iff e(1))
  qed
qed

section \<open>Runtime state\<close>

text \<open>Statements on the tables that are not configuration.\<close>

lemma quiet_enforce:
  assumes "enforce d = Inr db'"
    and "t_revision d = t_revision db" "t_credentials d = t_credentials db"
      "t_assets d = t_assets db" "t_access_keys d = t_access_keys db"
      "t_access_key_assets d = t_access_key_assets db" "t_ownership d = t_ownership db"
      "t_config_sources d = t_config_sources db"
  shows "step_ok db db'"
  using assms
  by (intro step_ok_config_same) (simp_all add: enforce_Inr config_same_def source_generation_def fun_eq_iff)

lemma start_session_ok: "step_ok db (fst (start_session X now n s db))"
  unfolding start_session_def Let_def insert_session_def
  by (rule step_ok_commit(2), erule quiet_enforce) simp_all

lemma finish_session_ok: "step_ok db (fst (finish_session now i st er db))"
  unfolding finish_session_def by (rule step_ok_commit(1), erule quiet_enforce) simp_all

lemma prune_sessions_ok: "step_ok db (fst (prune_finished_sessions days_ago d db))"
proof (cases "d = 0")
  case False
  show ?thesis
    unfolding prune_finished_sessions_def Let_def if_not_P [OF False]
    by (rule step_ok_commit(2), erule quiet_enforce) simp_all
qed (simp add: prune_finished_sessions_def)

lemma upsert_known_host_ok: "step_ok db (fst (upsert_known_host now h db))"
  unfolding upsert_known_host_def by (rule step_ok_commit(1), erule quiet_enforce) simp_all

lemma delete_known_host_ok: "step_ok db (fst (delete_known_host h p kt db))"
  unfolding delete_known_host_def by (rule step_ok_commit(2), erule quiet_enforce) simp_all

lemma verify_or_learn_ok: "step_ok db (fst (verify_or_learn now h p key db))"
proof (cases "get_known_host h p (fst key) db")
  case None
  define nh where "nh = \<lparr>nkh_hostname = h, nkh_port = p, nkh_key_type = fst key,
    nkh_fingerprint = snd key\<rparr>"
  have "fst (verify_or_learn now h p key db) = fst (upsert_known_host now nh db)"
    by (simp add: verify_or_learn_def None nh_def Let_def split: prod.splits sum.splits)
  with upsert_known_host_ok show ?thesis by simp
qed (simp add: verify_or_learn_def)

lemma health_ok:
  "step_ok db (fst (record_asset_health_success now i l db))"
  "step_ok db (fst (record_asset_health_failure now i c m db))"
  unfolding record_asset_health_success_def record_asset_health_failure_def
  by (rule step_ok_commit(1), erule quiet_enforce, simp_all)+

lemma record_apply_failure_ok: "step_ok db (fst (record_apply_failure X now n src actor e db))"
  unfolding record_apply_failure_def
proof (rule step_ok_commit(1))
  fix db'
  let ?ev = "\<lparr>ev_id = new_id X n, ev_occurred_at = now, ev_actor_label = actor,
      ev_action = ''config.apply'', ev_target_type = ''config_source'', ev_target_id = Some src,
      ev_target_label = Some src, ev_result = ''failed'', ev_source_ip = None,
      ev_details_json = Some (json_str X (failure_details src e))\<rparr>"
  assume "and_then (record_error now src e db) (insert_audit ?ev) = Inr db'"
  then obtain db1 where 1: "record_error now src e db = Inr db1" and 2: "insert_audit ?ev db1 = Inr db'"
    by (auto simp: and_then_Inr)
  have "source_generation db' = source_generation db1"
    using 2 by (simp add: insert_audit_def enforce_Inr source_generation_def fun_eq_iff)
  moreover have "source_generation db1 = source_generation db"
    using record_error_generation [OF 1] by (simp add: fun_eq_iff)
  ultimately have "config_same db db'"
    using 1 2 by (simp add: config_same_def record_error_def insert_audit_def enforce_Inr)
  moreover have "constraints db'" using 2 by (simp add: insert_audit_def enforce_Inr)
  ultimately show "step_ok db db'" by (rule step_ok_config_same [rotated])
qed

section \<open>Declarative apply\<close>

lemma map_of_pairs:
  "map_of (rev (map (\<lambda>(i, m, h). (i, f i m h)) W)) i = None
     \<longleftrightarrow> map_of (rev (map (\<lambda>(i, m, h). (i, m)) W)) i = None"
  "map_of (rev (map (\<lambda>(i, m, h). (i, f i m h)) W)) i = Some v
     \<Longrightarrow> \<exists>m h. map_of (rev (map (\<lambda>(i, m, h). (i, m)) W)) i = Some m \<and> v = f i m h"
proof -
  show "map_of (rev (map (\<lambda>(i, m, h). (i, f i m h)) W)) i = None
     \<longleftrightarrow> map_of (rev (map (\<lambda>(i, m, h). (i, m)) W)) i = None"
    by (force simp: map_of_eq_None_iff)
  show "map_of (rev (map (\<lambda>(i, m, h). (i, f i m h)) W)) i = Some v
     \<Longrightarrow> \<exists>m h. map_of (rev (map (\<lambda>(i, m, h). (i, m)) W)) i = Some m \<and> v = f i m h"
    by (induction W rule: rev_induct) (auto split: if_splits)
qed

text \<open>Whatever plan is run, each row it writes gets its owner, and each it deletes loses it.\<close>

lemma execute_plan_owners:
  assumes exec: "execute_plan X now n k p source g rev' mk summary db = Inr db'"
    and ok: "constraints db" and own: "owners_match db"
  shows "owners_match db'"
  unfolding owners_match_def
proof (intro allI impI conjI)
  fix t assume t: "row_type t"
  note eff = execute_plan_effect [OF exec ok t]
  from own t have dom: "name_of t db i = None \<longleftrightarrow> owner_map t db i = None" for i
    by (simp add: owners_match_def)
  have new: "new_owners now source g t p i = None \<longleftrightarrow> new_names t p i = None" for i
    unfolding new_owners_def new_names_def by (rule map_of_pairs(1))
  show "name_of t db' i = None \<longleftrightarrow> owner_map t db' i = None" for i
    using dom [of i] new [of i] by (auto simp: eff map_add_None)
  fix i m r
  assume m: "name_of t db' i = Some m" and r: "owner_map t db' i = Some r"
    and decl: "o_mode r = ''declarative''"
  from m have nd: "i \<notin> set (deleted_ids t p)" by (auto simp: eff)
  define before where "before = (owner_map t db ++ new_owners now source g t p) i"
  have "(if i \<in> set (orphan_ids t p) then map_option (\<lambda>r. r\<lparr>o_orphaned_at := Some now\<rparr>) before
      else before) = Some r"
    using r unfolding eff(2) if_not_P [OF nd] before_def .
  then obtain r0 where "before = Some r0"
    and same: "o_mode r = o_mode r0" "o_source_key r = o_source_key r0"
    by (cases before) (auto split: if_splits)
  then have r0: "(owner_map t db ++ new_owners now source g t p) i = Some r0"
    by (simp add: before_def)
  show "o_source_key r = Some (source_key t m)"
  proof (cases "new_owners now source g t p i")
    case None
    with new have "new_names t p i = None" by simp
    with m nd have "name_of t db i = Some m" by (simp add: eff map_add_def)
    moreover from r0 None have "owner_map t db i = Some r0" by (simp add: map_add_def)
    ultimately show ?thesis using own t same decl by (auto simp: owners_match_def)
  next
    case (Some v)
    with map_of_pairs(2) [of "\<lambda>i m h. owned_row now t i source m g h" "upserts t p" i v]
    obtain m' h where "new_names t p i = Some m'" "v = owned_row now t i source m' g h"
      by (auto simp: new_owners_def new_names_def)
    moreover from this m nd have "m' = m" by (simp add: eff map_add_def)
    moreover from r0 Some have "r0 = v" by (simp add: map_add_def)
    ultimately show ?thesis using same by (simp add: owned_row_def)
  qed
qed

lemma apply_with_cases:
  assumes "apply_with X now n k w mk sn db m src opts = (db', r)"
  obtains "db' = db"
  | s p where "prepare X n w mk sn m src opts = Inr (s, p)" "plan_changed p" "\<not> ao_dry_run opts"
      "t_revision db = sm_base_revision s" "r = Inr s"
      "execute_plan X now n k p src (sm_generation s) (sm_new_revision s) mk s db = Inr db'"
  using assms by (auto simp: apply_with_def split: sum.splits prod.splits if_splits)

lemma prepare_summary:
  assumes "prepare X n w mk sn m src opts = Inr (s, p)"
  shows "sm_new_revision s = sm_base_revision s + (if plan_changed p then 1 else 0)"
    and "sm_changes s = p_changes p"
  using assms by (auto simp: prepare_def and_then_Inr Let_def plan_summary_def)

lemma apply_with_ok: "step_ok db (fst (apply_with X now n k w mk sn db m src opts))"
proof -
  obtain db' r where a: "apply_with X now n k w mk sn db m src opts = (db', r)" by fastforce
  then show ?thesis
  proof (cases rule: apply_with_cases)
    case 1
    with a show ?thesis by simp
  next
    case (2 s p)
    note e = execute_plan_effect [OF 2(6)]
    show ?thesis
      unfolding step_ok_def a fst_conv catalog_wf_def
      using e(3,4) [OF _ row_types(1)] execute_plan_owners [OF 2(6)] prepare_summary(1) [OF 2(1)] 2(2,4)
      by auto
  qed
qed

section \<open>The step relation\<close>

inductive catalog_step :: "ext \<Rightarrow> catalog \<Rightarrow> catalog \<Rightarrow> bool" for X where
  add_key: "catalog_step X db (fst (add_authorized_key_with_access X now n key mode ids db))"
| set_active: "catalog_step X db (fst (set_authorized_key_active now i active db))"
| set_access: "catalog_step X db (fst (set_authorized_key_access now i mode ids db))"
| delete_key: "catalog_step X db (fst (delete_authorized_key i db))"
| add_cred: "catalog_step X db (fst (add_credential X now n cred db))"
| update_cred: "catalog_step X db (fst (update_credential now i cred db))"
| delete_cred: "catalog_step X db (fst (delete_credential i db))"
| add_asset: "catalog_step X db (fst (add_asset X now n asset db))"
| update_asset: "catalog_step X db (fst (update_asset X now i asset db))"
| delete_asset: "catalog_step X db (fst (delete_asset i db))"
| start_session: "catalog_step X db (fst (start_session X now n s db))"
| finish_session: "catalog_step X db (fst (finish_session now i st er db))"
| prune_sessions: "catalog_step X db (fst (prune_finished_sessions days_ago d db))"
| upsert_host: "catalog_step X db (fst (upsert_known_host now h db))"
| delete_host: "catalog_step X db (fst (delete_known_host hn port kt db))"
| learn_host: "catalog_step X db (fst (verify_or_learn now hn port pk db))"
| health_success: "catalog_step X db (fst (record_asset_health_success now i l db))"
| health_failure: "catalog_step X db (fst (record_asset_health_failure now i c er db))"
| declarative: "catalog_step X db (fst (apply_with X now n k w mk sn db m src opts))"
| failed_apply: "catalog_step X db (fst (record_apply_failure X now n src actor e db))"

lemma catalog_step_ok: "catalog_step X db db' \<Longrightarrow> step_ok db db'"
  by (induction rule: catalog_step.induct)
    (simp_all add: add_authorized_key_ok set_active_ok set_access_ok add_credential_ok
      update_credential_ok add_asset_ok update_asset_ok start_session_ok finish_session_ok
      prune_sessions_ok upsert_known_host_ok delete_known_host_ok verify_or_learn_ok health_ok
      apply_with_ok record_apply_failure_ok delete_authorized_key_def delete_credential_def
      delete_asset_def delete_local_ok)

definition catalog_steps :: "ext \<Rightarrow> catalog \<Rightarrow> catalog \<Rightarrow> bool" where
  "catalog_steps X = (catalog_step X)\<^sup>*\<^sup>*"

definition reachable :: "ext \<Rightarrow> catalog \<Rightarrow> bool" where
  "reachable X db \<longleftrightarrow> catalog_steps X baseline db"

lemma baseline_maps [simp]: "name_of t baseline i = None" "owner_map t baseline i = None"
  by (simp_all add: name_of_def owner_map_def owner_of_def row_defs baseline_def)

lemma catalog_wf_baseline: "catalog_wf baseline"
  by (simp add: catalog_wf_def owners_match_def)

lemma steps_wf: "catalog_steps X db db' \<Longrightarrow> catalog_wf db \<Longrightarrow> catalog_wf db'"
  unfolding catalog_steps_def
  by (induction rule: rtranclp_induct) (auto dest: catalog_step_ok simp: step_ok_def)

lemma reachable_wf: "reachable X db \<Longrightarrow> catalog_wf db"
  unfolding reachable_def by (erule steps_wf) (rule catalog_wf_baseline)

lemma config_same_trans: "config_same a b \<Longrightarrow> config_same b c \<Longrightarrow> config_same a c"
  by (simp add: config_same_def)

text \<open>Two catalogs of one configuration are the same to the planner.\<close>

lemma owner_of_same: "config_same db db' \<Longrightarrow> owner_of t i db' = owner_of t i db"
  by (simp add: config_same_def owner_of_def)

lemma loads_same:
  assumes "config_same db db'"
  shows "load_credentials db' = load_credentials db" and "load_assets db' = load_assets db"
    and "load_access db' = load_access db"
  using owner_of_same [OF assms] assms
  by (simp_all add: load_credentials_def load_assets_def load_access_def existing_row_def
      existing_asset_row_def config_same_def)

text \<open>Along a run the revision only grows, and where it stands still the configuration does too.\<close>

lemma steps_revision:
  assumes "catalog_steps X db db'" and "constraints db"
  shows "constraints db' \<and> t_revision db \<le> t_revision db'
    \<and> (t_revision db' = t_revision db \<longrightarrow> config_same db db')"
  using assms(1) unfolding catalog_steps_def
proof (induction rule: rtranclp_induct)
  case base
  then show ?case using assms(2) by (simp add: config_same_def)
next
  case (step db1 db2)
  from catalog_step_ok [OF step.hyps(2)] step.IH
  have "constraints db2" "config_same db1 db2 \<or> t_revision db2 = t_revision db1 + 1"
    by (auto simp: step_ok_def)
  with step.IH show ?case by (auto simp: config_same_def)
qed

end
