(* ===== verification/Apply_Report.thy ===== *)
theory Apply_Report
  imports Catalog_Steps
begin

text \<open>
  The report of an apply: the changes are sorted, each resource occurs in them once, and what
  they say of a resource is what happened to it.
\<close>

section \<open>Revision and order\<close>

lemma execute_plan_revision:
  assumes "execute_plan X now n k p source g rev' mk summary db = Inr db'"
  shows "t_revision db' = rev' \<and> constraints db'"
proof -
  from assms obtain db5 db6 db7 ev where "update_revision rev' db5 = Inr db6"
    and "record_success now source g rev' db6 = Inr db7" and "insert_audit ev db7 = Inr db'"
    unfolding execute_plan_def by (auto simp: and_then_Inr map_err_Inr)
  then show ?thesis
    by (auto simp: update_revision_def record_success_def insert_audit_def enforce_Inr)
qed

lemma change_le_total: "total_preorder change_le"
  by (auto simp: total_preorder_def change_le_def)

lemma build_plan_sorted:
  assumes "build_plan X n cs as xs r source mk prune = Inr p"
  shows "sorted_wrt change_le (p_changes p)"
proof -
  from assms obtain q where "p = q\<lparr>p_changes := order_by change_le (p_changes q)\<rparr>"
    by (auto simp: build_plan_def and_then_Inr Let_def split: prod.splits)
  then show ?thesis by (simp add: sorted_order_by [OF change_le_total])
qed

lemma prepare_sorted:
  assumes "prepare X n w mk sn m source opts = Inr (s, p)"
  shows "sorted_wrt change_le (sm_changes s)"
    and "s = plan_summary p source (sm_base_revision s) (sm_new_revision s) (sm_generation s) (ao_dry_run opts)"
  using assms by (auto simp: prepare_def and_then_Inr Let_def plan_summary_def dest: build_plan_sorted)

lemma actions_partition: "length cs = length (filter (\<lambda>c. ch_action c = Created) cs)
    + length (filter (\<lambda>c. ch_action c = Updated) cs) + length (filter (\<lambda>c. ch_action c = Deleted) cs)
    + length (filter (\<lambda>c. ch_action c = Orphaned) cs) + length (filter (\<lambda>c. ch_action c = Unchanged) cs)"
proof (induction cs)
  case (Cons c cs)
  then show ?case by (cases "ch_action c") auto
qed simp

lemma plan_summary_changes [simp]: "sm_changes (plan_summary p src b v g d) = p_changes p"
  by (simp add: plan_summary_def)

section \<open>Truth\<close>

text \<open>What a reported action says of a resource before and after the apply.\<close>

fun told :: "apply_action \<Rightarrow> existing_resource option \<Rightarrow> existing_resource option \<Rightarrow> bool" where
  "told Created before after \<longleftrightarrow> before = None \<and> after \<noteq> None"
| "told Updated before after \<longleftrightarrow> (\<exists>e e'. before = Some e \<and> after = Some e' \<and> er_id e' = er_id e)"
| "told Deleted before after \<longleftrightarrow> before \<noteq> None \<and> after = None"
| "told Orphaned before after \<longleftrightarrow> (\<exists>e now. before = Some e \<and> er_orphaned_at e = None
     \<and> after = Some (e\<lparr>er_orphaned_at := Some now\<rparr>))"
| "told Unchanged before after \<longleftrightarrow> after = before"

lemma ran_told_declared:
  assumes run: "ran X now n k r source mk prune p db db'" and t: "row_type t"
    and d: "(m, w) \<in> set (declared t X mk r)"
  shows "told (action_of (existing_of t db m) w) (existing_of t db m) (existing_of t db' m)"
proof (cases w)
  case (Some h)
  with d have dh: "(m, Some h) \<in> set (declared t X mk r)" by simp
  obtain e where "existing_of t db' m = Some e"
    "\<And>e0. existing_of t db m = Some e0 \<Longrightarrow> er_id e = er_id e0"
    "action_of (existing_of t db m) (Some h) = Unchanged \<Longrightarrow> existing_of t db m = Some e"
    using ran_present [OF run t dh] by metis
  with Some show ?thesis by (cases "existing_of t db m") (auto simp: action_of_def split: if_splits)
next
  case None
  from run have pf: "plan_for X n db r source mk prune p" and r: "resolved_ok r"
    by (simp_all add: ran_def)
  have no: "(m, Some h) \<notin> set (declared t X mk r)" for h
    using resolved_ok_mentioned [OF r, of t] d None
    by (metis eq_key_imp_eq_value fst_declared option.distinct(1))
  have "er_id e \<in> set (deleted_ids t p)" if "existing_of t db m = Some e" for e
    using plan_deleted_ids [OF pf t] that d None by blast
  with ran_not_present [OF run t no] None show ?thesis
    by (cases "existing_of t db m") (auto simp: action_of_def)
qed

text \<open>A name that is not mentioned changes only if the source owns it.\<close>

lemma ran_unmentioned:
  assumes run: "ran X now n k r source mk prune p db db'" and t: "row_type t"
    and no: "m \<notin> set (mentioned_of t r)"
  shows "existing_of t db' m = (case existing_of t db m of None \<Rightarrow> None
    | Some e \<Rightarrow> if er_source_id e \<noteq> Some source then Some e else if prune then None
        else if er_orphaned_at e = None then Some (e\<lparr>er_orphaned_at := Some now\<rparr>) else Some e)"
proof -
  from run have pf: "plan_for X n db r source mk prune p" and ok: "constraints db"
    by (auto simp: ran_def)
  have nd: "(m, w) \<notin> set (declared t X mk r)" for w
    using no mentioned_declared [of m t r X mk] by blast
  show ?thesis
  proof (cases "existing_of t db m")
    case None
    with ran_not_present [OF run t nd] show ?thesis by simp
  next
    case (Some e)
    have sole: "m' = m \<and> e' = e" if "existing_of t db m' = Some e'" "er_id e = er_id e'" for m' e'
      using existing_of_inj [OF ok t that(1) Some] that Some by (metis option.inject)
    have "er_id e \<in> set (deleted_ids t p) \<longleftrightarrow> prune \<and> er_source_id e = Some source"
      unfolding plan_deleted_ids [OF pf t] using sole Some no nd by metis
    moreover have "er_id e \<in> set (orphan_ids t p)
        \<longleftrightarrow> \<not> prune \<and> er_source_id e = Some source \<and> er_orphaned_at e = None"
      unfolding plan_orphan_ids [OF pf t] using sole Some no by metis
    ultimately show ?thesis using ran_not_present [OF run t nd] Some by auto
  qed
qed

lemma ran_report:
  assumes run: "ran X now n k r source mk prune p db db'" and t: "row_type t"
  shows "c \<in> set (p_changes p) \<Longrightarrow> ch_type c = t
      \<Longrightarrow> told (ch_action c) (existing_of t db (ch_name c)) (existing_of t db' (ch_name c))"
    and "\<forall>c \<in> set (p_changes p). ch_type c = t \<longrightarrow> ch_name c \<noteq> m
      \<Longrightarrow> existing_of t db' m = existing_of t db m"
proof -
  from run have pf: "plan_for X n db r source mk prune p" by (simp add: ran_def)
  have of_type: "ch_type c = u" if "c \<in> set (type_changes u X db r source mk prune)" for c u
    using that by (auto simp: type_changes_def change_of_def missing_change_def)
  have mem: "c \<in> set (p_changes p) \<and> ch_type c = t \<longleftrightarrow> c \<in> set (type_changes t X db r source mk prune)" for c
    using set_plan_changes [OF pf, of c] of_type t by blast
  show "told (ch_action c) (existing_of t db (ch_name c)) (existing_of t db' (ch_name c))"
    if "c \<in> set (p_changes p)" "ch_type c = t"
  proof -
    from that mem have "c \<in> set (type_changes t X db r source mk prune)" by blast
    then consider
        m w where "(m, w) \<in> set (declared t X mk r)" "c = change_of t (existing_of t db) (m, w)"
      | m e where "existing_of t db m = Some e" "er_source_id e = Some source"
          "m \<notin> set (mentioned_of t r)" "c = missing_change t prune (m, e)"
      by (auto simp: type_changes_def unmentioned_def existing_tree_in)
    then show ?thesis
    proof cases
      case 1
      with ran_told_declared [OF run t 1(1)] show ?thesis by (simp add: change_of_def)
    next
      case 2
      with ran_unmentioned [OF run t 2(3)] show ?thesis by (auto simp: missing_change_def)
    qed
  qed
  show "existing_of t db' m = existing_of t db m"
    if none: "\<forall>c \<in> set (p_changes p). ch_type c = t \<longrightarrow> ch_name c \<noteq> m"
  proof -
    from none mem have no: "c \<in> set (type_changes t X db r source mk prune) \<Longrightarrow> ch_name c \<noteq> m" for c
      by blast
    have nd: "(m, w) \<notin> set (declared t X mk r)" for w
    proof
      assume "(m, w) \<in> set (declared t X mk r)"
      then have "change_of t (existing_of t db) (m, w) \<in> set (type_changes t X db r source mk prune)"
        unfolding type_changes_def set_append set_map by blast
      from no [OF this] show False by (simp add: change_of_def)
    qed
    then have ment: "m \<notin> set (mentioned_of t r)" using mentioned_declared [of m t r X mk] by blast
    have "er_source_id e \<noteq> Some source" if "existing_of t db m = Some e" for e
    proof
      assume "er_source_id e = Some source"
      with that ment have "(m, e) \<in> set (unmentioned (existing_tree t db) (mentioned_of t r) source)"
        by (simp add: unmentioned_def existing_tree_in)
      then have "missing_change t prune (m, e) \<in> set (type_changes t X db r source mk prune)"
        unfolding type_changes_def set_append set_map by blast
      from no [OF this] show False by (simp add: missing_change_def)
    qed
    then show ?thesis using ran_unmentioned [OF run t ment] by (simp split: option.splits)
  qed
qed

end
