(* ===== verification/Access_Policy.thy ===== *)
theory Access_Policy
  imports Catalog_Steps
begin

text \<open>
  How the operations on access keys change what a key reaches: assigning a scope gives exactly
  that scope, disabling a key takes everything away, and neither changes another key's scope.
\<close>

definition enabled_key :: "string \<Rightarrow> catalog \<Rightarrow> bool" where
  "enabled_key key db \<longleftrightarrow> (\<exists>k \<in> set (t_access_keys db). k_id k = key \<and> k_enabled k)"

lemma order_by_Nil_iff: "order_by le xs = [] \<longleftrightarrow> xs = []"
  by (rule order_by_Nil(2))

text \<open>A key that is missing or disabled is shown nothing and resolves nothing.\<close>

lemma not_enabled_reaches_nothing:
  assumes "\<not> enabled_key key db"
  shows "list_assets_for_key X key db = Inr []" "\<not> key_can_access_asset key i db"
    "find_direct_asset_for_key X key target db = Inr None"
    "find_proxy_asset_for_key X key host port db = Inr None"
proof -
  have "a \<notin> set (scoped_assets db key)" for a
    using assms by (auto simp: set_scoped_assets enabled_key_def)
  then have none: "scoped_assets db key = []" by (metis last_in_set)
  show l: "list_assets_for_key X key db = Inr []"
    by (simp add: list_assets_for_key_def none asset_rows_def)
  show "\<not> key_can_access_asset key i db" by (simp add: key_can_access_scoped none)
  show "find_direct_asset_for_key X key target db = Inr None"
    by (simp add: find_direct_asset_for_key_def none first_by_rank_def asset_row_opt_def)
  show "find_proxy_asset_for_key X key host port db = Inr None"
    by (simp add: find_proxy_asset_for_key_def none first_by_rank_def asset_row_opt_def Let_def)
qed

section \<open>Assignments\<close>

lemma replace_assignments_set:
  assumes "replace_access_assignments key ids db = Inr db'"
  shows "set (t_access_key_assets db') = {(k, a) \<in> set (t_access_key_assets db). k \<noteq> key}
      \<union> (\<lambda>a. (key, a)) ` set ids"
    and "t_access_keys db' = t_access_keys db" and "t_assets db' = t_assets db"
proof -
  from assms obtain db1 where d: "delete_assignments key db = Inr db1"
    and f: "foldE (\<lambda>db a. insert_assignment key a db) db1 (sorted_set ids) = Inr db'"
    by (auto simp: replace_access_assignments_def and_then_Inr)
  have loop: "set (t_access_key_assets d') = set (t_access_key_assets d) \<union> (\<lambda>a. (key, a)) ` set as
      \<and> t_access_keys d' = t_access_keys d \<and> t_assets d' = t_assets d"
    if "foldE (\<lambda>db a. insert_assignment key a db) d as = Inr d'" for as d d'
    using that
    by (induction as arbitrary: d) (auto simp: and_then_Inr insert_assignment_def enforce_Inr)
  have "set (sorted_set ids) = set ids" by (simp add: sorted_set_def)
  with loop [OF f] d show "set (t_access_key_assets db') = {(k, a) \<in> set (t_access_key_assets db). k \<noteq> key}
      \<union> (\<lambda>a. (key, a)) ` set ids"
    and "t_access_keys db' = t_access_keys db" and "t_assets db' = t_assets db"
    by (auto simp: delete_assignments_def enforce_Inr)
qed

lemma validate_asset_ids_Inr:
  "validate_asset_ids ids db = Inr () \<longleftrightarrow> (\<forall>i \<in> set ids. \<exists>a \<in> set (t_assets db). a_id a = i)"
proof -
  have "set (sorted_set ids) = set ids" by (simp add: sorted_set_def)
  moreover have "foldE (\<lambda>_ i. check (\<exists>a \<in> set (t_assets db). a_id a = i) (e i)) () is = Inr ()
      \<longleftrightarrow> (\<forall>i \<in> set is. \<exists>a \<in> set (t_assets db). a_id a = i)" for "is" and e :: "string \<Rightarrow> hop_error"
    by (induction "is") (auto simp: and_then_Inr check_Inr)
  ultimately show ?thesis by (simp add: validate_asset_ids_def)
qed

text \<open>The scope of every key after one key's scope was set.\<close>

lemma set_access_scope:
  assumes "set_authorized_key_access now key mode ids db = (db', Inr ())"
  shows "key_can_access_asset key i db' \<longleftrightarrow> enabled_key key db
      \<and> (if mode = All then \<exists>a \<in> set (t_assets db). a_id a = i else i \<in> set ids)"
    and "key' \<noteq> key \<Longrightarrow> key_can_access_asset key' i db' \<longleftrightarrow> key_can_access_asset key' i db"
proof -
  let ?f = "\<lambda>k. k\<lparr>k_access_mode := access_mode_as_str mode, k_updated_at := now\<rparr>"
  from assms have nm: "\<not> (mode = All \<and> ids \<noteq> [])"
    by (auto simp: set_authorized_key_access_def split: if_splits)
  with assms obtain db1 db2 where v: "validate_asset_ids ids db = Inr ()"
    and u: "update_access_keys (\<lambda>k. k_id k = key) ?f db = Inr db1"
    and a: "replace_access_assignments key ids db1 = Inr db2"
    and r: "increment_revision db2 = Inr db'"
    by (auto simp: set_authorized_key_access_def commit_Inr and_then_Inr)
  note s = replace_assignments_set [OF a]
  have keys: "t_access_keys db' = update_where (\<lambda>k. k_id k = key) ?f (t_access_keys db)"
    and assets: "t_assets db' = t_assets db"
    and assign: "set (t_access_key_assets db') = {(k, a) \<in> set (t_access_key_assets db). k \<noteq> key}
      \<union> (\<lambda>a. (key, a)) ` set ids"
    using r u s by (auto simp: increment_revision_def update_revision_def update_access_keys_def enforce_Inr)
  have mode: "access_mode_as_str mode = ''all'' \<longleftrightarrow> mode = All" by (cases mode) auto
  have known: "\<exists>a \<in> set (t_assets db). a_id a = i" if "i \<in> set ids"
    using v that by (simp add: validate_asset_ids_Inr)
  let ?g = "\<lambda>k. if k_id k = key then ?f k else k"
  let ?perm = "\<lambda>k a. k_access_mode k = ''all'' \<or> (k_id k, a_id a) \<in> set (t_access_key_assets db')"
  have mine: "k_id (?g k) = key \<and> k_enabled (?g k) \<and> ?perm (?g k) a
      \<longleftrightarrow> k_id k = key \<and> k_enabled k \<and> (mode = All \<or> a_id a \<in> set ids)"
    for k :: access_key_tbl and a :: asset_tbl
    by (auto simp: mode assign)
  have own: "key_can_access_asset key i db' \<longleftrightarrow> (\<exists>k \<in> set (t_access_keys db). \<exists>a \<in> set (t_assets db).
      a_id a = i \<and> k_id k = key \<and> k_enabled k \<and> (mode = All \<or> i \<in> set ids))"
    unfolding key_can_access_asset_def permits_def keys assets set_update_where bex_simps(7)
    using mine by metis
  also have "\<dots> \<longleftrightarrow> enabled_key key db
      \<and> (if mode = All then \<exists>a \<in> set (t_assets db). a_id a = i else i \<in> set ids)"
    using known by (auto simp: enabled_key_def)
  finally show "key_can_access_asset key i db' \<longleftrightarrow> enabled_key key db
      \<and> (if mode = All then \<exists>a \<in> set (t_assets db). a_id a = i else i \<in> set ids)" .
  show "key_can_access_asset key' i db' \<longleftrightarrow> key_can_access_asset key' i db" if "key' \<noteq> key"
  proof -
    have "k_id (?g k) = key' \<and> k_enabled (?g k) \<and> ?perm (?g k) a
        \<longleftrightarrow> k_id k = key' \<and> k_enabled k \<and> permits db k a" for k :: access_key_tbl and a :: asset_tbl
      using that by (auto simp: assign permits_def)
    then show ?thesis
      unfolding key_can_access_asset_def permits_def [of db'] keys assets set_update_where bex_simps(7)
      by metis
  qed
qed

text \<open>The scope of every key after one key was switched on or off.\<close>

lemma set_active_scope:
  assumes "set_authorized_key_active now key active db = (db', Inr ())"
  shows "enabled_key key db' \<longleftrightarrow> active \<and> (\<exists>k \<in> set (t_access_keys db). k_id k = key)"
    and "key' \<noteq> key \<Longrightarrow> key_can_access_asset key' i db' \<longleftrightarrow> key_can_access_asset key' i db"
proof -
  let ?sel = "\<lambda>k. k_id k = key \<and> k_enabled k \<noteq> active"
  let ?f = "\<lambda>k. k\<lparr>k_enabled := active, k_updated_at := now\<rparr>"
  from assms obtain db1 where u: "update_access_keys ?sel ?f db = Inr db1"
    and r: "(if length (filter ?sel (t_access_keys db)) > 0 then increment_revision db1 else Inr db1)
      = Inr db'" by (auto simp: set_authorized_key_active_def Let_def commit_Inr and_then_Inr)
  have keys: "t_access_keys db' = update_where ?sel ?f (t_access_keys db)"
    and rest: "t_assets db' = t_assets db" "t_access_key_assets db' = t_access_key_assets db"
    using r u by (auto simp: increment_revision_def update_revision_def update_access_keys_def
        enforce_Inr split: if_splits)
  show "enabled_key key db' \<longleftrightarrow> active \<and> (\<exists>k \<in> set (t_access_keys db). k_id k = key)"
  proof -
    let ?g = "\<lambda>k. if ?sel k then ?f k else k"
    have "k_id (?g k) = k_id k" "k_id k = key \<Longrightarrow> k_enabled (?g k) = active" for k :: access_key_tbl
      by simp_all
    then have "(\<exists>k \<in> set (t_access_keys db). k_id (?g k) = key \<and> k_enabled (?g k))
        \<longleftrightarrow> active \<and> (\<exists>k \<in> set (t_access_keys db). k_id k = key)" by metis
    then show ?thesis unfolding enabled_key_def keys set_update_where bex_simps(7) .
  qed
  show "key_can_access_asset key' i db' \<longleftrightarrow> key_can_access_asset key' i db" if "key' \<noteq> key"
    unfolding key_can_access_asset_def permits_def keys rest set_update_where
    using that by auto
qed

text \<open>Deleting an asset takes it out of every scope, and nothing else.\<close>

lemma delete_asset_scope:
  assumes "delete_asset i db = (db', Inr ())"
  shows "key_can_access_asset key j db' \<longleftrightarrow> j \<noteq> i \<and> key_can_access_asset key j db"
proof -
  from assms obtain db1 db2 where o: "delete_ownership ''asset'' i db = Inr db1"
    and d: "delete_asset_row i db1 = Inr db2" and r: "increment_revision db2 = Inr db'"
    by (auto simp: delete_asset_def delete_local_resource_def commit_Inr and_then_Inr)
  have "t_access_keys db' = t_access_keys db"
    "t_assets db' = delete_where (\<lambda>a. a_id a = i) (t_assets db)"
    "t_access_key_assets db' = delete_where (\<lambda>(_, a). a = i) (t_access_key_assets db)"
    using o d r by (simp_all add: delete_ownership_def delete_asset_row_def increment_revision_def
        update_revision_def enforce_Inr)
  then show ?thesis by (auto simp: key_can_access_asset_def permits_def)
qed

end
