(* ===== verification/Examples.thy ===== *)
theory Examples
  imports Access_Policy
begin

text \<open>
  Small concrete values for the theorems to be applied to: an instance of the third-party
  functions that satisfies their laws (base64 and the id source are replaced by simple
  injective functions, the cipher by the identity), a catalog with two assets and two keys, and a
  manifest.
\<close>

definition nibble :: "bool \<Rightarrow> bool \<Rightarrow> bool \<Rightarrow> bool \<Rightarrow> char" where
  "nibble b0 b1 b2 b3 = Char b0 b1 b2 b3 False True True False"

fun hex_char :: "char \<Rightarrow> string" where
  "hex_char (Char b0 b1 b2 b3 b4 b5 b6 b7) = [nibble b0 b1 b2 b3, nibble b4 b5 b6 b7]"

definition hex_encode :: "string \<Rightarrow> string" where
  "hex_encode s = concat (map hex_char s)"

fun char_of_nibbles :: "char \<Rightarrow> char \<Rightarrow> char" where
  "char_of_nibbles (Char b0 b1 b2 b3 _ _ _ _) (Char b4 b5 b6 b7 _ _ _ _) = Char b0 b1 b2 b3 b4 b5 b6 b7"

fun hex_decode :: "string \<Rightarrow> string option" where
  "hex_decode [] = Some []"
| "hex_decode [a] = None"
| "hex_decode (a # b # s) = map_option (Cons (char_of_nibbles a b)) (hex_decode s)"

definition sample_ext :: ext where
  "sample_ext = \<lparr>json_str = (\<lambda>_. ''j''), json_tags = (\<lambda>_. Some []),
     uuid_v4 = (\<lambda>n. replicate n (CHR ''u'')), b64_nopad = (\<lambda>s. s), b64_encode = hex_encode,
     b64_decode = hex_decode, sha256 = (\<lambda>s. s), hmac_sha256 = (\<lambda>_ s. s),
     hkdf_expand = (\<lambda>_ _ c. Some c), aead_encrypt = (\<lambda>_ _ p. Some p),
     aead_decrypt = (\<lambda>_ _ c. Some c), random_nonce = (\<lambda>_. replicate 24 (CHR ''n'')),
     secret_key_ok = (\<lambda>_ _. True), public_key = (\<lambda>s. Some (''k'', s, s))\<rparr>"

lemma byte_of_nibble: "96 \<le> byte_of (nibble b0 b1 b2 b3) \<and> byte_of (nibble b0 b1 b2 b3) < 112"
  by (simp add: nibble_def byte_of_def)

lemma hex_decode_encode: "hex_decode (hex_encode s) = Some s"
proof (induction s)
  case (Cons c s)
  then show ?case by (cases c) (simp add: hex_encode_def nibble_def)
qed (simp add: hex_encode_def)

lemma hex_encode_chars: "c \<in> set (hex_encode s) \<Longrightarrow> 96 \<le> byte_of c \<and> byte_of c < 112"
proof -
  assume "c \<in> set (hex_encode s)"
  then obtain x where "c \<in> set (hex_char x)" by (auto simp: hex_encode_def)
  then show ?thesis by (cases x) (auto simp: byte_of_nibble)
qed

lemma plain_no_space:
  "\<forall>c \<in> set s. 96 \<le> byte_of c \<and> byte_of c < 112 \<Longrightarrow> ws_len s = 0 \<and> ws_len_rev s = 0"
  by (induction s rule: ws_len.induct) (auto simp: ws1_def ws2_def ws3_def)

lemma sample_crypto_laws: "crypto_laws sample_ext"
proof -
  have "\<not> colon c" if "c \<in> set (hex_encode s)" for c s
    using hex_encode_chars [OF that] by (auto simp: colon_def byte_of_def)
  moreover have "trimmed (hex_encode s)" for s
  proof (rule trimmedI)
    show "ws_len (hex_encode s) = 0" using plain_no_space hex_encode_chars by blast
    show "ws_len_rev (rev (hex_encode s)) = 0"
      using plain_no_space [of "rev (hex_encode s)"] hex_encode_chars by simp
  qed
  ultimately show ?thesis
    by (simp add: crypto_laws_def sample_ext_def hex_decode_encode)
qed

lemma sample_inj: "inj (uuid_v4 sample_ext)"
proof (rule injI)
  fix i j assume "uuid_v4 sample_ext i = uuid_v4 sample_ext j"
  then have "length (uuid_v4 sample_ext i) = length (uuid_v4 sample_ext j)" by simp
  then show "i = j" by (simp add: sample_ext_def)
qed

definition sample_os :: os where
  "sample_os = \<lparr>os_file = (\<lambda>_. None), os_env = (\<lambda>_. None)\<rparr>"

definition sample_spec :: asset_spec where
  "sample_spec = \<lparr>sp_state = Present, sp_type = Some Tcp, sp_host = Some ''h'', sp_port = Some 1,
     sp_display_name = None, sp_description = None, sp_credential = None\<rparr>"

definition sample_manifest :: manifest where
  "sample_manifest = \<lparr>m_api_version = manifest_api_version, m_credentials = [],
     m_assets = [(''a'', sample_spec)], m_access = []\<rparr>"

definition sample_options :: apply_options where
  "sample_options = \<lparr>ao_base_revision = None, ao_prune = True, ao_dry_run = False\<rparr>"

definition sample_apply :: "catalog \<Rightarrow> catalog \<times> (catalog_error + apply_summary)" where
  "sample_apply db =
     apply_manifest sample_ext ''t'' 5 0 sample_os ''m'' sample_manifest ''s'' sample_options db"

text \<open>A catalog with a local key and two local assets, all of them reached by the key or not.\<close>

definition sample_asset :: "string \<Rightarrow> string \<Rightarrow> asset_tbl" where
  "sample_asset i name = \<lparr>a_id = i, a_name = name, a_asset_type = ''tcp'', a_host = ''x'', a_port = 22,
     a_display_name = None, a_description = None, a_tags_json = None, a_credential_id = None,
     a_created_at = ''t'', a_updated_at = ''t''\<rparr>"

definition sample_key :: "string \<Rightarrow> string \<Rightarrow> access_key_tbl" where
  "sample_key i mode = \<lparr>k_id = i, k_name = i, k_public_key = i, k_fingerprint = i, k_enabled = True,
     k_access_mode = mode, k_created_at = ''t'', k_updated_at = ''t''\<rparr>"

definition sample_owner :: "string \<Rightarrow> string \<Rightarrow> ownership_tbl" where
  "sample_owner rtype i = \<lparr>o_type = rtype, o_id = i, o_mode = ''local'', o_source_id = None,
     o_source_key = None, o_generation = None, o_hash = None, o_applied_at = None,
     o_orphaned_at = None\<rparr>"

definition sample_db :: catalog where
  "sample_db = baseline\<lparr>t_assets := [sample_asset ''1'' ''p'', sample_asset ''2'' ''q''],
     t_access_keys := [sample_key ''k'' ''restricted'', sample_key ''l'' ''all''],
     t_access_key_assets := [(''k'', ''1'')],
     t_ownership := [sample_owner ''asset'' ''1'', sample_owner ''asset'' ''2'',
       sample_owner ''access_key'' ''k'', sample_owner ''access_key'' ''l'']\<rparr>"

lemma sample_db_constraints: "constraints sample_db"
  by code_simp

lemma sample_fresh: "fresh_ids sample_ext 5 baseline" "fresh_ids sample_ext 5 sample_db"
proof -
  show "fresh_ids sample_ext 5 baseline" using sample_inj by (simp add: fresh_ids_def)
  have short: "length i \<le> 1" if "name_of t sample_db i = Some m" for t i m
    using that by (auto simp: name_of_def row_defs sample_db_def baseline_def sample_asset_def
        sample_key_def split: if_splits)
  have "name_of t sample_db (new_id sample_ext j) = None" if "5 \<le> j" for t j
    using short [of t "new_id sample_ext j"] that
    by (cases "name_of t sample_db (new_id sample_ext j)") (auto simp: new_id_def sample_ext_def)
  with sample_inj show "fresh_ids sample_ext 5 sample_db" by (simp add: fresh_ids_def)
qed

lemma sample_apply_succeeds:
  "\<not> isl (snd (sample_apply baseline))" "\<not> isl (snd (sample_apply sample_db))"
  by code_simp+

lemma success_pair: "\<not> isl (snd r) \<Longrightarrow> r = (fst r, Inr (projr (snd r)))"
  by (metis prod.collapse sum.collapse(2))

lemmas sample_apply_pair = sample_apply_succeeds [THEN success_pair]

definition sample_session :: new_session where
  "sample_session = \<lparr>ns_key_finger = ''f'', ns_key_name = None, ns_mode = ''tui'',
     ns_asset_name = None, ns_target_host = None, ns_target_port = None, ns_client_ip = None\<rparr>"

definition sample_new_asset :: new_asset where
  "sample_new_asset = \<lparr>na_name = ''n'', na_protocol = ''tcp'', na_hostname = ''h'', na_port = 22,
     na_description = None, na_tags = [], na_credential_id = None\<rparr>"

end
