(* ===== verification/Rust_Path.thy ===== *)
theory Rust_Path
  imports Rust_Std
begin

text \<open>
  What the code uses of \<open>std::path\<close> on Unix. A path is its text; \<open>parent\<close>, \<open>file_name\<close> and
  \<open>extension\<close> read it by components, so repeated and trailing slashes and inner dots do not count.
\<close>

definition is_slash :: "char \<Rightarrow> bool" where
  "is_slash c \<longleftrightarrow> c = CHR ''/''"

definition is_absolute :: "string \<Rightarrow> bool" where
  "is_absolute p = (case p of [] \<Rightarrow> False | c # _ \<Rightarrow> is_slash c)"

text \<open>\<open>PathBuf::push\<close>.\<close>

definition path_join :: "string \<Rightarrow> string \<Rightarrow> string" where
  "path_join base p =
     (if is_absolute p then p
      else if base \<noteq> [] \<and> \<not> is_slash (last base) then base @ ''/'' @ p
      else base @ p)"

text \<open>The components from the last one on; the first piece is empty for an absolute path.\<close>

fun drop_blank :: "string list \<Rightarrow> string list" where
  "drop_blank (c # d # cs) = (if c = [] \<or> c = ''.'' then drop_blank (d # cs) else c # d # cs)"
| "drop_blank cs = cs"

definition path_pieces :: "string \<Rightarrow> string list" where
  "path_pieces p = drop_blank (rev (split_on is_slash p))"

definition path_parent :: "string \<Rightarrow> string option" where
  "path_parent p =
     (case path_pieces p of
        [] \<Rightarrow> None
      | c # cs \<Rightarrow>
          if c = [] then None
          else (case drop_blank cs of
              [] \<Rightarrow> Some []
            | rest \<Rightarrow> if rest = [[]] then Some ''/'' else Some (join ''/'' (rev rest))))"

definition path_file_name :: "string \<Rightarrow> string option" where
  "path_file_name p =
     (case path_pieces p of
        [] \<Rightarrow> None
      | c # _ \<Rightarrow> if c = [] \<or> c = ''.'' \<or> c = ''..'' then None else Some c)"

text \<open>The part after the last dot, if there is one that is not the first character.\<close>

definition path_extension :: "string \<Rightarrow> string option" where
  "path_extension p =
     (case path_file_name p of
        None \<Rightarrow> None
      | Some f \<Rightarrow>
          (let parts = split_on (\<lambda>c. c = CHR ''.'') f in
           if length parts = 1 \<or> join ''.'' (butlast parts) = [] then None else Some (last parts)))"

text \<open>
  \<open>Path::components\<close> as \<open>Ord\<close> and \<open>Eq\<close> compare them: root before a leading dot before the parent
  directory before names.
\<close>

definition body_component :: "string \<Rightarrow> (nat \<times> string) list" where
  "body_component s = (if s = [] \<or> s = ''.'' then [] else if s = ''..'' then [(2, [])] else [(3, s)])"

definition path_components :: "string \<Rightarrow> (nat \<times> string) list" where
  "path_components p =
     (let pieces = split_on is_slash p in
      (if is_absolute p then [(0, [])] else if hd pieces = ''.'' then [(1, [])] else [])
        @ concat (map body_component pieces))"

text \<open>\<open>Vec::dedup\<close>: of consecutive equal entries the first stays.\<close>

fun dedup_by :: "('a \<Rightarrow> 'k) \<Rightarrow> 'a list \<Rightarrow> 'a list" where
  "dedup_by k (x # y # xs) = (if k x = k y then dedup_by k (x # xs) else x # dedup_by k (y # xs))"
| "dedup_by k xs = xs"

lemma dedup_by_keys: "map k (dedup_by k xs) = remdups_adj (map k xs)"
  by (induction k xs rule: dedup_by.induct) auto

lemma dedup_by_hd: "xs \<noteq> [] \<Longrightarrow> dedup_by k xs \<noteq> [] \<and> hd (dedup_by k xs) = hd xs"
  by (induction k xs rule: dedup_by.induct) auto

lemma dedup_by_subset: "set (dedup_by k xs) \<subseteq> set xs"
  by (induction k xs rule: dedup_by.induct) auto

lemma sorted_dedup:
  fixes k :: "'a \<Rightarrow> 'k :: linorder"
  shows "sorted_wrt (<) (map k (dedup_by k (sort_key k xs)))"
proof -
  have "sorted (map k (sort_key k xs))" by simp
  then have "sorted (remdups_adj (map k (sort_key k xs)))" by (rule sorted_remdups_adj)
  moreover have "distinct (remdups_adj ys)" if "sorted ys" for ys :: "'k list"
    using that
  proof (induction ys rule: remdups_adj.induct)
    case (3 x y ys)
    then show ?case by (auto simp: less_le)
  qed simp_all
  ultimately show ?thesis by (simp add: dedup_by_keys strict_sorted_iff)
qed

lemma path_examples:
  "path_parent ''conf/hop.yaml'' = Some ''conf''" "path_parent ''hop.yaml'' = Some []"
  "path_parent ''/hop.yaml'' = Some ''/''" "path_parent ''/etc//./hop.yaml/'' = Some ''/etc''"
  "path_extension ''/etc/hop.yaml'' = Some ''yaml''" "path_extension ''.yaml'' = None"
  "path_extension ''hop'' = None" "path_join ''conf'' ''key'' = ''conf/key''"
  by code_simp+

lemma path_join_absolute: "is_absolute p \<Longrightarrow> path_join base p = p"
  by (simp add: path_join_def)

lemma path_join_not_Nil: "base \<noteq> [] \<Longrightarrow> path_join base p \<noteq> []"
  by (auto simp: path_join_def is_absolute_def split: list.splits)

end
