(* ===== verification/Startup_Config.thy ===== *)
theory Startup_Config
  imports Manifest Rust_Path
begin

text \<open>
  The startup configuration, \<open>hop-core/src/config.rs\<close>: its records and defaults, the file it is
  loaded from, the checks, and the manifest it stands for. The deserialisers, \<open>SocketAddr::from_str\<close>
  and \<open>http::Uri\<close> are parameters.
\<close>

section \<open>Records\<close>

record api_config =
  ac_enabled :: bool
  ac_listen :: string
  ac_token :: "string option"
  ac_cors_allowlist :: "string list"

record ssh_config =
  sc_host_key_type :: string
  sc_banner :: string
  sc_keepalive_interval :: "64 word"
  sc_connect_timeout :: "64 word"
  sc_proxy_policy :: string

record runtime_config =
  rt_temp_dir :: string
  rt_log_level :: string
  rt_session_retention_days :: "32 word"

record startup_credential =
  uc_username :: string
  uc_password :: "string option"
  uc_private_key :: "string option"
  uc_passphrase :: "string option"

record startup_asset =
  ua_type :: "asset_type option"
  ua_host :: string
  ua_port :: "u16 option"
  ua_display_name :: "string option"
  ua_description :: "string option"
  ua_credential :: "string option"

record startup_access_key =
  uk_public_key :: "string option"
  uk_public_key_file :: "string option"
  uk_enabled :: "bool option"
  uk_assets :: "string list option"

record hop_config =
  hc_listen :: string
  hc_data_dir :: string
  hc_api :: api_config
  hc_ssh :: ssh_config
  hc_runtime :: runtime_config
  hc_credentials :: "startup_credential btree"
  hc_assets :: "startup_asset btree"
  hc_access_keys :: "startup_access_key btree"

text \<open>\<open>SecretString\<close>: its text; empty when blank.\<close>

definition secret_is_empty :: "string \<Rightarrow> bool" where
  "secret_is_empty s \<longleftrightarrow> trim s = []"

definition secret_is_placeholder :: "string \<Rightarrow> bool" where
  "secret_is_placeholder s \<longleftrightarrow> s = ''change-me''"

section \<open>Defaults\<close>

definition default_api_config :: api_config where
  "default_api_config = \<lparr>ac_enabled = False, ac_listen = ''127.0.0.1:8083'', ac_token = None,
     ac_cors_allowlist = []\<rparr>"

definition default_ssh_config :: ssh_config where
  "default_ssh_config = \<lparr>sc_host_key_type = ''ed25519'', sc_banner = ''Welcome to Hop'',
     sc_keepalive_interval = 30, sc_connect_timeout = 10, sc_proxy_policy = ''assets_only''\<rparr>"

definition default_runtime_config :: runtime_config where
  "default_runtime_config = \<lparr>rt_temp_dir = ''/tmp/hop'', rt_log_level = ''info'',
     rt_session_retention_days = 30\<rparr>"

definition default_config :: hop_config where
  "default_config = \<lparr>hc_listen = ''0.0.0.0:2222'', hc_data_dir = ''.'', hc_api = default_api_config,
     hc_ssh = default_ssh_config, hc_runtime = default_runtime_config, hc_credentials = [],
     hc_assets = [], hc_access_keys = []\<rparr>"

section \<open>Addresses and paths\<close>

text \<open>\<open>uri\<close> gives what \<open>validate_cors_origins\<close> asks of a parsed \<open>http::Uri\<close>: scheme and authority.\<close>

record net =
  socket_addr :: "string \<Rightarrow> string + (string \<times> u16)"
  uri :: "string \<Rightarrow> (string option \<times> string option) option"

definition ssh_bind_addr :: "net \<Rightarrow> hop_config \<Rightarrow> hop_error + (string \<times> u16)" where
  "ssh_bind_addr N c = map_err (\<lambda>e. Config (''invalid listen: '' @ e)) (socket_addr N (hc_listen c))"

definition api_bind_addr :: "net \<Rightarrow> hop_config \<Rightarrow> hop_error + (string \<times> u16)" where
  "api_bind_addr N c =
     map_err (\<lambda>e. Config (''invalid api.listen: '' @ e)) (socket_addr N (ac_listen (hc_api c)))"

definition database_path :: "hop_config \<Rightarrow> string" where
  "database_path c = path_join (hc_data_dir c) ''hop.db''"

definition master_key_path :: "hop_config \<Rightarrow> string" where
  "master_key_path c = path_join (hc_data_dir c) ''hop.secret''"

definition ssh_host_key_path :: "hop_config \<Rightarrow> string" where
  "ssh_host_key_path c = path_join (hc_data_dir c) ''hop_host_key''"

text \<open>\<open>connect_timeout\<close>, in seconds.\<close>

definition connect_timeout :: "hop_config \<Rightarrow> 64 word" where
  "connect_timeout c = sc_connect_timeout (hc_ssh c)"

definition resolve_path :: "string \<Rightarrow> string \<Rightarrow> string" where
  "resolve_path base p = (if is_absolute p then p else path_join base p)"

definition resolve_paths :: "string \<Rightarrow> hop_config \<Rightarrow> hop_config" where
  "resolve_paths base c =
     c\<lparr>hc_data_dir := resolve_path base (hc_data_dir c),
       hc_runtime := (hc_runtime c)\<lparr>rt_temp_dir := resolve_path base (rt_temp_dir (hc_runtime c))\<rparr>,
       hc_access_keys := bt_map (\<lambda>k. k\<lparr>uk_public_key_file :=
         map_option (resolve_path base) (uk_public_key_file k)\<rparr>) (hc_access_keys c)\<rparr>"

section \<open>The manifest of a configuration\<close>

definition startup_credential_spec :: "startup_credential \<Rightarrow> credential_spec" where
  "startup_credential_spec c = \<lparr>cs_state = Present,
     cs_type = Some (if uc_password c \<noteq> None then PasswordType else SshKey),
     cs_username = Some (uc_username c), cs_password = map_option secret_inline (uc_password c),
     cs_private_key = map_option secret_inline (uc_private_key c),
     cs_passphrase = map_option secret_inline (uc_passphrase c)\<rparr>"

definition startup_asset_spec :: "startup_asset \<Rightarrow> asset_spec" where
  "startup_asset_spec a = \<lparr>sp_state = Present,
     sp_type = Some (case ua_type a of Some t \<Rightarrow> t | None \<Rightarrow> Ssh), sp_host = Some (ua_host a),
     sp_port = Some (case ua_port a of Some p \<Rightarrow> p | None \<Rightarrow> 22), sp_display_name = ua_display_name a,
     sp_description = ua_description a, sp_credential = ua_credential a\<rparr>"

definition startup_access_spec :: "startup_access_key \<Rightarrow> access_spec" where
  "startup_access_spec k = \<lparr>xs_state = Present,
     xs_public_key = (case (uk_public_key k, uk_public_key_file k) of
        (Some v, None) \<Rightarrow> Some (secret_inline v)
      | (None, Some path) \<Rightarrow> Some (secret_file path)
      | _ \<Rightarrow> None),
     xs_enabled = uk_enabled k, xs_assets = uk_assets k\<rparr>"

definition startup_manifest :: "hop_config \<Rightarrow> manifest" where
  "startup_manifest c = \<lparr>m_api_version = manifest_api_version,
     m_credentials = bt_map startup_credential_spec (hc_credentials c),
     m_assets = bt_map startup_asset_spec (hc_assets c),
     m_access = bt_map startup_access_spec (hc_access_keys c)\<rparr>"

section \<open>Checks\<close>

text \<open>\<open>replacen(.., 1)\<close>: the first occurrence.\<close>

fun replace_first :: "string \<Rightarrow> string \<Rightarrow> string \<Rightarrow> string" where
  "replace_first from_text to_text [] = (if from_text = [] then to_text else [])"
| "replace_first from_text to_text (c # s) =
     (case strip_prefix from_text (c # s) of
        Some rest \<Rightarrow> to_text @ rest
      | None \<Rightarrow> c # replace_first from_text to_text s)"

definition startup_catalog_error :: "catalog_error \<Rightarrow> hop_error" where
  "startup_catalog_error e =
     (case map_option (replace_first ''access.'' ''access_keys.'') (ce_path e) of
        Some path \<Rightarrow> Config (path @ '': '' @ ce_message e)
      | None \<Rightarrow> Config (ce_message e))"

definition invalid_origin :: "nat \<Rightarrow> string \<Rightarrow> hop_error" where
  "invalid_origin index guidance =
     Config (''api.cors_allowlist['' @ show_nat index @ ''] '' @ guidance)"

text \<open>\<open>split_once\<close> on a separator.\<close>

fun split_once :: "string \<Rightarrow> string \<Rightarrow> (string \<times> string) option" where
  "split_once sep [] = (if sep = [] then Some ([], []) else None)"
| "split_once sep (c # s) =
     (case strip_prefix sep (c # s) of
        Some rest \<Rightarrow> Some ([], rest)
      | None \<Rightarrow> map_option (\<lambda>(a, b). (c # a, b)) (split_once sep s))"

definition authority_only :: "string \<Rightarrow> bool" where
  "authority_only origin =
     (case split_once ''://'' origin of
        None \<Rightarrow> False
      | Some (_, a) \<Rightarrow> a \<noteq> [] \<and> \<not> (\<exists>c \<in> set a. c = CHR ''/'' \<or> c = CHR ''?'' \<or> c = CHR ''#''))"

definition check_origin :: "net \<Rightarrow> nat \<times> string \<Rightarrow> hop_error + unit" where
  "check_origin N entry =
     (case entry of (index, origin) \<Rightarrow>
        if origin = ''*'' then Inr ()
        else and_then (ok_or (uri N origin)
            (invalid_origin index ''must be a valid http:// or https:// Origin'')) (\<lambda>(scheme, authority).
          if (scheme \<noteq> Some ''http'' \<and> scheme \<noteq> Some ''https'') \<or> authority = None
            \<or> \<not> authority_only origin
            \<or> (case authority of Some a \<Rightarrow> CHR ''@'' \<in> set a | None \<Rightarrow> False)
          then Inl (invalid_origin index
            ''must include http:// or https:// and a host, with no path, query, or credentials'')
          else Inr ()))"

definition validate_cors_origins :: "net \<Rightarrow> string list \<Rightarrow> hop_error + unit" where
  "validate_cors_origins N origins =
     (if length origins > 1 \<and> ''*'' \<in> set origins
      then Inl (Config (''api.cors_allowlist wildcard '' @ quoted (CHR ''*'') @ '' must be the only entry''))
      else foldE (\<lambda>_ entry. check_origin N entry) () (List.enumerate 0 origins))"

definition check_startup_credential :: "string \<times> startup_credential \<Rightarrow> hop_error + unit" where
  "check_startup_credential entry =
     (case entry of (name, c) \<Rightarrow>
        let path = ''credentials.'' @ name in
        if uc_password c \<noteq> None \<and> uc_private_key c \<noteq> None
        then Inl (Config (path @ '': password and private_key are mutually exclusive''))
        else if uc_password c = None \<and> uc_private_key c = None
        then Inl (Config (path @ '': exactly one of password or private_key is required''))
        else if uc_password c \<noteq> None \<and> uc_passphrase c \<noteq> None
        then Inl (Config (path @ ''.passphrase: passphrase is valid only with private_key''))
        else Inr ())"

definition check_startup_asset :: "string \<times> startup_asset \<Rightarrow> hop_error + unit" where
  "check_startup_asset entry =
     (case entry of (name, a) \<Rightarrow>
        if ua_type a = Some Tcp \<and> ua_port a = None
        then Inl (Config (''assets.'' @ name @ ''.port: tcp assets require an explicit port''))
        else Inr ())"

definition check_startup_access_key :: "string \<times> startup_access_key \<Rightarrow> hop_error + unit" where
  "check_startup_access_key entry =
     (case entry of (name, k) \<Rightarrow>
        if uk_public_key k \<noteq> None \<and> uk_public_key_file k \<noteq> None
        then Inl (Config (''access_keys.'' @ name @ '': public_key and public_key_file are mutually exclusive''))
        else if uk_public_key k = None \<and> uk_public_key_file k = None
        then Inl (Config (''access_keys.'' @ name
          @ '': exactly one of public_key or public_key_file is required''))
        else Inr ())"

definition validate_config :: "ext \<Rightarrow> net \<Rightarrow> os \<Rightarrow> hop_config \<Rightarrow> hop_error + unit" where
  "validate_config X N w c =
     and_then (ssh_bind_addr N c) (\<lambda>_.
     and_then (if ac_enabled (hc_api c)
         then and_then (api_bind_addr N c)
           (\<lambda>_. validate_cors_origins N (ac_cors_allowlist (hc_api c)))
         else Inr ()) (\<lambda>_.
     and_then (check (hc_data_dir c \<noteq> []) (Config ''data_dir must not be empty'')) (\<lambda>_.
     and_then (check (sc_host_key_type (hc_ssh c) = ''ed25519'')
         (Config ''ssh.host_key_type must be ed25519'')) (\<lambda>_.
     and_then (check (sc_proxy_policy (hc_ssh c) = ''assets_only'')
         (Config ''ssh.proxy_policy must be assets_only'')) (\<lambda>_.
     and_then (check (rt_temp_dir (hc_runtime c) \<noteq> [])
         (Config ''runtime.temp_dir must not be empty'')) (\<lambda>_.
     and_then (check (trim (rt_log_level (hc_runtime c)) \<noteq> [])
         (Config ''runtime.log_level must not be empty'')) (\<lambda>_.
     and_then (foldE (\<lambda>_ entry. check_startup_credential entry) () (hc_credentials c)) (\<lambda>_.
     and_then (foldE (\<lambda>_ entry. check_startup_asset entry) () (hc_assets c)) (\<lambda>_.
     and_then (foldE (\<lambda>_ entry. check_startup_access_key entry) () (hc_access_keys c)) (\<lambda>_.
     map_err startup_catalog_error (validate_offline X w (startup_manifest c))))))))))))"

section \<open>Loading\<close>

datatype config_format = YamlConfig | TomlConfig

text \<open>The path of the field at fault on failure, as \<open>serde_path_to_error\<close> gives it.\<close>

type_synonym config_reader = "config_format \<Rightarrow> string \<Rightarrow> string + hop_config"

definition parse_config :: "config_reader \<Rightarrow> config_format \<Rightarrow> string \<Rightarrow> hop_error + hop_config" where
  "parse_config read fmt raw =
     map_err (\<lambda>path. Config (''invalid '' @ (case fmt of YamlConfig \<Rightarrow> ''YAML'' | TomlConfig \<Rightarrow> ''TOML'')
       @ '' startup config'' @ (if path = [] then [] else '' at '' @ path))) (read fmt raw)"

definition config_base_dir :: "string \<Rightarrow> string" where
  "config_base_dir path =
     (case path_parent path of Some p \<Rightarrow> if p \<noteq> [] then p else ''.'' | None \<Rightarrow> ''.'')"

definition load_config ::
  "ext \<Rightarrow> net \<Rightarrow> os \<Rightarrow> config_reader \<Rightarrow> (string \<Rightarrow> bool) \<Rightarrow> string option \<Rightarrow> string option
    \<Rightarrow> hop_error + hop_config" where
  "load_config X N w read exists cwd path =
     and_then (case path of
         Some p \<Rightarrow>
           if exists p then
             and_then (ok_or (os_file w p) Io) (\<lambda>raw.
             and_then (case path_extension p of
                 Some e \<Rightarrow>
                   if e = ''yaml'' \<or> e = ''yml'' then parse_config read YamlConfig raw
                   else if e = ''toml'' then parse_config read TomlConfig raw
                   else Inl (Config ''startup config extension must be .yaml, .yml or .toml'')
               | None \<Rightarrow> Inl (Config ''startup config extension must be .yaml, .yml or .toml''))
               (\<lambda>c. Inr (c, config_base_dir p)))
           else Inl (Config (''config file not found: '' @ p))
       | None \<Rightarrow> and_then (ok_or cwd Io) (\<lambda>dir. Inr (default_config, dir))) (\<lambda>(c, base).
     and_then (validate_config X N w (resolve_paths base c)) (\<lambda>_.
     Inr (resolve_paths base c)))"

end
