(* ===== verification/Manifest_Io.thy ===== *)
theory Manifest_Io
  imports Manifest Rust_Path
begin

text \<open>
  The files of an apply scope, \<open>hop-server/src/manifest_io.rs\<close>: patterns are expanded, the paths
  sorted and made unique, every file read, parsed by its extension and all of them merged. The
  glob matcher is a parameter: it refuses a pattern or lists paths, each of which may fail.
\<close>

type_synonym globber = "string \<Rightarrow> (unit + string) list option"

datatype manifest_syntax = YamlSyntax | TomlSyntax

type_synonym manifest_parser = "manifest_syntax \<Rightarrow> string \<Rightarrow> (string \<times> string) + manifest"

definition is_pattern :: "string \<Rightarrow> bool" where
  "is_pattern p \<longleftrightarrow> (\<exists>c \<in> set p. c = CHR ''*'' \<or> c = CHR ''?'' \<or> c = CHR ''['')"

definition scan_error :: "string option \<Rightarrow> string \<Rightarrow> catalog_error" where
  "scan_error path message = mk_error SourceScanIncomplete path message"

text \<open>One round of the loop over the inputs.\<close>

definition expand_input :: "globber \<Rightarrow> string list \<Rightarrow> string \<Rightarrow> catalog_error + string list" where
  "expand_input G paths input =
     (if is_pattern input then
        and_then (ok_or (G input) (scan_error (Some input) ''invalid manifest glob pattern'')) (\<lambda>entries.
        and_then (mapE (\<lambda>entry. case entry of Inr path \<Rightarrow> Inr path
            | Inl _ \<Rightarrow> Inl (scan_error (Some input) ''manifest glob scan failed'')) entries) (\<lambda>found.
        if found = [] then Inl (scan_error (Some input) ''manifest glob matched no files'')
        else Inr (paths @ found)))
      else Inr (paths @ [input]))"

text \<open>\<open>sort\<close> and \<open>dedup\<close>, which compare paths by their components.\<close>

definition expand_manifest_scope :: "globber \<Rightarrow> string list \<Rightarrow> catalog_error + string list" where
  "expand_manifest_scope G inputs =
     and_then (foldE (expand_input G) [] inputs) (\<lambda>paths.
     let unique = dedup_by path_components (sort_key path_components paths) in
     if unique = [] then Inl (scan_error None ''manifest scope is empty'') else Inr unique)"

definition read_manifest :: "manifest_parser \<Rightarrow> os \<Rightarrow> string \<Rightarrow> catalog_error + manifest" where
  "read_manifest P w path =
     and_then (ok_or (os_file w path)
       (scan_error (Some path) ''unable to read complete manifest scope'')) (\<lambda>raw.
     let bad = Inl (mk_error ApplyFailed (Some path)
       ''manifest file extension must be .yaml, .yml or .toml'') in
     case path_extension path of
       Some e \<Rightarrow>
         if e = ''yaml'' \<or> e = ''yml'' then parse_with_path (P YamlSyntax raw)
         else if e = ''toml'' then parse_with_path (P TomlSyntax raw) else bad
     | None \<Rightarrow> bad)"

definition load_manifest_scope ::
  "manifest_parser \<Rightarrow> globber \<Rightarrow> os \<Rightarrow> string list \<Rightarrow> catalog_error + manifest" where
  "load_manifest_scope P G w inputs =
     and_then (expand_manifest_scope G inputs) (\<lambda>paths.
     and_then (mapE (read_manifest P w) paths) merge_manifests)"

section \<open>Facts\<close>

lemma expand_input_paths:
  assumes "expand_input G acc input = Inr paths"
  shows "\<exists>new. paths = acc @ new \<and> new \<noteq> []
    \<and> (if is_pattern input then G input = Some (map Inr new) else new = [input])"
  using assms
proof (cases "is_pattern input")
  case True
  then obtain entries found where g: "G input = Some entries" and found: "found \<noteq> []" "paths = acc @ found"
    and m: "mapE (\<lambda>entry. case entry of Inr path \<Rightarrow> Inr path
      | Inl _ \<Rightarrow> Inl (scan_error (Some input) ''manifest glob scan failed'')) entries = Inr found"
    using assms by (auto simp: expand_input_def and_then_Inr ok_or_Inr split: if_splits)
  from m have "entries = map Inr found"
    by (induction entries arbitrary: found) (auto simp: and_then_Inr split: sum.splits)
  with g found True show ?thesis by simp
qed (simp add: expand_input_def)

text \<open>The paths an input stands for.\<close>

definition input_paths :: "globber \<Rightarrow> string \<Rightarrow> string set" where
  "input_paths G input =
     (if is_pattern input then (case G input of None \<Rightarrow> {} | Some es \<Rightarrow> {p. Inr p \<in> set es}) else {input})"

lemma expand_loop:
  assumes "foldE (expand_input G) acc inputs = Inr paths"
  shows "set paths = set acc \<union> (\<Union>i \<in> set inputs. input_paths G i)
    \<and> (\<forall>i \<in> set inputs. input_paths G i \<noteq> {})"
  using assms
proof (induction inputs arbitrary: acc)
  case (Cons input inputs)
  from Cons.prems obtain mid where mid: "expand_input G acc input = Inr mid"
    and rest: "foldE (expand_input G) mid inputs = Inr paths" by (auto simp: and_then_Inr)
  from expand_input_paths [OF mid] obtain new where new: "mid = acc @ new" "new \<noteq> []"
    "if is_pattern input then G input = Some (map Inr new) else new = [input]" by blast
  then have "input_paths G input = set new" by (auto simp: input_paths_def)
  with Cons.IH [OF rest] new(1,2) show ?case by auto
qed simp

lemma expand_scope_Inr:
  assumes "expand_manifest_scope G inputs = Inr paths"
  shows "sorted_wrt (<) (map path_components paths)"
    and "path_components ` set paths = path_components ` (\<Union>i \<in> set inputs. input_paths G i)"
    and "set paths \<subseteq> (\<Union>i \<in> set inputs. input_paths G i)"
    and "\<forall>i \<in> set inputs. input_paths G i \<noteq> {}" and "inputs \<noteq> []"
proof -
  from assms obtain raw where raw: "foldE (expand_input G) [] inputs = Inr raw"
    and p: "paths = dedup_by path_components (sort_key path_components raw)" "paths \<noteq> []"
    by (auto simp: expand_manifest_scope_def and_then_Inr Let_def split: if_splits)
  from expand_loop [OF raw] have r: "set raw = (\<Union>i \<in> set inputs. input_paths G i)"
    and ne: "\<forall>i \<in> set inputs. input_paths G i \<noteq> {}" by simp_all
  show "\<forall>i \<in> set inputs. input_paths G i \<noteq> {}" by (rule ne)
  have "set (map path_components paths) = set (map path_components raw)"
    unfolding p(1) dedup_by_keys remdups_adj_set by simp
  then show "path_components ` set paths = path_components ` (\<Union>i \<in> set inputs. input_paths G i)"
    unfolding r [symmetric] by simp
  show "set paths \<subseteq> (\<Union>i \<in> set inputs. input_paths G i)"
    unfolding r [symmetric] p(1) using dedup_by_subset [of path_components] by force
  show "sorted_wrt (<) (map path_components paths)" unfolding p(1) by (rule sorted_dedup)
  show "inputs \<noteq> []" using raw p by auto
qed

end
