(* ===== verification/Local_Cli.thy ===== *)
theory Local_Cli
  imports Apply
begin

text \<open>
  The local commands on keys, credentials and assets, \<open>hop-server/src/local_cli.rs\<close>. A command
  returns the catalog after it and either an error or the text it prints. \<open>TAB\<close> and \<open>LF\<close> are
  written as characters; files are read through \<open>os\<close>, and \<open>n\<close> and \<open>k\<close> count the ids and
  nonces drawn before.
\<close>

section \<open>Errors and output\<close>

text \<open>An \<open>anyhow\<close> error: a message, or an error of the core passed on by \<open>?\<close>.\<close>

datatype any_error = Message string | CoreError hop_error | CatalogError catalog_error

definition tab :: string where
  "tab = [CHR 0x09]"

definition newline :: string where
  "newline = [CHR 0x0A]"

abbreviation core :: "hop_error + 'a \<Rightarrow> any_error + 'a" where
  "core r \<equiv> map_err CoreError r"

definition read_to_string :: "os \<Rightarrow> string \<Rightarrow> any_error + string" where
  "read_to_string w path = ok_or (os_file w path) (Message (''read '' @ path))"

text \<open>A catalog operation whose error is passed on and whose value is printed.\<close>

definition report :: "catalog \<times> (hop_error + 'a) \<Rightarrow> ('a \<Rightarrow> string) \<Rightarrow> catalog \<times> (any_error + string)" where
  "report r f = (case r of (db, Inl e) \<Rightarrow> (db, Inl (CoreError e)) | (db, Inr x) \<Rightarrow> (db, Inr (f x)))"

section \<open>Keys\<close>

text \<open>The type in the first word is not compared with the type in the key material.\<close>

definition parse_public_key_line :: "ext \<Rightarrow> string \<Rightarrow> any_error + string \<times> string" where
  "parse_public_key_line X line =
     (case split_whitespace line of
        [] \<Rightarrow> Inl (Message ''empty public key'')
      | [_] \<Rightarrow> Inl (Message ''public key must be OpenSSH '<type> <base64>' format'')
      | key_type # key_blob # _ \<Rightarrow>
          and_then (ok_or (public_key X key_blob) (Message ''parse OpenSSH public key''))
            (\<lambda>(algorithm, base64, fingerprint). Inr (key_type @ '' '' @ base64, fingerprint)))"

definition cli_add_key ::
  "ext \<Rightarrow> string \<Rightarrow> nat \<Rightarrow> os \<Rightarrow> string \<Rightarrow> string option \<Rightarrow> string option \<Rightarrow> catalog
    \<Rightarrow> catalog \<times> (any_error + string)" where
  "cli_add_key X now n w name key_arg key_file_arg db =
     (case and_then (case (key_arg, key_file_arg) of
          (Some key, None) \<Rightarrow> Inr key
        | (None, Some path) \<Rightarrow> read_to_string w path
        | (Some _, Some _) \<Rightarrow> Inl (Message ''choose either --public-key or --public-key-file, not both'')
        | (None, None) \<Rightarrow> Inl (Message ''--public-key or --public-key-file is required''))
        (parse_public_key_line X) of
        Inl e \<Rightarrow> (db, Inl e)
      | Inr (canonical, fingerprint) \<Rightarrow>
          report (add_authorized_key X now n (new_authorized_key_of name canonical fingerprint) db)
            (\<lambda>inserted. ''added key '' @ ak_id inserted @ '' '' @ ak_fingerprint inserted @ newline))"

definition cli_list_keys :: "catalog \<Rightarrow> any_error + string" where
  "cli_list_keys db = and_then (core (list_authorized_keys db)) (\<lambda>keys.
     Inr (concat (map (\<lambda>key. ak_id key @ tab @ (if ak_is_active key then ''active'' else ''inactive'')
       @ tab @ ak_fingerprint key @ tab @ ak_name key @ newline) keys)))"

definition cli_set_key_active ::
  "string \<Rightarrow> string \<Rightarrow> bool \<Rightarrow> catalog \<Rightarrow> catalog \<times> (any_error + string)" where
  "cli_set_key_active now i active db = report (set_authorized_key_active now i active db)
     (\<lambda>_. ''key '' @ i @ '' '' @ (if active then ''activated'' else ''deactivated'') @ newline)"

definition format_key_access :: "ext \<Rightarrow> string \<Rightarrow> catalog \<Rightarrow> any_error + string" where
  "format_key_access X i db =
     and_then (core (get_authorized_key_by_id i db)) (\<lambda>found.
     and_then (ok_or found (Message (''unknown authorized key id: '' @ i))) (\<lambda>key.
     let assigned_ids = list_asset_ids_for_key i db;
         header = ''key'' @ tab @ ak_id key @ tab @ ak_name key @ newline @ ''mode'' @ tab
           @ access_mode_as_str (ak_access_mode key) @ newline @ ''assigned'' @ tab
           @ show_nat (length assigned_ids) @ newline in
     foldE (\<lambda>output asset_id.
         and_then (core (get_asset_by_id X asset_id db)) (\<lambda>found.
         and_then (ok_or found (Message (''assigned asset no longer exists: '' @ asset_id))) (\<lambda>asset.
         Inr (output @ ''asset'' @ tab @ as_id asset @ tab @ as_name asset @ tab
           @ as_hostname asset @ '':'' @ show_int (as_port asset) @ newline))))
       header assigned_ids))"

definition cli_set_key_access ::
  "string \<Rightarrow> string \<Rightarrow> asset_access_mode \<Rightarrow> string list \<Rightarrow> catalog
    \<Rightarrow> catalog \<times> (any_error + string)" where
  "cli_set_key_access now i mode asset_ids db =
     (if mode = All \<and> asset_ids \<noteq> []
      then (db, Inl (Message ''--asset-id can only be used with --mode restricted''))
      else report (set_authorized_key_access now i mode asset_ids db)
        (\<lambda>_. ''key '' @ i @ '' access mode set to '' @ access_mode_as_str mode @ '' with ''
          @ show_nat (length asset_ids) @ '' assigned asset(s)'' @ newline))"

section \<open>Credentials\<close>

text \<open>Encrypts a secret if there is one; the nonce counter goes on when it does.\<close>

definition encrypt_secret ::
  "ext \<Rightarrow> nat \<Rightarrow> master_key \<Rightarrow> string \<Rightarrow> string \<Rightarrow> string option \<Rightarrow> hop_error + string option \<times> nat" where
  "encrypt_secret X k master i field value =
     (case value of None \<Rightarrow> Inr (None, k)
      | Some v \<Rightarrow> and_then (encrypt_envelope X k master (i @ '':'' @ field) v)
          (\<lambda>env. Inr (Some env, k + 1)))"

definition cli_add_credential ::
  "ext \<Rightarrow> string \<Rightarrow> nat \<Rightarrow> nat \<Rightarrow> os \<Rightarrow> master_key \<Rightarrow> string \<Rightarrow> string \<Rightarrow> auth_type \<Rightarrow> string option
    \<Rightarrow> string option \<Rightarrow> string option \<Rightarrow> catalog \<Rightarrow> catalog \<times> (any_error + string)" where
  "cli_add_credential X now n k w master name username auth_type password private_key_file passphrase db =
     (let i = new_id X n in
      case and_then (core (encrypt_secret X k master i ''password'' password)) (\<lambda>(password_enc, k1).
        and_then (opt_mapE (read_to_string w) private_key_file) (\<lambda>key_text.
        and_then (core (encrypt_secret X k1 master i ''private_key'' key_text)) (\<lambda>(private_key_enc, k2).
        and_then (core (encrypt_secret X k2 master i ''passphrase'' passphrase)) (\<lambda>(passphrase_enc, _).
        and_then (core (validate_credential_material auth_type password_enc private_key_enc
            passphrase_enc)) (\<lambda>_.
        Inr \<lparr>nc_id = Some i, nc_name = name, nc_username = username, nc_auth_type = auth_type,
          nc_password_enc = password_enc, nc_private_key_enc = private_key_enc,
          nc_passphrase_enc = passphrase_enc\<rparr>))))) of
        Inl e \<Rightarrow> (db, Inl e)
      | Inr cred \<Rightarrow> report (add_credential X now (n + 1) cred db)
          (\<lambda>inserted. ''added credential '' @ cr_id inserted @ tab @ cr_auth_type inserted @ tab
            @ cr_name inserted @ newline))"

definition cli_list_credentials :: "catalog \<Rightarrow> string" where
  "cli_list_credentials db = concat (map (\<lambda>c. cr_id c @ tab @ cr_auth_type c @ tab @ cr_username c
     @ tab @ cr_name c @ newline) (list_credentials db))"

definition cli_delete_credential :: "string \<Rightarrow> catalog \<Rightarrow> catalog \<times> (any_error + string)" where
  "cli_delete_credential i db =
     report (delete_credential i db) (\<lambda>_. ''deleted credential '' @ i @ newline)"

section \<open>Assets\<close>

definition cli_add_asset ::
  "ext \<Rightarrow> string \<Rightarrow> nat \<Rightarrow> new_asset \<Rightarrow> catalog \<Rightarrow> catalog \<times> (any_error + string)" where
  "cli_add_asset X now n asset db = report (add_asset X now n asset db)
     (\<lambda>a. ''added asset '' @ as_id a @ tab @ as_name a @ tab @ as_protocol a @ tab @ as_hostname a
       @ '':'' @ show_int (as_port a) @ newline)"

definition cli_list_assets :: "ext \<Rightarrow> catalog \<Rightarrow> any_error + string" where
  "cli_list_assets X db = and_then (core (list_assets X db)) (\<lambda>assets.
     Inr (concat (map (\<lambda>a. as_id a @ tab @ as_name a @ tab @ as_protocol a @ tab @ as_hostname a
       @ '':'' @ show_int (as_port a) @ tab @ join '','' (as_tags a) @ tab
       @ (case as_credential_id a of None \<Rightarrow> ''-'' | Some c \<Rightarrow> c) @ newline) assets)))"

definition cli_delete_asset :: "string \<Rightarrow> catalog \<Rightarrow> catalog \<times> (any_error + string)" where
  "cli_delete_asset i db = report (delete_asset i db) (\<lambda>_. ''deleted asset '' @ i @ newline)"

section \<open>Facts\<close>

lemma encrypt_secret_Inr:
  assumes "crypto_laws X" and "encrypt_secret X k master i field value = Inr (enc, k')"
  shows "case value of None \<Rightarrow> enc = None
    | Some v \<Rightarrow> \<exists>env. enc = Some env \<and> decrypt_envelope X master (i @ '':'' @ field) env = Inr v"
  using assms(2) decrypt_encrypt [OF assms(1)]
  by (auto simp: encrypt_secret_def and_then_Inr split: option.splits)

end
