(* ===== verification/Import_Export.thy ===== *)
theory Import_Export
  imports Access_Policy
begin

text \<open>
  Import and export of assets and credentials, \<open>hop-server/src/transfer.rs\<close>: the CSV format with
  its quoting, the rows, and the two imports under a conflict policy. \<open>from_json\<close> is
  \<open>serde_json::from_str\<close> on an array of rows. Errors are \<open>anyhow\<close> errors, given by their message.
\<close>

section \<open>Formats and summaries\<close>

datatype transfer_format = Csv | JsonFormat

text \<open>\<open>TransferFormat::from_path\<close>, given the extension of the path.\<close>

definition format_from_path :: "string option \<Rightarrow> transfer_format option" where
  "format_from_path extension =
     (case extension of None \<Rightarrow> None
      | Some e \<Rightarrow> if to_ascii_lowercase e = ''csv'' then Some Csv
          else if to_ascii_lowercase e = ''json'' then Some JsonFormat else None)"

datatype conflict_policy = SkipConflict | Overwrite | ErrorConflict

record import_summary =
  is_imported :: nat
  is_skipped :: nat
  is_overwritten :: nat
  is_errors :: "string list"

definition no_imports :: import_summary where
  "no_imports = \<lparr>is_imported = 0, is_skipped = 0, is_overwritten = 0, is_errors = []\<rparr>"

definition record_imported :: "import_summary \<Rightarrow> import_summary" where
  "record_imported s = s\<lparr>is_imported := is_imported s + 1\<rparr>"

definition record_skipped :: "import_summary \<Rightarrow> import_summary" where
  "record_skipped s = s\<lparr>is_skipped := is_skipped s + 1\<rparr>"

definition record_overwritten :: "import_summary \<Rightarrow> import_summary" where
  "record_overwritten s = s\<lparr>is_overwritten := is_overwritten s + 1\<rparr>"

definition record_import_error :: "string \<Rightarrow> import_summary \<Rightarrow> import_summary" where
  "record_import_error e s = s\<lparr>is_errors := is_errors s @ [e]\<rparr>"

record asset_transfer_row =
  at_name :: string
  at_hostname :: string
  at_port :: int
  at_description :: "string option"
  at_tags :: "string list"
  at_credential_id :: "string option"
  at_protocol :: string

definition transfer_row_of_asset :: "asset \<Rightarrow> asset_transfer_row" where
  "transfer_row_of_asset a = \<lparr>at_name = as_name a, at_hostname = as_hostname a, at_port = as_port a,
     at_description = as_description a, at_tags = as_tags a, at_credential_id = as_credential_id a,
     at_protocol = as_protocol a\<rparr>"

definition new_asset_of_row :: "asset_transfer_row \<Rightarrow> new_asset" where
  "new_asset_of_row r = \<lparr>na_name = at_name r, na_protocol = at_protocol r,
     na_hostname = at_hostname r, na_port = at_port r, na_description = at_description r,
     na_tags = at_tags r, na_credential_id = at_credential_id r\<rparr>"

record credential_transfer_row =
  ct_name :: string
  ct_username :: string
  ct_auth_type :: string

definition transfer_row_of_credential :: "credential \<Rightarrow> credential_transfer_row" where
  "transfer_row_of_credential c = \<lparr>ct_name = cr_name c, ct_username = cr_username c,
     ct_auth_type = cr_auth_type c\<rparr>"

section \<open>CSV records\<close>

definition csv_special :: "char \<Rightarrow> bool" where
  "csv_special c \<longleftrightarrow> c = CHR '','' \<or> c = CHR 0x22 \<or> c = CHR 0x0A \<or> c = CHR 0x0D"

text \<open>\<open>field.replace('"', "\"\"")\<close>.\<close>

definition double_quotes :: "string \<Rightarrow> string" where
  "double_quotes s = concat (map (\<lambda>c. if c = CHR 0x22 then [c, c] else [c]) s)"

definition escape_csv_field :: "string \<Rightarrow> string" where
  "escape_csv_field field =
     (if \<exists>c \<in> set field. csv_special c then CHR 0x22 # double_quotes field @ [CHR 0x22] else field)"

text \<open>A row as \<open>push_csv_row\<close> appends it.\<close>

definition push_csv_row :: "string \<Rightarrow> string list \<Rightarrow> string" where
  "push_csv_row output fs = output @ join '','' (map escape_csv_field fs) @ [CHR 0x0A]"

text \<open>The loop of \<open>read_csv_records\<close>, with its flag, field, row and records.\<close>

fun csv_loop ::
  "bool \<Rightarrow> string \<Rightarrow> string list \<Rightarrow> string list list \<Rightarrow> string \<Rightarrow> string \<times> string list \<times> string list list"
where
  "csv_loop inside field row records [] = (field, row, records)"
| "csv_loop inside field row records (ch # chars) =
     (if ch = CHR 0x22 then
        (case chars of
           next # rest \<Rightarrow>
             if inside \<and> next = CHR 0x22 then csv_loop inside (field @ [CHR 0x22]) row records rest
             else csv_loop (\<not> inside) field row records chars
         | [] \<Rightarrow> csv_loop (\<not> inside) field row records [])
      else if ch = CHR '','' \<and> \<not> inside then csv_loop inside [] (row @ [field]) records chars
      else if ch = CHR 0x0A \<and> \<not> inside then csv_loop inside [] [] (records @ [row @ [field]]) chars
      else if ch = CHR 0x0D \<and> \<not> inside then csv_loop inside field row records chars
      else csv_loop inside (field @ [ch]) row records chars)"

definition read_csv_records :: "string \<Rightarrow> string list list" where
  "read_csv_records input =
     (case csv_loop False [] [] [] input of (field, row, records) \<Rightarrow>
        if field \<noteq> [] \<or> row \<noteq> [] then records @ [row @ [field]] else records)"

definition require_csv_header :: "string list list \<Rightarrow> string list \<Rightarrow> string + unit" where
  "require_csv_header records columns =
     (case records of
        [] \<Rightarrow> Inl ''CSV input is empty''
      | header # _ \<Rightarrow> check (header = columns)
          ''CSV header does not match the current Hop transfer format'')"

definition ensure_len :: "string list \<Rightarrow> nat \<Rightarrow> nat \<Rightarrow> string + unit" where
  "ensure_len r len idx =
     check (length r = len) (''CSV row '' @ show_nat (idx + 1) @ '' has ''
       @ show_nat (length r) @ '' fields, expected '' @ show_nat len)"

definition split_tags :: "string \<Rightarrow> string list" where
  "split_tags value = filter (\<lambda>t. t \<noteq> [])
     (map trim (split_on (\<lambda>c. c = CHR ''|'' \<or> c = CHR '','') value))"

definition nonempty :: "string \<Rightarrow> string option" where
  "nonempty value = (if trim value \<noteq> [] then Some (trim value) else None)"

section \<open>Rows as CSV\<close>

definition asset_csv_header :: "string list" where
  "asset_csv_header = [''name'', ''hostname'', ''port'', ''description'', ''tags'',
     ''credential_id'', ''protocol'']"

definition credential_csv_header :: "string list" where
  "credential_csv_header = [''name'', ''username'', ''auth_type'']"

definition unwrap_or_empty :: "string option \<Rightarrow> string" where
  "unwrap_or_empty v = (case v of None \<Rightarrow> [] | Some s \<Rightarrow> s)"

definition asset_csv_fields :: "asset_transfer_row \<Rightarrow> string list" where
  "asset_csv_fields r = [at_name r, at_hostname r, show_int (at_port r),
     unwrap_or_empty (at_description r), join ''|'' (at_tags r),
     unwrap_or_empty (at_credential_id r), at_protocol r]"

definition write_asset_csv :: "asset_transfer_row list \<Rightarrow> string" where
  "write_asset_csv rows = foldl (\<lambda>output r. push_csv_row output (asset_csv_fields r))
     (''name,hostname,port,description,tags,credential_id,protocol'' @ [CHR 0x0A]) rows"

definition write_credential_csv :: "credential_transfer_row list \<Rightarrow> string" where
  "write_credential_csv rows = foldl (\<lambda>output r.
       push_csv_row output [ct_name r, ct_username r, ct_auth_type r])
     (''name,username,auth_type'' @ [CHR 0x0A]) rows"

text \<open>One round of each reader's loop.\<close>

definition read_asset_record ::
  "asset_transfer_row list \<Rightarrow> nat \<times> string list \<Rightarrow> string + asset_transfer_row list" where
  "read_asset_record rows entry =
     (case entry of (idx, r) \<Rightarrow>
      if \<forall>f \<in> set r. trim f = [] then Inr rows
      else and_then (ensure_len r 7 idx) (\<lambda>_.
        and_then (ok_or (parse_i64 (r ! 2)) (''invalid port on CSV row '' @ show_nat (idx + 1)))
          (\<lambda>port.
        Inr (rows @ [\<lparr>at_name = r ! 0, at_hostname = r ! 1, at_port = port,
          at_description = nonempty (r ! 3), at_tags = split_tags (r ! 4),
          at_credential_id = nonempty (r ! 5), at_protocol = r ! 6\<rparr>]))))"

definition read_asset_csv :: "string \<Rightarrow> string + asset_transfer_row list" where
  "read_asset_csv input =
     (let records = read_csv_records input in
      and_then (require_csv_header records asset_csv_header) (\<lambda>_.
      foldE read_asset_record [] (tl (List.enumerate 0 records))))"

definition read_credential_record ::
  "credential_transfer_row list \<Rightarrow> nat \<times> string list \<Rightarrow> string + credential_transfer_row list" where
  "read_credential_record rows entry =
     (case entry of (idx, r) \<Rightarrow>
      if \<forall>f \<in> set r. trim f = [] then Inr rows
      else and_then (ensure_len r 3 idx) (\<lambda>_.
        Inr (rows @ [\<lparr>ct_name = r ! 0, ct_username = r ! 1, ct_auth_type = r ! 2\<rparr>])))"

definition read_credential_csv :: "string \<Rightarrow> string + credential_transfer_row list" where
  "read_credential_csv input =
     (let records = read_csv_records input in
      and_then (require_csv_header records credential_csv_header) (\<lambda>_.
      foldE read_credential_record [] (tl (List.enumerate 0 records))))"

section \<open>Export\<close>

definition asset_row_json :: "asset_transfer_row \<Rightarrow> json" where
  "asset_row_json r = JObj [(''name'', JStr (at_name r)), (''hostname'', JStr (at_hostname r)),
     (''port'', JNum (at_port r)), (''description'', json_opt (at_description r)),
     (''tags'', JArr (map JStr (at_tags r))), (''credential_id'', json_opt (at_credential_id r)),
     (''protocol'', JStr (at_protocol r))]"

definition credential_row_json :: "credential_transfer_row \<Rightarrow> json" where
  "credential_row_json r = JObj [(''name'', JStr (ct_name r)), (''username'', JStr (ct_username r)),
     (''auth_type'', JStr (ct_auth_type r))]"

definition export_assets :: "ext \<Rightarrow> asset list \<Rightarrow> transfer_format \<Rightarrow> string" where
  "export_assets X assets format =
     (let rows = map transfer_row_of_asset assets in
      case format of JsonFormat \<Rightarrow> json_str X (JArr (map asset_row_json rows))
      | Csv \<Rightarrow> write_asset_csv rows)"

definition export_credentials :: "ext \<Rightarrow> credential list \<Rightarrow> transfer_format \<Rightarrow> string" where
  "export_credentials X credentials format =
     (let rows = map transfer_row_of_credential credentials in
      case format of JsonFormat \<Rightarrow> json_str X (JArr (map credential_row_json rows))
      | Csv \<Rightarrow> write_credential_csv rows)"

section \<open>Import\<close>

text \<open>
  The rows come from \<open>from_json\<close> or from the CSV reader. A round of a loop has the catalog, the
  number of ids drawn so far and the summary; an error ends the import with the catalog as the rounds
  before left it.
\<close>

definition import_asset_rows ::
  "(string \<Rightarrow> string + asset_transfer_row list) \<Rightarrow> string \<Rightarrow> transfer_format
    \<Rightarrow> string + asset_transfer_row list" where
  "import_asset_rows from_json input format =
     (case format of JsonFormat \<Rightarrow> from_json input | Csv \<Rightarrow> read_asset_csv input)"

definition import_credential_rows ::
  "(string \<Rightarrow> string + credential_transfer_row list) \<Rightarrow> string \<Rightarrow> transfer_format
    \<Rightarrow> string + credential_transfer_row list" where
  "import_credential_rows from_json input format =
     (case format of JsonFormat \<Rightarrow> from_json input | Csv \<Rightarrow> read_credential_csv input)"

datatype import_error = BadInput string | CatalogFailed hop_error

definition import_asset ::
  "ext \<Rightarrow> string \<Rightarrow> conflict_policy \<Rightarrow> asset_transfer_row \<Rightarrow> nat \<Rightarrow> import_summary \<Rightarrow> catalog
    \<Rightarrow> catalog \<times> (import_error + nat \<times> import_summary)" where
  "import_asset X now policy row n summary db =
     (case get_asset_by_name X (at_name row) db of
        Inl e \<Rightarrow> (db, Inl (CatalogFailed e))
      | Inr (Some existing) \<Rightarrow>
          (case policy of
             SkipConflict \<Rightarrow> (db, Inr (n, record_skipped summary))
           | ErrorConflict \<Rightarrow> (db, Inr (n, record_import_error
               (''asset already exists: '' @ at_name row) summary))
           | Overwrite \<Rightarrow>
               (case update_asset X now (as_id existing) (new_asset_of_row row) db of
                  (db', Inl e) \<Rightarrow> (db', Inl (CatalogFailed e))
                | (db', Inr _) \<Rightarrow> (db', Inr (n, record_overwritten summary))))
      | Inr None \<Rightarrow>
          (case add_asset X now n (new_asset_of_row row) db of
             (db', Inl e) \<Rightarrow> (db', Inl (CatalogFailed e))
           | (db', Inr _) \<Rightarrow> (db', Inr (n + 1, record_imported summary))))"

fun import_asset_loop ::
  "ext \<Rightarrow> string \<Rightarrow> conflict_policy \<Rightarrow> asset_transfer_row list \<Rightarrow> nat \<Rightarrow> import_summary \<Rightarrow> catalog
    \<Rightarrow> catalog \<times> (import_error + import_summary)" where
  "import_asset_loop X now policy [] n summary db = (db, Inr summary)"
| "import_asset_loop X now policy (row # rows) n summary db =
     (case import_asset X now policy row n summary db of
        (db', Inl e) \<Rightarrow> (db', Inl e)
      | (db', Inr (n', summary')) \<Rightarrow> import_asset_loop X now policy rows n' summary' db')"

definition import_assets ::
  "ext \<Rightarrow> (string \<Rightarrow> string + asset_transfer_row list) \<Rightarrow> string \<Rightarrow> nat \<Rightarrow> string \<Rightarrow> transfer_format
    \<Rightarrow> conflict_policy \<Rightarrow> catalog \<Rightarrow> catalog \<times> (import_error + import_summary)" where
  "import_assets X from_json now n input format policy db =
     (case import_asset_rows from_json input format of
        Inl e \<Rightarrow> (db, Inl (BadInput e))
      | Inr rows \<Rightarrow> import_asset_loop X now policy rows n no_imports db)"

text \<open>The existing credentials are listed once, before the loop.\<close>

definition import_credential ::
  "string \<Rightarrow> conflict_policy \<Rightarrow> credential list \<Rightarrow> credential_transfer_row \<Rightarrow> import_summary \<Rightarrow> catalog
    \<Rightarrow> catalog \<times> (import_error + import_summary)" where
  "import_credential now policy existing row summary db =
     (case find (\<lambda>c. cr_name c = ct_name row \<and> cr_username c = ct_username row) existing of
        Some c \<Rightarrow>
          (case policy of
             SkipConflict \<Rightarrow> (db, Inr (record_skipped summary))
           | ErrorConflict \<Rightarrow> (db, Inr (record_import_error
               (''credential already exists: '' @ ct_name row) summary))
           | Overwrite \<Rightarrow>
               (case auth_type_try_from (ct_auth_type row) of
                  Inl e \<Rightarrow> (db, Inl (BadInput e))
                | Inr auth_type \<Rightarrow>
                    (case update_credential now (cr_id c) \<lparr>nc_id = Some (cr_id c),
                        nc_name = ct_name row, nc_username = ct_username row,
                        nc_auth_type = auth_type, nc_password_enc = cr_password_enc c,
                        nc_private_key_enc = cr_private_key_enc c,
                        nc_passphrase_enc = cr_passphrase_enc c\<rparr> db of
                       (db', Inl e) \<Rightarrow> (db', Inl (CatalogFailed e))
                     | (db', Inr _) \<Rightarrow> (db', Inr (record_overwritten summary)))))
      | None \<Rightarrow> (db, Inr (record_import_error
          (''credential metadata import cannot create credential without secrets: '' @ ct_name row)
          summary)))"

fun import_credential_loop ::
  "string \<Rightarrow> conflict_policy \<Rightarrow> credential list \<Rightarrow> credential_transfer_row list \<Rightarrow> import_summary
    \<Rightarrow> catalog \<Rightarrow> catalog \<times> (import_error + import_summary)" where
  "import_credential_loop now policy existing [] summary db = (db, Inr summary)"
| "import_credential_loop now policy existing (row # rows) summary db =
     (case import_credential now policy existing row summary db of
        (db', Inl e) \<Rightarrow> (db', Inl e)
      | (db', Inr summary') \<Rightarrow> import_credential_loop now policy existing rows summary' db')"

definition import_credentials ::
  "(string \<Rightarrow> string + credential_transfer_row list) \<Rightarrow> string \<Rightarrow> string \<Rightarrow> transfer_format
    \<Rightarrow> conflict_policy \<Rightarrow> catalog \<Rightarrow> catalog \<times> (import_error + import_summary)" where
  "import_credentials from_json now input format policy db =
     (case import_credential_rows from_json input format of
        Inl e \<Rightarrow> (db, Inl (BadInput e))
      | Inr rows \<Rightarrow> import_credential_loop now policy (list_credentials db) rows no_imports db)"

end
