(* ===== verification/Import_Export_Facts.thy ===== *)
theory Import_Export_Facts
  imports Import_Export
begin

text \<open>
  The CSV reader inverts the writer, for any fields; rows survive where their optional fields and
  tags have the form the reader produces. An import is a run of catalog operations, keeps to its
  policy, and never touches a stored secret.
\<close>

section \<open>Codecs\<close>

text \<open>A printer and a parser that agree on the valid values.\<close>

locale codec =
  fixes enc :: "'a \<Rightarrow> 'b"
    and dec :: "'b \<Rightarrow> 'a option"
    and valid :: "'a \<Rightarrow> bool"
  assumes dec_enc: "valid x \<Longrightarrow> dec (enc x) = Some x"
begin

lemma enc_inj: "valid x \<Longrightarrow> valid y \<Longrightarrow> enc x = enc y \<Longrightarrow> x = y"
  using dec_enc by (metis option.inject)

lemma dec_stable: "valid x \<Longrightarrow> dec (enc x) = Some y \<Longrightarrow> enc y = enc x"
  by (simp add: dec_enc)

end

section \<open>Records\<close>

lemma csv_plain:
  "\<forall>c \<in> set s. \<not> csv_special c
    \<Longrightarrow> csv_loop False f row recs (s @ t) = csv_loop False (f @ s) row recs t"
  by (induction s arbitrary: f) (auto simp: csv_special_def)

definition no_quote :: "string \<Rightarrow> bool" where
  "no_quote t \<longleftrightarrow> (case t of [] \<Rightarrow> True | c # _ \<Rightarrow> c \<noteq> CHR 0x22)"

lemma csv_quoted:
  assumes "no_quote t"
  shows "csv_loop True f row recs (double_quotes s @ CHR 0x22 # t) = csv_loop False (f @ s) row recs t"
proof (induction s arbitrary: f)
  case Nil
  with assms show ?case by (cases t) (auto simp: double_quotes_def no_quote_def)
next
  case (Cons c s)
  have d: "double_quotes (c # s) = (if c = CHR 0x22 then [c, c] else [c]) @ double_quotes s"
    by (simp add: double_quotes_def)
  show ?case
  proof (cases "c = CHR 0x22")
    case True
    have "csv_loop True f row recs (double_quotes (c # s) @ CHR 0x22 # t)
        = csv_loop True (f @ [CHR 0x22]) row recs (double_quotes s @ CHR 0x22 # t)"
      unfolding d using True by simp
    with Cons.IH [of "f @ [CHR 0x22]"] True show ?thesis by simp
  next
    case False
    have "csv_loop True f row recs (double_quotes (c # s) @ CHR 0x22 # t)
        = csv_loop True (f @ [c]) row recs (double_quotes s @ CHR 0x22 # t)"
      unfolding d using False by simp
    with Cons.IH [of "f @ [c]"] show ?thesis by simp
  qed
qed

lemma csv_field:
  assumes "no_quote t"
  shows "csv_loop False [] row recs (escape_csv_field s @ t) = csv_loop False s row recs t"
proof (cases "\<exists>c \<in> set s. csv_special c")
  case True
  obtain c r where cr: "double_quotes s @ CHR 0x22 # t = c # r"
    by (cases "double_quotes s @ CHR 0x22 # t") auto
  have "csv_loop False [] row recs (escape_csv_field s @ t)
      = csv_loop True [] row recs (double_quotes s @ CHR 0x22 # t)"
    using True by (simp add: escape_csv_field_def cr)
  with csv_quoted [OF assms, of "[]" row recs s] show ?thesis by simp
next
  case False
  with csv_plain [of s "[]" row recs t] show ?thesis by (simp add: escape_csv_field_def)
qed

lemma csv_row:
  "fs \<noteq> [] \<Longrightarrow> csv_loop False [] row recs (join '','' (map escape_csv_field fs) @ CHR 0x0A # t)
    = csv_loop False [] [] (recs @ [row @ fs]) t"
proof (induction "'',''" fs arbitrary: row rule: join.induct)
  case (2 f)
  have "no_quote (CHR 0x0A # t)" by (simp add: no_quote_def)
  from csv_field [OF this, of row recs f] show ?case by simp
next
  case (3 f g fs)
  have "no_quote (CHR '','' # u)" for u by (simp add: no_quote_def)
  from csv_field [OF this, of row recs f] "3.hyps" [of "row @ [f]"] show ?case by simp
qed simp

lemma csv_rows:
  "\<forall>r \<in> set rows. r \<noteq> [] \<Longrightarrow> csv_loop False [] [] recs (concat (map (push_csv_row []) rows))
    = ([], [], recs @ rows)"
proof (induction rows arbitrary: recs)
  case (Cons r rows)
  have step: "concat (map (push_csv_row []) (r # rows)) = join '','' (map escape_csv_field r)
      @ CHR 0x0A # concat (map (push_csv_row []) rows)"
    by (simp add: push_csv_row_def)
  have "csv_loop False [] [] (recs @ [r]) (concat (map (push_csv_row []) rows)) = ([], [], recs @ r # rows)"
    using Cons.IH [of "recs @ [r]"] Cons.prems by simp
  with csv_row [of r "[]" recs "concat (map (push_csv_row []) rows)"] Cons.prems show ?case
    unfolding step by simp
qed simp

lemma foldl_push: "foldl (\<lambda>out r. push_csv_row out (g r)) s rows = s @ concat (map (\<lambda>r. push_csv_row [] (g r)) rows)"
  by (induction rows arbitrary: s) (simp_all add: push_csv_row_def)

lemma read_push:
  "\<forall>r \<in> set rows. r \<noteq> [] \<Longrightarrow> read_csv_records (concat (map (push_csv_row []) rows)) = rows"
  using csv_rows [of rows "[]"] by (simp add: read_csv_records_def)

interpretation csv_records: codec
  "\<lambda>rows. concat (map (push_csv_row []) rows)" "\<lambda>s. Some (read_csv_records s)"
  "\<lambda>rows. \<forall>r \<in> set rows. r \<noteq> []"
  by unfold_locales (simp add: read_push)

interpretation decimal: codec show_int parse_i64 i64_range
  by unfold_locales (rule parse_i64_show_int)

section \<open>Fields\<close>

lemma visible_no_space:
  "\<forall>c \<in> set s. 33 \<le> byte_of c \<and> byte_of c < 127 \<Longrightarrow> ws_len s = 0 \<and> ws_len_rev s = 0"
  by (induction s rule: ws_len.induct) (auto simp: ws1_def ws2_def ws3_def)

lemma visible_trim: "\<forall>c \<in> set s. 33 \<le> byte_of c \<and> byte_of c < 127 \<Longrightarrow> trim s = s"
  using visible_no_space [of s] visible_no_space [of "rev s"] trimmedI [of s] by (simp add: trimmed_def)

lemma trim_show_int: "trim (show_int i) = show_int i"
proof (rule visible_trim, rule ballI)
  fix c assume "c \<in> set (show_int i)"
  then have "c = CHR ''-'' \<or> is_ascii_digit c"
    by (auto simp: show_int_def dest: show_nat_digits split: if_splits)
  then show "33 \<le> byte_of c \<and> byte_of c < 127" by (auto simp: is_ascii_digit_def)
qed

lemma show_int_not_Nil [simp]: "show_int i \<noteq> []"
  by (simp add: show_int_def)

definition plain_tag :: "string \<Rightarrow> bool" where
  "plain_tag t \<longleftrightarrow> trimmed t \<and> t \<noteq> [] \<and> CHR ''|'' \<notin> set t \<and> CHR '','' \<notin> set t"

definition plain_option :: "string option \<Rightarrow> bool" where
  "plain_option v \<longleftrightarrow> (case v of None \<Rightarrow> True | Some s \<Rightarrow> trimmed s \<and> s \<noteq> [])"

lemma split_tags_join:
  assumes "\<forall>t \<in> set ts. plain_tag t"
  shows "split_tags (join ''|'' ts) = ts"
proof (cases ts)
  case (Cons t us)
  have "split_on (\<lambda>c. c = CHR ''|'' \<or> c = CHR '','') (join ''|'' ts) = ts"
    using assms Cons by (intro split_on_join) (auto simp: plain_tag_def)
  moreover have "map trim ts = ts" "filter (\<lambda>t. t \<noteq> []) ts = ts"
    using assms by (auto simp: plain_tag_def trimmed_def map_idI filter_id_conv)
  ultimately show ?thesis by (simp add: split_tags_def)
qed (simp add: split_tags_def)

lemma nonempty_unwrap: "plain_option v \<Longrightarrow> nonempty (unwrap_or_empty v) = v"
  by (cases v) (auto simp: plain_option_def nonempty_def unwrap_or_empty_def trimmed_def)

section \<open>Rows\<close>

definition plain_asset_row :: "asset_transfer_row \<Rightarrow> bool" where
  "plain_asset_row r \<longleftrightarrow> i64_range (at_port r) \<and> plain_option (at_description r)
     \<and> (\<forall>t \<in> set (at_tags r). plain_tag t) \<and> plain_option (at_credential_id r)"

lemma read_asset_fields:
  assumes "plain_asset_row r"
  shows "read_asset_record rows (i, asset_csv_fields r) = Inr (rows @ [r])"
proof -
  have "\<exists>f \<in> set (asset_csv_fields r). trim f \<noteq> []"
    by (auto simp: asset_csv_fields_def trim_show_int)
  then have ne: "\<not> (\<forall>f \<in> set (asset_csv_fields r). trim f = [])" by blast
  have "length (asset_csv_fields r) = 7" by (simp add: asset_csv_fields_def)
  moreover have "parse_i64 (asset_csv_fields r ! 2) = Some (at_port r)"
    using assms by (simp add: asset_csv_fields_def plain_asset_row_def decimal.dec_enc)
  moreover have "nonempty (asset_csv_fields r ! 3) = at_description r"
    "nonempty (asset_csv_fields r ! 5) = at_credential_id r"
    "split_tags (asset_csv_fields r ! 4) = at_tags r"
    using assms by (simp_all add: asset_csv_fields_def plain_asset_row_def nonempty_unwrap split_tags_join)
  moreover have "asset_csv_fields r ! 0 = at_name r" "asset_csv_fields r ! 1 = at_hostname r"
    "asset_csv_fields r ! 6 = at_protocol r"
    by (simp_all add: asset_csv_fields_def)
  ultimately show ?thesis
    unfolding read_asset_record_def prod.case if_not_P [OF ne] by (simp add: ensure_len_def)
qed

lemma fold_records:
  assumes "\<And>rows i r. r \<in> set rs \<Longrightarrow> f rows (i, g r) = Inr (rows @ [r])"
  shows "foldE f acc (List.enumerate k (map g rs)) = Inr (acc @ rs)"
  using assms by (induction rs arbitrary: acc k) auto

lemma read_write_assets:
  assumes "\<forall>r \<in> set rows. plain_asset_row r"
  shows "read_asset_csv (write_asset_csv rows) = Inr rows"
proof -
  have header: "''name,hostname,port,description,tags,credential_id,protocol'' @ [CHR 0x0A]
      = push_csv_row [] asset_csv_header"
    by (simp add: push_csv_row_def asset_csv_header_def escape_csv_field_def csv_special_def)
  have "write_asset_csv rows = concat (map (push_csv_row []) (asset_csv_header # map asset_csv_fields rows))"
    unfolding write_asset_csv_def foldl_push header by (simp add: comp_def)
  then have "read_csv_records (write_asset_csv rows) = asset_csv_header # map asset_csv_fields rows"
    by (simp only:) (rule read_push, auto simp: asset_csv_header_def asset_csv_fields_def)
  moreover have "foldE read_asset_record [] (List.enumerate 1 (map asset_csv_fields rows)) = Inr rows"
    using fold_records [of rows read_asset_record asset_csv_fields "[]" 1] read_asset_fields assms by simp
  ultimately show ?thesis by (simp add: read_asset_csv_def require_csv_header_def)
qed

definition plain_credential_row :: "credential_transfer_row \<Rightarrow> bool" where
  "plain_credential_row r \<longleftrightarrow> \<not> (trim (ct_name r) = [] \<and> trim (ct_username r) = [] \<and> trim (ct_auth_type r) = [])"

lemma read_write_credentials:
  assumes "\<forall>r \<in> set rows. plain_credential_row r"
  shows "read_credential_csv (write_credential_csv rows) = Inr rows"
proof -
  let ?fs = "\<lambda>r. [ct_name r, ct_username r, ct_auth_type r]"
  have header: "''name,username,auth_type'' @ [CHR 0x0A] = push_csv_row [] credential_csv_header"
    by (simp add: push_csv_row_def credential_csv_header_def escape_csv_field_def csv_special_def)
  have "write_credential_csv rows = concat (map (push_csv_row []) (credential_csv_header # map ?fs rows))"
    unfolding write_credential_csv_def foldl_push header by (simp add: comp_def)
  then have "read_csv_records (write_credential_csv rows) = credential_csv_header # map ?fs rows"
    by (simp only:) (rule read_push, auto simp: credential_csv_header_def)
  moreover have "read_credential_record acc (i, ?fs r) = Inr (acc @ [r])" if "r \<in> set rows" for acc i r
    using assms that by (auto simp: read_credential_record_def plain_credential_row_def ensure_len_def)
  then have "foldE read_credential_record [] (List.enumerate 1 (map ?fs rows)) = Inr rows"
    using fold_records [of rows read_credential_record ?fs "[]" 1] by simp
  ultimately show ?thesis by (simp add: read_credential_csv_def require_csv_header_def)
qed

definition right_of :: "'e + 'a \<Rightarrow> 'a option" where
  "right_of r = (case r of Inl _ \<Rightarrow> None | Inr x \<Rightarrow> Some x)"

interpretation asset_csv: codec write_asset_csv "\<lambda>s. right_of (read_asset_csv s)"
  "\<lambda>rows. \<forall>r \<in> set rows. plain_asset_row r"
  by unfold_locales (simp add: read_write_assets right_of_def)

interpretation credential_csv: codec write_credential_csv "\<lambda>s. right_of (read_credential_csv s)"
  "\<lambda>rows. \<forall>r \<in> set rows. plain_credential_row r"
  by unfold_locales (simp add: read_write_credentials right_of_def)

section \<open>Imports\<close>

lemma steps_trans: "catalog_steps X a b \<Longrightarrow> catalog_steps X b c \<Longrightarrow> catalog_steps X a c"
  unfolding catalog_steps_def by (rule rtranclp_trans)

lemma step_steps: "catalog_step X a b \<Longrightarrow> catalog_steps X a b"
  unfolding catalog_steps_def by (rule r_into_rtranclp)

lemma steps_refl [simp]: "catalog_steps X a a"
  by (simp add: catalog_steps_def)

lemma add_asset_steps: "add_asset X now n a db = (db', r) \<Longrightarrow> catalog_steps X db db'"
  using catalog_step.add_asset [of X db now n a] by (simp add: step_steps)

lemma update_asset_steps: "update_asset X now i a db = (db', r) \<Longrightarrow> catalog_steps X db db'"
  using catalog_step.update_asset [of X db now i a] by (simp add: step_steps)

lemma update_credential_steps: "update_credential now i c db = (db', r) \<Longrightarrow> catalog_steps X db db'"
  using catalog_step.update_cred [of X db now i c] by (simp add: step_steps)

lemma import_asset_steps:
  "import_asset X now policy row n s db = (db', r) \<Longrightarrow> catalog_steps X db db'"
  by (auto simp: import_asset_def split: sum.splits option.splits conflict_policy.splits prod.splits
      dest: add_asset_steps update_asset_steps)

lemma import_asset_loop_steps:
  "import_asset_loop X now policy rows n s db = (db', r) \<Longrightarrow> catalog_steps X db db'"
proof (induction rows arbitrary: n s db)
  case (Cons row rows)
  obtain db1 r1 where one: "import_asset X now policy row n s db = (db1, r1)" by fastforce
  from import_asset_steps [OF one] have "catalog_steps X db db1" .
  with Cons one steps_trans show ?case by (cases r1) (auto split: prod.splits)
qed simp

text \<open>Every row is accounted for exactly once.\<close>

definition accounted :: "import_summary \<Rightarrow> nat" where
  "accounted s = is_imported s + is_skipped s + is_overwritten s + length (is_errors s)"

lemma accounted_simps [simp]:
  "accounted no_imports = 0" "accounted (record_imported s) = accounted s + 1"
  "accounted (record_skipped s) = accounted s + 1" "accounted (record_overwritten s) = accounted s + 1"
  "accounted (record_import_error e s) = accounted s + 1"
  by (simp_all add: accounted_def no_imports_def record_imported_def record_skipped_def
      record_overwritten_def record_import_error_def)

lemma import_asset_accounted:
  "import_asset X now policy row n s db = (db', Inr (n', s')) \<Longrightarrow> accounted s' = accounted s + 1"
  by (auto simp: import_asset_def split: sum.splits option.splits conflict_policy.splits prod.splits)

lemma import_asset_loop_accounted:
  "import_asset_loop X now policy rows n s db = (db', Inr s') \<Longrightarrow> accounted s' = accounted s + length rows"
  by (induction rows arbitrary: n s db)
    (auto dest: import_asset_accounted split: prod.splits sum.splits)

lemma add_asset_appends:
  "add_asset X now n a db = (db', r) \<Longrightarrow> set (t_assets db) \<subseteq> set (t_assets db')"
  by (auto simp: add_asset_def Let_def commit_read_def write_asset_def insert_asset_def
      insert_local_ownership_def insert_ownership_def increment_revision_def update_revision_def
      result_simps split: sum.splits)

lemma import_asset_keeps:
  assumes "policy \<noteq> Overwrite" and "import_asset X now policy row n s db = (db', r)"
  shows "set (t_assets db) \<subseteq> set (t_assets db')"
  using assms
  by (cases policy)
    (auto simp: import_asset_def split: sum.splits option.splits prod.splits dest: add_asset_appends)

lemma import_asset_loop_keeps:
  "policy \<noteq> Overwrite \<Longrightarrow> import_asset_loop X now policy rows n s db = (db', r)
    \<Longrightarrow> set (t_assets db) \<subseteq> set (t_assets db')"
proof (induction rows arbitrary: n s db)
  case (Cons row rows)
  obtain db1 r1 where one: "import_asset X now policy row n s db = (db1, r1)" by fastforce
  note keep = import_asset_keeps [OF Cons.prems(1) one]
  show ?case
  proof (cases r1)
    case (Inr p)
    with Cons.prems(2) one have "import_asset_loop X now policy rows (fst p) (snd p) db1 = (db', r)"
      by (simp split: prod.splits)
    from Cons.IH [OF Cons.prems(1) this] keep show ?thesis by blast
  qed (use keep Cons.prems(2) one in simp)
qed simp

section \<open>Secrets\<close>

text \<open>What an import of credential metadata must not change.\<close>

definition secret_of :: "credential_tbl \<Rightarrow> string \<times> string option \<times> string option \<times> string option" where
  "secret_of c = (c_id c, c_password_enc c, c_private_key_enc c, c_passphrase_enc c)"

lemma update_credential_secrets:
  assumes "update_credential now i c db = (db', r)"
    and "\<forall>row \<in> set (t_credentials db). c_id row = i \<longrightarrow>
      secret_of row = (i, nc_password_enc c, nc_private_key_enc c, nc_passphrase_enc c)"
  shows "map secret_of (t_credentials db') = map secret_of (t_credentials db)"
  using assms
  by (auto simp: update_credential_def commit_def update_credentials_def increment_revision_def
      update_revision_def result_simps update_where_def secret_of_def split: sum.splits)

lemma import_credential_loop_secrets:
  assumes "import_credential_loop now policy existing rows s db = (db', r)"
    and "\<forall>c \<in> set existing. \<forall>x \<in> set (map secret_of (t_credentials db)). fst x = cr_id c
      \<longrightarrow> x = (cr_id c, cr_password_enc c, cr_private_key_enc c, cr_passphrase_enc c)"
  shows "map secret_of (t_credentials db') = map secret_of (t_credentials db)"
  using assms
proof (induction rows arbitrary: s db)
  case (Cons row rows)
  obtain db1 r1 where one: "import_credential now policy existing row s db = (db1, r1)" by fastforce
  have same: "map secret_of (t_credentials db1) = map secret_of (t_credentials db)"
  proof (cases "find (\<lambda>c. cr_name c = ct_name row \<and> cr_username c = ct_username row) existing")
    case (Some c)
    then have c: "c \<in> set existing" by (auto simp: find_Some_iff)
    have "\<forall>row \<in> set (t_credentials db). c_id row = cr_id c \<longrightarrow>
      secret_of row = (cr_id c, cr_password_enc c, cr_private_key_enc c, cr_passphrase_enc c)"
      using Cons.prems(2) c by (force simp: secret_of_def)
    with one Some show ?thesis
      by (auto simp: import_credential_def split: conflict_policy.splits sum.splits prod.splits
          dest!: update_credential_secrets)
  qed (use one in \<open>auto simp: import_credential_def\<close>)
  show ?case
  proof (cases r1)
    case (Inr s')
    with Cons.prems(1) one have "import_credential_loop now policy existing rows s' db1 = (db', r)" by simp
    from Cons.IH [OF this] Cons.prems(2) show ?thesis unfolding same by blast
  qed (use same Cons.prems(1) one in simp)
qed simp

lemma import_credential_loop_steps:
  "import_credential_loop now policy existing rows s db = (db', r) \<Longrightarrow> catalog_steps X db db'"
proof (induction rows arbitrary: s db)
  case (Cons row rows)
  obtain db1 r1 where one: "import_credential now policy existing row s db = (db1, r1)" by fastforce
  then have "catalog_steps X db db1"
    by (auto simp: import_credential_def split: option.splits conflict_policy.splits sum.splits prod.splits
        dest: update_credential_steps)
  with Cons one steps_trans show ?case by (cases r1) (auto split: prod.splits)
qed simp

lemma listed_secrets:
  assumes "constraints db" and "c \<in> set (list_credentials db)"
    and "x \<in> set (map secret_of (t_credentials db))" and "fst x = cr_id c"
  shows "x = (cr_id c, cr_password_enc c, cr_private_key_enc c, cr_passphrase_enc c)"
proof -
  from assms(2) obtain r where r: "r \<in> set (t_credentials db)" "c = credential_of_row r"
    by (auto simp: list_credentials_def)
  from assms(3) obtain y where y: "y \<in> set (t_credentials db)" "x = secret_of y" by auto
  have "c_id y = c_id r" using assms(4) r y by (simp add: secret_of_def credential_of_row_def)
  with r y constraintsD(1) [OF assms(1)] have "y = r" by (auto simp: distinct_map inj_on_def)
  with r y show ?thesis by (simp add: secret_of_def credential_of_row_def)
qed

end
