(* ===== verification/Control_Api.thy ===== *)
theory Control_Api
  imports Local_Cli Catalog_Steps Import_Export_Facts
begin

text \<open>
  The HTTP control API, \<open>hop-server/src/control_api.rs\<close>: authentication, the views, one definition
  per handler, and the router as one function from requests to responses. A handler runs on the
  catalog and the registry of active sessions; every handler authenticates before anything else.
  The HTTP server (axum) is not modelled: a request is given by its route, its \<open>Authorization\<close>
  header and its parsed body.
\<close>

section \<open>State\<close>

record api_state =
  api_master_key :: master_key
  api_token_hash :: string

text \<open>\<open>ControlApiState::new\<close>.\<close>

definition new_api_state :: "ext \<Rightarrow> master_key \<Rightarrow> string \<Rightarrow> any_error + api_state" where
  "new_api_state X master token =
     (let token = trim token in
      if token = [] then Inl (Message ''Control API token must not be empty'')
      else Inr \<lparr>api_master_key = master, api_token_hash = sha256 X token\<rparr>)"

section \<open>Errors\<close>

record api_error =
  ae_status :: nat
  ae_code :: string
  ae_path :: "string option"
  ae_message :: string

definition api_unauthorized :: api_error where
  "api_unauthorized = \<lparr>ae_status = 401, ae_code = ''unauthorized'', ae_path = None,
     ae_message = ''a valid Bearer management token is required''\<rparr>"

definition api_internal :: api_error where
  "api_internal = \<lparr>ae_status = 500, ae_code = ''internal_error'', ae_path = None,
     ae_message = ''Control API operation failed''\<rparr>"

definition api_validation :: "string \<Rightarrow> api_error" where
  "api_validation message = \<lparr>ae_status = 422, ae_code = ''validation_failed'', ae_path = None,
     ae_message = message\<rparr>"

definition api_not_found :: api_error where
  "api_not_found = \<lparr>ae_status = 404, ae_code = ''not_found'', ae_path = None,
     ae_message = ''catalog resource was not found''\<rparr>"

text \<open>\<open>From<HopCoreError>\<close> and \<open>From<CatalogError>\<close>.\<close>

definition api_of_hop_error :: "hop_error \<Rightarrow> api_error" where
  "api_of_hop_error e =
     (case e of
        Validation message \<Rightarrow>
          if prefix ''managed_by_source:'' message
          then \<lparr>ae_status = 409, ae_code = error_code_str ManagedBySource, ae_path = None,
            ae_message = message\<rparr>
          else api_validation message
      | Database _ \<Rightarrow> \<lparr>ae_status = 409, ae_code = ''catalog_conflict'', ae_path = None,
          ae_message = ''catalog write conflicted with an existing or referenced resource''\<rparr>
      | _ \<Rightarrow> api_internal)"

definition api_of_catalog_error :: "catalog_error \<Rightarrow> api_error" where
  "api_of_catalog_error e =
     \<lparr>ae_status = (case ce_code e of
        RevisionConflict \<Rightarrow> 409 | OwnershipConflict \<Rightarrow> 409 | ManagedBySource \<Rightarrow> 409
      | ResourceInUse \<Rightarrow> 409 | ApplyFailed \<Rightarrow> 500 | _ \<Rightarrow> 422),
      ae_code = error_code_str (ce_code e), ae_path = ce_path e, ae_message = ce_message e\<rparr>"

abbreviation api :: "hop_error + 'a \<Rightarrow> api_error + 'a" where
  "api r \<equiv> map_err api_of_hop_error r"

abbreviation api_read :: "hop_error + 'a \<Rightarrow> api_error + 'a" where
  "api_read r \<equiv> map_err (\<lambda>_. api_internal) r"

section \<open>Authentication\<close>

text \<open>\<open>HeaderValue::to_str\<close>: visible ASCII and tabs only.\<close>

definition header_to_str :: "string \<Rightarrow> string option" where
  "header_to_str v = (if \<forall>c \<in> set v. byte_of c = 9 \<or> (32 \<le> byte_of c \<and> byte_of c < 127)
     then Some v else None)"

definition authenticate :: "ext \<Rightarrow> api_state \<Rightarrow> string option \<Rightarrow> api_error + unit" where
  "authenticate X st header =
     (let supplied = (case Option.bind (Option.bind header header_to_str) (strip_prefix ''Bearer '')
            of None \<Rightarrow> [] | Some s \<Rightarrow> s) in
      if api_token_hash st = sha256 X supplied then Inr () else Inl api_unauthorized)"

section \<open>Requests\<close>

datatype manifest_format = Yaml | Toml

record manifest_payload =
  mp_content :: string
  mp_format :: manifest_format

text \<open>The two deserialisers, as \<open>parse_with_path\<close> takes their outcome.\<close>

type_synonym manifest_reader = "manifest_format \<Rightarrow> string \<Rightarrow> (string \<times> string) + manifest"

definition payload_parse :: "manifest_reader \<Rightarrow> manifest_payload \<Rightarrow> catalog_error + manifest" where
  "payload_parse read p = parse_with_path (read (mp_format p) (mp_content p))"

record asset_write_request =
  aw_name :: string
  aw_protocol :: string
  aw_hostname :: string
  aw_port :: int
  aw_description :: "string option"
  aw_tags :: "string list"
  aw_credential_id :: "string option"

definition new_asset_of_request :: "asset_write_request \<Rightarrow> new_asset" where
  "new_asset_of_request r = \<lparr>na_name = aw_name r, na_protocol = aw_protocol r,
     na_hostname = aw_hostname r, na_port = aw_port r, na_description = aw_description r,
     na_tags = aw_tags r, na_credential_id = aw_credential_id r\<rparr>"

definition default_asset_protocol :: string where
  "default_asset_protocol = ''ssh''"

datatype api_auth_type = ApiPassword | ApiKey | ApiKeyPassphrase

fun auth_type_of_api :: "api_auth_type \<Rightarrow> auth_type" where
  "auth_type_of_api ApiPassword = Password"
| "auth_type_of_api ApiKey = Key"
| "auth_type_of_api ApiKeyPassphrase = KeyWithPassphrase"

record credential_write_request =
  cw_name :: string
  cw_username :: string
  cw_auth_type :: api_auth_type
  cw_password :: "string option"
  cw_private_key :: "string option"
  cw_passphrase :: "string option"

record apply_request =
  rq_manifest :: manifest_payload
  rq_source_id :: string
  rq_base_revision :: int
  rq_prune :: bool
  rq_dry_run :: bool

section \<open>Views\<close>

datatype secret_status = Configured | Missing

definition secret_status_of :: "bool \<Rightarrow> secret_status" where
  "secret_status_of configured = (if configured then Configured else Missing)"

record asset_view =
  av_asset :: asset
  av_ownership :: ownership_kind

definition asset_view_of :: "catalog \<Rightarrow> asset \<Rightarrow> asset_view" where
  "asset_view_of db a = \<lparr>av_asset = a, av_ownership = resource_ownership ''asset'' (as_id a) db\<rparr>"

record credential_view =
  cv_id :: string
  cv_name :: string
  cv_username :: string
  cv_auth_type :: string
  cv_password :: secret_status
  cv_private_key :: secret_status
  cv_passphrase :: secret_status
  cv_ownership :: ownership_kind

definition credential_view_of :: "catalog \<Rightarrow> credential \<Rightarrow> credential_view" where
  "credential_view_of db c = \<lparr>cv_id = cr_id c, cv_name = cr_name c, cv_username = cr_username c,
     cv_auth_type = cr_auth_type c, cv_password = secret_status_of (cr_password_enc c \<noteq> None),
     cv_private_key = secret_status_of (cr_private_key_enc c \<noteq> None),
     cv_passphrase = secret_status_of (cr_passphrase_enc c \<noteq> None),
     cv_ownership = resource_ownership ''credential'' (cr_id c) db\<rparr>"

record access_key_view =
  kv_id :: string
  kv_name :: string
  kv_fingerprint :: string
  kv_enabled :: bool
  kv_access_mode :: string
  kv_assets :: "string list option"
  kv_ownership :: ownership_kind

definition access_key_view_of :: "catalog \<Rightarrow> authorized_key \<Rightarrow> access_key_view" where
  "access_key_view_of db k = \<lparr>kv_id = ak_id k, kv_name = ak_name k, kv_fingerprint = ak_fingerprint k,
     kv_enabled = ak_is_active k, kv_access_mode = access_mode_as_str (ak_access_mode k),
     kv_assets = (case ak_access_mode k of All \<Rightarrow> None
        | Restricted \<Rightarrow> Some (list_asset_ids_for_key (ak_id k) db)),
     kv_ownership = resource_ownership ''access_key'' (ak_id k) db\<rparr>"

section \<open>Credentials from requests\<close>

definition keep_if :: "(string \<Rightarrow> bool) \<Rightarrow> (credential \<Rightarrow> string option) \<Rightarrow> credential option \<Rightarrow> string option" where
  "keep_if p col existing =
     (case existing of Some c \<Rightarrow> if p (cr_auth_type c) then col c else None | None \<Rightarrow> None)"

definition option_or :: "string option \<Rightarrow> string option \<Rightarrow> string option" where
  "option_or a b = (case a of None \<Rightarrow> b | Some x \<Rightarrow> Some x)"

definition build_credential ::
  "ext \<Rightarrow> nat \<Rightarrow> master_key \<Rightarrow> string \<Rightarrow> credential_write_request \<Rightarrow> credential option
    \<Rightarrow> api_error + new_credential" where
  "build_credential X k master i r existing =
     (let auth_type = auth_type_of_api (cw_auth_type r);
          keep_password = keep_if (\<lambda>t. t = ''password'') cr_password_enc existing;
          keep_private_key = keep_if (\<lambda>t. t \<noteq> ''password'') cr_private_key_enc existing;
          keep_passphrase = keep_if (\<lambda>t. t = ''key+passphrase'') cr_passphrase_enc existing in
      and_then (if auth_type = Password
          then and_then (api (encrypt_secret X k master i ''password'' (cw_password r)))
            (\<lambda>(enc, k'). Inr (option_or enc keep_password, k'))
          else Inr (None, k)) (\<lambda>(password_enc, k1).
      and_then (if auth_type = Password then Inr (None, k1)
          else and_then (api (encrypt_secret X k1 master i ''private_key'' (cw_private_key r)))
            (\<lambda>(enc, k'). Inr (option_or enc keep_private_key, k'))) (\<lambda>(private_key_enc, k2).
      and_then (if auth_type = KeyWithPassphrase
          then and_then (api (encrypt_secret X k2 master i ''passphrase'' (cw_passphrase r)))
            (\<lambda>(enc, k'). Inr (option_or enc keep_passphrase, k'))
          else Inr (None, k2)) (\<lambda>(passphrase_enc, _).
      Inr \<lparr>nc_id = Some i, nc_name = cw_name r, nc_username = cw_username r,
        nc_auth_type = auth_type, nc_password_enc = password_enc,
        nc_private_key_enc = private_key_enc, nc_passphrase_enc = passphrase_enc\<rparr>))))"

definition access_scope_of :: "string list option \<Rightarrow> asset_access_mode \<times> string list" where
  "access_scope_of assets = (case assets of None \<Rightarrow> (All, []) | Some ids \<Rightarrow> (Restricted, ids))"

section \<open>Handlers\<close>

text \<open>
  A response is the payload of a 2xx answer. \<open>env\<close> holds what the handlers get from outside:
  the clock, the counters of drawn ids and nonces (\<open>en_id2\<close> for an id drawn after an apply), the
  files, the deserialisers and the senders that are alive.
\<close>

datatype api_response =
    StatusResponse int
  | RevisionResponse int
  | AssetsResponse "asset_view list"
  | AssetResponse nat asset_view
  | CredentialsResponse "credential_view list"
  | CredentialResponse nat credential_view
  | AccessKeysResponse "access_key_view list"
  | AccessKeyResponse nat access_key_view
  | SessionsResponse "session list"
  | KnownHostsResponse "known_host list"
  | TerminateResponse string bool
  | ValidationResponse bool
  | SummaryResponse apply_summary
  | NoContent

record 'tx api_env =
  en_ext :: ext
  en_now :: string
  en_id :: nat
  en_id2 :: nat
  en_nonce :: nat
  en_os :: os
  en_read :: manifest_reader
  en_alive :: "'tx \<Rightarrow> bool"

text \<open>Goes on with the value of a catalog operation, in the catalog it left.\<close>

definition proceed ::
  "catalog \<times> (hop_error + 'a) \<Rightarrow> ('a \<Rightarrow> catalog \<Rightarrow> api_error + 'b) \<Rightarrow> catalog \<times> (api_error + 'b)" where
  "proceed r f = (case r of (db, Inl e) \<Rightarrow> (db, Inl (api_of_hop_error e)) | (db, Inr x) \<Rightarrow> (db, f x db))"

definition api_status :: "catalog \<Rightarrow> api_error + api_response" where
  "api_status db = Inr (StatusResponse (st_revision (status db)))"

definition api_revision :: "catalog \<Rightarrow> api_error + api_response" where
  "api_revision db = Inr (RevisionResponse (t_revision db))"

definition api_assets :: "ext \<Rightarrow> catalog \<Rightarrow> api_error + api_response" where
  "api_assets X db = and_then (api_read (list_assets X db)) (\<lambda>assets.
     Inr (AssetsResponse (map (asset_view_of db) assets)))"

definition api_create_asset ::
  "'tx api_env \<Rightarrow> asset_write_request \<Rightarrow> catalog \<Rightarrow> catalog \<times> (api_error + api_response)" where
  "api_create_asset E r db =
     proceed (add_asset (en_ext E) (en_now E) (en_id E) (new_asset_of_request r) db)
       (\<lambda>a db'. Inr (AssetResponse 201 (asset_view_of db' a)))"

definition api_update_asset ::
  "'tx api_env \<Rightarrow> string \<Rightarrow> asset_write_request \<Rightarrow> catalog \<Rightarrow> catalog \<times> (api_error + api_response)" where
  "api_update_asset E i r db =
     proceed (update_asset (en_ext E) (en_now E) i (new_asset_of_request r) db) (\<lambda>_ db'.
       and_then (api (get_asset_by_id (en_ext E) i db')) (\<lambda>found.
       and_then (ok_or found api_not_found) (\<lambda>a. Inr (AssetResponse 200 (asset_view_of db' a)))))"

definition api_delete_asset :: "string \<Rightarrow> catalog \<Rightarrow> catalog \<times> (api_error + api_response)" where
  "api_delete_asset i db = proceed (delete_asset i db) (\<lambda>_ _. Inr NoContent)"

definition api_credentials :: "catalog \<Rightarrow> api_error + api_response" where
  "api_credentials db =
     Inr (CredentialsResponse (map (credential_view_of db) (list_credentials db)))"

definition api_create_credential ::
  "'tx api_env \<Rightarrow> api_state \<Rightarrow> credential_write_request \<Rightarrow> catalog
    \<Rightarrow> catalog \<times> (api_error + api_response)" where
  "api_create_credential E st r db =
     (let i = new_id (en_ext E) (en_id E) in
      case build_credential (en_ext E) (en_nonce E) (api_master_key st) i r None of
        Inl e \<Rightarrow> (db, Inl e)
      | Inr cred \<Rightarrow> proceed (add_credential (en_ext E) (en_now E) (en_id E + 1) cred db)
          (\<lambda>c db'. Inr (CredentialResponse 201 (credential_view_of db' c))))"

definition api_update_credential ::
  "'tx api_env \<Rightarrow> api_state \<Rightarrow> string \<Rightarrow> credential_write_request \<Rightarrow> catalog
    \<Rightarrow> catalog \<times> (api_error + api_response)" where
  "api_update_credential E st i r db =
     (case get_credential i db of
        None \<Rightarrow> (db, Inl api_not_found)
      | Some existing \<Rightarrow>
          (case build_credential (en_ext E) (en_nonce E) (api_master_key st) i r (Some existing) of
             Inl e \<Rightarrow> (db, Inl e)
           | Inr cred \<Rightarrow> proceed (update_credential (en_now E) i cred db) (\<lambda>_ db'.
               and_then (ok_or (get_credential i db') api_not_found)
                 (\<lambda>c. Inr (CredentialResponse 200 (credential_view_of db' c))))))"

definition api_delete_credential :: "string \<Rightarrow> catalog \<Rightarrow> catalog \<times> (api_error + api_response)" where
  "api_delete_credential i db = proceed (delete_credential i db) (\<lambda>_ _. Inr NoContent)"

definition api_access_keys :: "catalog \<Rightarrow> api_error + api_response" where
  "api_access_keys db = and_then (api_read (list_authorized_keys db)) (\<lambda>keys.
     Inr (AccessKeysResponse (map (access_key_view_of db) keys)))"

definition api_create_access_key ::
  "'tx api_env \<Rightarrow> string \<Rightarrow> string \<Rightarrow> string list option \<Rightarrow> catalog
    \<Rightarrow> catalog \<times> (api_error + api_response)" where
  "api_create_access_key E name key_line assets db =
     (case parse_public_key_line (en_ext E) key_line of
        Inl _ \<Rightarrow> (db, Inl (api_validation ''public_key must be a valid OpenSSH public key''))
      | Inr (canonical, fingerprint) \<Rightarrow>
          (case access_scope_of assets of (mode, asset_ids) \<Rightarrow>
             proceed (add_authorized_key_with_access (en_ext E) (en_now E) (en_id E)
                 (new_authorized_key_of name canonical fingerprint) mode asset_ids db)
               (\<lambda>key db'. Inr (AccessKeyResponse 201 (access_key_view_of db' key)))))"

definition api_delete_access_key :: "string \<Rightarrow> catalog \<Rightarrow> catalog \<times> (api_error + api_response)" where
  "api_delete_access_key i db = proceed (delete_authorized_key i db) (\<lambda>_ _. Inr NoContent)"

text \<open>The read-back after the two updates of an access key.\<close>

definition show_access_key :: "string \<Rightarrow> catalog \<Rightarrow> api_error + api_response" where
  "show_access_key i db = and_then (api (get_authorized_key_by_id i db)) (\<lambda>found.
     and_then (ok_or found api_not_found) (\<lambda>key. Inr (AccessKeyResponse 200 (access_key_view_of db key))))"

definition api_set_access_key_enabled ::
  "'tx api_env \<Rightarrow> string \<Rightarrow> bool \<Rightarrow> catalog \<Rightarrow> catalog \<times> (api_error + api_response)" where
  "api_set_access_key_enabled E i enabled db =
     proceed (set_authorized_key_active (en_now E) i enabled db) (\<lambda>_ db'. show_access_key i db')"

definition api_set_access_key_access ::
  "'tx api_env \<Rightarrow> string \<Rightarrow> string list option \<Rightarrow> catalog \<Rightarrow> catalog \<times> (api_error + api_response)" where
  "api_set_access_key_access E i assets db =
     (case access_scope_of assets of (mode, asset_ids) \<Rightarrow>
        proceed (set_authorized_key_access (en_now E) i mode asset_ids db)
          (\<lambda>_ db'. show_access_key i db'))"

definition api_sessions :: "catalog \<Rightarrow> api_error + api_response" where
  "api_sessions db = Inr (SessionsResponse (list_sessions 100 db))"

definition api_known_hosts :: "catalog \<Rightarrow> api_error + api_response" where
  "api_known_hosts db = Inr (KnownHostsResponse (list_known_hosts db))"

definition api_reset_known_host ::
  "string \<Rightarrow> int \<Rightarrow> string \<Rightarrow> bool \<Rightarrow> catalog \<Rightarrow> catalog \<times> (api_error + api_response)" where
  "api_reset_known_host hostname port key_type confirm_reset db =
     (if \<not> confirm_reset
      then (db, Inl (api_validation ''confirm_reset must be true to reset known-host trust''))
      else if trim hostname = [] then (db, Inl (api_validation ''hostname must not be empty''))
      else if trim key_type = [] then (db, Inl (api_validation ''key_type must not be empty''))
      else
        (case validate_tcp_port port of
           Inl e \<Rightarrow> (db, Inl (api_of_hop_error e))
         | Inr _ \<Rightarrow>
             (case delete_known_host (trim hostname) port (trim key_type) db of
                (db', Inl _) \<Rightarrow> (db', Inl api_internal)
              | (db', Inr deleted) \<Rightarrow> (db', if deleted then Inr NoContent else Inl api_not_found))))"

definition api_terminate_session ::
  "'tx api_env \<Rightarrow> string \<Rightarrow> catalog \<times> 'tx registry
    \<Rightarrow> (catalog \<times> 'tx registry) \<times> (api_error + api_response)" where
  "api_terminate_session E i w =
     (case terminate (en_alive E) i (snd w) of
        (reg, _, Signaled) \<Rightarrow>
          (case finish_session (en_now E) i ''terminated'' (Some ''terminated by control API'') (fst w) of
             (db', Inl _) \<Rightarrow> ((db', reg), Inl api_internal)
           | (db', Inr _) \<Rightarrow> ((db', reg), Inr (TerminateResponse i True)))
      | (reg, _, NotFound) \<Rightarrow> ((fst w, reg), Inr (TerminateResponse i False)))"

definition api_validate ::
  "'tx api_env \<Rightarrow> manifest_payload \<Rightarrow> bool \<Rightarrow> catalog \<Rightarrow> api_error + api_response" where
  "api_validate E payload offline db =
     map_err api_of_catalog_error (and_then (payload_parse (en_read E) payload) (\<lambda>m.
     and_then (if offline then validate_offline (en_ext E) (en_os E) m
        else validate_manifest (en_ext E) (en_os E) m db) (\<lambda>_.
     Inr (ValidationResponse offline))))"

definition api_diff ::
  "'tx api_env \<Rightarrow> api_state \<Rightarrow> manifest_payload \<Rightarrow> string \<Rightarrow> bool \<Rightarrow> catalog
    \<Rightarrow> catalog \<times> (api_error + api_response)" where
  "api_diff E st payload source_id prune db =
     (case payload_parse (en_read E) payload of
        Inl e \<Rightarrow> (db, Inl (api_of_catalog_error e))
      | Inr m \<Rightarrow>
          (case diff (en_ext E) (en_now E) (en_id E) (en_nonce E) (en_os E) (api_master_key st) m
             source_id prune db of
             (db', r) \<Rightarrow> (db', map_err api_of_catalog_error (and_then r (\<lambda>s. Inr (SummaryResponse s))))))"

text \<open>\<open>let _ = ..record_apply_failure(..)\<close>: its own outcome is dropped.\<close>

definition note_failure ::
  "'tx api_env \<Rightarrow> string \<Rightarrow> string \<Rightarrow> bool \<Rightarrow> catalog_error \<Rightarrow> catalog \<Rightarrow> catalog" where
  "note_failure E source_id actor dry_run e db =
     (if dry_run then db
      else fst (record_apply_failure (en_ext E) (en_now E) (en_id2 E) source_id actor e db))"

definition api_apply ::
  "'tx api_env \<Rightarrow> api_state \<Rightarrow> apply_request \<Rightarrow> catalog \<Rightarrow> catalog \<times> (api_error + api_response)" where
  "api_apply E st r db =
     (case payload_parse (en_read E) (rq_manifest r) of
        Inl e \<Rightarrow> (note_failure E (rq_source_id r) ''api'' (rq_dry_run r) e db,
          Inl (api_of_catalog_error e))
      | Inr m \<Rightarrow>
          (case apply_manifest (en_ext E) (en_now E) (en_id E) (en_nonce E) (en_os E)
             (api_master_key st) m (rq_source_id r)
             \<lparr>ao_base_revision = Some (rq_base_revision r), ao_prune = rq_prune r,
              ao_dry_run = rq_dry_run r\<rparr> db of
             (db', Inr s) \<Rightarrow> (db', Inr (SummaryResponse s))
           | (db', Inl e) \<Rightarrow> (note_failure E (rq_source_id r) ''api'' (rq_dry_run r) e db',
               Inl (api_of_catalog_error e))))"

section \<open>The router\<close>

datatype api_request =
    GetStatus
  | GetRevision
  | GetAssets
  | PostAsset asset_write_request
  | PutAsset string asset_write_request
  | DeleteAsset string
  | GetCredentials
  | PostCredential credential_write_request
  | PutCredential string credential_write_request
  | DeleteCredential string
  | GetAccessKeys
  | PostAccessKey string string "string list option"
  | DeleteAccessKey string
  | PutAccessKeyEnabled string bool
  | PutAccessKeyAccess string "string list option"
  | GetSessions
  | PostTerminate string
  | GetKnownHosts
  | DeleteKnownHost string int string bool
  | PostValidate manifest_payload bool
  | PostDiff manifest_payload string bool
  | PostApply apply_request

text \<open>A handler that uses the catalog only, as one on the catalog and the registry.\<close>

definition on_catalog ::
  "(catalog \<Rightarrow> catalog \<times> 'r) \<Rightarrow> catalog \<times> 'tx registry \<Rightarrow> (catalog \<times> 'tx registry) \<times> 'r" where
  "on_catalog h w = (case h (fst w) of (db', r) \<Rightarrow> ((db', snd w), r))"

definition reading :: "(catalog \<Rightarrow> 'r) \<Rightarrow> catalog \<Rightarrow> catalog \<times> 'r" where
  "reading h db = (db, h db)"

text \<open>What a handler does once the request is authenticated.\<close>

fun dispatch ::
  "'tx api_env \<Rightarrow> api_state \<Rightarrow> api_request \<Rightarrow> catalog \<times> 'tx registry
    \<Rightarrow> (catalog \<times> 'tx registry) \<times> (api_error + api_response)" where
  "dispatch E st GetStatus = on_catalog (reading api_status)"
| "dispatch E st GetRevision = on_catalog (reading api_revision)"
| "dispatch E st GetAssets = on_catalog (reading (api_assets (en_ext E)))"
| "dispatch E st (PostAsset r) = on_catalog (api_create_asset E r)"
| "dispatch E st (PutAsset i r) = on_catalog (api_update_asset E i r)"
| "dispatch E st (DeleteAsset i) = on_catalog (api_delete_asset i)"
| "dispatch E st GetCredentials = on_catalog (reading api_credentials)"
| "dispatch E st (PostCredential r) = on_catalog (api_create_credential E st r)"
| "dispatch E st (PutCredential i r) = on_catalog (api_update_credential E st i r)"
| "dispatch E st (DeleteCredential i) = on_catalog (api_delete_credential i)"
| "dispatch E st GetAccessKeys = on_catalog (reading api_access_keys)"
| "dispatch E st (PostAccessKey name key assets) = on_catalog (api_create_access_key E name key assets)"
| "dispatch E st (DeleteAccessKey i) = on_catalog (api_delete_access_key i)"
| "dispatch E st (PutAccessKeyEnabled i b) = on_catalog (api_set_access_key_enabled E i b)"
| "dispatch E st (PutAccessKeyAccess i assets) = on_catalog (api_set_access_key_access E i assets)"
| "dispatch E st GetSessions = on_catalog (reading api_sessions)"
| "dispatch E st (PostTerminate i) = api_terminate_session E i"
| "dispatch E st GetKnownHosts = on_catalog (reading api_known_hosts)"
| "dispatch E st (DeleteKnownHost h p t c) = on_catalog (api_reset_known_host h p t c)"
| "dispatch E st (PostValidate p off) = on_catalog (reading (api_validate E p off))"
| "dispatch E st (PostDiff p src prune) = on_catalog (api_diff E st p src prune)"
| "dispatch E st (PostApply r) = on_catalog (api_apply E st r)"

definition handle ::
  "'tx api_env \<Rightarrow> api_state \<Rightarrow> string option \<Rightarrow> api_request \<Rightarrow> catalog \<times> 'tx registry
    \<Rightarrow> (catalog \<times> 'tx registry) \<times> (api_error + api_response)" where
  "handle E st header req w =
     (case authenticate (en_ext E) st header of
        Inl e \<Rightarrow> (w, Inl e)
      | Inr _ \<Rightarrow> dispatch E st req w)"

section \<open>CORS\<close>

datatype cors_origins = NoOrigins | AnyOrigin | OriginList "string list"

text \<open>\<open>cors_layer\<close>; \<open>header_ok\<close> tells whether \<open>HeaderValue::from_str\<close> succeeds.\<close>

definition cors_layer :: "(string \<Rightarrow> bool) \<Rightarrow> string list \<Rightarrow> any_error + cors_origins" where
  "cors_layer header_ok allowlist =
     (if allowlist = [] then Inr NoOrigins
      else if allowlist = [''*''] then Inr AnyOrigin
      else if ''*'' \<in> set allowlist
      then Inl (Message (''api.cors_allowlist wildcard '' @ quoted (CHR ''*'') @ '' must be the only entry''))
      else and_then (mapE (\<lambda>origin. if header_ok origin then Inr origin
          else Inl (Message (''invalid api.cors_allowlist origin '' @ origin))) allowlist)
        (\<lambda>origins. Inr (OriginList origins)))"

end
