(* ===== verification/Server_Main.thy ===== *)
theory Server_Main
  imports Startup_Config Manifest_Io Local_Cli Import_Export Catalog_Store Control_Api
begin

text \<open>
  The program's entry point, \<open>hop-server/src/main.rs\<close>: how the configuration, the database and the
  master key are opened, the commands, and the start of the server up to the point where the SSH
  listener and, if it is enabled, the control API run. Argument parsing (clap) and logging are not
  modelled. \<open>world\<close> is what a command finds and leaves on the machine, \<open>machine\<close> what it uses of
  other code, of the clock and of random numbers.
\<close>

section \<open>The world of a command\<close>

record world =
  wd_os :: os
  wd_exists :: "string \<Rightarrow> bool"
  wd_cwd :: "string option"
  wd_mkdir :: "string \<Rightarrow> bool"
  wd_writable :: "string \<Rightarrow> bool"
  wd_dbs :: "string \<Rightarrow> database_file option"
  wd_keys :: "string \<Rightarrow> key_file option"

record machine =
  mc_ext :: ext
  mc_net :: net
  mc_config :: config_reader
  mc_parser :: manifest_parser
  mc_glob :: globber
  mc_assets_json :: "string \<Rightarrow> string + asset_transfer_row list"
  mc_credentials_json :: "string \<Rightarrow> string + credential_transfer_row list"
  mc_now :: string
  mc_days_ago :: "nat \<Rightarrow> string"
  mc_id :: nat
  mc_id2 :: nat
  mc_nonce :: nat
  mc_fresh_key :: master_key
  mc_stdin :: "string option"

text \<open>What a command prints: text, or a value as compact or indented JSON (\<open>serde_json\<close>).\<close>

datatype catalog_output = SummaryOutput apply_summary | StatusOutput catalog_status | ValidOutput

datatype cli_output = Text string | JsonText catalog_output | PrettyJson catalog_output

section \<open>Opening\<close>

definition main_load_config :: "machine \<Rightarrow> world \<Rightarrow> string option \<Rightarrow> any_error + hop_config" where
  "main_load_config M w path =
     map_err (\<lambda>e. case path of Some p \<Rightarrow> Message (''load config '' @ p) | None \<Rightarrow> CoreError e)
       (load_config (mc_ext M) (mc_net M) (wd_os w) (mc_config M) (wd_exists w) (wd_cwd w) path)"

definition open_runtime ::
  "machine \<Rightarrow> string option \<Rightarrow> world \<Rightarrow> world \<times> (any_error + catalog \<times> hop_config \<times> master_key)" where
  "open_runtime M path w =
     (case main_load_config M w path of
        Inl e \<Rightarrow> (w, Inl e)
      | Inr c \<Rightarrow>
          if \<not> wd_mkdir w (hc_data_dir c)
          then (w, Inl (Message (''create data directory '' @ hc_data_dir c)))
          else
            (case connect (database_path c) (wd_dbs w (database_path c)) of
               (file, opened) \<Rightarrow>
                 let w1 = w\<lparr>wd_dbs := (wd_dbs w)(database_path c := file)\<rparr> in
                 (case opened of
                    Inl e \<Rightarrow> (w1, Inl (CoreError e))
                  | Inr db \<Rightarrow>
                      (case load_or_create_master_key (mc_ext M) (master_key_path c)
                          (wd_writable w (master_key_path c)) (mc_fresh_key M)
                          (wd_keys w1 (master_key_path c)) of
                         (key, loaded) \<Rightarrow>
                           let w2 = w1\<lparr>wd_keys := (wd_keys w1)(master_key_path c := key)\<rparr> in
                           (w2, and_then (core loaded) (\<lambda>master. Inr (db, c, master)))))))"

text \<open>\<open>open_catalog\<close> is the same without the configuration.\<close>

definition open_catalog ::
  "machine \<Rightarrow> string option \<Rightarrow> world \<Rightarrow> world \<times> (any_error + catalog \<times> hop_config \<times> master_key)" where
  "open_catalog M path w = open_runtime M path w"

definition open_catalog_db_read_only :: "machine \<Rightarrow> string option \<Rightarrow> world \<Rightarrow> any_error + catalog" where
  "open_catalog_db_read_only M path w =
     and_then (main_load_config M w path) (\<lambda>c.
     core (connect_read_only (database_path c) (wd_dbs w (database_path c))))"

definition open_catalog_read_only ::
  "machine \<Rightarrow> string option \<Rightarrow> world \<Rightarrow> any_error + catalog \<times> master_key" where
  "open_catalog_read_only M path w =
     and_then (main_load_config M w path) (\<lambda>c.
     and_then (core (connect_read_only (database_path c) (wd_dbs w (database_path c)))) (\<lambda>db.
     and_then (core (load_master_key (mc_ext M) (master_key_path c) (wd_keys w (master_key_path c))))
       (\<lambda>master. Inr (db, master))))"

text \<open>The database file after a command on its catalog.\<close>

definition store_catalog :: "string \<Rightarrow> catalog \<Rightarrow> world \<Rightarrow> world" where
  "store_catalog p db w =
     w\<lparr>wd_dbs := (wd_dbs w)(p := map_option (\<lambda>f. f\<lparr>df_catalog := db\<rparr>) (wd_dbs w p))\<rparr>"

section \<open>Catalog commands\<close>

definition human_summary :: "apply_summary \<Rightarrow> string" where
  "human_summary s = ''catalog revision '' @ show_int (sm_base_revision s) @ '' -> ''
     @ show_int (sm_new_revision s) @ newline
     @ ''created='' @ show_nat (sm_created s) @ newline @ ''updated='' @ show_nat (sm_updated s) @ newline
     @ ''deleted='' @ show_nat (sm_deleted s) @ newline @ ''orphaned='' @ show_nat (sm_orphaned s) @ newline
     @ ''unchanged='' @ show_nat (sm_unchanged s) @ newline"

definition print_human_catalog_output :: "catalog_output \<Rightarrow> cli_output" where
  "print_human_catalog_output v =
     (case v of
        ValidOutput \<Rightarrow> Text (''manifest valid'' @ newline)
      | SummaryOutput s \<Rightarrow> Text (human_summary s)
      | StatusOutput s \<Rightarrow> PrettyJson v)"

definition finish_catalog_result :: "catalog_error + catalog_output \<Rightarrow> bool \<Rightarrow> any_error + cli_output" where
  "finish_catalog_result result json =
     (case result of
        Inr v \<Rightarrow> Inr (if json then JsonText v else print_human_catalog_output v)
      | Inl e \<Rightarrow> Inl (CatalogError e))"

definition finish_summary :: "catalog_error + apply_summary \<Rightarrow> bool \<Rightarrow> any_error + cli_output" where
  "finish_summary result json = finish_catalog_result (and_then result (\<lambda>s. Inr (SummaryOutput s))) json"

datatype config_command =
    Validate bool
  | Diff "string list" string bool bool
  | Status bool

definition run_config_command :: "machine \<Rightarrow> string option \<Rightarrow> config_command \<Rightarrow> world \<Rightarrow> any_error + cli_output" where
  "run_config_command M path command w =
     (case command of
        Validate json \<Rightarrow>
          and_then (main_load_config M w path) (\<lambda>_.
          Inr (if json then JsonText ValidOutput else Text (''startup config valid'' @ newline)))
      | Diff files source prune json \<Rightarrow>
          (case load_manifest_scope (mc_parser M) (mc_glob M) (wd_os w) files of
             Inl e \<Rightarrow> finish_summary (Inl e) json
           | Inr m \<Rightarrow>
               and_then (open_catalog_read_only M path w) (\<lambda>(db, master).
               finish_summary (snd (diff (mc_ext M) (mc_now M) (mc_id M) (mc_nonce M) (wd_os w) master m
                 source prune db)) json))
      | Status json \<Rightarrow>
          and_then (open_catalog_db_read_only M path w) (\<lambda>db.
          finish_catalog_result (Inr (StatusOutput (status db))) json))"

text \<open>A dry run opens the catalog read-only; any other failure after opening is recorded.\<close>

definition run_apply_command ::
  "machine \<Rightarrow> string option \<Rightarrow> string list \<Rightarrow> string \<Rightarrow> apply_options \<Rightarrow> bool \<Rightarrow> world
    \<Rightarrow> world \<times> (any_error + cli_output)" where
  "run_apply_command M path files source opts json w =
     (case load_manifest_scope (mc_parser M) (mc_glob M) (wd_os w) files of
        Inl e \<Rightarrow> (w, finish_summary (Inl e) json)
      | Inr m \<Rightarrow>
          if ao_dry_run opts then
            (w, and_then (open_catalog_read_only M path w) (\<lambda>(db, master).
              finish_summary (snd (apply_manifest (mc_ext M) (mc_now M) (mc_id M) (mc_nonce M) (wd_os w)
                master m source opts db)) json))
          else
            (case open_catalog M path w of
               (w1, Inl e) \<Rightarrow> (w1, Inl e)
             | (w1, Inr (db, c, master)) \<Rightarrow>
                 (case apply_manifest (mc_ext M) (mc_now M) (mc_id M) (mc_nonce M) (wd_os w) master m
                     source opts db of
                    (db1, Inr s) \<Rightarrow> (store_catalog (database_path c) db1 w1, finish_summary (Inr s) json)
                  | (db1, Inl e) \<Rightarrow>
                      (store_catalog (database_path c)
                         (fst (record_apply_failure (mc_ext M) (mc_now M) (mc_id2 M) source ''cli'' e db1)) w1,
                       finish_summary (Inl e) json))))"

section \<open>Import and export\<close>

datatype transfer_kind = Assets | Credentials

definition export_kind_name :: "transfer_kind \<Rightarrow> string" where
  "export_kind_name kind = (case kind of Assets \<Rightarrow> ''assets'' | Credentials \<Rightarrow> ''credentials'')"

definition export_data ::
  "ext \<Rightarrow> transfer_kind \<Rightarrow> transfer_format \<Rightarrow> string option \<Rightarrow> catalog \<Rightarrow> world
    \<Rightarrow> world \<times> (any_error + cli_output)" where
  "export_data X kind format target db w =
     (case (case kind of
          Assets \<Rightarrow> and_then (core (list_assets X db)) (\<lambda>as. Inr (export_assets X as format))
        | Credentials \<Rightarrow> Inr (export_credentials X (list_credentials db) format)) of
        Inl e \<Rightarrow> (w, Inl e)
      | Inr payload \<Rightarrow>
          (case target of
             None \<Rightarrow> (w, Inr (Text payload))
           | Some p \<Rightarrow>
               if wd_writable w p
               then (w\<lparr>wd_os := (wd_os w)\<lparr>os_file := (os_file (wd_os w))(p \<mapsto> payload)\<rparr>\<rparr>,
                 Inr (Text (''exported '' @ export_kind_name kind @ '' to '' @ p @ newline)))
               else (w, Inl (Message (''write '' @ p)))))"

definition any_of_import :: "import_error \<Rightarrow> any_error" where
  "any_of_import e = (case e of BadInput m \<Rightarrow> Message m | CatalogFailed h \<Rightarrow> CoreError h)"

definition import_report :: "import_summary \<Rightarrow> any_error + cli_output" where
  "import_report s =
     (if is_errors s \<noteq> []
      then Inl (Message (''import completed with '' @ show_nat (length (is_errors s)) @ '' error(s)''))
      else Inr (Text (''imported='' @ show_nat (is_imported s) @ '' skipped='' @ show_nat (is_skipped s)
        @ '' overwritten='' @ show_nat (is_overwritten s) @ '' errors='' @ show_nat (length (is_errors s))
        @ newline)))"

definition import_data ::
  "machine \<Rightarrow> transfer_kind \<Rightarrow> string \<Rightarrow> transfer_format option \<Rightarrow> conflict_policy \<Rightarrow> os \<Rightarrow> catalog
    \<Rightarrow> catalog \<times> (any_error + cli_output)" where
  "import_data M kind file format policy w db =
     (case and_then (ok_or (case format of Some f \<Rightarrow> Some f | None \<Rightarrow> format_from_path (path_extension file))
          (Message ''cannot infer import format from file extension; pass --format'')) (\<lambda>f.
        and_then (read_to_string w file) (\<lambda>payload. Inr (f, payload))) of
        Inl e \<Rightarrow> (db, Inl e)
      | Inr (f, payload) \<Rightarrow>
          (case (case kind of
               Assets \<Rightarrow> import_assets (mc_ext M) (mc_assets_json M) (mc_now M) (mc_id M) payload f policy db
             | Credentials \<Rightarrow> import_credentials (mc_credentials_json M) (mc_now M) payload f policy db) of
             (db', r) \<Rightarrow> (db', and_then (map_err any_of_import r) import_report)))"

section \<open>Secrets on standard input\<close>

definition line_end :: "char \<Rightarrow> bool" where
  "line_end c \<longleftrightarrow> c = CHR 0x0D \<or> c = CHR 0x0A"

definition normalize_stdin_secret :: "string \<Rightarrow> string" where
  "normalize_stdin_secret value = rev (dropWhile line_end (rev value))"

definition read_stdin_secret_arg :: "string option \<Rightarrow> string option \<Rightarrow> bool \<Rightarrow> any_error + string option" where
  "read_stdin_secret_arg stdin value read_stdin =
     (if \<not> read_stdin then Inr value
      else and_then (ok_or stdin (Message ''read --password-stdin''))
        (\<lambda>raw. Inr (Some (normalize_stdin_secret raw))))"

section \<open>Commands on the local catalog\<close>

datatype local_command =
    KeyAdd string "string option" "string option"
  | KeyList
  | KeyDeactivate string
  | KeyActivate string
  | KeyAccessShow string
  | KeyAccessSet string asset_access_mode "string list"
  | CredentialAdd string string auth_type "string option" bool "string option" "string option"
  | CredentialList
  | CredentialDelete string
  | AssetAdd new_asset
  | AssetList
  | AssetDelete string
  | Export transfer_kind transfer_format "string option"
  | Import transfer_kind string "transfer_format option" conflict_policy

definition printed :: "catalog \<times> (any_error + string) \<Rightarrow> world \<Rightarrow> (catalog \<times> world) \<times> (any_error + cli_output)" where
  "printed r w = (case r of (db, x) \<Rightarrow> ((db, w), and_then x (\<lambda>s. Inr (Text s))))"

fun run_local ::
  "machine \<Rightarrow> master_key \<Rightarrow> local_command \<Rightarrow> catalog \<Rightarrow> world
    \<Rightarrow> (catalog \<times> world) \<times> (any_error + cli_output)" where
  "run_local M master (KeyAdd name key file) db w =
     printed (cli_add_key (mc_ext M) (mc_now M) (mc_id M) (wd_os w) name key file db) w"
| "run_local M master KeyList db w = printed (db, cli_list_keys db) w"
| "run_local M master (KeyDeactivate i) db w = printed (cli_set_key_active (mc_now M) i False db) w"
| "run_local M master (KeyActivate i) db w = printed (cli_set_key_active (mc_now M) i True db) w"
| "run_local M master (KeyAccessShow i) db w = printed (db, format_key_access (mc_ext M) i db) w"
| "run_local M master (KeyAccessSet i mode ids) db w =
     printed (cli_set_key_access (mc_now M) i mode ids db) w"
| "run_local M master (CredentialAdd name user t password from_stdin file passphrase) db w =
     (case read_stdin_secret_arg (mc_stdin M) password from_stdin of
        Inl e \<Rightarrow> ((db, w), Inl e)
      | Inr pw \<Rightarrow> printed (cli_add_credential (mc_ext M) (mc_now M) (mc_id M) (mc_nonce M) (wd_os w)
          master name user t pw file passphrase db) w)"
| "run_local M master CredentialList db w = printed (db, Inr (cli_list_credentials db)) w"
| "run_local M master (CredentialDelete i) db w = printed (cli_delete_credential i db) w"
| "run_local M master (AssetAdd a) db w = printed (cli_add_asset (mc_ext M) (mc_now M) (mc_id M) a db) w"
| "run_local M master AssetList db w = printed (db, cli_list_assets (mc_ext M) db) w"
| "run_local M master (AssetDelete i) db w = printed (cli_delete_asset i db) w"
| "run_local M master (Export kind format target) db w =
     (case export_data (mc_ext M) kind format target db w of (w', r) \<Rightarrow> ((db, w'), r))"
| "run_local M master (Import kind file format policy) db w =
     (case import_data M kind file format policy (wd_os w) db of (db', r) \<Rightarrow> ((db', w), r))"

definition run_local_command ::
  "machine \<Rightarrow> string option \<Rightarrow> local_command \<Rightarrow> world \<Rightarrow> world \<times> (any_error + cli_output)" where
  "run_local_command M path command w =
     (case open_runtime M path w of
        (w1, Inl e) \<Rightarrow> (w1, Inl e)
      | (w1, Inr (db, c, master)) \<Rightarrow>
          (case run_local M master command db w1 of
             ((db', w2), r) \<Rightarrow> (store_catalog (database_path c) db' w2, r)))"

section \<open>Starting the server\<close>

definition startup_source :: string where
  "startup_source = ''startup-config''"

definition apply_startup_resources ::
  "machine \<Rightarrow> os \<Rightarrow> master_key \<Rightarrow> hop_config \<Rightarrow> catalog \<Rightarrow> catalog \<times> (any_error + apply_summary)" where
  "apply_startup_resources M w master c db =
     (case apply_manifest (mc_ext M) (mc_now M) (mc_id M) (mc_nonce M) w master (startup_manifest c)
         startup_source \<lparr>ao_base_revision = None, ao_prune = True, ao_dry_run = False\<rparr> db of
        (db', r) \<Rightarrow> (db', map_err (\<lambda>e. Message (''startup config apply failed: '' @ error_code_str (ce_code e) @ '': '' @ ce_message e)) r))"

text \<open>The bearer token the API starts with, if it starts.\<close>

definition api_token :: "hop_config \<Rightarrow> string option" where
  "api_token c =
     (if ac_enabled (hc_api c)
      then (case ac_token (hc_api c) of
          Some t \<Rightarrow> if secret_is_empty t then None else Some t
        | None \<Rightarrow> None)
      else None)"

text \<open>The listeners that \<open>serve\<close> starts: the SSH address, and the API's address, state and origins.\<close>

record listeners =
  ls_ssh :: "string \<times> u16"
  ls_api :: "((string \<times> u16) \<times> api_state \<times> string list) option"
  ls_summary :: apply_summary
  ls_pruned :: nat

definition start_api :: "machine \<Rightarrow> hop_config \<Rightarrow> master_key
    \<Rightarrow> any_error + ((string \<times> u16) \<times> api_state \<times> string list) option" where
  "start_api M c master =
     (case api_token c of
        None \<Rightarrow> Inr None
      | Some token \<Rightarrow>
          and_then (core (api_bind_addr (mc_net M) c)) (\<lambda>bind.
          and_then (new_api_state (mc_ext M) master token) (\<lambda>st.
          Inr (Some (bind, st, ac_cors_allowlist (hc_api c))))))"

definition serve :: "machine \<Rightarrow> string option \<Rightarrow> world \<Rightarrow> world \<times> (any_error + listeners)" where
  "serve M path w =
     (case open_runtime M path w of
        (w1, Inl e) \<Rightarrow> (w1, Inl e)
      | (w1, Inr (db, c, master)) \<Rightarrow>
          (case and_then (core (ssh_bind_addr (mc_net M) c)) (\<lambda>bind.
              and_then (if ac_enabled (hc_api c)
                  then and_then (core (api_bind_addr (mc_net M) c)) (\<lambda>_. Inr ()) else Inr ()) (\<lambda>_.
              if wd_mkdir w1 (rt_temp_dir (hc_runtime c)) then Inr bind
              else Inl (Message (''create runtime temp directory '' @ rt_temp_dir (hc_runtime c))))) of
             Inl e \<Rightarrow> (w1, Inl e)
           | Inr bind \<Rightarrow>
               (case prune_finished_sessions (mc_days_ago M)
                   (unat (rt_session_retention_days (hc_runtime c))) db of
                  (db1, Inl _) \<Rightarrow> (store_catalog (database_path c) db1 w1,
                    Inl (Message ''apply runtime session retention''))
                | (db1, Inr pruned) \<Rightarrow>
                    (case apply_startup_resources M (wd_os w1) master c db1 of
                       (db2, Inl e) \<Rightarrow> (store_catalog (database_path c) db2 w1, Inl e)
                     | (db2, Inr s) \<Rightarrow>
                         (store_catalog (database_path c) db2 w1,
                          and_then (start_api M c master) (\<lambda>api.
                          Inr \<lparr>ls_ssh = bind, ls_api = api, ls_summary = s, ls_pruned = pruned\<rparr>))))))"

end
