(* ===== verification/Startup_Config_Facts.thy ===== *)
theory Startup_Config_Facts
  imports Startup_Config Apply_Settled Manifest_Facts
begin

text \<open>
  What the checks of a startup configuration amount to: a description of the accepted configurations
  by their own fields, without the manifest they are turned into.
\<close>

section \<open>Resolving a whole section\<close>

lemma resolve_all_result:
  assumes "foldE (\<lambda>acc (name, spec). let path = kind @ ''.'' @ name in
       and_then (validate_name name path) (\<lambda>_.
       and_then (f spec path) (\<lambda>r. Inr (bt_insert name r acc)))) acc specs = Inr m"
    and "bt_ok acc" and "distinct (map fst specs)"
  shows "bt_get m n = Some v \<longleftrightarrow> (\<exists>s. (n, s) \<in> set specs \<and> f s (kind @ ''.'' @ n) = Inr v)
    \<or> (n \<notin> fst ` set specs \<and> bt_get acc n = Some v)"
  using assms
proof (induction specs arbitrary: acc)
  case (Cons entry specs)
  obtain name spec where e: "entry = (name, spec)" by (cases entry)
  from Cons.prems(1) obtain r where r: "f spec (kind @ ''.'' @ name) = Inr r"
    and rest: "foldE (\<lambda>acc (name, spec). let path = kind @ ''.'' @ name in
       and_then (validate_name name path) (\<lambda>_.
       and_then (f spec path) (\<lambda>r. Inr (bt_insert name r acc)))) (bt_insert name r acc) specs = Inr m"
    by (auto simp: e Let_def and_then_Inr)
  have new: "name \<notin> fst ` set specs" "distinct (map fst specs)" using Cons.prems(3) by (auto simp: e)
  note IH = Cons.IH [OF rest bt_ok_insert [OF Cons.prems(2)] new(2)]
  show ?case
  proof (cases "n = name")
    case True
    have "\<not> (\<exists>s. (n, s) \<in> set specs)" using new(1) True by force
    then show ?thesis
      unfolding IH using True new(1) r by (auto simp: e bt_get_insert [OF Cons.prems(2)])
  next
    case False
    then show ?thesis
      unfolding IH by (auto simp: e bt_get_insert [OF Cons.prems(2)])
  qed
qed simp

lemma foldE_total_iff:
  assumes "\<And>s x. (\<exists>s'. f s x = Inr s') \<longleftrightarrow> p x"
  shows "(\<exists>s'. foldE f s xs = Inr s') \<longleftrightarrow> (\<forall>x \<in> set xs. p x)"
proof (induction xs arbitrary: s)
  case (Cons x xs)
  have "(\<exists>s'. foldE f s (x # xs) = Inr s') \<longleftrightarrow> (\<exists>t. f s x = Inr t \<and> (\<exists>s'. foldE f t xs = Inr s'))"
    by (auto simp: and_then_Inr)
  also have "\<dots> \<longleftrightarrow> p x \<and> (\<forall>x \<in> set xs. p x)" unfolding Cons.IH using assms [of s x] by auto
  finally show ?case by simp
qed simp

lemma resolve_all_total:
  "(\<exists>m. foldE (\<lambda>acc (name, spec). let path = kind @ ''.'' @ name in
       and_then (validate_name name path) (\<lambda>_.
       and_then (f spec path) (\<lambda>r. Inr (bt_insert name r acc)))) acc specs = Inr m)
   \<longleftrightarrow> (\<forall>(n, s) \<in> set specs. validate_name n [] = Inr () \<and> (\<exists>v. f s (kind @ ''.'' @ n) = Inr v))"
  by (rule foldE_total_iff) (auto simp: Let_def and_then_Inr validate_name_Inr)

lemma resolve_all_iff:
  "(\<exists>m. resolve_all kind f specs = Inr m)
   \<longleftrightarrow> (\<forall>(n, s) \<in> set specs. validate_name n [] = Inr () \<and> (\<exists>v. f s (kind @ ''.'' @ n) = Inr v))"
  unfolding resolve_all_def by (rule resolve_all_total)

lemma resolve_all_get:
  assumes "resolve_all kind f specs = Inr m" and "bt_ok specs"
  shows "bt_get m n = Some v \<longleftrightarrow> (\<exists>s. (n, s) \<in> set specs \<and> f s (kind @ ''.'' @ n) = Inr v)"
  using resolve_all_result [OF assms(1) [unfolded resolve_all_def] bt_ok_Nil bt_ok_distinct [OF assms(2)], of n v]
  by (simp add: bt_get_def)

lemma resolve_all_in:
  assumes "resolve_all kind f specs = Inr m" and "bt_ok specs"
  shows "(n, v) \<in> set m \<longleftrightarrow> (\<exists>s. (n, s) \<in> set specs \<and> f s (kind @ ''.'' @ n) = Inr v)"
  using resolve_all_get [OF assms] bt_get_in_set [OF resolve_all_ok [OF assms(1)]] by metis

lemma in_bt_map: "(n, v) \<in> set (bt_map g m) \<longleftrightarrow> (\<exists>x. (n, x) \<in> set m \<and> v = g x)"
  by (auto simp: bt_map_def)

lemma set_bt_map: "set (bt_map g m) = (\<lambda>(n, x). (n, g x)) ` set m"
  by (simp add: bt_map_def)

lemma normalize_assets_iff:
  "normalize_assets path names = Inr ys \<longleftrightarrow>
    ys = names \<and> distinct names \<and> (\<forall>a \<in> set names. validate_name a [] = Inr ())"
proof
  assume *: "ys = names \<and> distinct names \<and> (\<forall>a \<in> set names. validate_name a [] = Inr ())"
  have "foldE (\<lambda>normalized (index, name).
       and_then (validate_name name (path @ ''.assets.'' @ show_nat index)) (\<lambda>_.
       if name \<in> set normalized
       then Inl (mk_error DuplicateResource (Some (path @ ''.assets.'' @ show_nat index))
              ''asset appears more than once in the allowlist'')
       else Inr (normalized @ [name]))) acc (List.enumerate k names) = Inr (acc @ names)"
    if "distinct (acc @ names)" "\<forall>a \<in> set names. validate_name a [] = Inr ()" for acc k names
    using that
  proof (induction names arbitrary: acc k)
    case (Cons a names)
    have "validate_name a (path @ ''.assets.'' @ show_nat k) = Inr ()"
      using Cons.prems(2) validate_name_path [of a _ "[]"] by simp
    with Cons show ?case by simp
  qed simp
  from this [of "[]" names 0] * show "normalize_assets path names = Inr ys"
    by (simp add: normalize_assets_def)
qed (rule normalize_assets_Inr)

section \<open>Accepted entries\<close>

definition name_ok :: "string \<Rightarrow> bool" where
  "name_ok n \<longleftrightarrow> validate_name n [] = Inr ()"

definition credential_entry_ok :: "ext \<Rightarrow> startup_credential \<Rightarrow> bool" where
  "credential_entry_ok X c \<longleftrightarrow> trim (uc_username c) \<noteq> []
     \<and> (case (uc_password c, uc_private_key c) of
          (Some p, None) \<Rightarrow> p \<noteq> [] \<and> uc_passphrase c = None
        | (None, Some k) \<Rightarrow> secret_key_ok X k (uc_passphrase c)
        | _ \<Rightarrow> False)"

definition asset_entry_ok :: "string set \<Rightarrow> startup_asset \<Rightarrow> bool" where
  "asset_entry_ok credentials a \<longleftrightarrow> trim (ua_host a) \<noteq> [] \<and> ua_port a \<noteq> Some 0
     \<and> (ua_type a = Some Tcp \<longrightarrow> ua_port a \<noteq> None \<and> ua_credential a = None)
     \<and> (case ua_credential a of None \<Rightarrow> True | Some n \<Rightarrow> n \<in> credentials)"

definition key_text :: "os \<Rightarrow> startup_access_key \<Rightarrow> string option" where
  "key_text w k = (case (uk_public_key k, uk_public_key_file k) of
     (Some v, None) \<Rightarrow> Some v | (None, Some path) \<Rightarrow> os_file w path | _ \<Rightarrow> None)"

definition key_entry_ok :: "ext \<Rightarrow> os \<Rightarrow> string set \<Rightarrow> startup_access_key \<Rightarrow> bool" where
  "key_entry_ok X w assets k \<longleftrightarrow>
     (case key_text w k of None \<Rightarrow> False | Some t \<Rightarrow> \<not> isl (parse_public_key X t []))
     \<and> (case uk_assets k of None \<Rightarrow> True | Some xs \<Rightarrow> distinct xs \<and> set xs \<subseteq> assets)"

definition resources_ok :: "ext \<Rightarrow> os \<Rightarrow> hop_config \<Rightarrow> bool" where
  "resources_ok X w c \<longleftrightarrow>
     (\<forall>(n, e) \<in> set (hc_credentials c). name_ok n \<and> credential_entry_ok X e)
     \<and> (\<forall>(n, e) \<in> set (hc_assets c). name_ok n \<and> asset_entry_ok (fst ` set (hc_credentials c)) e)
     \<and> (\<forall>(n, e) \<in> set (hc_access_keys c). name_ok n \<and> key_entry_ok X w (fst ` set (hc_assets c)) e)"

lemma resolve_credential_entry:
  assumes "check_startup_credential (n, c) = Inr ()"
  shows "(\<exists>v. resolve_credential X w (startup_credential_spec c) path = Inr v) \<longleftrightarrow> credential_entry_ok X c"
  using assms
  by (cases "uc_password c"; cases "uc_private_key c")
    (auto simp: check_startup_credential_def resolve_credential_def startup_credential_spec_def
      and_then_Inr ok_or_Inr required_text_Inr read_secret_def secret_inline_def opt_mapE_def
      credential_entry_ok_def split: option.splits if_splits)

lemma credential_entry_checked: "credential_entry_ok X c \<Longrightarrow> check_startup_credential (n, c) = Inr ()"
  by (auto simp: check_startup_credential_def credential_entry_ok_def split: option.splits)

lemma asset_entry_checked: "asset_entry_ok C a \<Longrightarrow> check_startup_asset (n, a) = Inr ()"
  by (auto simp: check_startup_asset_def asset_entry_ok_def)

lemma key_entry_checked: "key_entry_ok X w C k \<Longrightarrow> check_startup_access_key (n, k) = Inr ()"
  by (auto simp: check_startup_access_key_def key_entry_ok_def key_text_def split: option.splits)

lemma resolved_credential_present:
  "resolve_credential X w (startup_credential_spec c) path = Inr v \<Longrightarrow> v \<noteq> AbsentCredential"
  by (auto simp: resolve_credential_def startup_credential_spec_def and_then_Inr split: credential_type.splits if_splits)

lemma name_path: "validate_name n path = Inr () \<longleftrightarrow> name_ok n"
  unfolding name_ok_def by (rule validate_name_path)

lemma resolve_asset_entry:
  "(\<exists>v. resolve_asset (startup_asset_spec a) path = Inr v) \<longleftrightarrow>
    trim (ua_host a) \<noteq> [] \<and> ua_port a \<noteq> Some 0 \<and> \<not> (ua_type a = Some Tcp \<and> ua_credential a \<noteq> None)
    \<and> (\<forall>n. ua_credential a = Some n \<longrightarrow> name_ok n)"
  by (auto simp: resolve_asset_def startup_asset_spec_def and_then_Inr ok_or_Inr required_text_Inr
      optional_name_def opt_mapE_def name_path word_neq_0_conv split: option.splits if_splits)

lemma resolved_asset_entry:
  assumes "resolve_asset (startup_asset_spec a) path = Inr v"
  shows "v \<noteq> AbsentAsset" and "(\<exists>x1 x2 x3 x4 x5. v = PresentAsset x1 x2 x3 x4 x5 (Some n)) \<longleftrightarrow> ua_credential a = Some n"
  using assms
  by (auto simp: resolve_asset_def startup_asset_spec_def and_then_Inr optional_name_def opt_mapE_def
      split: option.splits if_splits)

lemma parse_public_key_path: "isl (parse_public_key X t p) \<longleftrightarrow> isl (parse_public_key X t q)"
  by (auto simp: parse_public_key_def and_then_def ok_or_def Let_def split: list.splits option.splits sum.splits)

lemma not_isl_pair: "\<not> isl r \<longleftrightarrow> (\<exists>a b. r = Inr (a, b))"
  by (cases r) auto

lemma resolve_access_entry:
  assumes "check_startup_access_key (m, k) = Inr ()"
  shows "(\<exists>v. resolve_access X w (startup_access_spec k) path = Inr v) \<longleftrightarrow>
    (\<exists>t. key_text w k = Some t \<and> \<not> isl (parse_public_key X t []))
    \<and> (\<forall>xs. uk_assets k = Some xs \<longrightarrow> distinct xs \<and> (\<forall>a \<in> set xs. name_ok a))"
proof -
  have "(\<exists>v. resolve_access X w (startup_access_spec k) path = Inr v) \<longleftrightarrow>
    (\<exists>t. key_text w k = Some t \<and> \<not> isl (parse_public_key X t (path @ ''.public_key'')))
    \<and> (\<forall>xs. uk_assets k = Some xs \<longrightarrow> distinct xs \<and> (\<forall>a \<in> set xs. name_ok a))"
    using assms
    by (cases "uk_public_key k"; cases "uk_public_key_file k")
      (auto simp: check_startup_access_key_def resolve_access_def startup_access_spec_def
        and_then_Inr ok_or_Inr read_secret_def secret_inline_def secret_file_def opt_mapE_def
        normalize_assets_iff key_text_def name_ok_def not_isl_pair split: option.splits)
  then show ?thesis using parse_public_key_path [of X _ "path @ ''.public_key''" "[]"] by simp
qed

lemma resolved_access_entry:
  assumes "resolve_access X w (startup_access_spec k) path = Inr v"
  shows "(\<exists>x1 x2 x3. v = PresentAccess x1 x2 x3 (Some xs)) \<longleftrightarrow> uk_assets k = Some xs"
  using assms
  by (auto simp: resolve_access_def startup_access_spec_def and_then_Inr opt_mapE_def
      normalize_assets_iff split: option.splits prod.splits)

section \<open>Accepted configurations\<close>

lemma resolve_map_in:
  assumes "resolve_all kind f (bt_map g m) = Inr r" and "bt_ok m"
  shows "(n, v) \<in> set r \<longleftrightarrow> (\<exists>x. (n, x) \<in> set m \<and> f (g x) (kind @ ''.'' @ n) = Inr v)"
  using resolve_all_in [OF assms(1)] assms(2) by (auto simp: in_bt_map)

lemma resolve_map_from:
  assumes "resolve_all kind f (bt_map g m) = Inr r" and "bt_ok m" and "(n, x) \<in> set m"
  shows "\<exists>v. (n, v) \<in> set r \<and> f (g x) (kind @ ''.'' @ n) = Inr v"
proof -
  have "(n, g x) \<in> set (bt_map g m)" using assms(3) by (auto simp: in_bt_map)
  with resolve_all_iff [THEN iffD1, OF exI, OF assms(1)]
  obtain v where v: "f (g x) (kind @ ''.'' @ n) = Inr v" by blast
  with assms(3) have "(n, v) \<in> set r" unfolding resolve_map_in [OF assms(1,2)] by blast
  with v show ?thesis by blast
qed

lemma resolve_map_present:
  assumes "resolve_all kind f (bt_map g m) = Inr r" and "bt_ok m"
    and "\<And>x path v. f (g x) path = Inr v \<Longrightarrow> v \<noteq> d"
  shows "(\<exists>v. bt_get r n = Some v \<and> v \<noteq> d) \<longleftrightarrow> n \<in> fst ` set m"
proof -
  have "(\<exists>v. bt_get r n = Some v \<and> v \<noteq> d) \<longleftrightarrow> (\<exists>v. (n, v) \<in> set r \<and> v \<noteq> d)"
    using bt_get_in_set [OF resolve_all_ok [OF assms(1)]] by blast
  also have "\<dots> \<longleftrightarrow> (\<exists>x. (n, x) \<in> set m)"
    using resolve_map_in [OF assms(1,2)] resolve_map_from [OF assms(1,2)] assms(3) by meson
  finally show ?thesis by force
qed

lemma resolve_map_which:
  assumes "resolve_all kind f (bt_map g m) = Inr r" and "bt_ok m"
    and "\<And>x path v. f (g x) path = Inr v \<Longrightarrow> P v \<longleftrightarrow> Q x"
  shows "(\<exists>n v. (n, v) \<in> set r \<and> P v) \<longleftrightarrow> (\<exists>n x. (n, x) \<in> set m \<and> Q x)"
  using resolve_map_in [OF assms(1,2)] resolve_map_from [OF assms(1,2)] assms(3) by meson

text \<open>The resolved sections of a configuration whose entries have the right shape.\<close>

lemma resolved_sections:
  assumes "bt_ok (hc_credentials c)" "bt_ok (hc_assets c)" "bt_ok (hc_access_keys c)"
    and "resolve_material X w (startup_manifest c) = Inr r"
  shows "(\<exists>v. bt_get (r_credentials r) n = Some v \<and> v \<noteq> AbsentCredential)
      \<longleftrightarrow> n \<in> fst ` set (hc_credentials c)"
    and "(\<exists>v. bt_get (r_assets r) n = Some v \<and> v \<noteq> AbsentAsset) \<longleftrightarrow> n \<in> fst ` set (hc_assets c)"
    and "(\<exists>m x1 x2 x3 x4 x5. (m, PresentAsset x1 x2 x3 x4 x5 (Some n)) \<in> set (r_assets r))
      \<longleftrightarrow> (\<exists>m a. (m, a) \<in> set (hc_assets c) \<and> ua_credential a = Some n)"
    and "(\<exists>m x1 x2 x3. (m, PresentAccess x1 x2 x3 (Some xs)) \<in> set (r_access r))
      \<longleftrightarrow> (\<exists>m k. (m, k) \<in> set (hc_access_keys c) \<and> uk_assets k = Some xs)"
proof -
  from assms(4) have cs: "resolve_all ''credentials'' (resolve_credential X w)
        (bt_map startup_credential_spec (hc_credentials c)) = Inr (r_credentials r)"
    and as: "resolve_all ''assets'' resolve_asset (bt_map startup_asset_spec (hc_assets c)) = Inr (r_assets r)"
    and xs: "resolve_all ''access'' (resolve_access X w)
        (bt_map startup_access_spec (hc_access_keys c)) = Inr (r_access r)"
    by (auto simp: resolve_material_def and_then_Inr startup_manifest_def)
  show "(\<exists>v. bt_get (r_credentials r) n = Some v \<and> v \<noteq> AbsentCredential)
      \<longleftrightarrow> n \<in> fst ` set (hc_credentials c)"
    by (rule resolve_map_present [OF cs assms(1) resolved_credential_present])
  show "(\<exists>v. bt_get (r_assets r) n = Some v \<and> v \<noteq> AbsentAsset) \<longleftrightarrow> n \<in> fst ` set (hc_assets c)"
    by (rule resolve_map_present [OF as assms(2) resolved_asset_entry(1)])
  have "(\<exists>m v. (m, v) \<in> set (r_assets r) \<and> (\<exists>x1 x2 x3 x4 x5. v = PresentAsset x1 x2 x3 x4 x5 (Some n)))
      \<longleftrightarrow> (\<exists>m a. (m, a) \<in> set (hc_assets c) \<and> ua_credential a = Some n)"
    by (rule resolve_map_which [OF as assms(2)]) (rule resolved_asset_entry(2))
  then show "(\<exists>m x1 x2 x3 x4 x5. (m, PresentAsset x1 x2 x3 x4 x5 (Some n)) \<in> set (r_assets r))
      \<longleftrightarrow> (\<exists>m a. (m, a) \<in> set (hc_assets c) \<and> ua_credential a = Some n)" by blast
  have "(\<exists>m v. (m, v) \<in> set (r_access r) \<and> (\<exists>x1 x2 x3. v = PresentAccess x1 x2 x3 (Some xs)))
      \<longleftrightarrow> (\<exists>m k. (m, k) \<in> set (hc_access_keys c) \<and> uk_assets k = Some xs)"
    by (rule resolve_map_which [OF xs assms(3)]) (rule resolved_access_entry)
  then show "(\<exists>m x1 x2 x3. (m, PresentAccess x1 x2 x3 (Some xs)) \<in> set (r_access r))
      \<longleftrightarrow> (\<exists>m k. (m, k) \<in> set (hc_access_keys c) \<and> uk_assets k = Some xs)" by blast
qed

text \<open>An entry resolves and its references are known exactly if the entry is accepted.\<close>

lemma asset_entry_iff:
  assumes "check_startup_asset (m, a) = Inr ()" and "\<forall>n \<in> C. name_ok n"
  shows "(\<exists>v. resolve_asset (startup_asset_spec a) path = Inr v) \<and> (\<forall>n. ua_credential a = Some n \<longrightarrow> n \<in> C)
    \<longleftrightarrow> asset_entry_ok C a"
  using assms unfolding resolve_asset_entry asset_entry_ok_def
  by (auto simp: check_startup_asset_def split: option.splits if_splits)

lemma key_entry_iff:
  assumes "check_startup_access_key (m, k) = Inr ()" and "\<forall>n \<in> C. name_ok n"
  shows "(\<exists>v. resolve_access X w (startup_access_spec k) path = Inr v)
      \<and> (\<forall>xs. uk_assets k = Some xs \<longrightarrow> set xs \<subseteq> C)
    \<longleftrightarrow> key_entry_ok X w C k"
  using assms(2) unfolding resolve_access_entry [OF assms(1)] key_entry_ok_def
  by (auto split: option.splits)

lemma resolve_material_startup:
  "(\<exists>r. resolve_material X w (startup_manifest c) = Inr r) \<longleftrightarrow>
     (\<forall>(n, e) \<in> set (hc_credentials c). name_ok n
        \<and> (\<exists>v. resolve_credential X w (startup_credential_spec e) (''credentials'' @ ''.'' @ n) = Inr v))
     \<and> (\<forall>(n, e) \<in> set (hc_assets c). name_ok n
        \<and> (\<exists>v. resolve_asset (startup_asset_spec e) (''assets'' @ ''.'' @ n) = Inr v))
     \<and> (\<forall>(n, e) \<in> set (hc_access_keys c). name_ok n
        \<and> (\<exists>v. resolve_access X w (startup_access_spec e) (''access'' @ ''.'' @ n) = Inr v))"
proof -
  have m: "(\<exists>r. resolve_all kind f (bt_map g t) = Inr r) \<longleftrightarrow>
      (\<forall>(n, e) \<in> set t. name_ok n \<and> (\<exists>v. f (g e) (kind @ ''.'' @ n) = Inr v))" for kind f g t
    unfolding resolve_all_iff name_ok_def set_bt_map by (simp add: case_prod_beta)
  show ?thesis
    unfolding m [symmetric] by (auto simp: resolve_material_def startup_manifest_def check_api_version_def and_then_Inr)
qed

lemma validate_startup_manifest:
  assumes "bt_ok (hc_credentials c)" "bt_ok (hc_assets c)" "bt_ok (hc_access_keys c)"
    and cr: "\<forall>e \<in> set (hc_credentials c). check_startup_credential e = Inr ()"
    and as: "\<forall>e \<in> set (hc_assets c). check_startup_asset e = Inr ()"
    and ac: "\<forall>e \<in> set (hc_access_keys c). check_startup_access_key e = Inr ()"
  shows "validate_offline X w (startup_manifest c) = Inr () \<longleftrightarrow> resources_ok X w c"
proof -
  let ?refs = "(\<forall>m a n. (m, a) \<in> set (hc_assets c) \<longrightarrow> ua_credential a = Some n
        \<longrightarrow> n \<in> fst ` set (hc_credentials c))
      \<and> (\<forall>m k xs. (m, k) \<in> set (hc_access_keys c) \<longrightarrow> uk_assets k = Some xs
        \<longrightarrow> set xs \<subseteq> fst ` set (hc_assets c))"
  have refs: "references_known r False {} {} \<longleftrightarrow> ?refs"
    if "resolve_material X w (startup_manifest c) = Inr r" for r
  proof -
    note sections = resolved_sections [OF assms(1-3) that]
    have "references_known r False {} {} \<longleftrightarrow>
       (\<forall>n. (\<exists>m x1 x2 x3 x4 x5. (m, PresentAsset x1 x2 x3 x4 x5 (Some n)) \<in> set (r_assets r))
          \<longrightarrow> n \<in> fst ` set (hc_credentials c))
       \<and> (\<forall>xs. (\<exists>m x1 x2 x3. (m, PresentAccess x1 x2 x3 (Some xs)) \<in> set (r_access r))
          \<longrightarrow> set xs \<subseteq> fst ` set (hc_assets c))"
      unfolding references_known_def known_offline [OF that] sections(1,2) by blast
    also have "\<dots> \<longleftrightarrow> ?refs" unfolding sections(3,4) by blast
    finally show ?thesis .
  qed
  have "validate_offline X w (startup_manifest c) = Inr () \<longleftrightarrow>
      (\<exists>r. resolve_material X w (startup_manifest c) = Inr r) \<and> ?refs"
  proof (cases "resolve_material X w (startup_manifest c)")
    case (Inr r)
    with refs [OF Inr] show ?thesis by (simp add: validate_offline_def validate_references_Inr)
  qed (simp add: validate_offline_def)
  also have "\<dots> \<longleftrightarrow> resources_ok X w c"
  proof -
    have 1: "(\<exists>v. resolve_credential X w (startup_credential_spec e) path = Inr v) \<longleftrightarrow> credential_entry_ok X e"
      if "(n, e) \<in> set (hc_credentials c)" for n e path
      using cr that by (intro resolve_credential_entry) blast
    have 2: "(\<exists>v. resolve_asset (startup_asset_spec e) path = Inr v)
        \<and> (\<forall>n. ua_credential e = Some n \<longrightarrow> n \<in> C) \<longleftrightarrow> asset_entry_ok C e"
      if "(n, e) \<in> set (hc_assets c)" "\<forall>n \<in> C. name_ok n" for n e path C
      using as that by (intro asset_entry_iff) blast+
    have 3: "(\<exists>v. resolve_access X w (startup_access_spec e) path = Inr v)
        \<and> (\<forall>xs. uk_assets e = Some xs \<longrightarrow> set xs \<subseteq> C) \<longleftrightarrow> key_entry_ok X w C e"
      if "(n, e) \<in> set (hc_access_keys c)" "\<forall>n \<in> C. name_ok n" for n e path C
      using ac that by (intro key_entry_iff) blast+
    show ?thesis
    proof
      assume l: "(\<exists>r. resolve_material X w (startup_manifest c) = Inr r) \<and> ?refs"
      note l1 = conjunct1 [OF l, unfolded resolve_material_startup] and l2 = conjunct2 [OF l]
      have n: "\<forall>n \<in> fst ` set (hc_credentials c). name_ok n" "\<forall>n \<in> fst ` set (hc_assets c). name_ok n"
        using l1 by auto
      have "name_ok m \<and> credential_entry_ok X e" if "(m, e) \<in> set (hc_credentials c)" for m e
        using 1 [OF that] l1 that by blast
      moreover have "name_ok m \<and> asset_entry_ok (fst ` set (hc_credentials c)) e"
        if "(m, e) \<in> set (hc_assets c)" for m e
        using 2 [OF that n(1)] l1 l2 that by blast
      moreover have "name_ok m \<and> key_entry_ok X w (fst ` set (hc_assets c)) e"
        if "(m, e) \<in> set (hc_access_keys c)" for m e
      proof -
        from l1 that have "name_ok m" and v: "\<exists>v. resolve_access X w (startup_access_spec e) (''access'' @ ''.'' @ m) = Inr v"
          by blast+
        moreover have "\<forall>xs. uk_assets e = Some xs \<longrightarrow> set xs \<subseteq> fst ` set (hc_assets c)"
          using l2 that by blast
        ultimately show ?thesis using 3 [OF that n(2)] by blast
      qed
      ultimately show "resources_ok X w c" unfolding resources_ok_def by blast
    next
      assume r: "resources_ok X w c"
      then have n: "\<forall>n \<in> fst ` set (hc_credentials c). name_ok n" "\<forall>n \<in> fst ` set (hc_assets c). name_ok n"
        by (auto simp: resources_ok_def)
      have c1: "name_ok m \<and> (\<exists>v. resolve_credential X w (startup_credential_spec e) path = Inr v)"
        if "(m, e) \<in> set (hc_credentials c)" for m e path
        using 1 [OF that] r that unfolding resources_ok_def by blast
      have c2: "name_ok m \<and> (\<exists>v. resolve_asset (startup_asset_spec e) path = Inr v)
          \<and> (\<forall>n. ua_credential e = Some n \<longrightarrow> n \<in> fst ` set (hc_credentials c))"
        if "(m, e) \<in> set (hc_assets c)" for m e path
        using 2 [OF that n(1)] r that unfolding resources_ok_def by blast
      have c3: "name_ok m \<and> (\<exists>v. resolve_access X w (startup_access_spec e) path = Inr v)
          \<and> (\<forall>xs. uk_assets e = Some xs \<longrightarrow> set xs \<subseteq> fst ` set (hc_assets c))"
        if "(m, e) \<in> set (hc_access_keys c)" for m e path
      proof -
        from r that have "name_ok m" "key_entry_ok X w (fst ` set (hc_assets c)) e"
          unfolding resources_ok_def by blast+
        with 3 [OF that n(2), of path] show ?thesis by blast
      qed
      show "(\<exists>r. resolve_material X w (startup_manifest c) = Inr r) \<and> ?refs"
        unfolding resolve_material_startup using c1 c2 c3 by auto
    qed
  qed
  finally show ?thesis .
qed

end
