(* ===== verification/Server_Main_Facts.thy ===== *)
theory Server_Main_Facts
  imports Server_Main Startup_Config_Facts
begin

text \<open>
  Facts about the entry point: a server that started once starts again on what it left, with the same
  listeners and nothing to apply; and the configuration, the catalog and the master key that the
  commands open are the ones the server opened.
\<close>

section \<open>Opening again\<close>

text \<open>Two runs of one program: the same code and configuration, other times, ids and random numbers.\<close>

definition same_machine :: "machine \<Rightarrow> machine \<Rightarrow> bool" where
  "same_machine M M' \<longleftrightarrow> mc_ext M' = mc_ext M \<and> mc_net M' = mc_net M \<and> mc_config M' = mc_config M"

lemma preflight_initialize: "preflight path (Some initialize) = Inr V0_2"
proof -
  have "\<not> internal_table ''hop_schema''" by code_simp
  then show ?thesis by (auto simp: preflight_def initialize_def catalog_tables_def)
qed

lemma connect_stored:
  assumes "connect path file = (Some f, Inr db)"
  shows "connect path (Some (f\<lparr>df_catalog := db'\<rparr>)) = (Some (f\<lparr>df_catalog := db'\<rparr>), Inr db')"
proof -
  from connect_again [OF assms] have c: "connect path (Some f) = (Some f, Inr db)" .
  have "preflight path (Some f) \<noteq> Inr EmptyDatabase"
  proof
    assume e: "preflight path (Some f) = Inr EmptyDatabase"
    with c have "f = initialize" by (auto simp: connect_def split: sum.splits)
    with e show False by (simp add: preflight_initialize)
  qed
  moreover have "preflight path (Some (f\<lparr>df_catalog := db'\<rparr>)) = preflight path (Some f)"
    by (simp add: preflight_def)
  moreover have "verify_schema path (f\<lparr>df_catalog := db'\<rparr>) = verify_schema path f"
    by (simp add: verify_schema_def)
  ultimately show ?thesis
    using c by (auto simp: connect_def and_then_Inr split: sum.splits)
qed

lemma connect_Some: "connect path file = (file', Inr db) \<Longrightarrow> \<exists>f. file' = Some f \<and> df_catalog f = db"
  by (auto simp: connect_def and_then_Inr split: sum.splits option.splits if_splits)

lemma open_runtime_Inr:
  assumes "open_runtime M path w = (w1, Inr (db, c, mk))"
  obtains f key where "main_load_config M w path = Inr c" "wd_mkdir w (hc_data_dir c)"
    "connect (database_path c) (wd_dbs w (database_path c)) = (Some f, Inr db)"
    "load_or_create_master_key (mc_ext M) (master_key_path c) (wd_writable w (master_key_path c))
       (mc_fresh_key M) (wd_keys w (master_key_path c)) = (key, Inr mk)"
    "w1 = w\<lparr>wd_dbs := (wd_dbs w)(database_path c := Some f),
       wd_keys := (wd_keys w)(master_key_path c := key)\<rparr>"
proof -
  from assms obtain file' key where 1: "main_load_config M w path = Inr c" "wd_mkdir w (hc_data_dir c)"
    and 2: "connect (database_path c) (wd_dbs w (database_path c)) = (file', Inr db)"
    and 3: "load_or_create_master_key (mc_ext M) (master_key_path c) (wd_writable w (master_key_path c))
       (mc_fresh_key M) (wd_keys w (master_key_path c)) = (key, Inr mk)"
      "w1 = w\<lparr>wd_dbs := (wd_dbs w)(database_path c := file'),
       wd_keys := (wd_keys w)(master_key_path c := key)\<rparr>"
    by (auto simp: open_runtime_def Let_def and_then_Inr map_err_Inr split: sum.splits prod.splits if_splits)
  from connect_Some [OF 2] 2 obtain f where "file' = Some f"
    "connect (database_path c) (wd_dbs w (database_path c)) = (Some f, Inr db)" by auto
  with 1 3 that show thesis by blast
qed

lemma load_key_again:
  assumes "crypto_laws X" and "length fresh = key_len"
    and "load_or_create_master_key X path writable fresh file = (key, Inr mk)"
  shows "load_or_create_master_key X path writable' fresh' key = (key, Inr mk)"
  using create_then_load [OF assms]
  by (auto simp: load_or_create_master_key_def load_master_key_def split: option.splits)

lemma open_runtime_again:
  assumes o: "open_runtime M path w = (w1, Inr (db, c, mk))" and M: "same_machine M M'"
    and laws: "crypto_laws (mc_ext M)" "length (mc_fresh_key M) = key_len"
  shows "open_runtime M' path (store_catalog (database_path c) db' w1)
    = (store_catalog (database_path c) db' w1, Inr (db', c, mk))"
proof -
  from o obtain f key where load: "main_load_config M w path = Inr c" and dir: "wd_mkdir w (hc_data_dir c)"
    and opened: "connect (database_path c) (wd_dbs w (database_path c)) = (Some f, Inr db)"
    and key: "load_or_create_master_key (mc_ext M) (master_key_path c) (wd_writable w (master_key_path c))
       (mc_fresh_key M) (wd_keys w (master_key_path c)) = (key, Inr mk)"
    and w1: "w1 = w\<lparr>wd_dbs := (wd_dbs w)(database_path c := Some f),
       wd_keys := (wd_keys w)(master_key_path c := key)\<rparr>"
    by (rule open_runtime_Inr)
  let ?w = "store_catalog (database_path c) db' w1"
  have "main_load_config M' ?w path = Inr c"
    using load M by (simp add: main_load_config_def store_catalog_def w1 same_machine_def)
  moreover have "wd_mkdir ?w (hc_data_dir c)" using dir by (simp add: store_catalog_def w1)
  moreover have db: "wd_dbs ?w (database_path c) = Some (f\<lparr>df_catalog := db'\<rparr>)"
    by (simp add: store_catalog_def w1)
  moreover have k: "wd_keys ?w (master_key_path c) = key" by (simp add: store_catalog_def w1)
  moreover have "(wd_dbs ?w)(database_path c := Some (f\<lparr>df_catalog := db'\<rparr>)) = wd_dbs ?w"
    using db by (rule fun_upd_idem)
  moreover have "(wd_keys ?w)(master_key_path c := key) = wd_keys ?w"
    using k by (rule fun_upd_idem)
  ultimately show ?thesis
    using connect_stored [OF opened, of db'] load_key_again [OF laws key] M
    by (simp add: open_runtime_def same_machine_def)
qed

section \<open>Sessions and configuration\<close>

lemma prune_Inr:
  assumes "prune_finished_sessions days_ago d db = (db', Inr c)"
  shows "config_same db db'" and "constraints db \<Longrightarrow> constraints db'"
  using assms
  by (auto simp: prune_finished_sessions_def Let_def result_simps config_same_def source_generation_def
      fun_eq_iff split: if_splits)

lemma prune_total:
  assumes "constraints db"
  shows "\<exists>db' c. prune_finished_sessions days_ago d db = (db', Inr c)"
proof (cases "d = 0")
  case False
  let ?expired = "\<lambda>s. case se_ended_at s of None \<Rightarrow> False | Some t \<Rightarrow> t < days_ago d"
  have "constraints (db\<lparr>t_sessions := delete_where ?expired (t_sessions db)\<rparr>)"
    using assms by (simp add: constraints_def delete_where_def distinct_map_filter)
  with False show ?thesis
    by (simp add: prune_finished_sessions_def Let_def commit_read_def enforce_def)
qed (simp add: prune_finished_sessions_def)

lemma fresh_ids_same: "config_same db db' \<Longrightarrow> fresh_ids X n db \<Longrightarrow> fresh_ids X n db'"
  by (simp add: fresh_ids_def config_same_views)

lemma plan_for_same: "config_same db db' \<Longrightarrow> plan_for X n db r source mk prune p
    \<Longrightarrow> plan_for X n db' r source mk prune p"
  by (simp add: plan_for_def loads_same)

lemma startup_again:
  assumes "apply_startup_resources M w mk c db = (db', Inr s)" and "constraints db"
    and "fresh_ids (mc_ext M) (mc_id M) db" and "same_machine M M'"
  obtains db'' n where "prune_finished_sessions (mc_days_ago M') d db' = (db'', Inr n)"
    "config_same db' db''"
    "\<exists>s'. apply_startup_resources M' w mk c db'' = (db'', Inr s') \<and> sm_created s' = 0 \<and> sm_updated s' = 0
      \<and> sm_deleted s' = 0 \<and> sm_orphaned s' = 0"
proof -
  let ?opts = "\<lparr>ao_base_revision = None, ao_prune = True, ao_dry_run = False\<rparr>"
  from assms(1) obtain s0 where a: "apply_manifest (mc_ext M) (mc_now M) (mc_id M) (mc_nonce M) w mk
      (startup_manifest c) startup_source ?opts db = (db', Inr s0)"
    by (auto simp: apply_startup_resources_def map_err_Inr split: prod.splits)
  obtain r p where p: "resolve_material (mc_ext M) w (startup_manifest c) = Inr r"
    "validate_source_id startup_source = Inr ()"
    "plan_for (mc_ext M) (mc_id M') db' r startup_source mk True p" "\<not> plan_changed p" "constraints db'"
    using apply_settles [OF a _ assms(2,3), of "mc_id M'"] by auto
  obtain db'' n where prune: "prune_finished_sessions (mc_days_ago M') d db' = (db'', Inr n)"
    using prune_total [OF p(5)] by blast
  note same = prune_Inr(1) [OF prune]
  have "\<exists>s. apply_manifest (mc_ext M) (mc_now M') (mc_id M') (mc_nonce M') w mk (startup_manifest c)
      startup_source ?opts db'' = (db'', Inr s) \<and> sm_created s = 0 \<and> sm_updated s = 0
      \<and> sm_deleted s = 0 \<and> sm_orphaned s = 0 \<and> sm_base_revision s = t_revision db''
      \<and> sm_new_revision s = t_revision db''"
    by (rule apply_nothing_to_do [OF p(1,2)]) (use plan_for_same [OF same] p(3,4) in auto)
  then show thesis
    using that [OF prune same] assms(4) by (auto simp: apply_startup_resources_def same_machine_def)
qed

section \<open>Starting\<close>

lemma serve_Inr:
  assumes "serve M path w = (w1, Inr l)"
  obtains w0 db c mk bind db1 pruned db2 s li where
    "open_runtime M path w = (w0, Inr (db, c, mk))" "ssh_bind_addr (mc_net M) c = Inr bind"
    "ac_enabled (hc_api c) \<longrightarrow> \<not> isl (api_bind_addr (mc_net M) c)"
    "wd_mkdir w0 (rt_temp_dir (hc_runtime c))"
    "prune_finished_sessions (mc_days_ago M) (unat (rt_session_retention_days (hc_runtime c))) db
      = (db1, Inr pruned)"
    "apply_startup_resources M (wd_os w0) mk c db1 = (db2, Inr s)"
    "start_api M c mk = Inr li" "w1 = store_catalog (database_path c) db2 w0"
    "l = \<lparr>ls_ssh = bind, ls_api = li, ls_summary = s, ls_pruned = pruned\<rparr>"
proof -
  obtain w0 r0 where o: "open_runtime M path w = (w0, r0)" by fastforce
  with assms obtain db c mk where r0: "r0 = Inr (db, c, mk)"
    by (cases r0) (auto simp: serve_def)
  obtain db1 rp where prune: "prune_finished_sessions (mc_days_ago M)
      (unat (rt_session_retention_days (hc_runtime c))) db = (db1, rp)" by fastforce
  obtain db2 ra where app: "apply_startup_resources M (wd_os w0) mk c db1 = (db2, ra)" by fastforce
  from assms o r0 prune app that show thesis
    by (cases rp; cases ra)
      (auto simp: serve_def and_then_Inr map_err_Inr split: sum.splits if_splits)
qed

lemma serve_intro:
  assumes "open_runtime M path w = (w0, Inr (db, c, mk))" and "ssh_bind_addr (mc_net M) c = Inr bind"
    and "ac_enabled (hc_api c) \<longrightarrow> \<not> isl (api_bind_addr (mc_net M) c)"
    and "wd_mkdir w0 (rt_temp_dir (hc_runtime c))"
    and "prune_finished_sessions (mc_days_ago M) (unat (rt_session_retention_days (hc_runtime c))) db
      = (db1, Inr pruned)"
    and "apply_startup_resources M (wd_os w0) mk c db1 = (db2, Inr s)" and "start_api M c mk = Inr li"
  shows "serve M path w = (store_catalog (database_path c) db2 w0,
    Inr \<lparr>ls_ssh = bind, ls_api = li, ls_summary = s, ls_pruned = pruned\<rparr>)"
  using assms(3)
  by (cases "ac_enabled (hc_api c)"; cases "api_bind_addr (mc_net M) c")
    (simp_all add: serve_def assms(1,2,4-7))

text \<open>The catalog that was opened: the one in the file, or an empty one.\<close>

lemma opened_catalog:
  assumes "open_runtime M path w = (w0, Inr (db, c, mk))"
  shows "db = baseline \<or> (\<exists>f. wd_dbs w (database_path c) = Some f \<and> db = df_catalog f)"
proof -
  from assms obtain f where "connect (database_path c) (wd_dbs w (database_path c)) = (Some f, Inr db)"
    by (rule open_runtime_Inr)
  from connect_effect [OF this] show ?thesis by auto
qed

end
