(* ===== verification/Ownership_Kept.thy ===== *)
theory Ownership_Kept
  imports Catalog_Steps
begin

text \<open>
  What local edits leave alone: a resource that a configuration source owns keeps its row and its
  ownership row through every local operation, because each one passes \<open>ensure_local\<close> for the one
  row it changes or deletes, and an insertion adds a row.
\<close>

definition managed :: "string \<Rightarrow> string \<Rightarrow> catalog \<Rightarrow> bool" where
  "managed rtype i db = (case owner_of rtype i db of Some r \<Rightarrow> o_mode r \<noteq> ''local'' | None \<Rightarrow> False)"

definition managed_kept :: "catalog \<Rightarrow> catalog \<Rightarrow> bool" where
  "managed_kept db db' \<longleftrightarrow>
     (\<forall>t i. managed t i db \<longrightarrow> owner_of t i db' = owner_of t i db)
     \<and> (\<forall>c \<in> set (t_credentials db). managed ''credential'' (c_id c) db \<longrightarrow> c \<in> set (t_credentials db'))
     \<and> (\<forall>a \<in> set (t_assets db). managed ''asset'' (a_id a) db \<longrightarrow> a \<in> set (t_assets db'))
     \<and> (\<forall>k \<in> set (t_access_keys db). managed ''access_key'' (k_id k) db \<longrightarrow> k \<in> set (t_access_keys db'))"

lemma managed_kept_refl [simp]: "managed_kept db db"
  by (simp add: managed_kept_def)

lemma managed_kept_trans:
  assumes "managed_kept a b" and "managed_kept b c"
  shows "managed_kept a c"
proof -
  have m: "managed t i a \<Longrightarrow> managed t i b" for t i
    using assms(1) by (auto simp: managed_kept_def managed_def)
  with assms show ?thesis unfolding managed_kept_def by (metis (no_types))
qed

lemma managed_kept_same: "config_same db db' \<Longrightarrow> managed_kept db db'"
  by (simp add: managed_kept_def config_same_def owner_of_def)

lemma ensure_local_not_managed: "ensure_local t i db = Inr u \<Longrightarrow> \<not> managed t i db"
  by (auto simp: ensure_local_def managed_def split: option.splits if_splits)

lemma managed_not_local:
  "managed t i db \<Longrightarrow> \<exists>msg. ensure_local t i db = Inl (Validation (''managed_by_source: '' @ msg))"
  by (auto simp: ensure_local_def managed_def split: option.splits if_splits)

lemma config_owned_managed: "resource_ownership t i db = ConfigOwned \<Longrightarrow> managed t i db"
  by (auto simp: resource_ownership_def managed_def split: option.splits if_splits)

section \<open>Statements\<close>

lemma kept_append: "find p xs = Some x \<Longrightarrow> find p (xs @ ys) = Some x"
  by (induction xs) auto

lemma kept_delete: "find p xs = Some x \<Longrightarrow> \<not> q x \<Longrightarrow> find p (delete_where q xs) = Some x"
  by (induction xs) (auto simp: delete_where_def split: if_splits)

lemma owner_append:
  "managed t i db \<Longrightarrow> t_ownership db' = t_ownership db @ rs \<Longrightarrow> owner_of t i db' = owner_of t i db"
  by (auto simp: managed_def owner_of_def kept_append split: option.splits)

lemma owner_delete:
  assumes "managed t i db" and "\<not> managed rtype rid db"
    and "t_ownership db' = delete_where (\<lambda>r. o_type r = rtype \<and> o_id r = rid) (t_ownership db)"
  shows "owner_of t i db' = owner_of t i db"
proof -
  have "(t, i) \<noteq> (rtype, rid)" using assms(1,2) by blast
  then obtain r where r: "owner_of t i db = Some r" "(t, i) \<noteq> (rtype, rid)"
    using assms(1) by (auto simp: managed_def split: option.splits)
  then have "\<not> (o_type r = rtype \<and> o_id r = rid)" by (auto simp: owner_of_def find_Some_iff)
  with r(1) kept_delete [OF r(1) [unfolded owner_of_def]] assms(3) show ?thesis
    by (simp add: owner_of_def)
qed

lemma in_update_where: "x \<in> set xs \<Longrightarrow> \<not> p x \<Longrightarrow> x \<in> set (update_where p f xs)"
  by (auto simp: set_update_where image_iff)

lemma replace_assignments_frame:
  "replace_access_assignments i ids db = Inr db' \<Longrightarrow> \<exists>kas. db' = db\<lparr>t_access_key_assets := kas\<rparr>"
proof -
  have "foldE (\<lambda>db a. insert_assignment i a db) db xs = Inr db' \<Longrightarrow>
      \<exists>kas. db' = db\<lparr>t_access_key_assets := kas\<rparr>" for db xs
  proof (induction xs arbitrary: db)
    case Nil
    then have "db' = db\<lparr>t_access_key_assets := t_access_key_assets db\<rparr>" by simp
    then show ?case by blast
  next
    case (Cons a xs)
    then show ?case by (fastforce simp: and_then_Inr insert_assignment_def enforce_Inr)
  qed
  then show "replace_access_assignments i ids db = Inr db' \<Longrightarrow> ?thesis"
    by (force simp: replace_access_assignments_def and_then_Inr delete_assignments_def enforce_Inr)
qed

lemmas local_ops = increment_revision_def update_revision_def insert_local_ownership_def
  statement_defs enforce_Inr and_then_Inr

section \<open>Operations\<close>

lemma kept_add_key: "managed_kept db (fst (add_authorized_key_with_access X now n key mode ids db))"
  by (auto simp: add_authorized_key_with_access_def fst_commit_read Let_def local_ops managed_kept_def
      intro: owner_append dest!: replace_assignments_frame split: sum.splits)

lemma kept_set_active: "managed_kept db (fst (set_authorized_key_active now i active db))"
  by (auto simp: set_authorized_key_active_def fst_commit Let_def local_ops managed_kept_def owner_of_def
      dest: ensure_local_not_managed intro!: in_update_where split: sum.splits if_splits)

lemma kept_set_access: "managed_kept db (fst (set_authorized_key_access now i mode ids db))"
  by (auto simp: set_authorized_key_access_def fst_commit local_ops managed_kept_def owner_of_def
      dest!: replace_assignments_frame dest: ensure_local_not_managed intro!: in_update_where
      split: sum.splits if_splits)

lemma kept_add_credential: "managed_kept db (fst (add_credential X now n c db))"
  by (auto simp: add_credential_def fst_commit_read Let_def local_ops managed_kept_def
      intro: owner_append split: sum.splits)

lemma kept_update_credential: "managed_kept db (fst (update_credential now i c db))"
  by (auto simp: update_credential_def fst_commit local_ops managed_kept_def owner_of_def
      dest: ensure_local_not_managed intro!: in_update_where split: sum.splits)

lemma kept_add_asset: "managed_kept db (fst (add_asset X now n a db))"
  by (auto simp: add_asset_def write_asset_def fst_commit_read Let_def local_ops managed_kept_def
      intro: owner_append split: sum.splits)

lemma kept_update_asset: "managed_kept db (fst (update_asset X now i a db))"
  by (auto simp: update_asset_def write_asset_def fst_commit Let_def local_ops managed_kept_def owner_of_def
      dest: ensure_local_not_managed intro!: in_update_where split: sum.splits)

lemma kept_delete_local:
  assumes "(rtype, table) \<in> {(''access_key'', ''access_keys''), (''credential'', ''credentials''),
    (''asset'', ''assets'')}"
  shows "managed_kept db (fst (delete_local_resource rtype table i db))"
proof (cases "fst (delete_local_resource rtype table i db) = db")
  case False
  then obtain db' where l: "ensure_local rtype i db = Inr ()" and db': "fst (delete_local_resource rtype table i db) = db'"
    and t: "t_ownership db' = delete_where (\<lambda>r. o_type r = rtype \<and> o_id r = i) (t_ownership db)"
    and rows: "t_credentials db' = (if rtype = ''credential'' then delete_where (\<lambda>c. c_id c = i) (t_credentials db)
        else t_credentials db)"
      "t_assets db' = (if rtype = ''asset'' then delete_where (\<lambda>a. a_id a = i) (t_assets db) else t_assets db)"
      "t_access_keys db' = (if rtype = ''access_key'' then delete_where (\<lambda>k. k_id k = i) (t_access_keys db)
        else t_access_keys db)"
    using assms
    by (cases "ensure_local rtype i db")
      (auto simp: delete_local_resource_def fst_commit local_ops split: sum.splits)
  have m: "\<not> managed rtype i db" using l by (rule ensure_local_not_managed)
  show ?thesis unfolding db' managed_kept_def
    using m rows owner_delete [OF _ m t] by auto
qed simp

lemma kept_runtime:
  "managed_kept db (fst (finish_session now i st er db))"
  "managed_kept db (fst (delete_known_host hn port kt db))"
  "managed_kept db (fst (record_apply_failure X now n src actor e db))"
  by (auto simp: finish_session_def delete_known_host_def record_apply_failure_def record_error_def Let_def
      fst_commit fst_commit_read local_ops managed_kept_def owner_of_def split: sum.splits)

lemmas local_kept = kept_add_key kept_set_active kept_set_access kept_add_credential
  kept_update_credential kept_add_asset kept_update_asset kept_runtime

end
