(* ===== verification/Control_Api_Facts.thy ===== *)
theory Control_Api_Facts
  imports Control_Api Ownership_Kept
begin

text \<open>
  Facts about the control API: only the bearer of the token gets past authentication, a request is a
  run of catalog operations, resources that a configuration source owns cannot be changed
  through it, secrets go in encrypted and never come out.
\<close>

section \<open>Authentication\<close>

lemma authenticate_Inl: "authenticate X st header = Inl e \<Longrightarrow> e = api_unauthorized"
  by (auto simp: authenticate_def Let_def split: if_splits)

lemma header_to_str_same: "header_to_str v = Some s \<Longrightarrow> s = v"
  by (auto simp: header_to_str_def split: if_splits)

lemma authenticate_Inr:
  assumes no_collision: "\<And>s. sha256 X s = sha256 X (trim token) \<Longrightarrow> s = trim token"
    and st: "new_api_state X master token = Inr st"
  shows "authenticate X st header = Inr () \<longleftrightarrow>
    header = Some (''Bearer '' @ trim token)
    \<and> header_to_str (''Bearer '' @ trim token) = Some (''Bearer '' @ trim token)"
proof -
  define bearer where "bearer = ''Bearer ''"
  from st have ne: "trim token \<noteq> []" and h: "api_token_hash st = sha256 X (trim token)"
    by (auto simp: new_api_state_def Let_def split: if_splits)
  have eq: "sha256 X (trim token) = sha256 X s \<longleftrightarrow> s = trim token" for s
    using no_collision [of s] by auto
  have s: "Option.bind (Option.bind header header_to_str) (strip_prefix bearer) = Some s \<longleftrightarrow>
      header = Some (bearer @ s) \<and> header_to_str (bearer @ s) = Some (bearer @ s)" for s
    by (auto simp: bind_eq_Some_conv strip_prefix_Some dest: header_to_str_same)
  show ?thesis
  proof (cases "Option.bind (Option.bind header header_to_str) (strip_prefix bearer)")
    case None
    with s [of "trim token"] ne show ?thesis by (simp add: authenticate_def h eq flip: bearer_def)
  next
    case (Some t)
    then have "authenticate X st header = Inr () \<longleftrightarrow> t = trim token"
      by (simp add: authenticate_def h eq flip: bearer_def)
    with Some s [of t] show ?thesis by (auto simp flip: bearer_def)
  qed
qed

section \<open>Requests are runs of catalog operations\<close>

lemma op_steps:
  "fst (add_asset X now n a db) = db' \<Longrightarrow> catalog_steps X db db'"
  "fst (update_asset X now i a db) = db' \<Longrightarrow> catalog_steps X db db'"
  "fst (delete_asset i db) = db' \<Longrightarrow> catalog_steps X db db'"
  "fst (add_credential X now n c db) = db' \<Longrightarrow> catalog_steps X db db'"
  "fst (update_credential now i c db) = db' \<Longrightarrow> catalog_steps X db db'"
  "fst (delete_credential i db) = db' \<Longrightarrow> catalog_steps X db db'"
  "fst (add_authorized_key_with_access X now n key mode ids db) = db' \<Longrightarrow> catalog_steps X db db'"
  "fst (delete_authorized_key i db) = db' \<Longrightarrow> catalog_steps X db db'"
  "fst (set_authorized_key_active now i b db) = db' \<Longrightarrow> catalog_steps X db db'"
  "fst (set_authorized_key_access now i mode ids db) = db' \<Longrightarrow> catalog_steps X db db'"
  "fst (delete_known_host hn port kt db) = db' \<Longrightarrow> catalog_steps X db db'"
  "fst (finish_session now i st er db) = db' \<Longrightarrow> catalog_steps X db db'"
  "fst (record_apply_failure X now n src actor e db) = db' \<Longrightarrow> catalog_steps X db db'"
  "fst (apply_manifest X now n k w mk m src opts db) = db' \<Longrightarrow> catalog_steps X db db'"
  unfolding apply_manifest_def
  by (auto intro!: step_steps intro: catalog_step.intros)

lemma fst_proceed: "fst (proceed r f) = fst r"
  by (auto simp: proceed_def split: prod.splits sum.splits)

lemma note_failure_steps: "catalog_steps (en_ext E) db (note_failure E src actor dry e db)"
  by (simp add: note_failure_def op_steps(13))

lemma api_update_credential_steps:
  "catalog_steps (en_ext E) db (fst (api_update_credential E st i r db))"
  by (auto simp: api_update_credential_def fst_proceed op_steps split: option.splits sum.splits)

lemma api_create_credential_steps:
  "catalog_steps (en_ext E) db (fst (api_create_credential E st r db))"
  by (auto simp: api_create_credential_def Let_def fst_proceed op_steps split: sum.splits)

lemma api_create_access_key_steps:
  "catalog_steps (en_ext E) db (fst (api_create_access_key E name key assets db))"
  by (auto simp: api_create_access_key_def fst_proceed op_steps split: sum.splits prod.splits)

lemma api_reset_steps: "catalog_steps X db (fst (api_reset_known_host h p t c db))"
  using op_steps(11) [OF refl, of X]
  by (auto simp: api_reset_known_host_def split: sum.splits prod.splits) (metis fst_conv)+

lemma diff_same: "fst (diff X now n k w mk m src prune db) = db"
  by (auto simp: diff_def apply_manifest_def apply_with_def split: sum.splits prod.splits)

lemma api_diff_same: "fst (api_diff E st p src prune db) = db"
  using diff_same [of "en_ext E" "en_now E" "en_id E" "en_nonce E" "en_os E" "api_master_key st" _ src prune db]
  by (auto simp: api_diff_def split: sum.splits prod.splits) (metis fst_conv)

lemma api_diff_steps: "catalog_steps X db (fst (api_diff E st p src prune db))"
  by (simp add: api_diff_same steps_refl)

lemma api_apply_steps: "catalog_steps (en_ext E) db (fst (api_apply E st r db))"
proof (cases "payload_parse (en_read E) (rq_manifest r)")
  case (Inl e)
  then show ?thesis by (simp add: api_apply_def note_failure_steps)
next
  case (Inr m)
  obtain db' res where a: "apply_manifest (en_ext E) (en_now E) (en_id E) (en_nonce E) (en_os E)
      (api_master_key st) m (rq_source_id r) \<lparr>ao_base_revision = Some (rq_base_revision r),
      ao_prune = rq_prune r, ao_dry_run = rq_dry_run r\<rparr> db = (db', res)" by fastforce
  then have "catalog_steps (en_ext E) db db'" using op_steps(14) [OF refl] by (metis fst_conv)
  with Inr a steps_trans [OF this note_failure_steps] show ?thesis
    by (cases res) (simp_all add: api_apply_def)
qed

lemma terminate_registry: "terminate alive i reg = (reg', tx, res) \<Longrightarrow> reg' \<subseteq>\<^sub>m reg"
  by (auto simp: terminate_def unregister_def map_le_def split: option.splits if_splits)

lemma dispatch_steps:
  "dispatch E st req w = (w', r) \<Longrightarrow> catalog_steps (en_ext E) (fst w) (fst w') \<and> snd w' \<subseteq>\<^sub>m snd w"
proof (cases req)
  case (PostTerminate i)
  assume "dispatch E st req w = (w', r)"
  with PostTerminate show ?thesis
    using op_steps(12) [OF refl, where X = "en_ext E" and now = "en_now E"]
    by (auto simp: api_terminate_session_def split: prod.splits sum.splits terminate_session_result.splits
        dest: terminate_registry) (metis fst_conv)+
qed (auto simp: on_catalog_def reading_def api_create_asset_def api_update_asset_def api_delete_asset_def
    api_delete_credential_def api_delete_access_key_def api_set_access_key_enabled_def
    api_set_access_key_access_def fst_proceed split: prod.splits
    dest!: arg_cong [where f = fst]
    intro: op_steps api_update_credential_steps api_create_credential_steps
      api_create_access_key_steps api_reset_steps api_diff_steps api_apply_steps)

section \<open>Managed resources\<close>

text \<open>The resource that a request changes or deletes.\<close>

fun request_target :: "api_request \<Rightarrow> (string \<times> string) option" where
  "request_target (PutAsset i r) = Some (''asset'', i)"
| "request_target (DeleteAsset i) = Some (''asset'', i)"
| "request_target (PutCredential i r) = Some (''credential'', i)"
| "request_target (DeleteCredential i) = Some (''credential'', i)"
| "request_target (DeleteAccessKey i) = Some (''access_key'', i)"
| "request_target (PutAccessKeyEnabled i b) = Some (''access_key'', i)"
| "request_target (PutAccessKeyAccess i assets) = Some (''access_key'', i)"
| "request_target _ = None"

lemma managed_error:
  "api_of_hop_error (Validation (''managed_by_source: '' @ msg))
     = \<lparr>ae_status = 409, ae_code = ''managed_by_source'', ae_path = None,
        ae_message = ''managed_by_source: '' @ msg\<rparr>"
  by (simp add: api_of_hop_error_def)

text \<open>A managed row refuses every local edit: the transaction ends before its first statement.\<close>

lemma refused_edits:
  "ensure_local ''asset'' i db = Inl e \<Longrightarrow> update_asset X now i a db = (db, Inl e)"
  "ensure_local ''asset'' i db = Inl e \<Longrightarrow> delete_asset i db = (db, Inl e)"
  "ensure_local ''credential'' i db = Inl e \<Longrightarrow> delete_credential i db = (db, Inl e)"
  "ensure_local ''access_key'' i db = Inl e \<Longrightarrow> delete_authorized_key i db = (db, Inl e)"
  "ensure_local ''access_key'' i db = Inl e \<Longrightarrow> set_authorized_key_active now i b db = (db, Inl e)"
  "ensure_local ''access_key'' i db = Inl e \<Longrightarrow>
     set_authorized_key_access now i (fst (access_scope_of assets)) (snd (access_scope_of assets)) db
       = (db, Inl e)"
  by (auto simp: update_asset_def delete_asset_def delete_credential_def delete_authorized_key_def
      delete_local_resource_def set_authorized_key_active_def set_authorized_key_access_def commit_def
      access_scope_of_def split: option.splits)

lemma update_credential_refused:
  "managed ''credential'' i db \<Longrightarrow> \<exists>e. update_credential now i c db = (db, Inl e)"
  by (drule managed_not_local) (auto simp: update_credential_def commit_def split: sum.splits)

lemma put_credential_refused:
  assumes "managed ''credential'' i db"
  shows "\<exists>e. api_update_credential E st i r db = (db, Inl e)"
  using update_credential_refused [OF assms, of "en_now E"]
  by (auto simp: api_update_credential_def proceed_def split: option.splits sum.splits prod.splits)
    (metis Pair_inject sum.distinct(1))+

lemma proceed_error: "proceed (db, Inl e) f = (db, Inl (api_of_hop_error e))"
  by (simp add: proceed_def)

lemma managed_target:
  assumes "request_target req = Some (t, i)" and "managed t i (fst w)"
  shows "\<exists>e. dispatch E st req w = (w, Inl e)
    \<and> ((\<exists>j r. req = PutCredential j r) \<or> ae_status e = 409 \<and> ae_code e = ''managed_by_source'')"
proof -
  obtain msg where l: "ensure_local t i (fst w) = Inl (Validation (''managed_by_source: '' @ msg))"
    using managed_not_local [OF assms(2)] by blast
  define e where "e = Validation (''managed_by_source: '' @ msg)"
  have l: "ensure_local t i (fst w) = Inl e" using l by (simp add: e_def)
  have c: "ae_status (api_of_hop_error e) = 409" "ae_code (api_of_hop_error e) = ''managed_by_source''"
    unfolding e_def managed_error by simp_all
  note [simp] = on_catalog_def c proceed_error
  show ?thesis
  proof (cases req)
    case (PutCredential j r)
    with assms put_credential_refused [of j "fst w" E st r] show ?thesis by auto
  next
    case (PutAccessKeyAccess j assets)
    with assms l refused_edits(6) [of j "fst w" e "en_now E" assets] show ?thesis
      by (simp add: api_set_access_key_access_def case_prod_beta)
  qed (use assms l refused_edits in \<open>simp_all add: api_update_asset_def api_delete_asset_def
      api_delete_credential_def api_delete_access_key_def api_set_access_key_enabled_def\<close>)
qed

text \<open>Whatever a request other than an apply does, managed rows stay as they are.\<close>

lemma dispatch_managed_kept:
  assumes "\<forall>r. req \<noteq> PostApply r"
  shows "managed_kept (fst w) (fst (fst (dispatch E st req w)))"
proof (cases req)
  case (PutCredential i r)
  then show ?thesis
    by (auto simp: on_catalog_def api_update_credential_def fst_proceed kept_update_credential
        split: prod.splits option.splits sum.splits dest!: arg_cong [where f = fst])
next
  case (PostTerminate i)
  then show ?thesis
    using kept_runtime(1) [of "fst w" "en_now E" i]
    by (auto simp: api_terminate_session_def split: prod.splits sum.splits terminate_session_result.splits)
      (metis fst_conv)+
next
  case (DeleteKnownHost h p t c)
  then show ?thesis
    using kept_runtime(2) [of "fst w"]
    by (auto simp: on_catalog_def api_reset_known_host_def split: prod.splits sum.splits if_splits)
      (metis fst_conv)+
qed (use assms in \<open>auto simp: on_catalog_def reading_def api_create_asset_def api_update_asset_def
    api_delete_asset_def api_delete_credential_def api_delete_access_key_def api_create_credential_def
    api_set_access_key_enabled_def api_set_access_key_access_def api_create_access_key_def
    delete_asset_def delete_credential_def delete_authorized_key_def
    fst_proceed local_kept kept_delete_local api_diff_same Let_def
    split: prod.splits sum.splits dest!: arg_cong [where f = fst]\<close>)

section \<open>Secrets in\<close>

text \<open>
  One secret field of a credential write: a supplied value is stored as an envelope that decrypts
  to it under the field's associated data, an omitted one keeps what was there.
\<close>

definition secret_written ::
  "ext \<Rightarrow> master_key \<Rightarrow> string \<Rightarrow> string \<Rightarrow> string option \<Rightarrow> string option \<Rightarrow> string option \<Rightarrow> bool" where
  "secret_written X master i field supplied kept stored =
     (case supplied of
        None \<Rightarrow> stored = kept
      | Some v \<Rightarrow> (case stored of None \<Rightarrow> False
          | Some env \<Rightarrow> decrypt_envelope X master (i @ '':'' @ field) env = Inr v))"

lemma encrypt_secret_written:
  "crypto_laws X \<Longrightarrow> encrypt_secret X k master i field v = Inr (enc, k') \<Longrightarrow>
    secret_written X master i field v kept (option_or enc kept)"
  using encrypt_secret_Inr [of X k master i field v enc k']
  by (auto simp: secret_written_def option_or_def split: option.splits)

lemma build_credential_material:
  assumes "crypto_laws X" and "build_credential X k master i r existing = Inr c"
  shows "nc_id c = Some i" "nc_name c = cw_name r" "nc_username c = cw_username r"
    "nc_auth_type c = auth_type_of_api (cw_auth_type r)"
    "if cw_auth_type r = ApiPassword
     then secret_written X master i ''password'' (cw_password r)
       (keep_if (\<lambda>t. t = ''password'') cr_password_enc existing) (nc_password_enc c)
     else nc_password_enc c = None"
    "if cw_auth_type r = ApiPassword then nc_private_key_enc c = None
     else secret_written X master i ''private_key'' (cw_private_key r)
       (keep_if (\<lambda>t. t \<noteq> ''password'') cr_private_key_enc existing) (nc_private_key_enc c)"
    "if cw_auth_type r = ApiKeyPassphrase
     then secret_written X master i ''passphrase'' (cw_passphrase r)
       (keep_if (\<lambda>t. t = ''key+passphrase'') cr_passphrase_enc existing) (nc_passphrase_enc c)
     else nc_passphrase_enc c = None"
  using assms(2) encrypt_secret_written [OF assms(1)]
  by (cases "cw_auth_type r";
      force simp: build_credential_def Let_def and_then_Inr map_err_Inr split: prod.splits)+

lemma update_credential_stored:
  assumes "update_credential now i c db = (db', Inr ())" and "get_credential i db = Some old"
  obtains new where "get_credential i db' = Some new" "cr_name new = nc_name c"
    "cr_username new = nc_username c" "cr_password_enc new = nc_password_enc c"
    "cr_private_key_enc new = nc_private_key_enc c" "cr_passphrase_enc new = nc_passphrase_enc c"
proof -
  let ?f = "\<lambda>r. r\<lparr>c_name := nc_name c, c_username := nc_username c,
    c_auth_type := local_auth_type (nc_auth_type c), c_password_enc := nc_password_enc c,
    c_private_key_enc := nc_private_key_enc c, c_passphrase_enc := nc_passphrase_enc c,
    c_updated_at := now\<rparr>"
  from assms(1) have rows: "t_credentials db' = update_where (\<lambda>r. c_id r = i) ?f (t_credentials db)"
    by (auto simp: update_credential_def result_simps update_credentials_def increment_revision_def
        update_revision_def split: sum.splits)
  from assms(2) obtain row where "find (\<lambda>r. c_id r = i) (t_credentials db) = Some row"
    by (auto simp: get_credential_def)
  then have "get_credential i db' = Some (credential_of_row (?f row))"
    by (simp add: get_credential_def rows find_update_where [where key = c_id])
  then show thesis by (rule that) (simp_all add: credential_of_row_def)
qed

section \<open>No secret out\<close>

text \<open>The catalog with every stored secret blanked.\<close>

definition redact_credential :: "credential_tbl \<Rightarrow> credential_tbl" where
  "redact_credential c = c\<lparr>c_password_enc := map_option (\<lambda>_. []) (c_password_enc c),
     c_private_key_enc := map_option (\<lambda>_. []) (c_private_key_enc c),
     c_passphrase_enc := map_option (\<lambda>_. []) (c_passphrase_enc c), c_secret_hmac := None\<rparr>"

definition redact :: "catalog \<Rightarrow> catalog" where
  "redact db = db\<lparr>t_credentials := map redact_credential (t_credentials db)\<rparr>"

fun read_request :: "api_request \<Rightarrow> bool" where
  "read_request GetStatus = True"
| "read_request GetRevision = True"
| "read_request GetAssets = True"
| "read_request GetCredentials = True"
| "read_request GetAccessKeys = True"
| "read_request GetSessions = True"
| "read_request GetKnownHosts = True"
| "read_request _ = False"

lemma insert_by_map:
  "(\<And>x y. le' (f x) (f y) = le x y) \<Longrightarrow> insert_by le' (f x) (map f ys) = map f (insert_by le x ys)"
  by (induction ys) auto

lemma order_by_map: "(\<And>x y. le' (f x) (f y) = le x y) \<Longrightarrow> order_by le' (map f xs) = map f (order_by le xs)"
  by (induction xs) (auto simp: order_by_def insert_by_map)

lemma redact_tables [simp]:
  "t_assets (redact db) = t_assets db" "t_access_keys (redact db) = t_access_keys db"
  "t_access_key_assets (redact db) = t_access_key_assets db" "t_ownership (redact db) = t_ownership db"
  "t_revision (redact db) = t_revision db" "t_sessions (redact db) = t_sessions db"
  "t_known_hosts (redact db) = t_known_hosts db"
  "t_credentials (redact db) = map redact_credential (t_credentials db)"
  by (simp_all add: redact_def)

lemma list_credentials_redact:
  "map (credential_view_of (redact db)) (list_credentials (redact db))
     = map (credential_view_of db) (list_credentials db)"
proof -
  let ?le = "\<lambda>c d. c_created_at d < c_created_at c
    \<or> (c_created_at c = c_created_at d \<and> c_name c \<le> c_name d)"
  have "order_by ?le (map redact_credential (t_credentials db))
      = map redact_credential (order_by ?le (t_credentials db))"
    by (rule order_by_map) (simp add: redact_credential_def)
  then show ?thesis
    by (simp add: list_credentials_def credential_view_of_def credential_of_row_def redact_credential_def
        resource_ownership_def owner_of_def secret_status_of_def)
qed

lemma access_key_view_redact: "access_key_view_of (redact db) = access_key_view_of db"
  by (rule ext) (simp add: access_key_view_of_def resource_ownership_def owner_of_def
      list_asset_ids_for_key_def split: asset_access_mode.splits)

lemma reads_redacted:
  "read_request req \<Longrightarrow> snd (dispatch E st req (redact db, reg)) = snd (dispatch E st req (db, reg))"
  by (cases req)
    (simp_all add: on_catalog_def reading_def api_status_def api_revision_def api_assets_def
      api_credentials_def api_access_keys_def api_sessions_def api_known_hosts_def status_def
      list_assets_def asset_view_of_def [abs_def] resource_ownership_def owner_of_def list_authorized_keys_def
      access_key_view_redact list_sessions_def list_known_hosts_def
      list_credentials_redact)

end
