(* ===== verification/Control_Api_Properties.thy ===== *)
theory Control_Api_Properties
  imports Control_Api_Facts Examples
begin

text \<open>The properties of the control API, each with a run on concrete values.\<close>

section \<open>Sample values\<close>

definition sample_env :: "unit api_env" where
  "sample_env = \<lparr>en_ext = sample_ext, en_now = ''u'', en_id = 20, en_id2 = 30, en_nonce = 0,
     en_os = sample_os, en_read = (\<lambda>_ _. Inr sample_manifest), en_alive = (\<lambda>_. True)\<rparr>"

definition sample_state :: api_state where
  "sample_state = \<lparr>api_master_key = ''m'', api_token_hash = ''secret''\<rparr>"

definition sample_header :: string where
  "sample_header = ''Bearer secret''"

definition sample_write :: asset_write_request where
  "sample_write = \<lparr>aw_name = ''n'', aw_protocol = ''tcp'', aw_hostname = ''h'', aw_port = 22,
     aw_description = None, aw_tags = [], aw_credential_id = None\<rparr>"

definition sample_credential_write :: "string option \<Rightarrow> credential_write_request" where
  "sample_credential_write pw = \<lparr>cw_name = ''c'', cw_username = ''root'', cw_auth_type = ApiPassword,
     cw_password = pw, cw_private_key = None, cw_passphrase = None\<rparr>"

text \<open>The catalog after the sample manifest was applied, and its one managed asset.\<close>

definition managed_db :: catalog where
  "managed_db = fst (sample_apply baseline)"

definition managed_id :: string where
  "managed_id = hd (map a_id (t_assets managed_db))"

lemma managed_sample: "resource_ownership ''asset'' managed_id managed_db = ConfigOwned"
  by code_simp

lemma sample_state_new: "new_api_state sample_ext ''m'' '' secret '' = Inr sample_state"
  by code_simp

section \<open>Properties\<close>

text \<open>
  C29. The bearer token is the only way in: provided no other string has the token's SHA-256, a
  request is handled exactly if its \<open>Authorization\<close> header is \<open>Bearer\<close>, one space and the
  configured token; any other header, and none at all, is answered 401 with the catalog and the
  registry of sessions untouched, whatever the request.
\<close>

theorem api_authentication:
  assumes "\<And>s. sha256 (en_ext E) s = sha256 (en_ext E) (trim token) \<Longrightarrow> s = trim token"
    and "new_api_state (en_ext E) master token = Inr st"
  shows "handle E st header req w =
    (if header = Some (''Bearer '' @ trim token) \<and> header_to_str (''Bearer '' @ trim token) = Some (''Bearer '' @ trim token)
     then dispatch E st req w else (w, Inl api_unauthorized))"
proof -
  have iff: "authenticate (en_ext E) st header = Inr () \<longleftrightarrow>
      header = Some (''Bearer '' @ trim token)
      \<and> header_to_str (''Bearer '' @ trim token) = Some (''Bearer '' @ trim token)"
    by (rule authenticate_Inr [OF _ assms(2)]) (rule assms(1))
  show ?thesis
  proof (cases "authenticate (en_ext E) st header")
    case (Inl e)
    then have "e = api_unauthorized" by (rule authenticate_Inl)
    with Inl iff show ?thesis unfolding handle_def by (simp only: sum.case if_False sum.distinct)
  next
    case (Inr u)
    then have auth: "authenticate (en_ext E) st header = Inr ()" by simp
    show ?thesis unfolding handle_def auth sum.case if_P [OF iffD1 [OF iff auth]] by (rule refl)
  qed
qed

theorem api_authentication_witness:
  "handle sample_env sample_state (Some ''Bearer secret'') GetRevision (sample_db, Map.empty)
     = ((sample_db, Map.empty), Inr (RevisionResponse 0))
   \<and> handle sample_env sample_state (Some ''bearer secret'') GetRevision (sample_db, Map.empty)
     = ((sample_db, Map.empty), Inl api_unauthorized)"
proof -
  note a = api_authentication [where E = sample_env and token = "'' secret ''" and st = sample_state
      and master = "''m''" and req = GetRevision and w = "(sample_db, Map.empty)"]
  have s: "en_ext sample_env = sample_ext" by (simp add: sample_env_def)
  have t: "trim '' secret '' = ''secret''" by code_simp
  have h: "header_to_str ''Bearer secret'' = Some ''Bearer secret''" by code_simp
  have r: "t_revision sample_db = 0" by code_simp
  show ?thesis
    using a [of "Some ''Bearer secret''"] a [of "Some ''bearer secret''"] h r sample_state_new s t
    by (simp add: sample_ext_def on_catalog_def reading_def api_revision_def)
qed

text \<open>
  C30. Every request is a run of catalog operations: whatever it is and however it ends, it takes
  a reachable catalog to a reachable one, so the schema and the ownership invariant hold after
  it; the revision does not decrease, and where it stands still the configuration does; and the
  registry of sessions only loses entries.
\<close>

theorem api_requests_are_runs:
  assumes "handle E st header req w = (w', r)" and "reachable (en_ext E) (fst w)"
  shows "reachable (en_ext E) (fst w') \<and> catalog_wf (fst w')
    \<and> snd w' \<subseteq>\<^sub>m snd w
    \<and> (t_revision (fst w) < t_revision (fst w') \<or> config_same (fst w) (fst w'))"
proof -
  have s: "catalog_steps (en_ext E) (fst w) (fst w') \<and> snd w' \<subseteq>\<^sub>m snd w"
  proof (cases "authenticate (en_ext E) st header")
    case (Inl e)
    with assms(1) show ?thesis by (simp add: handle_def)
  next
    case (Inr u)
    with assms(1) show ?thesis by (intro dispatch_steps) (simp add: handle_def)
  qed
  have "constraints (fst w)" using reachable_wf [OF assms(2)] by (simp add: catalog_wf_def)
  note rev = steps_revision [OF _ this]
  have reach: "reachable (en_ext E) (fst w')"
    using assms(2) s steps_trans unfolding reachable_def by blast
  with s rev [of "en_ext E" "fst w'"] reachable_wf [OF reach] show ?thesis by fastforce
qed

theorem api_requests_are_runs_witness:
  "catalog_wf (fst (fst (handle sample_env sample_state (Some sample_header) (PostAsset sample_write)
      (baseline, Map.empty))))"
  using api_requests_are_runs [OF prod.collapse [symmetric], of sample_env "(baseline, Map.empty)"]
  by (simp add: reachable_def)

text \<open>
  C31. The API cannot edit what a configuration source manages. A request to change or delete such a
  resource fails, with 409 \<open>managed_by_source\<close> unless it is a credential update (whose body is
  examined first), and changes nothing at all.
\<close>

theorem api_refuses_managed:
  assumes "request_target req = Some (rtype, i)"
    and "resource_ownership rtype i (fst w) = ConfigOwned"
  shows "\<exists>e. dispatch E st req w = (w, Inl e)
    \<and> ((\<exists>j r. req = PutCredential j r) \<or> (ae_status e = 409 \<and> ae_code e = ''managed_by_source''))"
  by (rule managed_target [OF assms(1) config_owned_managed [OF assms(2)]])

theorem api_refuses_managed_witness:
  "\<exists>e. dispatch sample_env sample_state (DeleteAsset managed_id) (managed_db, Map.empty)
      = ((managed_db, Map.empty), Inl e) \<and> ae_status e = 409"
  using api_refuses_managed [of "DeleteAsset managed_id" "''asset''" managed_id "(managed_db, Map.empty)"
      sample_env sample_state] managed_sample by auto



text \<open>
  C33. What a credential update stores. After a successful update the credential has the name and
  the user of the request; each secret of its new type that the request supplies is stored as an
  envelope that decrypts to it in the context of this credential and field, each one it omits is
  the stored one if the old type had it, and a secret the new type has no use for is dropped.
\<close>

theorem api_credential_material:
  assumes "crypto_laws (en_ext E)" and "get_credential i (fst w) = Some old"
    and "dispatch E st (PutCredential i r) w = (w', Inr resp)"
  shows "\<exists>new. get_credential i (fst w') = Some new
    \<and> cr_name new = cw_name r \<and> cr_username new = cw_username r
    \<and> (if cw_auth_type r = ApiPassword
       then secret_written (en_ext E) (api_master_key st) i ''password'' (cw_password r)
         (if cr_auth_type old = ''password'' then cr_password_enc old else None) (cr_password_enc new)
       else cr_password_enc new = None)
    \<and> (if cw_auth_type r = ApiPassword then cr_private_key_enc new = None
       else secret_written (en_ext E) (api_master_key st) i ''private_key'' (cw_private_key r)
         (if cr_auth_type old \<noteq> ''password'' then cr_private_key_enc old else None) (cr_private_key_enc new))
    \<and> (if cw_auth_type r = ApiKeyPassphrase
       then secret_written (en_ext E) (api_master_key st) i ''passphrase'' (cw_passphrase r)
         (if cr_auth_type old = ''key+passphrase'' then cr_passphrase_enc old else None) (cr_passphrase_enc new)
       else cr_passphrase_enc new = None)"
proof -
  from assms(2,3) obtain c db' where
    c: "build_credential (en_ext E) (en_nonce E) (api_master_key st) i r (Some old) = Inr c"
    and u: "update_credential (en_now E) i c (fst w) = (db', Inr ())" and w': "fst w' = db'"
    by (auto simp: on_catalog_def api_update_credential_def proceed_def split: sum.splits prod.splits)
  obtain new where new: "get_credential i db' = Some new" "cr_name new = nc_name c"
    "cr_username new = nc_username c" "cr_password_enc new = nc_password_enc c"
    "cr_private_key_enc new = nc_private_key_enc c" "cr_passphrase_enc new = nc_passphrase_enc c"
    by (rule update_credential_stored [OF u assms(2)])
  have k: "keep_if p col (Some old) = (if p (cr_auth_type old) then col old else None)" for p col
    by (simp add: keep_if_def)
  note m = build_credential_material [OF assms(1) c, unfolded k]
  have n: "cr_name new = cw_name r" "cr_username new = cw_username r"
    by (simp_all only: new(2,3) m(2,3))
  show ?thesis
    unfolding w'
    by (intro exI [of _ new] conjI new(1) n m(5) [folded new(4)] m(6) [folded new(5)]
        m(7) [folded new(6)])
qed

text \<open>A catalog with one local credential.\<close>

definition credential_db :: catalog where
  "credential_db = baseline\<lparr>t_credentials := [\<lparr>c_id = ''1'', c_name = ''c'', c_username = ''root'',
       c_auth_type = ''password'', c_password_enc = Some ''e'', c_private_key_enc = None,
       c_passphrase_enc = None, c_secret_hmac = None, c_created_at = ''t'', c_updated_at = ''t''\<rparr>],
     t_ownership := [sample_owner ''credential'' ''1'']\<rparr>"

definition credential_id :: string where
  "credential_id = ''1''"

lemma credential_stored:
  "map_option cr_auth_type (get_credential credential_id credential_db) = Some ''password''"
  by code_simp

lemma credential_update_ok:
  "\<not> isl (snd (dispatch sample_env sample_state (PutCredential credential_id
      (sample_credential_write (Some ''qw''))) (credential_db, Map.empty)))"
  by code_simp

theorem api_credential_material_witness:
  "\<exists>new. get_credential credential_id (fst (fst (dispatch sample_env sample_state
        (PutCredential credential_id (sample_credential_write (Some ''qw''))) (credential_db, Map.empty))))
      = Some new
    \<and> secret_written sample_ext ''m'' credential_id ''password'' (Some ''qw'')
        (cr_password_enc (the (get_credential credential_id credential_db))) (cr_password_enc new)"
proof -
  let ?r = "dispatch sample_env sample_state (PutCredential credential_id
      (sample_credential_write (Some ''qw''))) (credential_db, Map.empty)"
  have ok: "\<not> isl (snd ?r)" by (rule credential_update_ok)
  obtain c where c: "get_credential credential_id credential_db = Some c"
      "cr_auth_type c = ''password''" using credential_stored by auto
  have laws: "crypto_laws (en_ext sample_env)" by (simp add: sample_env_def sample_crypto_laws)
  have st: "en_ext sample_env = sample_ext" "api_master_key sample_state = ''m''"
    "cw_auth_type (sample_credential_write (Some ''qw'')) = ApiPassword"
    "cw_password (sample_credential_write (Some ''qw'')) = Some ''qw''"
    by (simp_all add: sample_env_def sample_state_def sample_credential_write_def)
  from api_credential_material [OF laws _ success_pair [OF ok], of c] c
  show ?thesis unfolding st by (simp only: fst_conv simp_thms if_True option.sel) blast
qed

text \<open>
  C34. Secrets never come out: the answer to every read request is the same as on the catalog with
  all passwords, private keys, passphrases and their keyed hashes blanked, so it depends only on
  which of them are configured.
\<close>

theorem api_hides_secrets:
  assumes "read_request req"
  shows "snd (handle E st header req (db, reg)) = snd (handle E st header req (redact db, reg))"
  by (cases "authenticate (en_ext E) st header")
    (simp_all add: handle_def reads_redacted [OF assms])

theorem api_hides_secrets_witness:
  "snd (handle sample_env sample_state (Some sample_header) GetCredentials (credential_db, Map.empty))
     = snd (handle sample_env sample_state (Some sample_header) GetCredentials
         (redact credential_db, Map.empty))"
  by (rule api_hides_secrets) simp

end
