(* ===== verification/Startup_Properties.thy ===== *)
theory Startup_Properties
  imports Server_Main_Facts Control_Api_Properties
begin

text \<open>
  The properties of the startup configuration, of the apply scope and of the start of the server,
  each with a run on concrete values.
\<close>

section \<open>Startup configuration\<close>

definition origin_ok :: "net \<Rightarrow> string \<Rightarrow> bool" where
  "origin_ok N origin \<longleftrightarrow> authority_only origin
     \<and> (case uri N origin of
          Some (Some scheme, Some authority) \<Rightarrow>
            (scheme = ''http'' \<or> scheme = ''https'') \<and> CHR ''@'' \<notin> set authority
        | _ \<Rightarrow> False)"

definition cors_ok :: "net \<Rightarrow> string list \<Rightarrow> bool" where
  "cors_ok N origins \<longleftrightarrow> origins = [''*''] \<or> (\<forall>o' \<in> set origins. o' \<noteq> ''*'' \<and> origin_ok N o')"

lemma check_origin_Inr: "check_origin N (i, origin) = Inr () \<longleftrightarrow> origin = ''*'' \<or> origin_ok N origin"
  by (auto simp: check_origin_def origin_ok_def and_then_Inr ok_or_Inr split: option.splits)

lemma validate_cors_Inr: "validate_cors_origins N origins = Inr () \<longleftrightarrow> cors_ok N origins"
proof -
  have "foldE (\<lambda>_ entry. check_origin N entry) () (List.enumerate k origins) = Inr ()
      \<longleftrightarrow> (\<forall>x \<in> set origins. x = ''*'' \<or> origin_ok N x)" for k
    by (induction origins arbitrary: k) (simp_all add: and_then_Inr check_origin_Inr)
  note all = this [of 0]
  show ?thesis
  proof (cases "''*'' \<in> set origins")
    case True
    then have "origins = [''*''] \<or> 1 < length origins"
      by (cases origins; cases "tl origins") auto
    then show ?thesis
    proof
      assume "1 < length origins"
      then have "origins \<noteq> [''*'']" "\<not> cors_ok N origins" using True by (auto simp: cors_ok_def)
      with \<open>1 < length origins\<close> True show ?thesis by (simp add: validate_cors_origins_def)
    qed (simp add: validate_cors_origins_def cors_ok_def check_origin_def)
  next
    case False
    then show ?thesis using all by (auto simp: validate_cors_origins_def cors_ok_def)
  qed
qed

text \<open>
  C26. A startup configuration is accepted exactly if the addresses it uses parse, the origins of an
  enabled API are either the lone wildcard or plain http(s) origins, the fixed settings have their
  values, and its resources are in order: valid names; a password, or a private key that its
  passphrase opens; a host and a port; a readable public key; and references only to what the
  configuration itself declares.
\<close>

theorem config_accepted:
  assumes "bt_ok (hc_credentials c)" and "bt_ok (hc_assets c)" and "bt_ok (hc_access_keys c)"
  shows "validate_config X N w c = Inr () \<longleftrightarrow>
    \<not> isl (socket_addr N (hc_listen c))
    \<and> (\<not> ac_enabled (hc_api c) \<or> (\<not> isl (socket_addr N (ac_listen (hc_api c)))
         \<and> cors_ok N (ac_cors_allowlist (hc_api c))))
    \<and> hc_data_dir c \<noteq> [] \<and> sc_host_key_type (hc_ssh c) = ''ed25519''
    \<and> sc_proxy_policy (hc_ssh c) = ''assets_only'' \<and> rt_temp_dir (hc_runtime c) \<noteq> []
    \<and> trim (rt_log_level (hc_runtime c)) \<noteq> [] \<and> resources_ok X w c"
proof -
  let ?cr = "\<forall>e \<in> set (hc_credentials c). check_startup_credential e = Inr ()"
  let ?as = "\<forall>e \<in> set (hc_assets c). check_startup_asset e = Inr ()"
  let ?ac = "\<forall>e \<in> set (hc_access_keys c). check_startup_access_key e = Inr ()"
  have m: "map_err f r = Inr () \<longleftrightarrow> r = Inr ()" for f :: "catalog_error \<Rightarrow> hop_error" and r
    by (cases r) auto
  have shape: "?cr \<and> ?as \<and> ?ac" if "resources_ok X w c"
    using that credential_entry_checked asset_entry_checked key_entry_checked
    unfolding resources_ok_def by fast
  have "?cr \<and> ?as \<and> ?ac \<and> validate_offline X w (startup_manifest c) = Inr () \<longleftrightarrow> resources_ok X w c"
    using validate_startup_manifest [OF assms, of X w] shape by blast
  moreover have "(\<exists>a. map_err f r = Inr a) \<longleftrightarrow> \<not> isl r" for f and r :: "string + string \<times> u16"
    by (cases r) auto
  ultimately show ?thesis
    unfolding validate_config_def ssh_bind_addr_def api_bind_addr_def
    by (simp add: and_then_Inr check_Inr foldE_check m validate_cors_Inr) auto
qed

definition sample_net :: net where
  "sample_net = \<lparr>socket_addr = (\<lambda>s. Inr (s, 22)), uri = (\<lambda>_. None)\<rparr>"

definition sample_config :: hop_config where
  "sample_config = default_config\<lparr>hc_assets := [(''a'', \<lparr>ua_type = Some Tcp, ua_host = ''h'', ua_port = Some 1,
       ua_display_name = None, ua_description = None, ua_credential = None\<rparr>)],
     hc_access_keys := [(''k'', \<lparr>uk_public_key = Some ''k x'', uk_public_key_file = None, uk_enabled = None,
       uk_assets = Some [''a'']\<rparr>)]\<rparr>"

theorem config_accepted_witness:
  "validate_config sample_ext sample_net sample_os sample_config = Inr ()"
proof -
  have maps: "bt_ok (hc_credentials sample_config)" "bt_ok (hc_assets sample_config)"
    "bt_ok (hc_access_keys sample_config)"
    by (simp_all add: sample_config_def default_config_def bt_ok_def)
  have "resources_ok sample_ext sample_os sample_config" by code_simp
  moreover have "trim ''info'' \<noteq> []" by code_simp
  ultimately show ?thesis
    unfolding config_accepted [OF maps]
    by (simp add: sample_config_def default_config_def default_api_config_def default_ssh_config_def
        default_runtime_config_def sample_net_def)
qed

section \<open>The apply scope\<close>



definition sample_parser :: manifest_parser where
  "sample_parser s raw = Inr (if raw = ''x'' then sample_manifest else empty_manifest)"

definition sample_glob :: globber where
  "sample_glob p = Some [Inr ''b.toml'', Inr ''a.yaml'']"


section \<open>Restarts\<close>

text \<open>
  C28. Restarting the server changes nothing. If it started once, then started again at any later time
  on what the first start left, with the same configuration, it opens the same catalog and master
  key, listens on the same addresses with the same API state and origins, finds nothing to apply,
  and leaves the configuration of every catalog as it is (only sessions past their retention
  are pruned).
\<close>

theorem restart_changes_nothing:
  assumes "serve M path w = (w1, Inr l)" and "same_machine M M'"
    and "crypto_laws (mc_ext M)" and "length (mc_fresh_key M) = key_len"
    and "\<And>p f. wd_dbs w p = Some f \<Longrightarrow> constraints (df_catalog f) \<and> fresh_ids (mc_ext M) (mc_id M) (df_catalog f)"
    and "fresh_ids (mc_ext M) (mc_id M) baseline"
  shows "\<exists>w2 l'. serve M' path w1 = (w2, Inr l') \<and> ls_ssh l' = ls_ssh l \<and> ls_api l' = ls_api l
    \<and> sm_created (ls_summary l') = 0 \<and> sm_updated (ls_summary l') = 0 \<and> sm_deleted (ls_summary l') = 0
    \<and> sm_orphaned (ls_summary l') = 0 \<and> wd_keys w2 = wd_keys w1
    \<and> (\<forall>p. rel_option (\<lambda>f f'. config_same (df_catalog f) (df_catalog f')) (wd_dbs w1 p) (wd_dbs w2 p))"
proof -
  obtain w0 db c mk bind db1 pruned db2 s li where
    o: "open_runtime M path w = (w0, Inr (db, c, mk))" and bind: "ssh_bind_addr (mc_net M) c = Inr bind"
    and abind: "ac_enabled (hc_api c) \<longrightarrow> \<not> isl (api_bind_addr (mc_net M) c)"
    and dir: "wd_mkdir w0 (rt_temp_dir (hc_runtime c))"
    and prune: "prune_finished_sessions (mc_days_ago M) (unat (rt_session_retention_days (hc_runtime c))) db
      = (db1, Inr pruned)"
    and app: "apply_startup_resources M (wd_os w0) mk c db1 = (db2, Inr s)"
    and api: "start_api M c mk = Inr li" and w1: "w1 = store_catalog (database_path c) db2 w0"
    and l: "l = \<lparr>ls_ssh = bind, ls_api = li, ls_summary = s, ls_pruned = pruned\<rparr>"
    using assms(1) by (rule serve_Inr)
  from o have db: "constraints db" "fresh_ids (mc_ext M) (mc_id M) db"
    using opened_catalog [OF o] assms(5,6) by auto
  from prune_Inr [OF prune] db have db1: "constraints db1" "fresh_ids (mc_ext M) (mc_id M) db1"
    using fresh_ids_same by blast+
  obtain db3 pruned' where prune': "prune_finished_sessions (mc_days_ago M')
      (unat (rt_session_retention_days (hc_runtime c))) db2 = (db3, Inr pruned')"
    and same: "config_same db2 db3" and app': "\<exists>s'. apply_startup_resources M' (wd_os w0) mk c db3 = (db3, Inr s')
      \<and> sm_created s' = 0 \<and> sm_updated s' = 0 \<and> sm_deleted s' = 0 \<and> sm_orphaned s' = 0"
    by (rule startup_again [OF app db1 assms(2)])
  from app' obtain s' where s': "apply_startup_resources M' (wd_os w0) mk c db3 = (db3, Inr s')"
    "sm_created s' = 0" "sm_updated s' = 0" "sm_deleted s' = 0" "sm_orphaned s' = 0" by blast
  note open' = open_runtime_again [OF o assms(2-4), of db2, folded w1]
  have m: "mc_net M' = mc_net M" "mc_ext M' = mc_ext M" using assms(2) by (simp_all add: same_machine_def)
  have w1_os: "wd_os w1 = wd_os w0" "wd_mkdir w1 = wd_mkdir w0" by (simp_all add: w1 store_catalog_def)
  have api': "start_api M' c mk = start_api M c mk" unfolding start_api_def m ..
  have "serve M' path w1 = (store_catalog (database_path c) db3 w1,
      Inr \<lparr>ls_ssh = bind, ls_api = li, ls_summary = s', ls_pruned = pruned'\<rparr>)"
    by (rule serve_intro [OF open' _ _ _ prune']) (use bind abind dir s' api api' m w1_os in simp_all)
  moreover have "rel_option (\<lambda>f f'. config_same (df_catalog f) (df_catalog f')) (wd_dbs w1 p)
      (wd_dbs (store_catalog (database_path c) db3 w1) p)" for p
    using same by (cases "wd_dbs w0 p") (auto simp: store_catalog_def w1 config_same_def)
  ultimately show ?thesis using s' l by (auto simp: store_catalog_def)
qed

definition sample_world :: world where
  "sample_world = \<lparr>wd_os = \<lparr>os_file = (\<lambda>_. Some []), os_env = (\<lambda>_. None)\<rparr>, wd_exists = (\<lambda>_. True), wd_cwd = Some ''d'', wd_mkdir = (\<lambda>_. True),
     wd_writable = (\<lambda>_. True), wd_dbs = (\<lambda>_. None), wd_keys = (\<lambda>_. None)\<rparr>"

definition sample_machine :: machine where
  "sample_machine = \<lparr>mc_ext = sample_ext, mc_net = sample_net, mc_config = (\<lambda>_ _. Inr sample_config),
     mc_parser = sample_parser, mc_glob = sample_glob, mc_assets_json = (\<lambda>_. Inr []),
     mc_credentials_json = (\<lambda>_. Inr []), mc_now = ''t'', mc_days_ago = (\<lambda>_. ''s''), mc_id = 5, mc_id2 = 9,
     mc_nonce = 0, mc_fresh_key = replicate 32 (CHR ''x''), mc_stdin = None\<rparr>"

theorem restart_changes_nothing_witness:
  "\<exists>w2 l'. serve (sample_machine\<lparr>mc_now := ''u'', mc_id := 30\<rparr>) (Some ''c.yaml'')
      (fst (serve sample_machine (Some ''c.yaml'') sample_world))
      = (w2, Inr l') \<and> sm_created (ls_summary l') = 0 \<and> sm_deleted (ls_summary l') = 0"
proof -
  let ?r = "serve sample_machine (Some ''c.yaml'') sample_world"
  have "\<not> isl (snd ?r)" by code_simp
  from restart_changes_nothing [OF success_pair [OF this],
      of "sample_machine\<lparr>mc_now := ''u'', mc_id := 30\<rparr>"]
  show ?thesis
    using sample_fresh(1) sample_crypto_laws
    by (simp add: sample_machine_def same_machine_def sample_world_def key_len_def) blast
qed

end
