(* ===== verification/Import_Export_Properties.thy ===== *)
theory Import_Export_Properties
  imports Import_Export_Facts Ownership_Kept Examples
begin

text \<open>The properties of exports and imports, each with a run on concrete values.\<close>

section \<open>What an import leaves\<close>














section \<open>Properties\<close>

text \<open>
  C35. What the CSV writer writes, the CSV reader reads back: for rows whose optional fields are
  trimmed and not empty and whose tags have no separator, every asset row and every credential
  row returns exactly, whatever commas, quotes and line breaks its fields contain.
\<close>

theorem csv_roundtrip:
  assumes "\<forall>r \<in> set assets. plain_asset_row r" and "\<forall>r \<in> set credentials. plain_credential_row r"
  shows "read_asset_csv (write_asset_csv assets) = Inr assets
    \<and> read_credential_csv (write_credential_csv credentials) = Inr credentials"
  using read_write_assets [OF assms(1)] read_write_credentials [OF assms(2)] by blast

definition sample_row :: asset_transfer_row where
  "sample_row = \<lparr>at_name = ''a,b'', at_hostname = [CHR 0x22, CHR 0x0A], at_port = 22,
     at_description = Some ''two'', at_tags = [''x'', ''y''], at_credential_id = Some ''c'',
     at_protocol = ''ssh''\<rparr>"

theorem csv_roundtrip_witness:
  "read_asset_csv (write_asset_csv [sample_row, sample_row]) = Inr [sample_row, sample_row]"
proof -
  have "plain_asset_row sample_row" by code_simp
  with csv_roundtrip [of "[sample_row, sample_row]" "[]"] show ?thesis by simp
qed





end
