(* ===== verification/Rust_Chars.thy ===== *)
theory Rust_Chars
  imports Rust_Std
begin

text \<open>
  Characters of UTF-8 strings: \<open>str::chars\<close>, \<open>String::pop\<close>, \<open>chars().take(n).collect()\<close> and
  \<open>contains(char::is_whitespace)\<close>. A character is the string of its bytes; every byte of a
  multi-byte character but the first lies in 128 to 191.
\<close>

section \<open>Splitting into characters\<close>

definition continuation :: "char \<Rightarrow> bool" where
  "continuation c \<longleftrightarrow> 128 \<le> byte_of c \<and> byte_of c < 192"

function chars :: "string \<Rightarrow> string list" where
  "chars [] = []"
| "chars (c # s) = (c # takeWhile continuation s) # chars (dropWhile continuation s)"
  by pat_completeness auto
termination
  by (relation "measure length") (auto simp: le_imp_less_Suc length_dropWhile_le)

definition pop_char :: "string \<Rightarrow> string" where
  "pop_char s = concat (butlast (chars s))"

definition take_chars :: "nat \<Rightarrow> string \<Rightarrow> string" where
  "take_chars n s = concat (take n (chars s))"

fun contains_whitespace :: "string \<Rightarrow> bool" where
  "contains_whitespace [] \<longleftrightarrow> False"
| "contains_whitespace (c # s) \<longleftrightarrow> 0 < ws_len (c # s) \<or> contains_whitespace s"

text \<open>\<open>String::from_utf8\<close>: no overlong forms, no surrogates, nothing above U+10FFFF.\<close>

fun utf8_ok :: "string \<Rightarrow> bool" where
  "utf8_ok [] \<longleftrightarrow> True"
| "utf8_ok (a # s) \<longleftrightarrow>
     (let byte = byte_of a in
      if byte < 128 then utf8_ok s
      else (case s of
          [] \<Rightarrow> False
        | b # t \<Rightarrow>
            if 194 \<le> byte \<and> byte \<le> 223 then continuation b \<and> utf8_ok t
            else (case t of
                [] \<Rightarrow> False
              | c # u \<Rightarrow>
                  if 224 \<le> byte \<and> byte \<le> 239 then continuation b \<and> continuation c
                    \<and> (byte = 224 \<longrightarrow> 160 \<le> byte_of b) \<and> (byte = 237 \<longrightarrow> byte_of b < 160) \<and> utf8_ok u
                  else (case u of
                      [] \<Rightarrow> False
                    | d # v \<Rightarrow> 240 \<le> byte \<and> byte \<le> 244 \<and> continuation b \<and> continuation c
                        \<and> continuation d \<and> (byte = 240 \<longrightarrow> 144 \<le> byte_of b)
                        \<and> (byte = 244 \<longrightarrow> byte_of b < 144) \<and> utf8_ok v))))"

section \<open>Facts\<close>

lemma concat_chars [simp]: "concat (chars s) = s"
  by (induction s rule: chars.induct) simp_all

lemma chars_not_Nil: "u \<in> set (chars s) \<Longrightarrow> u \<noteq> []"
  by (induction s rule: chars.induct) auto

lemma chars_Nil_iff [simp]: "chars s = [] \<longleftrightarrow> s = []"
  by (cases s) simp_all

lemma take_chars_prefix: "prefix (take_chars n s) s"
proof -
  have "concat (take n (chars s)) @ concat (drop n (chars s)) = s"
    by (simp flip: concat_append)
  then show ?thesis unfolding take_chars_def prefix_def by metis
qed

text \<open>The characters of a run of whole characters are those characters.\<close>

definition whole_char :: "string \<Rightarrow> bool" where
  "whole_char u \<longleftrightarrow> (\<exists>c s. u = c # s \<and> \<not> continuation c \<and> (\<forall>d \<in> set s. continuation d))"

lemma chars_whole:
  "\<forall>u \<in> set us. whole_char u \<Longrightarrow> chars (concat us) = us"
proof (induction us)
  case Nil
  then show ?case by simp
next
  case (Cons u us)
  then obtain c s where u: "u = c # s" "\<forall>d \<in> set s. continuation d"
    by (auto simp: whole_char_def)
  have "takeWhile continuation (concat us) = [] \<and> dropWhile continuation (concat us) = concat us"
  proof (cases us)
    case (Cons v vs)
    with Cons.prems obtain d t where "v = d # t" "\<not> continuation d"
      by (auto simp: whole_char_def)
    with Cons show ?thesis by simp
  qed simp
  with u have "takeWhile continuation (s @ concat us) = s"
      "dropWhile continuation (s @ concat us) = concat us"
    by (simp_all add: takeWhile_append2 dropWhile_append2)
  with u Cons show ?case by simp
qed

lemma chars_take_length: "length (take n (chars s)) \<le> n"
  by simp

end
