(* ===== verification/Tui_App.thy ===== *)
theory Tui_App
  imports Startup_Config Rust_Chars
begin

text \<open>
  The terminal interface's state (\<open>tui/app.rs\<close>) and its keys (\<open>tui/input.rs\<close>). A \<open>char\<close> is the
  string of its UTF-8 bytes. Third-party code is a parameter: \<open>fuzzy query names\<close> is what nucleo's
  \<open>Pattern::match_list\<close> returns (the matching names, best first) and the events of termwiz's
  \<open>InputParser\<close> are a function of the bytes read before and the new ones. \<open>RefCell\<close>s are state,
  so \<open>filtered_assets\<close> returns the application after it.
\<close>

section \<open>Keys (input.rs)\<close>

datatype tui_input = CharInput string | Enter | Backspace | Escape | Up | Down | CtrlC

text \<open>Of termwiz's events, what \<open>map_event\<close> tells apart.\<close>

datatype key_code = KeyChar string | KeyEnter | KeyBackspace | KeyEscape | UpArrow
  | ApplicationUpArrow | DownArrow | ApplicationDownArrow | OtherKey

datatype modifier = SHIFT | CTRL | OtherModifier nat

datatype input_event = KeyEvent key_code "modifier set" | OtherEvent

fun map_event :: "input_event \<Rightarrow> tui_input option" where
  "map_event (KeyEvent key mods) =
     (case key of
        KeyChar ch \<Rightarrow>
          if (ch = ''c'' \<or> ch = ''C'') \<and> CTRL \<in> mods then Some CtrlC
          else if mods = {} \<or> mods = {SHIFT} then Some (CharInput ch)
          else if ch = [CHR 0x0D] \<or> ch = [CHR 0x0A] then Some Enter
          else if ch = [CHR 0x08] \<or> ch = [CHR 0x7F] then Some Backspace
          else None
      | KeyEnter \<Rightarrow> Some Enter
      | KeyBackspace \<Rightarrow> Some Backspace
      | KeyEscape \<Rightarrow> Some Escape
      | UpArrow \<Rightarrow> Some Up
      | ApplicationUpArrow \<Rightarrow> Some Up
      | DownArrow \<Rightarrow> Some Down
      | ApplicationDownArrow \<Rightarrow> Some Down
      | OtherKey \<Rightarrow> None)"
| "map_event OtherEvent = None"

text \<open>The adapter keeps the bytes its parser has seen.\<close>

definition parse_input :: "(string \<Rightarrow> string \<Rightarrow> input_event list) \<Rightarrow> string \<Rightarrow> string
    \<Rightarrow> string \<times> tui_input list" where
  "parse_input events seen bytes = (seen @ bytes, List.map_filter map_event (events seen bytes))"

section \<open>The application (app.rs)\<close>

datatype tui_action = NoAction | Quit | Connect asset

record filtered_asset_cache =
  fc_query :: string
  fc_assets :: "asset list"

record tui_app =
  ta_assets :: "asset list"
  ta_filtered_cache :: filtered_asset_cache
  ta_query :: string
  ta_selected :: nat
  ta_searching :: bool

datatype asset_list_item = Group string | AssetItem asset

definition new_tui_app :: "asset list \<Rightarrow> tui_app" where
  "new_tui_app assets = \<lparr>ta_assets = assets, ta_filtered_cache = \<lparr>fc_query = [], fc_assets = assets\<rparr>,
     ta_query = [], ta_selected = 0, ta_searching = False\<rparr>"

definition tag_query :: "string \<Rightarrow> string option" where
  "tag_query query =
     (case split_once '':'' (trim query) of
        None \<Rightarrow> None
      | Some (pre, val) \<Rightarrow>
          if eq_ignore_ascii_case pre ''tag'' \<and> trim val \<noteq> [] then Some (trim val) else None)"

definition asset_group_label :: "asset \<Rightarrow> string" where
  "asset_group_label a = (case as_tags a of [] \<Rightarrow> ''untagged'' | t # _ \<Rightarrow> t)"

definition compute_filtered_assets ::
  "(string \<Rightarrow> string list \<Rightarrow> string list) \<Rightarrow> asset list \<Rightarrow> string \<Rightarrow> asset list" where
  "compute_filtered_assets fuzzy assets query =
     (if trim query = [] then assets
      else case tag_query query of
        Some tag \<Rightarrow> filter (\<lambda>a. \<exists>t \<in> set (as_tags a). eq_ignore_ascii_case t tag) assets
      | None \<Rightarrow> List.map_filter (\<lambda>name. find (\<lambda>a. as_name a = name) assets)
          (fuzzy query (map as_name assets)))"

definition filtered_assets ::
  "(string \<Rightarrow> string list \<Rightarrow> string list) \<Rightarrow> tui_app \<Rightarrow> asset list \<times> tui_app" where
  "filtered_assets fuzzy app =
     (if fc_query (ta_filtered_cache app) = ta_query app then (fc_assets (ta_filtered_cache app), app)
      else let assets = compute_filtered_assets fuzzy (ta_assets app) (ta_query app) in
        (assets, app\<lparr>ta_filtered_cache := \<lparr>fc_query = ta_query app, fc_assets = assets\<rparr>\<rparr>))"

definition sort_assets :: "asset list \<Rightarrow> asset list" where
  "sort_assets assets = sort_key (\<lambda>a. (asset_group_label a, as_name a)) assets"

definition ordered_filtered_assets ::
  "(string \<Rightarrow> string list \<Rightarrow> string list) \<Rightarrow> tui_app \<Rightarrow> asset list \<times> tui_app" where
  "ordered_filtered_assets fuzzy app =
     (case filtered_assets fuzzy app of (assets, app') \<Rightarrow> (sort_assets assets, app'))"

fun group_items :: "string \<Rightarrow> asset list \<Rightarrow> asset_list_item list" where
  "group_items current [] = []"
| "group_items current (a # as) =
     (if asset_group_label a \<noteq> current
      then Group (asset_group_label a) # AssetItem a # group_items (asset_group_label a) as
      else AssetItem a # group_items current as)"

definition grouped_items ::
  "(string \<Rightarrow> string list \<Rightarrow> string list) \<Rightarrow> tui_app \<Rightarrow> asset_list_item list \<times> tui_app" where
  "grouped_items fuzzy app =
     (case ordered_filtered_assets fuzzy app of (assets, app') \<Rightarrow> (group_items [] assets, app'))"

text \<open>\<open>items.get(i)\<close> and \<open>saturating_sub\<close>.\<close>

definition list_get :: "'a list \<Rightarrow> nat \<Rightarrow> 'a option" where
  "list_get xs i = (if i < length xs then Some (xs ! i) else None)"

definition selected_asset ::
  "(string \<Rightarrow> string list \<Rightarrow> string list) \<Rightarrow> tui_app \<Rightarrow> asset option \<times> tui_app" where
  "selected_asset fuzzy app =
     (case ordered_filtered_assets fuzzy app of (items, app') \<Rightarrow>
        (list_get items (min (ta_selected app') (length items - 1)), app'))"

fun handle_input ::
  "(string \<Rightarrow> string list \<Rightarrow> string list) \<Rightarrow> tui_input \<Rightarrow> tui_app \<Rightarrow> tui_app \<times> tui_action" where
  "handle_input fuzzy (CharInput ch) app =
     (if ch = ''q'' \<and> \<not> ta_searching app then (app, Quit)
      else if ch = ''/'' \<and> \<not> ta_searching app
      then (app\<lparr>ta_searching := True, ta_query := [], ta_selected := 0\<rparr>, NoAction)
      else if ta_searching app
      then (app\<lparr>ta_query := ta_query app @ ch, ta_selected := 0\<rparr>, NoAction)
      else (app, NoAction))"
| "handle_input fuzzy Backspace app =
     (if ta_searching app then (app\<lparr>ta_query := pop_char (ta_query app), ta_selected := 0\<rparr>, NoAction)
      else (app, NoAction))"
| "handle_input fuzzy Escape app = (app\<lparr>ta_searching := False\<rparr>, NoAction)"
| "handle_input fuzzy CtrlC app =
     (app\<lparr>ta_query := [], ta_searching := False, ta_selected := 0\<rparr>, NoAction)"
| "handle_input fuzzy Up app = (app\<lparr>ta_selected := ta_selected app - 1\<rparr>, NoAction)"
| "handle_input fuzzy Down app =
     (case filtered_assets fuzzy app of (assets, app') \<Rightarrow>
        (if length assets > 0
         then app'\<lparr>ta_selected := min (ta_selected app' + 1) (length assets - 1)\<rparr> else app', NoAction))"
| "handle_input fuzzy Enter app =
     (case selected_asset fuzzy app of
        (Some a, app') \<Rightarrow> (app', Connect a)
      | (None, app') \<Rightarrow> (app', NoAction))"

text \<open>The loop of \<open>handle_bytes\<close>: the inputs after one that asks for an action are dropped.\<close>

fun handle_inputs ::
  "(string \<Rightarrow> string list \<Rightarrow> string list) \<Rightarrow> tui_input list \<Rightarrow> tui_app \<Rightarrow> tui_app \<times> tui_action" where
  "handle_inputs fuzzy [] app = (app, NoAction)"
| "handle_inputs fuzzy (i # is) app =
     (case handle_input fuzzy i app of (app', act) \<Rightarrow>
        if act \<noteq> NoAction then (app', act) else handle_inputs fuzzy is app')"

end
