(* ===== verification/Tui_Views.thy ===== *)
theory Tui_Views
  imports Tui_App
begin

text \<open>
  What the terminal interface shows (\<open>tui/views.rs\<close>) and how its bytes reach the session
  (\<open>TuiResources\<close> of \<open>tui/app.rs\<close> over \<open>tui/backend.rs\<close>). A widget is a list of lines of styled
  spans in a rectangle. Parameters, collected in \<open>term_env\<close>, stand for ratatui (\<open>tm_layout\<close> splits the
  screen, \<open>tm_width\<close> is \<open>Span::width\<close>, \<open>tm_paint\<close> the bytes that turn one frame into the next,
  \<open>None\<close> a cleared screen), crossterm's control sequences, termwiz's parser and nucleo's matcher.
\<close>

section \<open>Lines\<close>

datatype color = Blue | DarkGray | Yellow | Cyan | White

record style =
  st_fg :: "color option"
  st_bg :: "color option"
  st_bold :: bool

definition plain_style :: style where
  "plain_style = \<lparr>st_fg = None, st_bg = None, st_bold = False\<rparr>"

definition fg :: "color \<Rightarrow> style \<Rightarrow> style" where
  "fg c s = s\<lparr>st_fg := Some c\<rparr>"

definition bold :: "style \<Rightarrow> style" where
  "bold s = s\<lparr>st_bold := True\<rparr>"

type_synonym span = "string \<times> style"

definition raw_span :: "string \<Rightarrow> span" where
  "raw_span s = (s, plain_style)"

text \<open>\<open>Line::width\<close>: the widths of its spans.\<close>

definition line_width :: "(string \<Rightarrow> nat) \<Rightarrow> span list \<Rightarrow> nat" where
  "line_width w l = sum_list (map (\<lambda>(s, _). w s) l)"

definition spaces :: "nat \<Rightarrow> string" where
  "spaces n = replicate n CHR '' ''"

text \<open>The characters outside ASCII that the view writes, as UTF-8.\<close>

definition ellipsis :: string where
  "ellipsis = [CHR 0xE2, CHR 0x80, CHR 0xA6]"

definition marker_selected :: string where
  "marker_selected = [CHR 0xE2, CHR 0x96, CHR 0xB8]"

definition rule_char :: string where
  "rule_char = [CHR 0xE2, CHR 0x94, CHR 0x80]"

definition prompt_char :: string where
  "prompt_char = [CHR 0xE2, CHR 0x80, CHR 0xBA]"

definition arrows :: string where
  "arrows = [CHR 0xE2, CHR 0x86, CHR 0x91, CHR 0xE2, CHR 0x86, CHR 0x93]"

section \<open>Truncation\<close>

text \<open>The loop of \<open>truncate_to_width\<close> over the characters that still fit.\<close>

fun fitting :: "(string \<Rightarrow> nat) \<Rightarrow> nat \<Rightarrow> nat \<Rightarrow> string list \<Rightarrow> string" where
  "fitting w max_width width [] = []"
| "fitting w max_width width (ch # chs) =
     (if width + w ch > max_width - 1 then []
      else ch @ fitting w max_width (width + w ch) chs)"

definition truncate_to_width :: "(string \<Rightarrow> nat) \<Rightarrow> string \<Rightarrow> nat \<Rightarrow> string" where
  "truncate_to_width w v max_width =
     (if w v \<le> max_width then v
      else if max_width = 0 then []
      else if max_width = 1 then ellipsis
      else fitting w max_width 0 (chars v) @ ellipsis)"

definition visible_asset_count :: "nat \<Rightarrow> nat" where
  "visible_asset_count list_height = list_height div 2"

section \<open>Widgets\<close>

record rect =
  rc_x :: nat
  rc_y :: nat
  rc_width :: nat
  rc_height :: nat

datatype layout_constraint = LengthConstraint nat | MinConstraint nat

record term_env =
  tm_layout :: "layout_constraint list \<Rightarrow> rect \<Rightarrow> rect list"
  tm_width :: "string \<Rightarrow> nat"
  tm_paint :: "rect \<Rightarrow> (rect \<times> span list list) list option \<Rightarrow> (rect \<times> span list list) list \<Rightarrow> string"
  tm_enter :: string
  tm_leave :: string
  tm_clear :: string
  tm_events :: "string \<Rightarrow> string \<Rightarrow> input_event list"
  tm_fuzzy :: "string \<Rightarrow> string list \<Rightarrow> string list"

type_synonym frame = "(rect \<times> span list list) list"

definition draw_separator :: "rect \<Rightarrow> frame" where
  "draw_separator area =
     [(area, [[('' '' @ concat (replicate (rc_width area - 2) rule_char) @ '' '', fg DarkGray plain_style)]])]"

definition draw_header :: "term_env \<Rightarrow> rect \<Rightarrow> nat \<Rightarrow> tui_app \<Rightarrow> frame \<times> tui_app" where
  "draw_header T area list_height app =
     (case filtered_assets (tm_fuzzy T) app of (filtered, app') \<Rightarrow>
        let count = length filtered;
            count_text = (if count = 1 then ''1 asset'' else show_nat count @ '' assets'');
            visible_count = visible_asset_count list_height;
            right_text = (if visible_count > 0 \<and> count > visible_count
              then count_text @ ''  '' @ show_nat (min (ta_selected app') (count - 1) + 1) @ ''/'' @ show_nat count
              else count_text);
            title_len = 5 + length ''0.2.4'';
            padding = rc_width area - (title_len + tm_width T right_text + 4) in
        ([(area, [[raw_span ''  '', (''Hop'', bold (fg Blue plain_style)), ('' v0.2.4'', fg DarkGray plain_style),
            raw_span (spaces padding), (right_text, fg DarkGray plain_style), raw_span ''  '']])], app'))"

definition draw_status :: "term_env \<Rightarrow> rect \<Rightarrow> tui_app \<Rightarrow> frame" where
  "draw_status T area app =
     (let content = truncate_to_width (tm_width T) (ta_query app) (rc_width area - 4) in
      [(area, [if ta_searching app
         then [raw_span ''  '', (prompt_char, fg Yellow plain_style), raw_span '' '', raw_span content]
         else [raw_span ''  '', (''filter'', fg Yellow plain_style), raw_span '' '', raw_span content]])])"

definition group_line :: "term_env \<Rightarrow> string \<Rightarrow> nat \<Rightarrow> span list" where
  "group_line T label width =
     [(''  '' @ truncate_to_width (tm_width T) label (width - 2), bold (fg Yellow plain_style))]"

definition draw_empty_assets :: "term_env \<Rightarrow> rect \<Rightarrow> tui_app \<Rightarrow> frame" where
  "draw_empty_assets T area app =
     (let message = (if ta_query app = [] then ''No assets configured''
          else ''No assets match '' @ [CHR 0x22] @ ta_query app @ [CHR 0x22]) in
      [(area, [[raw_span ''  '',
         (truncate_to_width (tm_width T) message (rc_width area - 4), fg DarkGray plain_style)]])])"

definition credential_label :: "asset \<Rightarrow> string" where
  "credential_label a = (if as_credential_id a \<noteq> None then ''managed'' else ''proxy-only'')"

definition address_label :: "asset \<Rightarrow> string" where
  "address_label a = as_hostname a @ '':'' @ show_int (as_port a)"

definition tags_label :: "asset \<Rightarrow> string" where
  "tags_label a = (if as_tags a = [] then [] else ''['' @ join '']['' (as_tags a) @ '']'')"

definition asset_lines :: "term_env \<Rightarrow> asset \<Rightarrow> bool \<Rightarrow> nat \<Rightarrow> span list \<times> span list" where
  "asset_lines T a selected width =
     (let w = tm_width T;
          marker = (if selected then marker_selected else '' '');
          bg = (if selected then plain_style\<lparr>st_bg := Some DarkGray\<rparr> else plain_style);
          prefix_width = 4; right_margin = 2;
          right1 = truncate_to_width w (credential_label a) (width - prefix_width - right_margin);
          right_width1 = w right1 + right_margin;
          name = truncate_to_width w (as_name a) (width - (prefix_width + right_width1));
          gap1 = width - (prefix_width + w name + right_width1);
          marker_style = (if selected then fg Cyan bg else fg DarkGray plain_style);
          name_style = (if selected then bold (fg White bg) else bold bg);
          right2 = truncate_to_width w (tags_label a) (width - prefix_width - right_margin);
          right_width2 = w right2 + right_margin;
          addr2 = truncate_to_width w (address_label a) (width - (prefix_width + right_width2));
          gap2 = width - (prefix_width + w addr2 + right_width2);
          addr_style = (if selected then fg White bg else fg DarkGray bg)
      in ([(''  '', bg), (marker, marker_style), ('' '', bg), (name, name_style),
           (spaces gap1, bg), (right1, bg), (''  '', bg)],
          [(''    '', bg), (addr2, addr_style), (spaces gap2, bg), (right2, fg Blue bg), (''  '', bg)]))"

text \<open>
  The loop of \<open>draw_assets\<close>: \<open>lines\<close> is the number of lines pushed so far and \<open>asset_idx\<close> the
  number of assets passed.
\<close>

fun asset_list_lines ::
  "term_env \<Rightarrow> nat \<Rightarrow> nat \<Rightarrow> nat \<Rightarrow> nat \<Rightarrow> nat \<Rightarrow> nat \<Rightarrow> asset_list_item list \<Rightarrow> span list list" where
  "asset_list_lines T width available offset selected lines asset_idx [] = []"
| "asset_list_lines T width available offset selected lines asset_idx (Group label # items) =
     (if asset_idx \<ge> offset \<and> lines < available
      then group_line T label width
        # asset_list_lines T width available offset selected (lines + 1) asset_idx items
      else asset_list_lines T width available offset selected lines asset_idx items)"
| "asset_list_lines T width available offset selected lines asset_idx (AssetItem a # items) =
     (if asset_idx < offset
      then asset_list_lines T width available offset selected lines (asset_idx + 1) items
      else if lines \<ge> available then []
      else (case asset_lines T a (asset_idx = selected) width of (line1, line2) \<Rightarrow>
        if lines + 1 < available
        then line1 # line2
          # asset_list_lines T width available offset selected (lines + 2) (asset_idx + 1) items
        else line1
          # asset_list_lines T width available offset selected (lines + 1) (asset_idx + 1) items))"

definition scroll_offset :: "nat \<Rightarrow> nat \<Rightarrow> nat" where
  "scroll_offset selected visible_count =
     (if selected \<ge> visible_count then selected - visible_count + 1 else 0)"

definition draw_assets :: "term_env \<Rightarrow> rect \<Rightarrow> tui_app \<Rightarrow> frame \<times> tui_app" where
  "draw_assets T area app =
     (case filtered_assets (tm_fuzzy T) app of (filtered, app1) \<Rightarrow>
      (case grouped_items (tm_fuzzy T) app1 of (grouped, app2) \<Rightarrow>
        if filtered = [] then (draw_empty_assets T area app2, app2)
        else if visible_asset_count (rc_height area) = 0 then ([], app2)
        else (let selected = min (ta_selected app2) (length filtered - 1);
                  offset = scroll_offset selected (visible_asset_count (rc_height area)) in
          ([(area, asset_list_lines T (rc_width area) (rc_height area) offset selected 0 0 grouped)],
           app2))))"

definition draw_help :: "rect \<Rightarrow> tui_app \<Rightarrow> frame" where
  "draw_help area app =
     (let key = fg Cyan plain_style; desc = fg DarkGray plain_style in
      [(area, [[raw_span ''  '', (''Enter'', key), ('' connect  '', desc), (''/'', key), ('' search  '', desc),
          (arrows, key), ('' select  '', desc)]
        @ (if ta_searching app then [(''Esc'', key), ('' close  '', desc)] else [])
        @ (if ta_searching app \<or> ta_query app \<noteq> [] then [(''Ctrl+C'', key), ('' clear  '', desc)] else [])
        @ [(''q'', key), ('' quit'', desc)]])])"

text \<open>\<open>chunks[i]\<close> panics out of range; ratatui returns one rectangle per constraint.\<close>

definition draw :: "term_env \<Rightarrow> rect \<Rightarrow> tui_app \<Rightarrow> frame \<times> tui_app" where
  "draw T area app =
     (let status_height = (if ta_searching app \<or> ta_query app \<noteq> [] then 1 else 0);
          chunks = tm_layout T [LengthConstraint 1, LengthConstraint 1, LengthConstraint status_height,
            MinConstraint 5, LengthConstraint 1, LengthConstraint 1] area in
      case draw_header T (chunks ! 0) (rc_height (chunks ! 3)) app of (header, app1) \<Rightarrow>
      (case draw_assets T (chunks ! 3) app1 of (list, app2) \<Rightarrow>
        (header @ draw_separator (chunks ! 1)
          @ (if status_height > 0 then draw_status T (chunks ! 2) app1 else [])
          @ list @ draw_separator (chunks ! 4) @ draw_help (chunks ! 5) app2, app2)))"

section \<open>The terminal of a session\<close>

text \<open>
  \<open>tr_frame\<close> is the frame ratatui holds for its next comparison; \<open>tr_sink\<close> and \<open>tr_output\<close> are
  the two buffers of \<open>TerminalOutput\<close>. The viewport is at least 40 by 10.
\<close>

record tui_resources =
  tr_area :: rect
  tr_frame :: "frame option"
  tr_sink :: string
  tr_output :: string
  tr_app :: tui_app
  tr_input :: string

definition viewport :: "u16 \<Rightarrow> u16 \<Rightarrow> rect" where
  "viewport width height =
     \<lparr>rc_x = 0, rc_y = 0, rc_width = max (unat width) 40, rc_height = max (unat height) 10\<rparr>"

definition new_tui :: "u16 \<Rightarrow> u16 \<Rightarrow> asset list \<Rightarrow> tui_resources" where
  "new_tui width height assets =
     \<lparr>tr_area = viewport width height, tr_frame = None, tr_sink = [], tr_output = [],
      tr_app = new_tui_app assets, tr_input = []\<rparr>"

definition terminal_write :: "string \<Rightarrow> tui_resources \<Rightarrow> tui_resources" where
  "terminal_write buf tui = tui\<lparr>tr_sink := tr_sink tui @ buf\<rparr>"

definition terminal_flush :: "tui_resources \<Rightarrow> tui_resources" where
  "terminal_flush tui = tui\<lparr>tr_sink := [], tr_output := tr_output tui @ tr_sink tui\<rparr>"

definition take_output :: "tui_resources \<Rightarrow> tui_resources \<times> string" where
  "take_output tui =
     (let flushed = terminal_flush tui in (flushed\<lparr>tr_output := []\<rparr>, tr_output flushed))"

definition render :: "term_env \<Rightarrow> tui_resources \<Rightarrow> tui_resources \<times> string" where
  "render T tui =
     (case draw T (tr_area tui) (tr_app tui) of (frame, app) \<Rightarrow>
        take_output (terminal_write (tm_paint T (tr_area tui) (tr_frame tui) frame)
          (tui\<lparr>tr_frame := Some frame, tr_app := app\<rparr>)))"

definition enter_screen :: "term_env \<Rightarrow> tui_resources \<Rightarrow> tui_resources \<times> string" where
  "enter_screen T tui =
     render T (terminal_write (tm_clear T)
       ((terminal_flush (terminal_write (tm_enter T) tui))\<lparr>tr_frame := None\<rparr>))"

definition leave_screen :: "term_env \<Rightarrow> tui_resources \<Rightarrow> tui_resources \<times> string" where
  "leave_screen T tui = take_output (terminal_flush (terminal_flush (terminal_write (tm_leave T) tui)))"

definition resume_after_target :: "term_env \<Rightarrow> tui_resources \<Rightarrow> tui_resources \<times> string" where
  "resume_after_target T tui = enter_screen T tui"

definition resize_tui :: "term_env \<Rightarrow> u16 \<Rightarrow> u16 \<Rightarrow> tui_resources \<Rightarrow> tui_resources \<times> string" where
  "resize_tui T width height tui =
     render T (terminal_write (tm_clear T) (tui\<lparr>tr_area := viewport width height, tr_frame := None\<rparr>))"

definition handle_bytes :: "term_env \<Rightarrow> string \<Rightarrow> tui_resources \<Rightarrow> tui_resources \<times> tui_action \<times> string" where
  "handle_bytes T bytes tui =
     (case parse_input (tm_events T) (tr_input tui) bytes of (seen, inputs) \<Rightarrow>
      (case handle_inputs (tm_fuzzy T) inputs (tr_app tui) of (app, act) \<Rightarrow>
      (case render T (tui\<lparr>tr_app := app, tr_input := seen\<rparr>) of (tui', out) \<Rightarrow> (tui', act, out))))"

end
