(* ===== verification/Tui_Facts.thy ===== *)
theory Tui_Facts
  imports Tui_Views
begin

text \<open>
  Facts about the terminal interface: the cache always holds what a fresh filter would compute, the
  selection stays inside the list, an input that connects names the selected asset, and truncated
  text fits its width.
\<close>

section \<open>The cache and the selection\<close>

definition shown_assets :: "(string \<Rightarrow> string list \<Rightarrow> string list) \<Rightarrow> tui_app \<Rightarrow> asset list" where
  "shown_assets fuzzy app = compute_filtered_assets fuzzy (ta_assets app) (ta_query app)"

definition cache_ok :: "(string \<Rightarrow> string list \<Rightarrow> string list) \<Rightarrow> tui_app \<Rightarrow> bool" where
  "cache_ok fuzzy app \<longleftrightarrow> fc_assets (ta_filtered_cache app)
     = compute_filtered_assets fuzzy (ta_assets app) (fc_query (ta_filtered_cache app))"

definition selection_ok :: "(string \<Rightarrow> string list \<Rightarrow> string list) \<Rightarrow> tui_app \<Rightarrow> bool" where
  "selection_ok fuzzy app \<longleftrightarrow>
     ta_selected app = 0 \<or> ta_selected app < length (shown_assets fuzzy app)"

definition tui_wf :: "(string \<Rightarrow> string list \<Rightarrow> string list) \<Rightarrow> asset list \<Rightarrow> tui_app \<Rightarrow> bool" where
  "tui_wf fuzzy assets app \<longleftrightarrow> ta_assets app = assets \<and> cache_ok fuzzy app \<and> selection_ok fuzzy app"

lemma tui_wf_new [simp]: "tui_wf fuzzy assets (new_tui_app assets)"
  by (simp add: tui_wf_def cache_ok_def selection_ok_def new_tui_app_def compute_filtered_assets_def)

lemma compute_filtered_subset: "set (compute_filtered_assets fuzzy assets query) \<subseteq> set assets"
proof -
  have "a \<in> set assets" if "find p assets = Some a" for p a
    using that by (auto simp: find_Some_iff)
  then show ?thesis
    by (auto simp: compute_filtered_assets_def List.map_filter_def split: option.splits if_splits)
qed

text \<open>Looking at the list may refresh the cache and changes nothing else.\<close>

definition refreshed :: "tui_app \<Rightarrow> tui_app \<Rightarrow> bool" where
  "refreshed app app' \<longleftrightarrow> (\<exists>c. app' = app\<lparr>ta_filtered_cache := c\<rparr>)"

lemma refreshed_refl [simp]: "refreshed app app"
  unfolding refreshed_def by (rule exI [of _ "ta_filtered_cache app"]) simp

lemma refreshed_trans: "refreshed a b \<Longrightarrow> refreshed b c \<Longrightarrow> refreshed a c"
  by (auto simp: refreshed_def)

lemma refreshed_fields:
  "refreshed app app' \<Longrightarrow> ta_assets app' = ta_assets app \<and> ta_query app' = ta_query app
     \<and> ta_selected app' = ta_selected app \<and> ta_searching app' = ta_searching app"
  by (auto simp: refreshed_def)

lemma filtered_assets_effect:
  assumes "cache_ok fuzzy app"
  shows "fst (filtered_assets fuzzy app) = shown_assets fuzzy app"
    "refreshed app (snd (filtered_assets fuzzy app))"
    "cache_ok fuzzy (snd (filtered_assets fuzzy app))"
  using assms by (auto simp: filtered_assets_def cache_ok_def shown_assets_def refreshed_def Let_def
      intro: exI [of _ "ta_filtered_cache app"])

lemma shown_refreshed: "refreshed app app' \<Longrightarrow> shown_assets fuzzy app' = shown_assets fuzzy app"
  by (auto simp: shown_assets_def refreshed_def)

lemma tui_wf_refreshed:
  "tui_wf fuzzy assets app \<Longrightarrow> refreshed app app' \<Longrightarrow> cache_ok fuzzy app' \<Longrightarrow> tui_wf fuzzy assets app'"
  by (auto simp: tui_wf_def selection_ok_def shown_refreshed dest: refreshed_fields)

lemma filtered_assets_wf:
  assumes "tui_wf fuzzy assets app" and "filtered_assets fuzzy app = (xs, app')"
  shows "xs = shown_assets fuzzy app" "refreshed app app'" "tui_wf fuzzy assets app'"
  using filtered_assets_effect [of fuzzy app] assms tui_wf_refreshed [of fuzzy assets app app']
  by (auto simp: tui_wf_def)

lemma ordered_filtered_assets_wf:
  assumes "tui_wf fuzzy assets app" and "ordered_filtered_assets fuzzy app = (xs, app')"
  shows "xs = sort_assets (shown_assets fuzzy app)" "refreshed app app'" "tui_wf fuzzy assets app'"
  using assms by (auto simp: ordered_filtered_assets_def split: prod.splits dest: filtered_assets_wf)

lemma grouped_items_wf:
  assumes "tui_wf fuzzy assets app" and "grouped_items fuzzy app = (items, app')"
  shows "items = group_items [] (sort_assets (shown_assets fuzzy app))" "refreshed app app'"
    "tui_wf fuzzy assets app'"
  using assms by (auto simp: grouped_items_def split: prod.splits dest: ordered_filtered_assets_wf)

lemma length_sort_assets [simp]: "length (sort_assets xs) = length xs"
  by (simp add: sort_assets_def)

lemma set_sort_assets [simp]: "set (sort_assets xs) = set xs"
  by (simp add: sort_assets_def)

text \<open>The asset the selection stands for.\<close>

definition selected_of :: "(string \<Rightarrow> string list \<Rightarrow> string list) \<Rightarrow> tui_app \<Rightarrow> asset option" where
  "selected_of fuzzy app = list_get (sort_assets (shown_assets fuzzy app)) (ta_selected app)"

lemma selected_asset_wf:
  assumes wf: "tui_wf fuzzy assets app" and sel: "selected_asset fuzzy app = (r, app')"
  shows "r = selected_of fuzzy app" "refreshed app app'" "tui_wf fuzzy assets app'"
proof -
  obtain xs app1 where o: "ordered_filtered_assets fuzzy app = (xs, app1)" by fastforce
  with sel have r: "r = list_get xs (min (ta_selected app1) (length xs - 1))" and "app1 = app'"
    by (auto simp: selected_asset_def)
  note o' = ordered_filtered_assets_wf [OF wf o]
  with \<open>app1 = app'\<close> show "refreshed app app'" "tui_wf fuzzy assets app'" by simp_all
  from wf refreshed_fields [OF o'(2)] show "r = selected_of fuzzy app"
    unfolding r o'(1) by (auto simp: selected_of_def list_get_def tui_wf_def selection_ok_def)
qed

lemma selected_of_refreshed: "refreshed app app' \<Longrightarrow> selected_of fuzzy app' = selected_of fuzzy app"
  by (simp add: selected_of_def shown_refreshed refreshed_fields)

lemma selected_of_in: "selected_of fuzzy app = Some a \<Longrightarrow> a \<in> set (ta_assets app)"
  using compute_filtered_subset [of fuzzy "ta_assets app" "ta_query app"]
    nth_mem [of "ta_selected app" "sort_assets (shown_assets fuzzy app)"]
  by (auto simp: selected_of_def list_get_def shown_assets_def split: if_splits)

lemma tui_wf_moved:
  "tui_wf fuzzy assets app \<Longrightarrow> n = 0 \<or> n < length (shown_assets fuzzy app)
    \<Longrightarrow> tui_wf fuzzy assets (app\<lparr>ta_selected := n\<rparr>)"
  by (auto simp: tui_wf_def cache_ok_def selection_ok_def shown_assets_def)

lemma handle_input_wf:
  assumes wf: "tui_wf fuzzy assets app" and step: "handle_input fuzzy i app = (app', act)"
  shows "tui_wf fuzzy assets app'" "act = Connect a \<Longrightarrow> selected_of fuzzy app' = Some a"
proof -
  have "tui_wf fuzzy assets app' \<and> (act = Connect a \<longrightarrow> selected_of fuzzy app' = Some a)"
  proof (cases i)
    case Down
    obtain xs app1 where f: "filtered_assets fuzzy app = (xs, app1)" by fastforce
    note f' = filtered_assets_wf [OF wf f]
    have "length xs = length (shown_assets fuzzy app1)" using f'(1,2) by (simp add: shown_refreshed)
    moreover have "app' = (if length xs > 0
        then app1\<lparr>ta_selected := min (ta_selected app1 + 1) (length xs - 1)\<rparr> else app1)" "act = NoAction"
      using step f Down by (auto split: if_splits)
    ultimately show ?thesis using f'(3) by (auto intro!: tui_wf_moved)
  next
    case Enter
    obtain r app1 where s: "selected_asset fuzzy app = (r, app1)" by fastforce
    note s' = selected_asset_wf [OF wf s]
    with step s Enter show ?thesis
      by (auto simp: selected_of_refreshed split: option.splits)
  next
    case Up
    from wf have "ta_selected app - 1 = 0 \<or> ta_selected app - 1 < length (shown_assets fuzzy app)"
      by (auto simp: tui_wf_def selection_ok_def)
    from tui_wf_moved [OF wf this] Up step show ?thesis by auto
  qed (use wf step in \<open>auto simp: tui_wf_def cache_ok_def selection_ok_def shown_assets_def split: if_splits\<close>)
  then show "tui_wf fuzzy assets app'" "act = Connect a \<Longrightarrow> selected_of fuzzy app' = Some a" by blast+
qed

lemma handle_inputs_wf:
  "tui_wf fuzzy assets app \<Longrightarrow> handle_inputs fuzzy is app = (app', act)
    \<Longrightarrow> tui_wf fuzzy assets app' \<and> (act = Connect a \<longrightarrow> selected_of fuzzy app' = Some a)"
proof (induction "is" arbitrary: app)
  case (Cons i "is")
  obtain app1 act1 where s: "handle_input fuzzy i app = (app1, act1)" by fastforce
  note s' = handle_input_wf [OF Cons.prems(1) s]
  show ?case
  proof (cases "act1 = NoAction")
    case True
    with s Cons.prems(2) have "handle_inputs fuzzy is app1 = (app', act)" by simp
    with Cons.IH s'(1) show ?thesis by blast
  next
    case False
    with s Cons.prems(2) s' show ?thesis by auto
  qed
qed simp

section \<open>Drawing keeps the application\<close>

lemma draw_header_wf:
  assumes "tui_wf (tm_fuzzy T) assets app" and "draw_header T r h app = (x, app')"
  shows "refreshed app app' \<and> tui_wf (tm_fuzzy T) assets app'"
proof -
  obtain xs a1 where f: "filtered_assets (tm_fuzzy T) app = (xs, a1)" by fastforce
  with assms(2) have "app' = a1" by (simp add: draw_header_def Let_def)
  with filtered_assets_wf [OF assms(1) f] show ?thesis by simp
qed

lemma draw_assets_wf:
  assumes "tui_wf (tm_fuzzy T) assets app" and "draw_assets T r app = (x, app')"
  shows "refreshed app app' \<and> tui_wf (tm_fuzzy T) assets app'"
proof -
  obtain xs a1 where f: "filtered_assets (tm_fuzzy T) app = (xs, a1)" by fastforce
  obtain items a2 where g: "grouped_items (tm_fuzzy T) a1 = (items, a2)" by fastforce
  from assms(2) f g have "app' = a2" by (simp add: draw_assets_def Let_def split: if_splits)
  with filtered_assets_wf [OF assms(1) f] grouped_items_wf [OF _ g] show ?thesis
    by (blast intro: refreshed_trans)
qed

lemma draw_wf:
  assumes "tui_wf (tm_fuzzy T) assets app" and "draw T area app = (fr, app')"
  shows "refreshed app app' \<and> tui_wf (tm_fuzzy T) assets app'"
proof -
  define chunks where "chunks = tm_layout T [LengthConstraint 1, LengthConstraint 1,
    LengthConstraint (if ta_searching app \<or> ta_query app \<noteq> [] then 1 else 0), MinConstraint 5,
    LengthConstraint 1, LengthConstraint 1] area"
  obtain x a1 where h: "draw_header T (chunks ! 0) (rc_height (chunks ! 3)) app = (x, a1)" by fastforce
  obtain y a2 where l: "draw_assets T (chunks ! 3) a1 = (y, a2)" by fastforce
  from assms(2) h l have "app' = a2" by (simp add: draw_def Let_def chunks_def)
  with draw_header_wf [OF assms(1) h] draw_assets_wf [OF _ l] show ?thesis
    by (blast intro: refreshed_trans)
qed

lemma render_wf:
  assumes "tui_wf (tm_fuzzy T) assets (tr_app tui)" and "render T tui = (tui', out)"
  shows "refreshed (tr_app tui) (tr_app tui') \<and> tui_wf (tm_fuzzy T) assets (tr_app tui')"
proof -
  obtain fr app where d: "draw T (tr_area tui) (tr_app tui) = (fr, app)" by fastforce
  with assms(2) have "tr_app tui' = app"
    by (auto simp: render_def take_output_def terminal_flush_def terminal_write_def Let_def)
  with draw_wf [OF assms(1) d] show ?thesis by simp
qed

lemma enter_screen_wf:
  assumes "tui_wf (tm_fuzzy T) assets (tr_app tui)" and "enter_screen T tui = (tui', out)"
  shows "tui_wf (tm_fuzzy T) assets (tr_app tui')"
  using assms render_wf [of T assets
    "(terminal_write (tm_clear T) ((terminal_flush (terminal_write (tm_enter T) tui))\<lparr>tr_frame := None\<rparr>))"]
  unfolding enter_screen_def by (simp add: terminal_flush_def terminal_write_def)

lemma resume_wf:
  "tui_wf (tm_fuzzy T) assets (tr_app tui) \<Longrightarrow> resume_after_target T tui = (tui', out)
    \<Longrightarrow> tui_wf (tm_fuzzy T) assets (tr_app tui')"
  unfolding resume_after_target_def by (rule enter_screen_wf)

lemma resize_wf:
  assumes "tui_wf (tm_fuzzy T) assets (tr_app tui)" and "resize_tui T w h tui = (tui', out)"
  shows "tui_wf (tm_fuzzy T) assets (tr_app tui')"
  using assms render_wf [of T assets
    "terminal_write (tm_clear T) (tui\<lparr>tr_area := viewport w h, tr_frame := None\<rparr>)"]
  unfolding resize_tui_def by (simp add: terminal_write_def)

lemma leave_screen_app: "leave_screen T tui = (tui', out) \<Longrightarrow> tr_app tui' = tr_app tui"
  by (auto simp: leave_screen_def take_output_def terminal_flush_def terminal_write_def Let_def)

lemma handle_bytes_wf:
  assumes wf: "tui_wf (tm_fuzzy T) assets (tr_app tui)"
    and h: "handle_bytes T bytes tui = (tui', act, out)"
  shows "tui_wf (tm_fuzzy T) assets (tr_app tui')
    \<and> (act = Connect a \<longrightarrow> selected_of (tm_fuzzy T) (tr_app tui') = Some a)"
proof -
  obtain seen inputs where p: "parse_input (tm_events T) (tr_input tui) bytes = (seen, inputs)" by fastforce
  obtain app act' where i: "handle_inputs (tm_fuzzy T) inputs (tr_app tui) = (app, act')" by fastforce
  from h p i have r: "render T (tui\<lparr>tr_app := app, tr_input := seen\<rparr>) = (tui', out)" and "act' = act"
    by (auto simp: handle_bytes_def split: prod.splits)
  from handle_inputs_wf [OF wf i] have "tui_wf (tm_fuzzy T) assets app"
      "act' = Connect a \<longrightarrow> selected_of (tm_fuzzy T) app = Some a"
    by blast+
  with render_wf [OF _ r, of assets] \<open>act' = act\<close> show ?thesis
    by (auto simp: selected_of_refreshed)
qed

section \<open>Text that fits\<close>

text \<open>
  The widths the view counts on: an empty string takes no cell, a run of spaces one cell each, the
  ellipsis and the marker one, and two spaces before a text two more than the text. A text is measured by its characters when appending the ellipsis to
  a run of its first characters never takes more than those characters and one cell.
\<close>

definition cell_widths :: "(string \<Rightarrow> nat) \<Rightarrow> bool" where
  "cell_widths w \<longleftrightarrow> (\<forall>n. w (spaces n) = n) \<and> w ellipsis = 1 \<and> w marker_selected = 1
     \<and> (\<forall>s. w (''  '' @ s) = 2 + w s)"

definition measured_by_chars :: "(string \<Rightarrow> nat) \<Rightarrow> string \<Rightarrow> bool" where
  "measured_by_chars w s \<longleftrightarrow> (\<forall>n \<le> length (chars s).
     w (take_chars n s @ ellipsis) \<le> sum_list (map w (take n (chars s))) + 1)"

lemma cell_widths_simps:
  assumes "cell_widths w"
  shows "w [] = 0" "w '' '' = 1" "w ''  '' = 2" "w ''    '' = 4" "w (spaces n) = n"
    "w ellipsis = 1" "w marker_selected = 1" "w (CHR '' '' # CHR '' '' # s) = 2 + w s"
proof -
  from assms have n: "w (spaces n) = n" for n by (simp add: cell_widths_def)
  from n [of 0] n [of 1] n [of 2] n [of 4] show "w [] = 0" "w '' '' = 1" "w ''  '' = 2" "w ''    '' = 4"
    by (simp_all add: spaces_def numeral_eq_Suc)
qed (use assms in \<open>simp_all add: cell_widths_def\<close>)

lemma fitting_take:
  assumes "used < max_width"
  shows "\<exists>n \<le> length us. fitting w max_width used us = concat (take n us)
    \<and> used + sum_list (map w (take n us)) \<le> max_width - 1"
  using assms
proof (induction us arbitrary: used)
  case Nil
  then show ?case by auto
next
  case (Cons u us)
  show ?case
  proof (cases "used + w u > max_width - 1")
    case True
    with Cons.prems show ?thesis by (intro exI [of _ 0]) simp
  next
    case False
    with Cons.prems have "used + w u < max_width" by simp
    from Cons.IH [OF this] obtain n where "n \<le> length us"
        "fitting w max_width (used + w u) us = concat (take n us)"
        "used + w u + sum_list (map w (take n us)) \<le> max_width - 1"
      by blast
    with False show ?thesis by (intro exI [of _ "Suc n"]) simp
  qed
qed

lemma truncate_fits:
  assumes w: "cell_widths w" and v: "measured_by_chars w v"
  shows "w (truncate_to_width w v max_width) \<le> max_width"
proof (cases "w v \<le> max_width \<or> max_width \<le> 1")
  case True
  with cell_widths_simps [OF w] show ?thesis by (auto simp: truncate_to_width_def)
next
  case False
  then have "0 < max_width" by simp
  from fitting_take [OF this, of "chars v" w] obtain n where n: "n \<le> length (chars v)"
      "fitting w max_width 0 (chars v) = take_chars n v" "sum_list (map w (take n (chars v))) \<le> max_width - 1"
    by (auto simp: take_chars_def)
  from v n(1) have "w (take_chars n v @ ellipsis) \<le> sum_list (map w (take n (chars v))) + 1"
    by (simp add: measured_by_chars_def)
  with n(3) False have "w (take_chars n v @ ellipsis) \<le> max_width" by linarith
  with n(2) False show ?thesis by (simp add: truncate_to_width_def)
qed

lemma asset_lines_width:
  assumes w: "cell_widths (tm_width T)"
    and texts: "\<forall>s \<in> {as_name a, credential_label a, address_label a, tags_label a}.
      measured_by_chars (tm_width T) s"
    and "6 \<le> width" and "asset_lines T a selected width = (line1, line2)"
  shows "line_width (tm_width T) line1 = width" "line_width (tm_width T) line2 = width"
proof -
  note fits = truncate_fits [OF w]
  define r1 where "r1 = tm_width T (truncate_to_width (tm_width T) (credential_label a) (width - 6))"
  define r2 where "r2 = tm_width T (truncate_to_width (tm_width T) (tags_label a) (width - 6))"
  define n1 where "n1 = tm_width T (truncate_to_width (tm_width T) (as_name a) (width - (r1 + 6)))"
  define n2 where "n2 = tm_width T (truncate_to_width (tm_width T) (address_label a) (width - (r2 + 6)))"
  from texts have "r1 \<le> width - 6" "r2 \<le> width - 6" "n1 \<le> width - (r1 + 6)" "n2 \<le> width - (r2 + 6)"
    unfolding r1_def r2_def n1_def n2_def by (auto intro!: fits)
  moreover from assms(4) cell_widths_simps [OF w]
  have "line_width (tm_width T) line1 = 6 + n1 + (width - (n1 + r1 + 6)) + r1"
      "line_width (tm_width T) line2 = 6 + n2 + (width - (n2 + r2 + 6)) + r2"
    by (auto simp: asset_lines_def Let_def line_width_def r1_def r2_def n1_def n2_def ac_simps)
  ultimately show "line_width (tm_width T) line1 = width" "line_width (tm_width T) line2 = width"
    using assms(3) by linarith+
qed

section \<open>The rows of the list\<close>

text \<open>
  \<open>rows_before\<close> counts the lines that precede the first line of the asset at index \<open>selected\<close>: two
  for every asset of the window before it, one for every group header in the window.
\<close>

fun rows_before :: "nat \<Rightarrow> nat \<Rightarrow> nat \<Rightarrow> asset_list_item list \<Rightarrow> nat option" where
  "rows_before offset selected idx [] = None"
| "rows_before offset selected idx (Group label # items) =
     map_option (\<lambda>n. n + (if idx \<ge> offset then 1 else 0)) (rows_before offset selected idx items)"
| "rows_before offset selected idx (AssetItem a # items) =
     (if idx = selected then Some 0
      else map_option (\<lambda>n. n + (if idx \<ge> offset then 2 else 0)) (rows_before offset selected (idx + 1) items))"

definition marked :: "span list \<Rightarrow> bool" where
  "marked l \<longleftrightarrow> length l = 7 \<and> fst (l ! 1) = marker_selected"

lemma asset_lines_marked:
  "asset_lines T a sel width = (line1, line2) \<Longrightarrow> marked line1 = sel \<and> \<not> marked line2"
  by (cases sel) (auto simp: asset_lines_def marked_def Let_def marker_selected_def)

lemma asset_list_lines_full: "available \<le> lines \<Longrightarrow>
    asset_list_lines T width available offset selected lines idx items = []"
  by (induction T width available offset selected lines idx items rule: asset_list_lines.induct) auto

lemma group_line_not_marked [simp]: "\<not> marked (group_line T label width)"
  by (simp add: group_line_def marked_def)

lemma no_mark_after:
  "selected < idx \<Longrightarrow> l \<in> set (asset_list_lines T width available offset selected lines idx items)
    \<Longrightarrow> \<not> marked l"
proof (induction T width available offset selected lines idx items rule: asset_list_lines.induct)
  case (3 T width available offset selected lines idx a items)
  obtain l1 l2 where ls: "asset_lines T a (idx = selected) width = (l1, l2)" by fastforce
  with asset_lines_marked [OF ls] 3 show ?case by (auto split: if_splits)
qed (auto split: if_splits)

lemma selected_row_drawn:
  "offset \<le> selected \<Longrightarrow> idx \<le> selected \<Longrightarrow>
     (\<exists>l \<in> set (asset_list_lines T width available offset selected lines idx items). marked l)
     \<longleftrightarrow> (\<exists>n. rows_before offset selected idx items = Some n \<and> lines + n < available)"
proof (induction T width available offset selected lines idx items rule: asset_list_lines.induct)
  case (1 T width available offset selected lines idx)
  then show ?case by simp
next
  case (2 T width available offset selected lines idx label items)
  then show ?case by (cases "available \<le> lines") (auto simp: asset_list_lines_full)
next
  case (3 T width available offset selected lines idx a items)
  obtain l1 l2 where ls: "asset_lines T a (idx = selected) width = (l1, l2)" by fastforce
  note m = asset_lines_marked [OF ls]
  show ?case
  proof (cases "idx = selected")
    case True
    with 3 ls m show ?thesis by (auto dest: no_mark_after [rotated])
  next
    case False
    with 3 ls m show ?thesis
      by (cases "available \<le> lines") (auto simp: asset_list_lines_full)
  qed
qed

lemma asset_list_lines_bound:
  "lines \<le> available \<Longrightarrow>
     lines + length (asset_list_lines T width available offset selected lines idx items) \<le> available"
proof (induction T width available offset selected lines idx items rule: asset_list_lines.induct)
  case (3 T width available offset selected lines idx a items)
  obtain l1 l2 where ls: "asset_lines T a (idx = selected) width = (l1, l2)" by fastforce
  consider "idx < offset" | "\<not> idx < offset" "available \<le> lines"
    | "\<not> idx < offset" "lines + 1 < available" | "\<not> idx < offset" "lines + 1 = available"
    by linarith
  then show ?case
  proof cases
    case 1
    with 3 show ?thesis by simp
  next
    case 2
    with 3(4) show ?thesis by simp
  next
    case 3
    with "3.IH"(2) ls show ?thesis by simp
  next
    case 4
    then show ?thesis using ls by (simp add: asset_list_lines_full)
  qed
qed auto

lemma group_line_width:
  assumes w: "cell_widths (tm_width T)" and v: "measured_by_chars (tm_width T) label" and "2 \<le> width"
  shows "line_width (tm_width T) (group_line T label width) \<le> width"
  using truncate_fits [OF w v, of "width - 2"] assms(3)
  by (simp add: group_line_def line_width_def cell_widths_simps(8) [OF w])

lemma asset_list_lines_width:
  assumes w: "cell_widths (tm_width T)" and width: "6 \<le> width"
  shows "l \<in> set (asset_list_lines T width available offset selected lines idx items)
    \<Longrightarrow> (\<And>a s. AssetItem a \<in> set items
        \<Longrightarrow> s \<in> {as_name a, credential_label a, address_label a, tags_label a}
        \<Longrightarrow> measured_by_chars (tm_width T) s)
    \<Longrightarrow> (\<And>g. Group g \<in> set items \<Longrightarrow> measured_by_chars (tm_width T) g)
    \<Longrightarrow> line_width (tm_width T) l \<le> width"
proof (induction items arbitrary: lines idx)
  case (Cons item items)
  have IH: "l \<in> set (asset_list_lines T width available offset selected m j items)
      \<Longrightarrow> line_width (tm_width T) l \<le> width" for m j
    by (rule Cons.IH) (use Cons.prems(2,3) in auto)
  show ?case
  proof (cases item)
    case (Group g)
    with Cons.prems(3) have "line_width (tm_width T) (group_line T g width) \<le> width"
      by (intro group_line_width w) (use width in auto)
    with Group Cons.prems(1) IH show ?thesis by (auto split: if_splits)
  next
    case (AssetItem a)
    obtain l1 l2 where ls: "asset_lines T a (idx = selected) width = (l1, l2)" by fastforce
    from AssetItem Cons.prems(2) have "\<forall>s \<in> {as_name a, credential_label a, address_label a, tags_label a}.
        measured_by_chars (tm_width T) s" by auto
    note asset_lines_width [OF w this width ls]
    with AssetItem ls Cons.prems(1) IH show ?thesis by (auto split: if_splits)
  qed
qed simp

section \<open>The list that is drawn\<close>

definition listed_assets :: "asset_list_item list \<Rightarrow> asset list" where
  "listed_assets items = concat (map (\<lambda>i. case i of AssetItem a \<Rightarrow> [a] | Group g \<Rightarrow> []) items)"

lemma listed_group_items [simp]: "listed_assets (group_items g xs) = xs"
  by (induction xs arbitrary: g) (simp_all add: listed_assets_def)

lemma group_items_members:
  "AssetItem a \<in> set (group_items g xs) \<Longrightarrow> a \<in> set xs"
  "Group l \<in> set (group_items g xs) \<Longrightarrow> \<exists>a \<in> set xs. l = asset_group_label a"
  by (induction xs arbitrary: g) (auto split: if_splits)

lemma draw_assets_list:
  assumes wf: "tui_wf (tm_fuzzy T) assets app" and d: "draw_assets T area app = (fr, app')"
  defines "shown \<equiv> shown_assets (tm_fuzzy T) app"
  shows "fr = (if shown = [] then draw_empty_assets T area app
      else if visible_asset_count (rc_height area) = 0 then []
      else [(area, asset_list_lines T (rc_width area) (rc_height area)
        (scroll_offset (ta_selected app) (visible_asset_count (rc_height area))) (ta_selected app) 0 0
        (group_items [] (sort_assets shown)))])"
proof -
  obtain xs a1 where f: "filtered_assets (tm_fuzzy T) app = (xs, a1)" by fastforce
  note f' = filtered_assets_wf [OF wf f]
  obtain items a2 where g: "grouped_items (tm_fuzzy T) a1 = (items, a2)" by fastforce
  note g' = grouped_items_wf [OF f'(3) g]
  have r: "refreshed app a2" using f'(2) g'(2) by (rule refreshed_trans)
  note r' = refreshed_fields [OF r]
  have xs: "xs = shown" using f'(1) by (simp add: shown_def)
  have items: "items = group_items [] (sort_assets shown)"
    using g'(1) f'(2) by (simp add: shown_def shown_refreshed)
  have sel: "min (ta_selected a2) (length xs - 1) = ta_selected app" if "xs \<noteq> []"
    using wf that r' by (auto simp: tui_wf_def selection_ok_def xs shown_def)
  have empty: "draw_empty_assets T area a2 = draw_empty_assets T area app"
    using r' by (simp add: draw_empty_assets_def)
  from d f g sel show ?thesis by (auto simp: draw_assets_def Let_def xs items empty split: if_splits)
qed

section \<open>Sessions at the terminal\<close>

datatype tui_event = Bytes string | Resize u16 u16 | EnterScreen | LeaveScreen

fun tui_step :: "term_env \<Rightarrow> tui_resources \<Rightarrow> tui_event \<Rightarrow> tui_resources" where
  "tui_step T tui (Bytes bytes) = fst (handle_bytes T bytes tui)"
| "tui_step T tui (Resize w h) = fst (resize_tui T w h tui)"
| "tui_step T tui EnterScreen = fst (enter_screen T tui)"
| "tui_step T tui LeaveScreen = fst (leave_screen T tui)"

lemma tui_step_wf:
  assumes "tui_wf (tm_fuzzy T) assets (tr_app tui)"
  shows "tui_wf (tm_fuzzy T) assets (tr_app (tui_step T tui e))"
proof (cases e)
  case (Bytes b)
  with assms handle_bytes_wf [of T assets tui b] show ?thesis
    by (cases "handle_bytes T b tui") auto
next
  case (Resize w h)
  with assms resize_wf [of T assets tui w h] show ?thesis by (cases "resize_tui T w h tui") auto
next
  case EnterScreen
  with assms enter_screen_wf [of T assets tui] show ?thesis by (cases "enter_screen T tui") auto
next
  case LeaveScreen
  with assms leave_screen_app [of T tui] show ?thesis by (cases "leave_screen T tui") auto
qed

lemma tui_steps_wf:
  "tui_wf (tm_fuzzy T) assets (tr_app tui) \<Longrightarrow> tui_wf (tm_fuzzy T) assets (tr_app (foldl (tui_step T) tui es))"
  by (induction es arbitrary: tui) (simp_all add: tui_step_wf)

lemma new_tui_wf [simp]: "tui_wf (tm_fuzzy T) assets (tr_app (new_tui w h assets))"
  by (simp add: new_tui_def)

end
