(* ===== verification/Tui_Properties.thy ===== *)
theory Tui_Properties
  imports Tui_Facts Examples
begin

text \<open>
  The properties of the terminal interface: what it connects to, what fits on the screen, and when
  the selected asset can be seen.
\<close>

section \<open>A terminal to test with\<close>

text \<open>One cell per character, keys as single bytes, a matcher that finds infixes.\<close>

definition char_cells :: "string \<Rightarrow> nat" where
  "char_cells s = length (filter (\<lambda>c. \<not> continuation c) s)"

definition key_events :: "string \<Rightarrow> string \<Rightarrow> input_event list" where
  "key_events seen bytes =
     map (\<lambda>c. if c = CHR 0x0D then KeyEvent KeyEnter {} else if c = CHR ''B'' then KeyEvent DownArrow {}
        else KeyEvent (KeyChar [c]) {}) bytes"

definition stacked :: "layout_constraint list \<Rightarrow> rect \<Rightarrow> rect list" where
  "stacked cs area = [area\<lparr>rc_height := 1\<rparr>, area\<lparr>rc_height := 1\<rparr>, area\<lparr>rc_height := 1\<rparr>,
     area\<lparr>rc_height := rc_height area - 4\<rparr>, area\<lparr>rc_height := 1\<rparr>, area\<lparr>rc_height := 1\<rparr>]"

definition sample_term :: term_env where
  "sample_term = \<lparr>tm_layout = stacked, tm_width = char_cells, tm_paint = (\<lambda>_ _ _. []), tm_enter = [],
     tm_leave = [], tm_clear = [], tm_events = key_events,
     tm_fuzzy = (\<lambda>query names. filter (sublist query) names)\<rparr>"

definition tui_asset :: "string \<Rightarrow> string \<Rightarrow> asset" where
  "tui_asset name tag = \<lparr>as_id = name, as_name = name, as_protocol = ''ssh'', as_hostname = ''h'',
     as_port = 22, as_description = None, as_tags = [tag], as_credential_id = None,
     as_created_at = None, as_updated_at = None\<rparr>"

lemma char_cells_append [simp]: "char_cells (s @ t) = char_cells s + char_cells t"
  by (simp add: char_cells_def)


lemma continuation_simps [simp]:
  "\<not> continuation CHR '' ''" "\<not> continuation CHR 0xE2" "continuation CHR 0x80"
  "continuation CHR 0xA6" "continuation CHR 0x96" "continuation CHR 0xB8"
  by (simp_all add: continuation_def byte_of_def)



definition sample_list :: "asset list" where
  "sample_list = [tui_asset ''web'' ''prod'', tui_asset ''db'' ''dev'']"





lemma handle_bytes_action: "fst (snd (handle_bytes T bytes tui))
    = snd (handle_inputs (tm_fuzzy T) (snd (parse_input (tm_events T) (tr_input tui) bytes)) (tr_app tui))"
  by (simp add: handle_bytes_def split: prod.splits)

section \<open>Properties\<close>

text \<open>
  C38. Whatever keys, resizes and redraws a terminal session has seen, when a chunk of bytes makes the
  interface connect, the asset is one of those the session was opened with, and it is the one at the
  selected place of the list the interface shows; the selection is inside that list.
\<close>

theorem tui_connects_to_selected:
  assumes "handle_bytes T bytes (foldl (tui_step T) (new_tui w h assets) events) = (tui', Connect a, out)"
  shows "a \<in> set assets
    \<and> ta_selected (tr_app tui') < length (listed_assets (fst (grouped_items (tm_fuzzy T) (tr_app tui'))))
    \<and> listed_assets (fst (grouped_items (tm_fuzzy T) (tr_app tui'))) ! ta_selected (tr_app tui') = a"
proof -
  have "tui_wf (tm_fuzzy T) assets (tr_app (foldl (tui_step T) (new_tui w h assets) events))"
    by (rule tui_steps_wf) simp
  note wf = handle_bytes_wf [OF this assms, of a]
  obtain items app where g: "grouped_items (tm_fuzzy T) (tr_app tui') = (items, app)" by fastforce
  from wf grouped_items_wf [OF _ g] selected_of_in [of "tm_fuzzy T" "tr_app tui'" a] show ?thesis
    by (auto simp: g tui_wf_def selected_of_def list_get_def split: if_splits)
qed

theorem tui_connects_to_selected_witness:
  "\<exists>tui' out. handle_bytes sample_term (''B'' @ [CHR 0x0D])
       (foldl (tui_step sample_term) (new_tui 80 24 sample_list) [LeaveScreen])
       = (tui', Connect (tui_asset ''web'' ''prod''), out)
     \<and> tui_asset ''web'' ''prod'' \<in> set sample_list"
proof -
  let ?tui = "foldl (tui_step sample_term) (new_tui 80 24 sample_list) [LeaveScreen]"
  obtain tui' act out where r: "handle_bytes sample_term (''B'' @ [CHR 0x0D]) ?tui = (tui', act, out)"
    by (cases "handle_bytes sample_term (''B'' @ [CHR 0x0D]) ?tui") auto
  have "tr_app ?tui = new_tui_app sample_list"
    using leave_screen_app [of sample_term "new_tui 80 24 sample_list"]
    by (cases "leave_screen sample_term (new_tui 80 24 sample_list)") (simp add: new_tui_def)
  then have "act = snd (handle_inputs (tm_fuzzy sample_term)
      (snd (parse_input (tm_events sample_term) (tr_input ?tui) (''B'' @ [CHR 0x0D]))) (new_tui_app sample_list))"
    using handle_bytes_action [of sample_term "''B'' @ [CHR 0x0D]" ?tui] r by simp
  also have "snd (parse_input (tm_events sample_term) seen (''B'' @ [CHR 0x0D])) = [Down, Enter]" for seen
    by (simp add: parse_input_def sample_term_def key_events_def List.map_filter_def)
  also have "snd (handle_inputs (tm_fuzzy sample_term) [Down, Enter] (new_tui_app sample_list))
      = Connect (tui_asset ''web'' ''prod'')"
    by code_simp
  finally have "handle_bytes sample_term (''B'' @ [CHR 0x0D]) ?tui = (tui', Connect (tui_asset ''web'' ''prod''), out)"
    using r by simp
  with tui_connects_to_selected [OF this] show ?thesis by blast
qed





end
