(* ===== verification/Ssh_Client.thy ===== *)
theory Ssh_Client
  imports Sessions Crypto Local_Cli Rust_Path Rust_Chars
begin

text \<open>
  Connecting to a managed target (\<open>ssh/client.rs\<close>) and the server's own host key
  (\<open>ssh/host_key.rs\<close>). What the network and russh answer is a \<open>peer\<close>: every field is the outcome
  of one call, \<open>Inl\<close> its error's text. A connection returns the catalog after it (a host key may have
  been learned), the requests it made of the target in order, and its result. The check of the host key
  runs inside the handshake; every other step follows it.
\<close>

section \<open>Messages and requests\<close>

datatype channel_msg =
    MsgData string
  | MsgExtendedData nat string
  | MsgExitStatus "32 word"
  | MsgExitSignal string bool string string
  | MsgEof
  | MsgClose
  | MsgSuccess
  | MsgFailure
  | MsgWindowAdjusted nat
  | MsgOther string

datatype client_request =
    ConnectTo string u16
  | AuthPassword string string
  | AuthKey string string "string option"
  | OpenSession
  | RequestPty bool "u16 \<times> u16"
  | RequestShell
  | RequestExec string
  | RequestSubsystem string

text \<open>
  \<open>pe_transport\<close> is reaching the target up to its host key, \<open>pe_key\<close> that key's algorithm and
  fingerprint, \<open>pe_handshake\<close> the rest of the handshake, \<open>pe_request\<close> the outcome of a request
  (whether an authentication succeeded) and \<open>pe_messages\<close> what arrives on the channel before the time
  is up, \<open>None\<close> its end. \<open>pe_debug\<close> prints a message with \<open>{:?}\<close>.
\<close>

record peer =
  pe_transport :: "string + unit"
  pe_key :: "string \<times> string"
  pe_handshake :: "string + unit"
  pe_request :: "client_request \<Rightarrow> string + bool"
  pe_rsa_hash :: "string + unit"
  pe_messages :: "channel_msg option list"
  pe_debug :: "channel_msg \<Rightarrow> string"

section \<open>Waiting for a reply\<close>

definition request_reply_received ::
  "(channel_msg \<Rightarrow> string) \<Rightarrow> channel_msg option \<Rightarrow> string \<Rightarrow> any_error + bool" where
  "request_reply_received debug message request =
     (case message of
        Some MsgSuccess \<Rightarrow> Inr True
      | Some MsgFailure \<Rightarrow> Inl (Message (''target rejected '' @ request @ '' request''))
      | Some (MsgWindowAdjusted n) \<Rightarrow> Inr False
      | Some other \<Rightarrow>
          Inl (Message (''unexpected target response to '' @ request @ '' request: '' @ debug other))
      | None \<Rightarrow> Inl (Message (''target closed channel while starting '' @ request)))"

text \<open>The messages left after the reply; running out of messages is the timeout.\<close>

fun wait_for_request_success ::
  "(channel_msg \<Rightarrow> string) \<Rightarrow> channel_msg option list \<Rightarrow> string \<Rightarrow> any_error + channel_msg option list" where
  "wait_for_request_success debug [] request =
     Inl (Message (''target '' @ request @ '' request timed out''))"
| "wait_for_request_success debug (m # ms) request =
     and_then (request_reply_received debug m request)
       (\<lambda>received. if received then Inr ms else wait_for_request_success debug ms request)"

section \<open>Secrets\<close>

definition decrypt_field ::
  "ext \<Rightarrow> master_key \<Rightarrow> credential \<Rightarrow> string \<Rightarrow> string option \<Rightarrow> any_error + string" where
  "decrypt_field X master c field envelope =
     and_then (ok_or envelope (Message (''credential missing '' @ field))) (\<lambda>envelope.
     and_then (core (decrypt_envelope X master (cr_id c @ '':'' @ field) envelope)) (\<lambda>clear.
     if utf8_ok clear then Inr clear else Inl (Message ''credential secret is not valid UTF-8'')))"

section \<open>Connecting\<close>

text \<open>A request of the target that must not fail, and one whose answer is looked at.\<close>

type_synonym 'a client_run = "client_request list \<times> (any_error + 'a)"

definition ask :: "peer \<Rightarrow> client_request \<Rightarrow> bool client_run" where
  "ask P r = ([r], map_err Message (pe_request P r))"

definition fail :: "any_error \<Rightarrow> 'a client_run" where
  "fail e = ([], Inl e)"

definition lift_run :: "any_error + 'a \<Rightarrow> 'a client_run" where
  "lift_run r = ([], r)"

definition run_then :: "'a client_run \<Rightarrow> ('a \<Rightarrow> 'b client_run) \<Rightarrow> 'b client_run" where
  "run_then r f = (case r of
     (rs, Inl e) \<Rightarrow> (rs, Inl e)
   | (rs, Inr x) \<Rightarrow> (case f x of (rs', y) \<Rightarrow> (rs @ rs', y)))"

definition authenticate_target :: "ext \<Rightarrow> peer \<Rightarrow> credential \<Rightarrow> master_key \<Rightarrow> unit client_run" where
  "authenticate_target X P c master =
     run_then (lift_run (map_err Message (auth_type_try_from (cr_auth_type c)))) (\<lambda>auth_type.
     if auth_type = Password then
       run_then (lift_run (decrypt_field X master c ''password'' (cr_password_enc c))) (\<lambda>password.
       run_then (ask P (AuthPassword (cr_username c) password)) (\<lambda>success.
       if success then lift_run (Inr ())
       else fail (Message ''target password authentication failed'')))
     else
       run_then (lift_run (decrypt_field X master c ''private_key'' (cr_private_key_enc c))) (\<lambda>private_key.
       run_then (lift_run (opt_mapE (\<lambda>e. decrypt_field X master c ''passphrase'' (Some e))
           (cr_passphrase_enc c))) (\<lambda>passphrase.
       if \<not> secret_key_ok X private_key passphrase then fail (Message ''decode target private key'')
       else run_then (lift_run (map_err Message (pe_rsa_hash P))) (\<lambda>_.
       run_then (ask P (AuthKey (cr_username c) private_key passphrase)) (\<lambda>success.
       if success then lift_run (Inr ())
       else fail (Message ''target public-key authentication failed''))))))"

definition check_server_key ::
  "string \<Rightarrow> asset \<Rightarrow> peer \<Rightarrow> catalog \<Rightarrow> catalog \<times> (any_error + bool)" where
  "check_server_key now a P db =
     (case verify_or_learn now (as_hostname a) (as_port a) (pe_key P) db of (db', r) \<Rightarrow> (db', core r))"

text \<open>\<open>client::connect\<close> under the timeout: a refused host key ends the handshake.\<close>

definition handshake :: "string \<Rightarrow> asset \<Rightarrow> peer \<Rightarrow> catalog \<Rightarrow> catalog \<times> (any_error + unit)" where
  "handshake now a P db =
     (case pe_transport P of
        Inl e \<Rightarrow> (db, Inl (Message e))
      | Inr _ \<Rightarrow>
          (case check_server_key now a P db of
             (db', Inl e) \<Rightarrow> (db', Inl e)
           | (db', Inr accepted) \<Rightarrow>
               (db', if accepted then map_err Message (pe_handshake P)
                 else Inl (Message ''Unknown server key''))))"

definition connect_authenticated_asset ::
  "ext \<Rightarrow> string \<Rightarrow> master_key \<Rightarrow> asset \<Rightarrow> peer \<Rightarrow> catalog \<Rightarrow> catalog \<times> unit client_run" where
  "connect_authenticated_asset X now master a P db =
     (case and_then (ok_or (as_credential_id a) (Message ''asset has no managed credential'')) (\<lambda>i.
        and_then (ok_or (get_credential i db) (Message ''asset credential not found'')) (\<lambda>c.
        and_then (core (validate_tcp_port (as_port a))) (\<lambda>port. Inr (c, port)))) of
        Inl e \<Rightarrow> (db, fail e)
      | Inr (c, port) \<Rightarrow>
          (case handshake now a P db of
             (db', shaken) \<Rightarrow>
               (db', run_then ([ConnectTo (as_hostname a) port], shaken)
                 (\<lambda>_. authenticate_target X P c master))))"

text \<open>The three ways of using a connection.\<close>

definition connect_asset_shell ::
  "ext \<Rightarrow> string \<Rightarrow> master_key \<Rightarrow> asset \<Rightarrow> u16 \<times> u16 \<Rightarrow> peer \<Rightarrow> catalog \<Rightarrow> catalog \<times> unit client_run" where
  "connect_asset_shell X now master a dims P db =
     (case connect_authenticated_asset X now master a P db of (db', session) \<Rightarrow>
        (db', run_then session (\<lambda>_.
          run_then (ask P OpenSession) (\<lambda>_.
          run_then (ask P (RequestPty False dims)) (\<lambda>_.
          run_then (ask P RequestShell) (\<lambda>_. lift_run (Inr ())))))))"

definition connect_asset_exec ::
  "ext \<Rightarrow> string \<Rightarrow> master_key \<Rightarrow> asset \<Rightarrow> string \<Rightarrow> (u16 \<times> u16) option \<Rightarrow> peer \<Rightarrow> catalog
    \<Rightarrow> catalog \<times> unit client_run" where
  "connect_asset_exec X now master a command pty P db =
     (case connect_authenticated_asset X now master a P db of (db', session) \<Rightarrow>
        (db', run_then session (\<lambda>_.
          run_then (ask P OpenSession) (\<lambda>_.
          run_then (case pty of
              None \<Rightarrow> lift_run (Inr (pe_messages P))
            | Some dims \<Rightarrow> run_then (ask P (RequestPty True dims)) (\<lambda>_.
                lift_run (wait_for_request_success (pe_debug P) (pe_messages P) ''pty''))) (\<lambda>messages.
          run_then (ask P (RequestExec command)) (\<lambda>_.
          run_then (lift_run (wait_for_request_success (pe_debug P) messages ''exec'')) (\<lambda>_.
          lift_run (Inr ()))))))))"

definition connect_asset_sftp ::
  "ext \<Rightarrow> string \<Rightarrow> master_key \<Rightarrow> asset \<Rightarrow> peer \<Rightarrow> catalog \<Rightarrow> catalog \<times> unit client_run" where
  "connect_asset_sftp X now master a P db =
     (case connect_authenticated_asset X now master a P db of (db', session) \<Rightarrow>
        (db', run_then session (\<lambda>_.
          run_then (ask P OpenSession) (\<lambda>_.
          run_then (ask P (RequestSubsystem ''sftp'')) (\<lambda>_.
          run_then (lift_run (wait_for_request_success (pe_debug P) (pe_messages P) ''sftp subsystem''))
            (\<lambda>_. lift_run (Inr ())))))))"

section \<open>The server's host key (host_key.rs)\<close>

text \<open>
  The file at the path, if any, is its text; \<open>parse\<close> is \<open>load_secret_key\<close>, \<open>fresh\<close> a generated key,
  \<open>encode\<close> its OpenSSH form, \<open>mkdir\<close> and \<open>writable\<close> tell whether the writes succeed. A key file that
  is written gets mode 0600.
\<close>

definition load_or_generate ::
  "(string \<Rightarrow> 'key option) \<Rightarrow> ('key \<Rightarrow> string) \<Rightarrow> 'key \<Rightarrow> (string \<Rightarrow> bool) \<Rightarrow> bool
    \<Rightarrow> string \<Rightarrow> string \<Rightarrow> key_file option \<Rightarrow> key_file option \<times> (any_error + 'key)" where
  "load_or_generate parse encode fresh mkdir writable path key_type file =
     (case file of
        Some f \<Rightarrow> (file, ok_or (parse (kf_contents f)) (Message (''load host key '' @ path)))
      | None \<Rightarrow>
          if key_type \<noteq> ''ed25519''
          then (None, Inl (Message ''MVP only supports ed25519 hop host keys''))
          else if (case path_parent path of None \<Rightarrow> False | Some p \<Rightarrow> p \<noteq> [] \<and> \<not> mkdir p)
          then (None, Inl (CoreError Io))
          else if writable then (Some \<lparr>kf_mode = 384, kf_contents = encode fresh\<rparr>, Inr fresh)
          else (None, Inl (Message (''write host key '' @ path))))"

end
