(* ===== verification/Ssh_Types.thy ===== *)
theory Ssh_Types
  imports Ssh_Client Tui_Views
begin

text \<open>
  The state of the SSH side: what \<open>ssh/server.rs\<close>, \<open>ssh/bridge.rs\<close> and \<open>ssh/proxy.rs\<close> keep. One
  \<open>server\<close> record holds everything that tasks share: the catalog, the registry of active sessions, the
  handlers of the live connections, the channel table each connection shares with its tasks, and the
  spawned tasks. A task is known by a number, which is also its termination sender in the registry: the
  sender is alive as long as the task runs. What is sent to clients is a log. \<open>ssh_env\<close> is what never
  changes.
\<close>

section \<open>Records of the code\<close>

record auth_info =
  ai_key_id :: string
  ai_fingerprint :: string
  ai_name :: string

record pty_size =
  py_width :: u16
  py_height :: u16

definition default_pty_size :: pty_size where
  "default_pty_size = \<lparr>py_width = 80, py_height = 24\<rparr>"

datatype managed_session_mode = Tui | Direct | Exec | Sftp

datatype bridge_input = BridgeData string | BridgeEof

record direct_login_request =
  dl_target :: string

text \<open>\<open>BridgeControl\<close> holds the senders of the task with this number.\<close>

datatype channel_state =
    TuiChannel tui_resources string
  | ManagedChannel nat

definition authorization_denied :: string where
  "authorization_denied = ''target not authorized or not found''"

record handler =
  hd_auth :: "auth_info option"
  hd_direct_asset :: "asset option"
  hd_client_ip :: "string option"
  hd_ptys :: "nat \<Rightarrow> pty_size option"

section \<open>Tasks\<close>

text \<open>\<open>bo_return_to_tui\<close> is the interface to go back to; the channels are those of \<open>bo_conn\<close>.\<close>

record managed_bridge_options =
  bo_conn :: nat
  bo_auth :: auth_info
  bo_client_ip :: "string option"
  bo_asset :: asset
  bo_channel :: nat
  bo_pty :: pty_size
  bo_pty_requested :: bool
  bo_command :: "string option"
  bo_mode :: managed_session_mode
  bo_return_to_tui :: "tui_resources option"

text \<open>
  Where a managed bridge is: the session it recorded, whether it reported an exit, and, once its
  inner block has ended, whether it was terminated and the block's result.
\<close>

datatype bridge_phase =
    BridgeStart
  | BridgeRegister string
  | BridgeCheck "string option"
  | BridgeConnect "string option"
  | BridgeRelay "string option" bool
  | BridgeUnregister "string option" bool bool "any_error + unit"
  | BridgeFinish string bool bool "any_error + unit"
  | BridgeReply bool bool "any_error + unit"
  | BridgeReopen

record bridge_task =
  bt_options :: managed_bridge_options
  bt_phase :: bridge_phase
  bt_input :: "bridge_input list"
  bt_resize :: "pty_size list"
  bt_signalled :: bool

datatype proxy_phase =
    ProxyCheck
  | ProxyStart
  | ProxyRegister string
  | ProxyConnect string
  | ProxyRelay string nat nat
  | ProxyUnregister string bool "any_error + unit"
  | ProxyFinish string bool "any_error + unit"

record proxy_task =
  pt_conn :: nat
  pt_channel :: nat
  pt_auth :: auth_info
  pt_asset :: asset
  pt_client_ip :: "string option"
  pt_phase :: proxy_phase
  pt_signalled :: bool

record watcher_task =
  wt_conn :: nat
  wt_channel :: nat
  wt_session :: string
  wt_signalled :: bool

datatype task = BridgeTask bridge_task | ProxyTask proxy_task | WatcherTask watcher_task

section \<open>The server\<close>

datatype client_msg =
    ToClient string
  | ToClientExtended string
  | ExitStatus "32 word"
  | ExitSignal string bool string string
  | Eof
  | Close
  | ChannelSuccess
  | ChannelFailure

record ssh_env =
  sx_ext :: ext
  sx_term :: term_env
  sx_config :: hop_config
  sx_master :: master_key
  sx_error_text :: "any_error \<Rightarrow> string"

record server =
  sv_db :: catalog
  sv_reg :: "nat registry"
  sv_handlers :: "nat \<Rightarrow> handler option"
  sv_channels :: "nat \<times> nat \<Rightarrow> channel_state option"
  sv_tasks :: "nat \<Rightarrow> task option"
  sv_next :: nat
  sv_draws :: nat
  sv_out :: "((nat \<times> nat) \<times> client_msg) list"

text \<open>\<open>handle.data(..)\<close> and its kin: they fail once the connection's session is gone.\<close>

definition connected :: "nat \<Rightarrow> server \<Rightarrow> bool" where
  "connected c sv \<longleftrightarrow> sv_handlers sv c \<noteq> None"

definition send :: "nat \<times> nat \<Rightarrow> client_msg list \<Rightarrow> server \<Rightarrow> server" where
  "send at ms sv = (if connected (fst at) sv
     then sv\<lparr>sv_out := sv_out sv @ map (\<lambda>m. (at, m)) ms\<rparr> else sv)"

definition put_channel :: "nat \<times> nat \<Rightarrow> channel_state option \<Rightarrow> server \<Rightarrow> server" where
  "put_channel at st sv = sv\<lparr>sv_channels := (sv_channels sv)(at := st)\<rparr>"

definition put_task :: "nat \<Rightarrow> task option \<Rightarrow> server \<Rightarrow> server" where
  "put_task t task sv = sv\<lparr>sv_tasks := (sv_tasks sv)(t := task)\<rparr>"

text \<open>\<open>tokio::spawn\<close>: the task's number.\<close>

definition spawn :: "task \<Rightarrow> server \<Rightarrow> server \<times> nat" where
  "spawn task sv = (put_task (sv_next sv) (Some task) (sv\<lparr>sv_next := sv_next sv + 1\<rparr>), sv_next sv)"

definition put_db :: "catalog \<Rightarrow> server \<Rightarrow> server" where
  "put_db db sv = sv\<lparr>sv_db := db\<rparr>"

text \<open>An operation of the catalog, and one that draws an id.\<close>

definition on_db :: "(catalog \<Rightarrow> catalog \<times> 'r) \<Rightarrow> server \<Rightarrow> server \<times> 'r" where
  "on_db f sv = (case f (sv_db sv) of (db, r) \<Rightarrow> (put_db db sv, r))"

definition begin_session ::
  "ssh_env \<Rightarrow> string \<Rightarrow> new_session \<Rightarrow> server \<Rightarrow> server \<times> (hop_error + session)" where
  "begin_session E now s sv = on_db (start_session (sx_ext E) now (sv_draws sv) s)
     (sv\<lparr>sv_draws := sv_draws sv + 1\<rparr>)"

definition end_session :: "string \<Rightarrow> string \<Rightarrow> string \<Rightarrow> string option \<Rightarrow> server \<Rightarrow> server \<times> (hop_error + unit)" where
  "end_session now i status error sv = on_db (finish_session now i status error) sv"

definition register_task :: "string \<Rightarrow> nat \<Rightarrow> server \<Rightarrow> server" where
  "register_task i t sv = sv\<lparr>sv_reg := register i t (sv_reg sv)\<rparr>"

definition unregister_session :: "string \<Rightarrow> server \<Rightarrow> server" where
  "unregister_session i sv = sv\<lparr>sv_reg := unregister i (sv_reg sv)\<rparr>"

section \<open>Sessions of the audit trail\<close>

definition new_session_of ::
  "auth_info \<Rightarrow> string \<Rightarrow> string option \<Rightarrow> string option \<Rightarrow> int option \<Rightarrow> string option \<Rightarrow> new_session" where
  "new_session_of auth mode asset_name target_host target_port client_ip =
     \<lparr>ns_key_finger = ai_fingerprint auth, ns_key_name = Some (ai_name auth), ns_mode = mode,
      ns_asset_name = asset_name, ns_target_host = target_host, ns_target_port = target_port,
      ns_client_ip = client_ip\<rparr>"

definition audit_denied_attempt ::
  "ssh_env \<Rightarrow> string \<Rightarrow> auth_info \<Rightarrow> string \<Rightarrow> string option \<Rightarrow> string option \<Rightarrow> int option
    \<Rightarrow> string option \<Rightarrow> server \<Rightarrow> server" where
  "audit_denied_attempt E now auth mode asset_name target_host target_port client_ip sv =
     (case begin_session E now (new_session_of auth mode asset_name target_host target_port client_ip) sv of
        (sv1, Inl _) \<Rightarrow> sv1
      | (sv1, Inr s) \<Rightarrow> fst (end_session now (se_id s) ''failed'' (Some authorization_denied) sv1))"

definition start_tui_session ::
  "ssh_env \<Rightarrow> string \<Rightarrow> auth_info \<Rightarrow> string option \<Rightarrow> server \<Rightarrow> server \<times> (hop_error + string)" where
  "start_tui_session E now auth client_ip sv =
     (case begin_session E now (new_session_of auth ''tui'' None None None client_ip) sv of
        (sv1, r) \<Rightarrow> (sv1, and_then r (\<lambda>s. Inr (se_id s))))"

definition health_error_message :: "string \<Rightarrow> string" where
  "health_error_message err = take_chars 512 err"

end
