(* ===== verification/Ssh_Bridge.thy ===== *)
theory Ssh_Bridge
  imports Ssh_Types
begin

text \<open>
  A managed session (\<open>ssh/bridge.rs\<close>): the task that connects a client's channel to its target. Each
  step of the task is one await of the code, so other tasks run between any two; \<open>select!\<close> takes any
  branch that is ready. A step that is not possible in the task's phase is \<open>None\<close>. A \<open>?\<close> in the inner
  block ends it with its error; what follows the block runs in every case.
\<close>

section \<open>Shared pieces\<close>

definition managed_session_mode_str :: "managed_session_mode \<Rightarrow> string" where
  "managed_session_mode_str mode =
     (case mode of Tui \<Rightarrow> ''tui-connect'' | Direct \<Rightarrow> ''direct'' | Exec \<Rightarrow> ''exec'' | Sftp \<Rightarrow> ''sftp'')"

definition crlf :: string where
  "crlf = [CHR 0x0D, CHR 0x0A]"

definition connecting_message :: string where
  "connecting_message = crlf @ [CHR 0x1B] @ ''[2J'' @ [CHR 0x1B] @ ''[HConnecting to target...'' @ crlf"

text \<open>\<open>min(i64::MAX as u128) as i64\<close>.\<close>

definition latency_i64 :: "nat \<Rightarrow> int" where
  "latency_i64 ms = min (int ms) (2 ^ 63 - 1)"

text \<open>The connection its mode asks for.\<close>

definition connect_asset ::
  "ssh_env \<Rightarrow> string \<Rightarrow> managed_bridge_options \<Rightarrow> peer \<Rightarrow> catalog \<Rightarrow> catalog \<times> unit client_run" where
  "connect_asset E now bo P db =
     (let dims = (py_width (bo_pty bo), py_height (bo_pty bo)) in
      case bo_mode bo of
        Sftp \<Rightarrow> connect_asset_sftp (sx_ext E) now (sx_master E) (bo_asset bo) P db
      | Exec \<Rightarrow> connect_asset_exec (sx_ext E) now (sx_master E) (bo_asset bo)
          (case bo_command bo of Some c \<Rightarrow> c | None \<Rightarrow> [])
          (if bo_pty_requested bo then Some dims else None) P db
      | _ \<Rightarrow> connect_asset_shell (sx_ext E) now (sx_master E) (bo_asset bo) dims P db)"

definition resizes :: "managed_bridge_options \<Rightarrow> bool" where
  "resizes bo \<longleftrightarrow> bo_mode bo \<noteq> Sftp \<and> (bo_mode bo \<noteq> Exec \<or> bo_pty_requested bo)"

definition client_at :: "managed_bridge_options \<Rightarrow> nat \<times> nat" where
  "client_at bo = (bo_conn bo, bo_channel bo)"

definition goto :: "nat \<Rightarrow> bridge_task \<Rightarrow> bridge_phase \<Rightarrow> server \<Rightarrow> server" where
  "goto t b ph sv = put_task t (Some (BridgeTask (b\<lparr>bt_phase := ph\<rparr>))) sv"

section \<open>Steps\<close>

datatype bridge_event =
    Proceed
  | ConnectEnds peer nat
  | TakeTermination
  | TakeInput "string + unit"
  | TakeResize "string + unit"
  | TargetMessage "channel_msg option"

definition bridge_start :: "ssh_env \<Rightarrow> string \<Rightarrow> nat \<Rightarrow> bridge_task \<Rightarrow> server \<Rightarrow> server" where
  "bridge_start E now t b sv =
     (let bo = bt_options b; a = bo_asset bo in
      case begin_session E now (new_session_of (bo_auth bo) (managed_session_mode_str (bo_mode bo))
          (Some (as_name a)) (Some (as_hostname a)) (Some (as_port a)) (bo_client_ip bo)) sv of
        (sv1, Inl _) \<Rightarrow> goto t b (BridgeCheck None) sv1
      | (sv1, Inr s) \<Rightarrow> goto t b (BridgeRegister (se_id s)) sv1)"

definition bridge_check :: "nat \<Rightarrow> bridge_task \<Rightarrow> string option \<Rightarrow> server \<Rightarrow> server" where
  "bridge_check t b sid sv =
     (let bo = bt_options b in
      if \<not> key_can_access_asset (ai_key_id (bo_auth bo)) (as_id (bo_asset bo)) (sv_db sv)
      then goto t b (BridgeUnregister sid False False (Inl (Message authorization_denied))) sv
      else if bo_mode bo = Exec \<and> bo_command bo = None
      then goto t b (BridgeUnregister sid False False
        (Inl (Message ''managed exec session is missing its command''))) sv
      else goto t b (BridgeConnect sid)
        (if bo_mode bo = Sftp \<or> bo_mode bo = Exec then sv
         else send (client_at bo) [ToClient connecting_message] sv))"

definition bridge_connect ::
  "ssh_env \<Rightarrow> string \<Rightarrow> nat \<Rightarrow> bridge_task \<Rightarrow> string option \<Rightarrow> peer \<Rightarrow> nat \<Rightarrow> server \<Rightarrow> server" where
  "bridge_connect E now t b sid P ms sv =
     (let bo = bt_options b; i = as_id (bo_asset bo) in
      case connect_asset E now bo P (sv_db sv) of
        (db1, _, Inr _) \<Rightarrow>
          goto t b (BridgeRelay sid False)
            (put_db (fst (record_asset_health_success now i (Some (latency_i64 ms)) db1)) sv)
      | (db1, _, Inl e) \<Rightarrow>
          goto t b (BridgeUnregister sid False False (Inl e))
            (put_db (fst (record_asset_health_failure now i (Some ''managed_connect_failed'')
              (Some (health_error_message (sx_error_text E e))) db1)) sv))"

definition bridge_terminated :: "nat \<Rightarrow> bridge_task \<Rightarrow> string option \<Rightarrow> bool \<Rightarrow> server \<Rightarrow> server" where
  "bridge_terminated t b sid exit_reported sv =
     goto t (b\<lparr>bt_signalled := False\<rparr>) (BridgeUnregister sid True exit_reported (Inr ())) sv"

definition bridge_target_message ::
  "nat \<Rightarrow> bridge_task \<Rightarrow> string option \<Rightarrow> bool \<Rightarrow> channel_msg option \<Rightarrow> server \<Rightarrow> server" where
  "bridge_target_message t b sid exit_reported msg sv =
     (let bo = bt_options b; at = client_at bo; should_return_to_tui = (bo_return_to_tui bo \<noteq> None);
          stay = goto t b (BridgeRelay sid exit_reported) sv;
          closed = goto t b (BridgeUnregister sid False exit_reported
            (if bo_mode bo = Exec \<and> \<not> exit_reported
             then Inl (Message ''target closed without reporting an exit status'') else Inr ())) sv in
      case msg of
        None \<Rightarrow> closed
      | Some MsgClose \<Rightarrow> closed
      | Some (MsgData d) \<Rightarrow> goto t b (BridgeRelay sid exit_reported) (send at [ToClient d] sv)
      | Some (MsgExtendedData n d) \<Rightarrow>
          if n = 1 then goto t b (BridgeRelay sid exit_reported) (send at [ToClientExtended d] sv) else stay
      | Some (MsgExitStatus n) \<Rightarrow>
          if should_return_to_tui then stay
          else goto t b (BridgeRelay sid True) (send at [ExitStatus n] sv)
      | Some (MsgExitSignal name core_dumped message lang) \<Rightarrow>
          if should_return_to_tui then stay
          else goto t b (BridgeRelay sid True) (send at [ExitSignal name core_dumped message lang] sv)
      | Some _ \<Rightarrow> stay)"

text \<open>The status and error of the session row; a termination decides over the result.\<close>

definition final_status :: "ssh_env \<Rightarrow> bool \<Rightarrow> any_error + unit \<Rightarrow> string \<times> string option" where
  "final_status E terminated result =
     (if terminated then (''terminated'', Some terminated_by_management)
      else case result of Inr _ \<Rightarrow> (''ok'', None) | Inl e \<Rightarrow> (''failed'', Some (sx_error_text E e)))"

definition bridge_finish ::
  "ssh_env \<Rightarrow> string \<Rightarrow> string \<Rightarrow> bool \<Rightarrow> any_error + unit \<Rightarrow> server \<Rightarrow> server" where
  "bridge_finish E now i terminated result sv =
     fst (end_session now i (fst (final_status E terminated result)) (snd (final_status E terminated result)) sv)"

definition failure_messages ::
  "ssh_env \<Rightarrow> managed_session_mode \<Rightarrow> bool \<Rightarrow> any_error \<Rightarrow> client_msg list" where
  "failure_messages E mode exit_reported e =
     (case mode of
        Sftp \<Rightarrow> [ExitStatus 1]
      | Exec \<Rightarrow> if exit_reported then []
          else [ToClientExtended (''hop: target connection failed: '' @ sx_error_text E e @ [CHR 0x0A]),
            ExitStatus 255]
      | _ \<Rightarrow> [ToClient (crlf @ ''direct connection failed: '' @ sx_error_text E e @ crlf)])"

definition bridge_reply ::
  "ssh_env \<Rightarrow> nat \<Rightarrow> bridge_task \<Rightarrow> bool \<Rightarrow> bool \<Rightarrow> any_error + unit \<Rightarrow> server \<Rightarrow> server" where
  "bridge_reply E t b terminated exit_reported result sv =
     (let bo = bt_options b; at = client_at bo in
      if terminated then put_task t None (send at [ExitStatus 255, Eof, Close] sv)
      else if bo_return_to_tui bo \<noteq> None then
        (let sv1 = send at [ToClient (case result of
               Inr _ \<Rightarrow> crlf @ ''Target session ended. Returning to Hop...'' @ crlf
             | Inl e \<Rightarrow> crlf @ ''Target connection failed: '' @ sx_error_text E e @ crlf
                 @ ''Returning to Hop...'' @ crlf)] sv in
         if sv_channels sv1 at \<noteq> None then goto t b BridgeReopen sv1 else put_task t None sv1)
      else put_task t None (send at ((case result of
          Inr _ \<Rightarrow> [] | Inl e \<Rightarrow> failure_messages E (bo_mode bo) exit_reported e) @ [Eof, Close]) sv))"

text \<open>Back to the interface; \<open>resume_after_target\<close> writes to memory and does not fail.\<close>

definition bridge_reopen :: "ssh_env \<Rightarrow> string \<Rightarrow> nat \<Rightarrow> bridge_task \<Rightarrow> server \<Rightarrow> server" where
  "bridge_reopen E now t b sv =
     (let bo = bt_options b; at = client_at bo in
      case bo_return_to_tui bo of
        None \<Rightarrow> put_task t None sv
      | Some tui \<Rightarrow>
          (case start_tui_session E now (bo_auth bo) (bo_client_ip bo) sv of
             (sv1, Inl e) \<Rightarrow> put_task t None (send at [ToClient (crlf @ ''Failed to reopen Hop TUI: ''
                 @ sx_error_text E (CoreError e) @ crlf), Eof, Close] sv1)
           | (sv1, Inr i) \<Rightarrow>
               (case resume_after_target (sx_term E) tui of
                  (tui', out) \<Rightarrow>
                    if connected (fst at) sv1
                    then put_task t None (put_channel at (Some (TuiChannel tui' i)) (send at [ToClient out] sv1))
                    else put_task t None (fst (end_session now i ''failed''
                      (Some ''ssh channel closed while reopening Hop TUI'') sv1)))))"

fun bridge_step ::
  "ssh_env \<Rightarrow> string \<Rightarrow> nat \<Rightarrow> bridge_task \<Rightarrow> bridge_phase \<Rightarrow> bridge_event \<Rightarrow> server \<Rightarrow> server option" where
  "bridge_step E now t b BridgeStart ev sv =
     (case ev of Proceed \<Rightarrow> Some (bridge_start E now t b sv) | _ \<Rightarrow> None)"
| "bridge_step E now t b (BridgeRegister i) ev sv =
     (case ev of
        Proceed \<Rightarrow> Some (goto t b (BridgeCheck (Some i)) (register_task i t sv))
      | _ \<Rightarrow> None)"
| "bridge_step E now t b (BridgeCheck sid) ev sv =
     (case ev of Proceed \<Rightarrow> Some (bridge_check t b sid sv) | _ \<Rightarrow> None)"
| "bridge_step E now t b (BridgeConnect sid) ev sv =
     (case ev of
        TakeTermination \<Rightarrow> if bt_signalled b then Some (bridge_terminated t b sid False sv) else None
      | ConnectEnds P ms \<Rightarrow> Some (bridge_connect E now t b sid P ms sv)
      | _ \<Rightarrow> None)"
| "bridge_step E now t b (BridgeRelay sid exit_reported) ev sv =
     (case ev of
        TakeTermination \<Rightarrow>
          if bt_signalled b
          then Some (bridge_terminated t b sid exit_reported (send (client_at (bt_options b))
            [if bo_mode (bt_options b) = Exec then ToClientExtended (terminated_by_management @ [CHR 0x0A])
             else ToClient (crlf @ terminated_by_management @ crlf)] sv))
          else None
      | TakeInput r \<Rightarrow>
          (case bt_input b of [] \<Rightarrow> None
           | _ # rest \<Rightarrow> Some (goto t (b\<lparr>bt_input := rest\<rparr>)
               (case r of Inr _ \<Rightarrow> BridgeRelay sid exit_reported
                | Inl e \<Rightarrow> BridgeUnregister sid False exit_reported (Inl (Message e))) sv))
      | TakeResize r \<Rightarrow>
          (case bt_resize b of [] \<Rightarrow> None
           | _ # rest \<Rightarrow>
               if resizes (bt_options b)
               then Some (goto t (b\<lparr>bt_resize := rest\<rparr>)
                 (case r of Inr _ \<Rightarrow> BridgeRelay sid exit_reported
                  | Inl e \<Rightarrow> BridgeUnregister sid False exit_reported (Inl (Message e))) sv)
               else None)
      | TargetMessage msg \<Rightarrow> Some (bridge_target_message t b sid exit_reported msg sv)
      | _ \<Rightarrow> None)"
| "bridge_step E now t b (BridgeUnregister sid terminated exit_reported result) ev sv =
     (case ev of
        Proceed \<Rightarrow>
          (case sid of
             None \<Rightarrow> Some (goto t b (BridgeReply terminated exit_reported result) sv)
           | Some i \<Rightarrow> Some (goto t b (BridgeFinish i terminated exit_reported result)
               (unregister_session i sv)))
      | _ \<Rightarrow> None)"
| "bridge_step E now t b (BridgeFinish i terminated exit_reported result) ev sv =
     (case ev of
        Proceed \<Rightarrow> Some (goto t b (BridgeReply terminated exit_reported result)
          (bridge_finish E now i terminated result sv))
      | _ \<Rightarrow> None)"
| "bridge_step E now t b (BridgeReply terminated exit_reported result) ev sv =
     (case ev of Proceed \<Rightarrow> Some (bridge_reply E t b terminated exit_reported result sv) | _ \<Rightarrow> None)"
| "bridge_step E now t b BridgeReopen ev sv =
     (case ev of Proceed \<Rightarrow> Some (bridge_reopen E now t b sv) | _ \<Rightarrow> None)"

end
