(* ===== verification/Ssh_Proxy.thy ===== *)
theory Ssh_Proxy
  imports Ssh_Bridge
begin

text \<open>
  Forwarded connections (\<open>ssh/proxy.rs\<close>): the copy loop with its error report, and the task behind a
  \<open>direct-tcpip\<close> channel. One round of \<open>relay_copy\<close> is one read, of at most 16384 bytes, and one write
  of what was read; byte counts are natural numbers, a \<open>u64\<close> cannot overflow in practice. The two
  copies and the termination race in a \<open>select!\<close>: the first to end decides.
\<close>

section \<open>Copying\<close>

datatype relay_peer = Client | Target

datatype relay_operation = Read | Write

record relay_io_error =
  re_peer :: relay_peer
  re_operation :: relay_operation
  re_bytes :: nat
  re_source :: string

definition relay_peer_str :: "relay_peer \<Rightarrow> string" where
  "relay_peer_str p = (case p of Client \<Rightarrow> ''client'' | Target \<Rightarrow> ''target'')"

definition relay_operation_str :: "relay_operation \<Rightarrow> string" where
  "relay_operation_str x = (case x of Read \<Rightarrow> ''read'' | Write \<Rightarrow> ''write'')"

definition relay_io_error_str :: "relay_io_error \<Rightarrow> string" where
  "relay_io_error_str e = relay_peer_str (re_peer e) @ '' '' @ relay_operation_str (re_operation e)
     @ '' failed after '' @ show_nat (re_bytes e) @ '' bytes: '' @ re_source e"

definition relay_error_message :: "relay_io_error \<Rightarrow> nat \<Rightarrow> nat \<Rightarrow> string" where
  "relay_error_message err client_to_target_bytes target_to_client_bytes =
     relay_io_error_str err @ ''; totals client->target='' @ show_nat client_to_target_bytes
       @ '' bytes, target->client='' @ show_nat target_to_client_bytes @ '' bytes''"

datatype relay_outcome = RelayMore nat | RelayDone nat | RelayFailed relay_io_error

definition relay_round ::
  "relay_peer \<Rightarrow> relay_peer \<Rightarrow> nat \<Rightarrow> string + string \<Rightarrow> string + unit \<Rightarrow> relay_outcome" where
  "relay_round read_peer write_peer written read write =
     (case read of
        Inl e \<Rightarrow> RelayFailed \<lparr>re_peer = read_peer, re_operation = Read, re_bytes = written, re_source = e\<rparr>
      | Inr buf \<Rightarrow>
          if buf = [] then RelayDone written
          else (case write of
              Inl e \<Rightarrow> RelayFailed \<lparr>re_peer = write_peer, re_operation = Write, re_bytes = written,
                re_source = e\<rparr>
            | Inr _ \<Rightarrow> RelayMore (written + length buf)))"

text \<open>
  The whole loop on the outcomes of its reads and writes, with the shared total; \<open>None\<close> while it
  still waits for a read.
\<close>

fun relay_copy ::
  "relay_peer \<Rightarrow> relay_peer \<Rightarrow> nat \<Rightarrow> ((string + string) \<times> (string + unit)) list
    \<Rightarrow> nat \<times> (relay_io_error + nat) option" where
  "relay_copy read_peer write_peer written [] = (written, None)"
| "relay_copy read_peer write_peer written ((read, write) # rounds) =
     (case relay_round read_peer write_peer written read write of
        RelayMore n \<Rightarrow> relay_copy read_peer write_peer n rounds
      | RelayDone n \<Rightarrow> (written, Some (Inr n))
      | RelayFailed e \<Rightarrow> (written, Some (Inl e)))"

section \<open>The task\<close>

datatype proxy_event =
    ProxyProceed
  | ProxyConnectEnds "string + unit" nat
  | ProxyTakeTermination
  | RelayFrom relay_peer "string + string" "string + unit"

definition pgoto :: "nat \<Rightarrow> proxy_task \<Rightarrow> proxy_phase \<Rightarrow> server \<Rightarrow> server" where
  "pgoto t p ph sv = put_task t (Some (ProxyTask (p\<lparr>pt_phase := ph\<rparr>))) sv"

definition proxy_at :: "proxy_task \<Rightarrow> nat \<times> nat" where
  "proxy_at p = (pt_conn p, pt_channel p)"

definition proxy_check :: "ssh_env \<Rightarrow> string \<Rightarrow> nat \<Rightarrow> proxy_task \<Rightarrow> server \<Rightarrow> server" where
  "proxy_check E now t p sv =
     (let a = pt_asset p in
      if \<not> key_can_access_asset (ai_key_id (pt_auth p)) (as_id a) (sv_db sv)
      then put_task t None (audit_denied_attempt E now (pt_auth p) ''tcp-forward'' (Some (as_name a))
        (Some (as_hostname a)) (Some (as_port a)) (pt_client_ip p) sv)
      else pgoto t p ProxyStart sv)"

definition proxy_start :: "ssh_env \<Rightarrow> string \<Rightarrow> nat \<Rightarrow> proxy_task \<Rightarrow> server \<Rightarrow> server" where
  "proxy_start E now t p sv =
     (let a = pt_asset p in
      case begin_session E now (new_session_of (pt_auth p) ''tcp-forward'' (Some (as_name a))
          (Some (as_hostname a)) (Some (as_port a)) (pt_client_ip p)) sv of
        (sv1, Inl _) \<Rightarrow> put_task t None sv1
      | (sv1, Inr s) \<Rightarrow> pgoto t p (ProxyRegister (se_id s)) sv1)"

text \<open>The port is checked before the socket is opened.\<close>

definition proxy_register :: "nat \<Rightarrow> proxy_task \<Rightarrow> string \<Rightarrow> server \<Rightarrow> server" where
  "proxy_register t p i sv =
     pgoto t p (case validate_tcp_port (as_port (pt_asset p)) of
         Inl e \<Rightarrow> ProxyUnregister i False (Inl (CoreError e))
       | Inr _ \<Rightarrow> ProxyConnect i) (register_task i t sv)"

definition proxy_connect ::
  "string \<Rightarrow> nat \<Rightarrow> proxy_task \<Rightarrow> string \<Rightarrow> string + unit \<Rightarrow> nat \<Rightarrow> server \<Rightarrow> server" where
  "proxy_connect now t p i r ms sv =
     (let a = pt_asset p in
      case r of
        Inr _ \<Rightarrow> pgoto t p (ProxyRelay i 0 0)
          (put_db (fst (record_asset_health_success now (as_id a) (Some (latency_i64 ms)) (sv_db sv))) sv)
      | Inl e \<Rightarrow> pgoto t p (ProxyUnregister i False
            (Inl (Message (''connect '' @ as_hostname a @ '':'' @ show_int (as_port a)))))
          (put_db (fst (record_asset_health_failure now (as_id a) (Some ''tcp_connect_failed'')
            (Some (health_error_message e)) (sv_db sv))) sv))"

definition proxy_terminated :: "nat \<Rightarrow> proxy_task \<Rightarrow> string \<Rightarrow> client_msg list \<Rightarrow> server \<Rightarrow> server" where
  "proxy_terminated t p i ms sv =
     pgoto t (p\<lparr>pt_signalled := False\<rparr>) (ProxyUnregister i True (Inr ())) (send (proxy_at p) ms sv)"

text \<open>A round of one of the two copies; what is read from the target goes to the client.\<close>

definition proxy_relay ::
  "nat \<Rightarrow> proxy_task \<Rightarrow> string \<Rightarrow> nat \<Rightarrow> nat \<Rightarrow> relay_peer \<Rightarrow> string + string \<Rightarrow> string + unit
    \<Rightarrow> server \<Rightarrow> server" where
  "proxy_relay t p i c2t t2c from read write sv =
     (case from of
        Client \<Rightarrow>
          (case relay_round Client Target c2t read write of
             RelayMore n \<Rightarrow> pgoto t p (ProxyRelay i n t2c) sv
           | RelayDone n \<Rightarrow> pgoto t p (ProxyUnregister i False (Inr ())) sv
           | RelayFailed e \<Rightarrow> pgoto t p (ProxyUnregister i False
               (Inl (Message (relay_error_message e c2t t2c)))) sv)
      | Target \<Rightarrow>
          (case relay_round Target Client t2c read write of
             RelayMore n \<Rightarrow> pgoto t p (ProxyRelay i c2t n)
               (send (proxy_at p) (case read of Inr buf \<Rightarrow> [ToClient buf] | Inl _ \<Rightarrow> []) sv)
           | RelayDone n \<Rightarrow> pgoto t p (ProxyUnregister i False (Inr ())) sv
           | RelayFailed e \<Rightarrow> pgoto t p (ProxyUnregister i False
               (Inl (Message (relay_error_message e c2t t2c)))) sv))"

fun proxy_step ::
  "ssh_env \<Rightarrow> string \<Rightarrow> nat \<Rightarrow> proxy_task \<Rightarrow> proxy_phase \<Rightarrow> proxy_event \<Rightarrow> server \<Rightarrow> server option" where
  "proxy_step E now t p ProxyCheck ProxyProceed sv = Some (proxy_check E now t p sv)"
| "proxy_step E now t p ProxyStart ProxyProceed sv = Some (proxy_start E now t p sv)"
| "proxy_step E now t p (ProxyRegister i) ProxyProceed sv = Some (proxy_register t p i sv)"
| "proxy_step E now t p (ProxyConnect i) ProxyTakeTermination sv =
     (if pt_signalled p then Some (proxy_terminated t p i [Close] sv) else None)"
| "proxy_step E now t p (ProxyConnect i) (ProxyConnectEnds r ms) sv =
     Some (proxy_connect now t p i r ms sv)"
| "proxy_step E now t p (ProxyRelay i c2t t2c) ProxyTakeTermination sv =
     (if pt_signalled p then Some (proxy_terminated t p i [Eof, Close] sv) else None)"
| "proxy_step E now t p (ProxyRelay i c2t t2c) (RelayFrom from read write) sv =
     Some (proxy_relay t p i c2t t2c from read write sv)"
| "proxy_step E now t p (ProxyUnregister i terminated result) ProxyProceed sv =
     Some (pgoto t p (ProxyFinish i terminated result) (unregister_session i sv))"
| "proxy_step E now t p (ProxyFinish i terminated result) ProxyProceed sv =
     Some (put_task t None (bridge_finish E now i terminated result sv))"
| "proxy_step E now t p ph ev sv = None"

end
