(* ===== verification/Ssh_Server.thy ===== *)
theory Ssh_Server
  imports Ssh_Proxy
begin

text \<open>
  The handlers of an SSH connection (\<open>ssh/server.rs\<close>). russh calls one handler of a connection at a
  time; each is a function of the connection's handler and the server. An error it returns ends the
  connection. A public key is given by its algorithm and SHA-256 fingerprint. Logging is not modelled.
\<close>

section \<open>Settings\<close>

datatype method_kind = PublicKey

definition ingress_auth_methods :: "method_kind list" where
  "ingress_auth_methods = [PublicKey]"

definition ssh_keepalive_interval :: "hop_config \<Rightarrow> (64 word) option" where
  "ssh_keepalive_interval c =
     (let seconds = sc_keepalive_interval (hc_ssh c) in if seconds = 0 then None else Some seconds)"

definition authentication_banner :: "hop_config \<Rightarrow> string option" where
  "authentication_banner c =
     (let banner = sc_banner (hc_ssh c) in
      if banner = [] then None
      else if suffix [CHR 0x0A] banner then Some banner
      else Some (banner @ crlf))"

text \<open>How an ended session is logged: the causes of its error, and which of them are disconnects.\<close>

datatype io_error_kind = ConnectionReset | BrokenPipe | UnexpectedEof | OtherKind

record io_error =
  io_kind :: io_error_kind
  io_raw :: "int option"

datatype error_cause = IoCause io_error | RusshIo io_error | RusshDisconnect | RusshHup | OtherCause

definition is_disconnect_io_error :: "io_error \<Rightarrow> bool" where
  "is_disconnect_io_error e \<longleftrightarrow> io_kind e \<in> {ConnectionReset, BrokenPipe, UnexpectedEof}
     \<or> io_raw e = Some 10054 \<or> io_raw e = Some 104"

definition is_client_disconnect :: "error_cause list \<Rightarrow> bool" where
  "is_client_disconnect chain \<longleftrightarrow> (\<exists>cause \<in> set chain.
     case cause of IoCause e \<Rightarrow> is_disconnect_io_error e | RusshIo e \<Rightarrow> is_disconnect_io_error e
     | RusshDisconnect \<Rightarrow> True | RusshHup \<Rightarrow> True | OtherCause \<Rightarrow> False)"

section \<open>Connections\<close>

definition new_client :: "string \<Rightarrow> handler" where
  "new_client peer_addr = \<lparr>hd_auth = None, hd_direct_asset = None, hd_client_ip = Some peer_addr,
     hd_ptys = (\<lambda>_. None)\<rparr>"

definition pty_size_of :: "handler \<Rightarrow> nat \<Rightarrow> pty_size" where
  "pty_size_of h channel = (case hd_ptys h channel of Some p \<Rightarrow> p | None \<Rightarrow> default_pty_size)"

text \<open>\<open>col_width as u16\<close>.\<close>

definition truncated_size :: "32 word \<Rightarrow> 32 word \<Rightarrow> pty_size" where
  "truncated_size width height = \<lparr>py_width = ucast width, py_height = ucast height\<rparr>"

definition missing_auth :: any_error where
  "missing_auth = Message ''missing authenticated key''"

definition parse_direct_username :: "string \<Rightarrow> any_error + direct_login_request option" where
  "parse_direct_username user =
     (let target = trim user in
      if target = [] then Inl (Message ''direct username requires <asset>'')
      else if CHR ''@'' \<in> set target
      then Inl (Message ''direct username must be a single asset name or hostname'')
      else if contains_whitespace target
      then Inl (Message ''direct username cannot contain whitespace'')
      else Inr (Some \<lparr>dl_target = target\<rparr>))"

definition resolve_direct_asset_for_key ::
  "ext \<Rightarrow> string \<Rightarrow> string \<Rightarrow> catalog \<Rightarrow> any_error + asset option" where
  "resolve_direct_asset_for_key X user key_id db =
     and_then (parse_direct_username user) (\<lambda>request.
     case request of
       None \<Rightarrow> Inr None
     | Some r \<Rightarrow>
         and_then (core (find_direct_asset_for_key X key_id (dl_target r) db)) (\<lambda>asset.
         case asset of
           None \<Rightarrow> Inr None
         | Some a \<Rightarrow>
             if as_credential_id a = None
             then Inl (Message ''direct target has no managed credential'')
             else Inr (Some a)))"

definition managed_mode_is_authorized :: "catalog \<Rightarrow> string \<Rightarrow> string \<Rightarrow> managed_session_mode \<Rightarrow> bool" where
  "managed_mode_is_authorized db key_id asset_id mode = key_can_access_asset key_id asset_id db"

definition managed_session_mode_name :: "managed_session_mode \<Rightarrow> string" where
  "managed_session_mode_name mode =
     (case mode of Tui \<Rightarrow> ''tui-connect'' | Direct \<Rightarrow> ''direct'' | Exec \<Rightarrow> ''exec'' | Sftp \<Rightarrow> ''sftp'')"

definition accepts_managed_ssh_asset :: "asset option \<Rightarrow> bool" where
  "accepts_managed_ssh_asset a =
     (case a of None \<Rightarrow> False
      | Some a \<Rightarrow> as_protocol a = asset_protocol_ssh \<and> as_credential_id a \<noteq> None)"

definition accepts_sftp_request :: "string \<Rightarrow> asset option \<Rightarrow> bool" where
  "accepts_sftp_request name a \<longleftrightarrow> name = ''sftp'' \<and> accepts_managed_ssh_asset a"

section \<open>Logging in\<close>

text \<open>A key that is offered is looked up, and nothing is kept.\<close>

definition auth_publickey_offered ::
  "ssh_env \<Rightarrow> string \<Rightarrow> string \<times> string \<Rightarrow> server \<Rightarrow> any_error + bool" where
  "auth_publickey_offered E user key sv =
     and_then (core (get_active_authorized_key_by_fingerprint (snd key) (sv_db sv))) (\<lambda>found.
     case found of
       None \<Rightarrow> Inr False
     | Some k \<Rightarrow>
         (case resolve_direct_asset_for_key (sx_ext E) user (ak_id k) (sv_db sv) of
            Inl _ \<Rightarrow> Inr False
          | Inr _ \<Rightarrow> Inr True))"

definition auth_publickey ::
  "ssh_env \<Rightarrow> string \<Rightarrow> string \<times> string \<Rightarrow> handler \<Rightarrow> server \<Rightarrow> handler \<times> (any_error + bool)" where
  "auth_publickey E user key h sv =
     (case core (get_active_authorized_key_by_fingerprint (snd key) (sv_db sv)) of
        Inl e \<Rightarrow> (h, Inl e)
      | Inr None \<Rightarrow> (h, Inr False)
      | Inr (Some k) \<Rightarrow>
          (case resolve_direct_asset_for_key (sx_ext E) user (ak_id k) (sv_db sv) of
             Inl _ \<Rightarrow> (h, Inr False)
           | Inr direct_asset \<Rightarrow>
               (h\<lparr>hd_auth := Some \<lparr>ai_key_id = ak_id k, ai_fingerprint = snd key, ai_name = ak_name k\<rparr>,
                  hd_direct_asset := direct_asset\<rparr>, Inr True)))"

section \<open>Managed sessions\<close>

definition start_managed ::
  "ssh_env \<Rightarrow> string \<Rightarrow> nat \<Rightarrow> handler \<Rightarrow> nat \<Rightarrow> asset \<Rightarrow> tui_resources option \<Rightarrow> managed_session_mode
    \<Rightarrow> string option \<Rightarrow> server \<Rightarrow> server \<times> (any_error + unit)" where
  "start_managed E now c h channel asset tui mode command sv =
     (case hd_auth h of
        None \<Rightarrow> (sv, Inl missing_auth)
      | Some auth \<Rightarrow>
          if \<not> managed_mode_is_authorized (sv_db sv) (ai_key_id auth) (as_id asset) mode
          then (audit_denied_attempt E now auth (managed_session_mode_name mode) (Some (as_name asset))
            (Some (as_hostname asset)) (Some (as_port asset)) (hd_client_ip h) sv,
            Inl (Message authorization_denied))
          else
            (case spawn (BridgeTask \<lparr>bt_options = \<lparr>bo_conn = c, bo_auth = auth,
                  bo_client_ip = hd_client_ip h, bo_asset = asset, bo_channel = channel,
                  bo_pty = pty_size_of h channel, bo_pty_requested = (hd_ptys h channel \<noteq> None),
                  bo_command = command, bo_mode = mode, bo_return_to_tui = tui\<rparr>,
                bt_phase = BridgeStart, bt_input = [], bt_resize = [], bt_signalled = False\<rparr>) sv of
               (sv1, t) \<Rightarrow> (put_channel (c, channel) (Some (ManagedChannel t)) sv1, Inr ())))"

section \<open>Requests of a channel\<close>

definition send_tui_output :: "nat \<times> nat \<Rightarrow> string \<Rightarrow> server \<Rightarrow> server" where
  "send_tui_output at s sv = (if s = [] then sv else send at [ToClient s] sv)"

definition channel_open_direct_tcpip ::
  "ssh_env \<Rightarrow> string \<Rightarrow> nat \<Rightarrow> handler \<Rightarrow> nat \<Rightarrow> string \<Rightarrow> 32 word \<Rightarrow> server \<Rightarrow> server \<times> (any_error + bool)" where
  "channel_open_direct_tcpip E now c h channel host_to_connect port_to_connect sv =
     (case hd_auth h of
        None \<Rightarrow> (sv, Inr False)
      | Some auth \<Rightarrow>
          (case core (find_proxy_asset_for_key (sx_ext E) (ai_key_id auth) host_to_connect
              (uint port_to_connect) (sv_db sv)) of
             Inl e \<Rightarrow> (sv, Inl e)
           | Inr None \<Rightarrow> (audit_denied_attempt E now auth ''tcp-forward'' None (Some host_to_connect)
               (Some (uint port_to_connect)) (hd_client_ip h) sv, Inr False)
           | Inr (Some asset) \<Rightarrow>
               (fst (spawn (ProxyTask \<lparr>pt_conn = c, pt_channel = channel, pt_auth = auth, pt_asset = asset,
                  pt_client_ip = hd_client_ip h, pt_phase = ProxyCheck, pt_signalled = False\<rparr>) sv),
                Inr True)))"

definition pty_request ::
  "nat \<Rightarrow> handler \<Rightarrow> nat \<Rightarrow> 32 word \<Rightarrow> 32 word \<Rightarrow> server \<Rightarrow> handler \<times> server" where
  "pty_request c h channel width height sv =
     (h\<lparr>hd_ptys := (hd_ptys h)(channel := Some (truncated_size width height))\<rparr>,
      send (c, channel) [ChannelSuccess] sv)"

definition shell_request ::
  "ssh_env \<Rightarrow> string \<Rightarrow> nat \<Rightarrow> handler \<Rightarrow> nat \<Rightarrow> server \<Rightarrow> server \<times> (any_error + unit)" where
  "shell_request E now c h channel sv =
     (let sv1 = send (c, channel) [ChannelSuccess] sv in
      case hd_direct_asset h of
        Some asset \<Rightarrow> start_managed E now c h channel asset None Direct None sv1
      | None \<Rightarrow>
          (case hd_auth h of
             None \<Rightarrow> (sv1, Inl missing_auth)
           | Some auth \<Rightarrow>
               (case core (list_assets_for_key (sx_ext E) (ai_key_id auth) (sv_db sv1)) of
                  Inl e \<Rightarrow> (sv1, Inl e)
                | Inr assets \<Rightarrow>
                    (let dims = pty_size_of h channel in
                     case enter_screen (sx_term E) (new_tui (py_width dims) (py_height dims) assets) of
                       (tui, screen) \<Rightarrow>
                         (let sv2 = send_tui_output (c, channel) screen sv1 in
                          case start_tui_session E now auth (hd_client_ip h) sv2 of
                            (sv3, Inl e) \<Rightarrow> (sv3, Inl (CoreError e))
                          | (sv3, Inr i) \<Rightarrow>
                              (case spawn (WatcherTask \<lparr>wt_conn = c, wt_channel = channel,
                                  wt_session = i, wt_signalled = False\<rparr>)
                                  (put_channel (c, channel) (Some (TuiChannel tui i)) sv3) of
                                 (sv4, t) \<Rightarrow> (register_task i t sv4, Inr ())))))))"

definition exec_request ::
  "ssh_env \<Rightarrow> string \<Rightarrow> nat \<Rightarrow> handler \<Rightarrow> nat \<Rightarrow> string \<Rightarrow> server \<Rightarrow> server \<times> (any_error + unit)" where
  "exec_request E now c h channel data sv =
     (case hd_direct_asset h of
        None \<Rightarrow> (send (c, channel) [ChannelFailure] sv, Inr ())
      | Some asset \<Rightarrow>
          if \<not> accepts_managed_ssh_asset (Some asset)
          then (send (c, channel) [ChannelFailure] sv, Inr ())
          else (case start_managed E now c h channel asset None Exec (Some data) sv of
              (sv1, Inl e) \<Rightarrow> (sv1, Inl e)
            | (sv1, Inr _) \<Rightarrow> (send (c, channel) [ChannelSuccess] sv1, Inr ())))"

definition subsystem_request ::
  "ssh_env \<Rightarrow> string \<Rightarrow> nat \<Rightarrow> handler \<Rightarrow> nat \<Rightarrow> string \<Rightarrow> server \<Rightarrow> server \<times> (any_error + unit)" where
  "subsystem_request E now c h channel name sv =
     (case hd_direct_asset h of
        None \<Rightarrow> (send (c, channel) [ChannelFailure] sv, Inr ())
      | Some asset \<Rightarrow>
          if \<not> accepts_sftp_request name (Some asset)
          then (send (c, channel) [ChannelFailure] sv, Inr ())
          else start_managed E now c h channel asset None Sftp None
            (send (c, channel) [ChannelSuccess] sv))"

section \<open>Input\<close>

text \<open>Sending to a task that has ended is ignored.\<close>

definition send_input :: "nat \<Rightarrow> bridge_input \<Rightarrow> server \<Rightarrow> server" where
  "send_input t i sv =
     (case sv_tasks sv t of
        Some (BridgeTask b) \<Rightarrow> put_task t (Some (BridgeTask (b\<lparr>bt_input := bt_input b @ [i]\<rparr>))) sv
      | _ \<Rightarrow> sv)"

definition send_resize :: "nat \<Rightarrow> pty_size \<Rightarrow> server \<Rightarrow> server" where
  "send_resize t p sv =
     (case sv_tasks sv t of
        Some (BridgeTask b) \<Rightarrow> put_task t (Some (BridgeTask (b\<lparr>bt_resize := bt_resize b @ [p]\<rparr>))) sv
      | _ \<Rightarrow> sv)"

text \<open>The end of an interface's session: its row, then its registration.\<close>

definition finish_tui :: "string \<Rightarrow> string \<Rightarrow> string \<Rightarrow> server \<Rightarrow> server" where
  "finish_tui now i status sv = unregister_session i (fst (end_session now i status None sv))"

definition no_credential_message :: string where
  "no_credential_message = crlf @ ''Asset has no managed credential; use ProxyJump instead.'' @ crlf"

definition tui_data ::
  "ssh_env \<Rightarrow> string \<Rightarrow> nat \<Rightarrow> handler \<Rightarrow> nat \<Rightarrow> tui_resources \<Rightarrow> string \<Rightarrow> string \<Rightarrow> server
    \<Rightarrow> server \<times> (any_error + unit)" where
  "tui_data E now c h channel tui i data sv =
     (let at = (c, channel) in
      case handle_bytes (sx_term E) data tui of
        (tui1, NoAction, out) \<Rightarrow>
          (send_tui_output at out (put_channel at (Some (TuiChannel tui1 i)) sv), Inr ())
      | (tui1, Quit, out) \<Rightarrow>
          (send at [ExitStatus 0, Eof, Close]
            (finish_tui now i ''ok'' (send_tui_output at (out @ snd (leave_screen (sx_term E) tui1))
              (put_channel at None sv))), Inr ())
      | (tui1, Connect asset, out) \<Rightarrow>
          if as_credential_id asset = None
          then (send_tui_output at (out @ no_credential_message)
            (put_channel at (Some (TuiChannel tui1 i)) sv), Inr ())
          else (case leave_screen (sx_term E) tui1 of
              (tui2, left) \<Rightarrow>
                start_managed E now c h channel asset (Some tui2) Tui None
                  (finish_tui now i ''connected'' (send_tui_output at (out @ left) (put_channel at None sv)))))"

definition channel_data ::
  "ssh_env \<Rightarrow> string \<Rightarrow> nat \<Rightarrow> handler \<Rightarrow> nat \<Rightarrow> string \<Rightarrow> server \<Rightarrow> server \<times> (any_error + unit)" where
  "channel_data E now c h channel data sv =
     (case sv_channels sv (c, channel) of
        None \<Rightarrow> (sv, Inr ())
      | Some (ManagedChannel t) \<Rightarrow> (send_input t (BridgeData data) sv, Inr ())
      | Some (TuiChannel tui i) \<Rightarrow> tui_data E now c h channel tui i data sv)"

definition channel_eof :: "ssh_env \<Rightarrow> string \<Rightarrow> nat \<Rightarrow> nat \<Rightarrow> server \<Rightarrow> server" where
  "channel_eof E now c channel sv =
     (case sv_channels sv (c, channel) of
        None \<Rightarrow> sv
      | Some (ManagedChannel t) \<Rightarrow> send_input t BridgeEof sv
      | Some (TuiChannel tui i) \<Rightarrow>
          finish_tui now i ''ok'' (send_tui_output (c, channel) (snd (leave_screen (sx_term E) tui))
            (put_channel (c, channel) None sv)))"

definition channel_close :: "ssh_env \<Rightarrow> string \<Rightarrow> nat \<Rightarrow> nat \<Rightarrow> server \<Rightarrow> server" where
  "channel_close E now c channel sv =
     (let sv1 = put_channel (c, channel) None sv in
      case sv_channels sv (c, channel) of
        Some (TuiChannel tui i) \<Rightarrow>
          finish_tui now i ''ok'' (send_tui_output (c, channel) (snd (leave_screen (sx_term E) tui)) sv1)
      | _ \<Rightarrow> sv1)"

definition window_change_request ::
  "ssh_env \<Rightarrow> nat \<Rightarrow> handler \<Rightarrow> nat \<Rightarrow> 32 word \<Rightarrow> 32 word \<Rightarrow> server \<Rightarrow> handler \<times> server" where
  "window_change_request E c h channel width height sv =
     (let p = truncated_size width height in
      (h\<lparr>hd_ptys := (hd_ptys h)(channel := Some p)\<rparr>,
       case sv_channels sv (c, channel) of
         None \<Rightarrow> sv
       | Some (TuiChannel tui i) \<Rightarrow>
           (case resize_tui (sx_term E) (py_width p) (py_height p) tui of
              (tui', out) \<Rightarrow> send_tui_output (c, channel) out (put_channel (c, channel) (Some (TuiChannel tui' i)) sv))
       | Some (ManagedChannel t) \<Rightarrow> send_resize t p sv))"

section \<open>The watcher of an interface\<close>

text \<open>
  \<open>spawn_tui_termination_watcher\<close>: it ends when the last sender of its channel is gone; on a signal it
  ends the interface that is then on its channel, if there is one.
\<close>

definition watcher_signalled :: "ssh_env \<Rightarrow> string \<Rightarrow> nat \<Rightarrow> watcher_task \<Rightarrow> server \<Rightarrow> server" where
  "watcher_signalled E now t w sv =
     (let at = (wt_conn w, wt_channel w) in
      put_task t None (unregister_session (wt_session w)
        (case sv_channels sv at of
           Some (TuiChannel tui i) \<Rightarrow>
             send at [ExitStatus 255, Eof, Close]
               (fst (end_session now i ''terminated'' (Some terminated_by_management)
                 (send_tui_output at (snd (leave_screen (sx_term E) tui) @ crlf @ terminated_by_management @ crlf)
                   (put_channel at None sv))))
         | _ \<Rightarrow> sv)))"

definition watcher_step ::
  "ssh_env \<Rightarrow> string \<Rightarrow> nat \<Rightarrow> watcher_task \<Rightarrow> server \<Rightarrow> server option" where
  "watcher_step E now t w sv =
     (if wt_signalled w then Some (watcher_signalled E now t w sv)
      else if sv_reg sv (wt_session w) = Some t then None
      else Some (put_task t None sv))"

section \<open>Requests of a connection\<close>

datatype ssh_request =
    AuthPublickeyOffered string "string \<times> string"
  | AuthPublickey string "string \<times> string"
  | ChannelOpenSession nat
  | ChannelOpenDirectTcpip nat string "32 word"
  | PtyRequest nat "32 word" "32 word"
  | ShellRequest nat
  | ExecRequest nat string
  | SubsystemRequest nat string
  | Data nat string
  | ChannelEof nat
  | ChannelClose nat
  | WindowChangeRequest nat "32 word" "32 word"

text \<open>The handler and the server after the call, and whether it failed.\<close>

fun call_handler ::
  "ssh_env \<Rightarrow> string \<Rightarrow> nat \<Rightarrow> ssh_request \<Rightarrow> handler \<Rightarrow> server \<Rightarrow> handler \<times> server \<times> (any_error + unit)" where
  "call_handler E now c (AuthPublickeyOffered user key) h sv =
     (h, sv, and_then (auth_publickey_offered E user key sv) (\<lambda>_. Inr ()))"
| "call_handler E now c (AuthPublickey user key) h sv =
     (case auth_publickey E user key h sv of (h', r) \<Rightarrow> (h', sv, and_then r (\<lambda>_. Inr ())))"
| "call_handler E now c (ChannelOpenSession channel) h sv = (h, sv, Inr ())"
| "call_handler E now c (ChannelOpenDirectTcpip channel host port) h sv =
     (case channel_open_direct_tcpip E now c h channel host port sv of
        (sv', r) \<Rightarrow> (h, sv', and_then r (\<lambda>_. Inr ())))"
| "call_handler E now c (PtyRequest channel width height) h sv =
     (case pty_request c h channel width height sv of (h', sv') \<Rightarrow> (h', sv', Inr ()))"
| "call_handler E now c (ShellRequest channel) h sv = (h, shell_request E now c h channel sv)"
| "call_handler E now c (ExecRequest channel data) h sv = (h, exec_request E now c h channel data sv)"
| "call_handler E now c (SubsystemRequest channel name) h sv =
     (h, subsystem_request E now c h channel name sv)"
| "call_handler E now c (Data channel data) h sv = (h, channel_data E now c h channel data sv)"
| "call_handler E now c (ChannelEof channel) h sv = (h, channel_eof E now c channel sv, Inr ())"
| "call_handler E now c (ChannelClose channel) h sv = (h, channel_close E now c channel sv, Inr ())"
| "call_handler E now c (WindowChangeRequest channel width height) h sv =
     (case window_change_request E c h channel width height sv of (h', sv') \<Rightarrow> (h', sv', Inr ()))"

definition serve_request :: "ssh_env \<Rightarrow> string \<Rightarrow> nat \<Rightarrow> ssh_request \<Rightarrow> server \<Rightarrow> server" where
  "serve_request E now c req sv =
     (case sv_handlers sv c of
        None \<Rightarrow> sv
      | Some h \<Rightarrow>
          (case call_handler E now c req h sv of
             (h', sv', r) \<Rightarrow> sv'\<lparr>sv_handlers := (sv_handlers sv')(c :=
               case r of Inr _ \<Rightarrow> Some h' | Inl _ \<Rightarrow> None)\<rparr>))"

end
