(* ===== verification/Ssh_System.thy ===== *)
theory Ssh_System
  imports Ssh_Server Control_Api
begin

text \<open>
  The running server as a step relation: connections come and go (\<open>serve_ssh_connections\<close>), their
  handlers are called, the spawned tasks advance one await at a time, the control API serves requests on
  the same catalog and registry, and other processes change the catalog. Steps of different tasks
  interleave in every order. A label names the step; a run keeps the states and labels it went through,
  newest first.
\<close>

section \<open>Termination signals\<close>

text \<open>\<open>terminate.send(())\<close>: the signal waits until the task receives it.\<close>

definition signal :: "nat \<Rightarrow> server \<Rightarrow> server" where
  "signal t sv =
     (case sv_tasks sv t of
        None \<Rightarrow> sv
      | Some (BridgeTask b) \<Rightarrow> put_task t (Some (BridgeTask (b\<lparr>bt_signalled := True\<rparr>))) sv
      | Some (ProxyTask p) \<Rightarrow> put_task t (Some (ProxyTask (p\<lparr>pt_signalled := True\<rparr>))) sv
      | Some (WatcherTask w) \<Rightarrow> put_task t (Some (WatcherTask (w\<lparr>wt_signalled := True\<rparr>))) sv)"

definition alive :: "server \<Rightarrow> nat \<Rightarrow> bool" where
  "alive sv t \<longleftrightarrow> sv_tasks sv t \<noteq> None"

text \<open>A request of the control API, with the signal it sends.\<close>

definition signalled_task ::
  "nat api_env \<Rightarrow> api_state \<Rightarrow> string option \<Rightarrow> api_request \<Rightarrow> server \<Rightarrow> nat option" where
  "signalled_task A st header req sv =
     (case authenticate (en_ext A) st header of
        Inl _ \<Rightarrow> None
      | Inr _ \<Rightarrow>
          (case req of
             PostTerminate i \<Rightarrow> fst (snd (terminate (en_alive A) i (sv_reg sv)))
           | _ \<Rightarrow> None))"

definition serve_api ::
  "nat api_env \<Rightarrow> api_state \<Rightarrow> string option \<Rightarrow> api_request \<Rightarrow> server \<Rightarrow> server" where
  "serve_api A st header req sv =
     (case handle A st header req (sv_db sv, sv_reg sv) of
        ((db, reg), _) \<Rightarrow>
          (let sv' = sv\<lparr>sv_db := db, sv_reg := reg\<rparr> in
           case signalled_task A st header req sv of None \<Rightarrow> sv' | Some t \<Rightarrow> signal t sv'))"

section \<open>Steps and runs\<close>

datatype label =
    Accept
  | Request nat ssh_request
  | Disconnect nat
  | BridgeStep nat bridge_event
  | ProxyStep nat proxy_event
  | WatcherStep nat
  | ApiRequest api_request
  | CatalogChange

definition accept_client :: "string \<Rightarrow> server \<Rightarrow> server" where
  "accept_client addr sv =
     sv\<lparr>sv_handlers := (sv_handlers sv)(sv_next sv := Some (new_client addr)), sv_next := sv_next sv + 1\<rparr>"

inductive ssh_step :: "ssh_env \<Rightarrow> server \<Rightarrow> label \<Rightarrow> server \<Rightarrow> bool" for E where
  accept: "ssh_step E sv Accept (accept_client addr sv)"
| request: "sv_handlers sv c \<noteq> None \<Longrightarrow> ssh_step E sv (Request c req) (serve_request E now c req sv)"
| disconnect: "sv_handlers sv c \<noteq> None
    \<Longrightarrow> ssh_step E sv (Disconnect c) (sv\<lparr>sv_handlers := (sv_handlers sv)(c := None)\<rparr>)"
| bridge: "sv_tasks sv t = Some (BridgeTask b) \<Longrightarrow> bridge_step E now t b (bt_phase b) ev sv = Some sv'
    \<Longrightarrow> ssh_step E sv (BridgeStep t ev) sv'"
| proxy: "sv_tasks sv t = Some (ProxyTask p) \<Longrightarrow> proxy_step E now t p (pt_phase p) pev sv = Some sv'
    \<Longrightarrow> ssh_step E sv (ProxyStep t pev) sv'"
| watcher: "sv_tasks sv t = Some (WatcherTask w) \<Longrightarrow> watcher_step E now t w sv = Some sv'
    \<Longrightarrow> ssh_step E sv (WatcherStep t) sv'"
| api: "en_ext A = sx_ext E \<Longrightarrow> en_alive A = alive sv
    \<Longrightarrow> ssh_step E sv (ApiRequest areq) (serve_api A st header areq sv)"
| catalog: "catalog_step (sx_ext E) (sv_db sv) db \<Longrightarrow> t_sessions db = t_sessions (sv_db sv)
    \<Longrightarrow> ssh_step E sv CatalogChange (put_db db sv)"

inductive_cases bridge_stepE: "ssh_step E sv (BridgeStep t ev) sv'"
inductive_cases proxy_stepE: "ssh_step E sv (ProxyStep t ev) sv'"

definition new_server :: "catalog \<Rightarrow> server" where
  "new_server db = \<lparr>sv_db = db, sv_reg = Map.empty, sv_handlers = (\<lambda>_. None), sv_channels = (\<lambda>_. None),
     sv_tasks = (\<lambda>_. None), sv_next = 0, sv_draws = 0, sv_out = []\<rparr>"

inductive ssh_run :: "ssh_env \<Rightarrow> server \<Rightarrow> (server \<times> label) list \<Rightarrow> server \<Rightarrow> bool" for E sv0 where
  start: "ssh_run E sv0 [] sv0"
| more: "ssh_run E sv0 past sv \<Longrightarrow> ssh_step E sv l sv' \<Longrightarrow> ssh_run E sv0 ((sv, l) # past) sv'"

end
