(* ===== verification/Ssh_Invariant.thy ===== *)
theory Ssh_Invariant
  imports Ssh_System Control_Api_Facts
begin

text \<open>
  The invariant of the running server: every managed session that is registered is registered under
  its own task, no two tasks share a session, and an interface's session is never a task's. Here it is
  shown for the elementary operations on the shared state.
\<close>

section \<open>The invariant\<close>

fun phase_session :: "bridge_phase \<Rightarrow> string option" where
  "phase_session BridgeStart = None"
| "phase_session (BridgeRegister i) = Some i"
| "phase_session (BridgeCheck sid) = sid"
| "phase_session (BridgeConnect sid) = sid"
| "phase_session (BridgeRelay sid _) = sid"
| "phase_session (BridgeUnregister sid _ _ _) = sid"
| "phase_session (BridgeFinish i _ _ _) = Some i"
| "phase_session (BridgeReply _ _ _) = None"
| "phase_session BridgeReopen = None"

fun proxy_session :: "proxy_phase \<Rightarrow> string option" where
  "proxy_session ProxyCheck = None"
| "proxy_session ProxyStart = None"
| "proxy_session (ProxyRegister i) = Some i"
| "proxy_session (ProxyConnect i) = Some i"
| "proxy_session (ProxyRelay i _ _) = Some i"
| "proxy_session (ProxyUnregister i _ _) = Some i"
| "proxy_session (ProxyFinish i _ _) = Some i"

fun task_session :: "task \<Rightarrow> string option" where
  "task_session (BridgeTask b) = phase_session (bt_phase b)"
| "task_session (ProxyTask p) = proxy_session (pt_phase p)"
| "task_session (WatcherTask w) = None"

text \<open>The phases in which a task is in the registry.\<close>

fun bridge_registered :: "bridge_phase \<Rightarrow> bool" where
  "bridge_registered (BridgeCheck _) \<longleftrightarrow> True"
| "bridge_registered (BridgeConnect _) \<longleftrightarrow> True"
| "bridge_registered (BridgeRelay _ _) \<longleftrightarrow> True"
| "bridge_registered (BridgeUnregister _ _ _ _) \<longleftrightarrow> True"
| "bridge_registered _ \<longleftrightarrow> False"

fun proxy_registered :: "proxy_phase \<Rightarrow> bool" where
  "proxy_registered (ProxyConnect _) \<longleftrightarrow> True"
| "proxy_registered (ProxyRelay _ _ _) \<longleftrightarrow> True"
| "proxy_registered (ProxyUnregister _ _ _) \<longleftrightarrow> True"
| "proxy_registered _ \<longleftrightarrow> False"

fun task_registered :: "task \<Rightarrow> bool" where
  "task_registered (BridgeTask b) \<longleftrightarrow> bridge_registered (bt_phase b)"
| "task_registered (ProxyTask p) \<longleftrightarrow> proxy_registered (pt_phase p)"
| "task_registered (WatcherTask w) \<longleftrightarrow> False"

definition drawn :: "ssh_env \<Rightarrow> server \<Rightarrow> string set" where
  "drawn E sv = new_id (sx_ext E) ` {..<sv_draws sv}"

definition tui_sessions :: "server \<Rightarrow> string set" where
  "tui_sessions sv = {i. \<exists>at tui. sv_channels sv at = Some (TuiChannel tui i)}
     \<union> {wt_session w | w t. sv_tasks sv t = Some (WatcherTask w)}"

definition owned :: "server \<Rightarrow> string \<Rightarrow> bool" where
  "owned sv i \<longleftrightarrow> (\<exists>t task. sv_tasks sv t = Some task \<and> task_session task = Some i)"

definition server_ok :: "ssh_env \<Rightarrow> server \<Rightarrow> bool" where
  "server_ok E sv \<longleftrightarrow> catalog_wf (sv_db sv)
     \<and> (\<forall>t \<ge> sv_next sv. sv_tasks sv t = None)
     \<and> (\<forall>i. owned sv i \<longrightarrow> i \<in> drawn E sv \<and> i \<notin> tui_sessions sv)
     \<and> tui_sessions sv \<subseteq> drawn E sv
     \<and> (\<forall>t t' task task' i. sv_tasks sv t = Some task \<longrightarrow> sv_tasks sv t' = Some task'
          \<longrightarrow> task_session task = Some i \<longrightarrow> task_session task' = Some i \<longrightarrow> t = t')
     \<and> (\<forall>t task i. sv_tasks sv t = Some task \<longrightarrow> task_registered task \<longrightarrow> task_session task = Some i
          \<longrightarrow> sv_reg sv i = Some t)"

lemma server_okD:
  assumes "server_ok E sv"
  shows "catalog_wf (sv_db sv)" "constraints (sv_db sv)" "sv_next sv \<le> t \<Longrightarrow> sv_tasks sv t = None"
    "owned sv i \<Longrightarrow> i \<in> drawn E sv" "owned sv i \<Longrightarrow> i \<notin> tui_sessions sv"
    "tui_sessions sv \<subseteq> drawn E sv"
    "sv_tasks sv t = Some task \<Longrightarrow> sv_tasks sv t' = Some task' \<Longrightarrow> task_session task = Some i
      \<Longrightarrow> task_session task' = Some i \<Longrightarrow> t = t'"
    "sv_tasks sv t = Some task \<Longrightarrow> task_registered task \<Longrightarrow> task_session task = Some i
      \<Longrightarrow> sv_reg sv i = Some t"
  using assms unfolding server_ok_def catalog_wf_def by blast+

section \<open>Elementary operations\<close>

lemma send_fields [simp]:
  "sv_db (send at ms sv) = sv_db sv" "sv_reg (send at ms sv) = sv_reg sv"
  "sv_handlers (send at ms sv) = sv_handlers sv" "sv_channels (send at ms sv) = sv_channels sv"
  "sv_tasks (send at ms sv) = sv_tasks sv" "sv_next (send at ms sv) = sv_next sv"
  "sv_draws (send at ms sv) = sv_draws sv"
  by (simp_all add: send_def)

lemma send_tui_output_fields [simp]:
  "sv_db (send_tui_output at s sv) = sv_db sv" "sv_reg (send_tui_output at s sv) = sv_reg sv"
  "sv_handlers (send_tui_output at s sv) = sv_handlers sv" "sv_channels (send_tui_output at s sv) = sv_channels sv"
  "sv_tasks (send_tui_output at s sv) = sv_tasks sv" "sv_next (send_tui_output at s sv) = sv_next sv"
  "sv_draws (send_tui_output at s sv) = sv_draws sv"
  by (simp_all add: send_tui_output_def)

text \<open>Nothing in the invariant looks at what is sent or at the handlers.\<close>

lemma server_ok_cong:
  assumes "sv_db sv' = sv_db sv" "sv_reg sv' = sv_reg sv" "sv_channels sv' = sv_channels sv"
    "sv_tasks sv' = sv_tasks sv" "sv_next sv' = sv_next sv" "sv_draws sv' = sv_draws sv"
  shows "server_ok E sv' = server_ok E sv"
  by (simp add: assms server_ok_def owned_def drawn_def tui_sessions_def)

lemma server_ok_send [simp]: "server_ok E (send at ms sv) = server_ok E sv"
  by (rule server_ok_cong) simp_all

lemma server_ok_send_tui_output [simp]: "server_ok E (send_tui_output at s sv) = server_ok E sv"
  by (rule server_ok_cong) simp_all

lemma server_ok_handlers [simp]: "server_ok E (sv\<lparr>sv_handlers := hs\<rparr>) = server_ok E sv"
  by (rule server_ok_cong) simp_all

lemma server_ok_put_db: "server_ok E sv \<Longrightarrow> catalog_wf db \<Longrightarrow> server_ok E (put_db db sv)"
  by (simp add: server_ok_def put_db_def owned_def drawn_def tui_sessions_def)

lemma put_db_fields [simp]:
  "sv_db (put_db db sv) = db" "sv_reg (put_db db sv) = sv_reg sv"
  "sv_handlers (put_db db sv) = sv_handlers sv" "sv_channels (put_db db sv) = sv_channels sv"
  "sv_tasks (put_db db sv) = sv_tasks sv" "sv_next (put_db db sv) = sv_next sv"
  "sv_draws (put_db db sv) = sv_draws sv"
  by (simp_all add: put_db_def)

lemma put_task_fields [simp]:
  "sv_db (put_task t x sv) = sv_db sv" "sv_reg (put_task t x sv) = sv_reg sv"
  "sv_handlers (put_task t x sv) = sv_handlers sv" "sv_channels (put_task t x sv) = sv_channels sv"
  "sv_tasks (put_task t x sv) = (sv_tasks sv)(t := x)" "sv_next (put_task t x sv) = sv_next sv"
  "sv_draws (put_task t x sv) = sv_draws sv"
  by (simp_all add: put_task_def)

lemma put_channel_fields [simp]:
  "sv_db (put_channel at x sv) = sv_db sv" "sv_reg (put_channel at x sv) = sv_reg sv"
  "sv_handlers (put_channel at x sv) = sv_handlers sv"
  "sv_channels (put_channel at x sv) = (sv_channels sv)(at := x)"
  "sv_tasks (put_channel at x sv) = sv_tasks sv" "sv_next (put_channel at x sv) = sv_next sv"
  "sv_draws (put_channel at x sv) = sv_draws sv"
  by (simp_all add: put_channel_def)

lemma registry_fields [simp]:
  "sv_db (register_task i t sv) = sv_db sv" "sv_reg (register_task i t sv) = (sv_reg sv)(i \<mapsto> t)"
  "sv_handlers (register_task i t sv) = sv_handlers sv"
  "sv_channels (register_task i t sv) = sv_channels sv" "sv_tasks (register_task i t sv) = sv_tasks sv"
  "sv_next (register_task i t sv) = sv_next sv" "sv_draws (register_task i t sv) = sv_draws sv"
  "sv_db (unregister_session i sv) = sv_db sv"
  "sv_reg (unregister_session i sv) = (sv_reg sv)(i := None)"
  "sv_handlers (unregister_session i sv) = sv_handlers sv"
  "sv_channels (unregister_session i sv) = sv_channels sv"
  "sv_tasks (unregister_session i sv) = sv_tasks sv"
  "sv_next (unregister_session i sv) = sv_next sv" "sv_draws (unregister_session i sv) = sv_draws sv"
  by (simp_all add: register_task_def unregister_session_def register_def unregister_def)

lemma end_task_ok: "server_ok E sv \<Longrightarrow> server_ok E (put_task t None sv)"
proof -
  assume ok: "server_ok E sv"
  have own: "owned sv i" if "owned (put_task t None sv) i" for i
    using that unfolding owned_def by (auto split: if_splits)
  have tui: "tui_sessions (put_task t None sv) \<subseteq> tui_sessions sv"
    unfolding tui_sessions_def by (auto split: if_splits)
  have task: "sv_tasks sv u = Some task" if "sv_tasks (put_task t None sv) u = Some task" for u task
    using that by (auto split: if_splits)
  show ?thesis unfolding server_ok_def
  proof (intro conjI allI impI)
    show "catalog_wf (sv_db (put_task t None sv))" using server_okD(1) [OF ok] by simp
    show "sv_tasks (put_task t None sv) u = None" if "sv_next (put_task t None sv) \<le> u" for u
      using that server_okD(3) [OF ok, of u] by auto
    show "i \<in> drawn E (put_task t None sv)" "i \<notin> tui_sessions (put_task t None sv)"
      if "owned (put_task t None sv) i" for i
      using server_okD(4,5) [OF ok own [OF that]] tui by (auto simp: drawn_def)
    show "tui_sessions (put_task t None sv) \<subseteq> drawn E (put_task t None sv)"
      using server_okD(6) [OF ok] tui by (auto simp: drawn_def)
    fix u v tu tv i
    assume u: "sv_tasks (put_task t None sv) u = Some tu" "task_session tu = Some i"
    show "u = v" if v: "sv_tasks (put_task t None sv) v = Some tv" "task_session tv = Some i"
      using server_okD(7) [OF ok task [OF u(1)] task [OF v(1)] u(2) v(2)] .
    show "sv_reg (put_task t None sv) i = Some u" if "task_registered tu"
      using server_okD(8) [OF ok task [OF u(1)] that u(2)] by simp
  qed
qed

text \<open>A task goes on, with its session or with a new one that is nobody's.\<close>

lemma move_task_ok:
  assumes ok: "server_ok E sv" and old: "sv_tasks sv t = Some old"
    and watch: "\<forall>w. old = WatcherTask w \<longleftrightarrow> task = WatcherTask w"
    and sess: "task_session task = None \<or> task_session task = task_session old
      \<or> (\<exists>i. task_session task = Some i \<and> i \<in> drawn E sv \<and> i \<notin> tui_sessions sv \<and> \<not> owned sv i)"
    and reg: "\<And>i. task_registered task \<Longrightarrow> task_session task = Some i \<Longrightarrow> sv_reg sv i = Some t"
  shows "server_ok E (put_task t (Some task) sv)"
proof -
  have tui: "tui_sessions (put_task t (Some task) sv) = tui_sessions sv"
  proof -
    have "(\<exists>u. sv_tasks (put_task t (Some task) sv) u = Some (WatcherTask w))
        \<longleftrightarrow> (\<exists>u. sv_tasks sv u = Some (WatcherTask w))" for w
      using old watch by (metis fun_upd_apply option.inject put_task_fields(5))
    then show ?thesis unfolding tui_sessions_def by auto
  qed
  have own: "owned sv i \<or> task_session task = Some i" if "owned (put_task t (Some task) sv) i" for i
    using that unfolding owned_def by (auto split: if_splits)
  have old_owned: "owned sv i" if "task_session old = Some i" for i
    using old that unfolding owned_def by blast
  have fresh: "\<not> owned sv i" if "task_session task = Some i" "task_session old \<noteq> Some i" for i
    using sess that by auto
  have kept: "i \<in> drawn E sv \<and> i \<notin> tui_sessions sv" if "task_session task = Some i" for i
    using sess that old_owned [of i] server_okD(4,5) [OF ok, of i] by auto
  have other: "task_session tv \<noteq> Some i"
    if "task_session task = Some i" "v \<noteq> t" "sv_tasks sv v = Some tv" for i v tv
  proof
    assume tv: "task_session tv = Some i"
    with that(3) have "owned sv i" unfolding owned_def by blast
    with fresh that(1) have "task_session old = Some i" by blast
    from server_okD(7) [OF ok that(3) old tv this] that(2) show False by contradiction
  qed
  show ?thesis unfolding server_ok_def tui
  proof (intro conjI allI impI)
    show "catalog_wf (sv_db (put_task t (Some task) sv))" using server_okD(1) [OF ok] by simp
    show "sv_tasks (put_task t (Some task) sv) u = None" if "sv_next (put_task t (Some task) sv) \<le> u" for u
    proof -
      from that have "sv_tasks sv u = None" using server_okD(3) [OF ok, of u] by simp
      with old show ?thesis by auto
    qed
    show "i \<in> drawn E (put_task t (Some task) sv)" "i \<notin> tui_sessions sv"
      if "owned (put_task t (Some task) sv) i" for i
      using own [OF that] kept server_okD(4,5) [OF ok, of i] by (auto simp: drawn_def)
    show "tui_sessions sv \<subseteq> drawn E (put_task t (Some task) sv)"
      using server_okD(6) [OF ok] by (simp add: drawn_def)
    fix u v tu tv i
    assume u: "sv_tasks (put_task t (Some task) sv) u = Some tu" "task_session tu = Some i"
    show "u = v" if v: "sv_tasks (put_task t (Some task) sv) v = Some tv" "task_session tv = Some i"
    proof (cases "u = t \<or> v = t")
      case True
      with u v other [of i u tu] other [of i v tv] show ?thesis by (auto split: if_splits)
    next
      case False
      with u v show ?thesis using server_okD(7) [OF ok _ _ u(2) v(2)] by simp
    qed
    show "sv_reg (put_task t (Some task) sv) i = Some u" if "task_registered tu"
    proof (cases "u = t")
      case True
      with u that reg show ?thesis by simp
    next
      case False
      with u that show ?thesis using server_okD(8) [OF ok _ that u(2)] by simp
    qed
  qed
qed

text \<open>A new task has no session yet, or watches one that is no task's.\<close>

lemma spawn_ok:
  assumes ok: "server_ok E sv" and sp: "spawn task sv = (sv', t)" and none: "task_session task = None"
    and watch: "\<And>w. task = WatcherTask w \<Longrightarrow> wt_session w \<in> drawn E sv \<and> \<not> owned sv (wt_session w)"
  shows "server_ok E sv'" "sv_tasks sv' = (sv_tasks sv)(t \<mapsto> task)" "sv_channels sv' = sv_channels sv"
    "sv_reg sv' = sv_reg sv" "sv_db sv' = sv_db sv" "sv_draws sv' = sv_draws sv" "t = sv_next sv"
    "owned sv' = owned sv"
proof -
  from sp have t: "t = sv_next sv"
    and sv': "sv' = put_task t (Some task) (sv\<lparr>sv_next := sv_next sv + 1\<rparr>)"
    by (auto simp: spawn_def)
  show fields: "sv_tasks sv' = (sv_tasks sv)(t \<mapsto> task)" "sv_channels sv' = sv_channels sv"
    "sv_reg sv' = sv_reg sv" "sv_db sv' = sv_db sv" "sv_draws sv' = sv_draws sv" "t = sv_next sv"
    by (simp_all add: sv' t)
  have free: "sv_tasks sv t = None" using server_okD(3) [OF ok, of t] by (simp add: t)
  show own: "owned sv' = owned sv"
  proof
    fix i
    have "(sv_tasks sv' u = Some tu \<and> task_session tu = Some i)
        \<longleftrightarrow> (sv_tasks sv u = Some tu \<and> task_session tu = Some i)" for u tu
      using none free by (auto simp: fields)
    then show "owned sv' i = owned sv i" unfolding owned_def by simp
  qed
  have tui: "i \<in> tui_sessions sv \<or> (\<exists>w. task = WatcherTask w \<and> i = wt_session w)"
    if "i \<in> tui_sessions sv'" for i
    using that unfolding tui_sessions_def fields by (auto split: if_splits)
  have old: "sv_tasks sv u = Some tu" if "sv_tasks sv' u = Some tu" "task_session tu = Some i" for u tu i
    using that none unfolding fields by (auto split: if_splits)
  show "server_ok E sv'" unfolding server_ok_def own
  proof (intro conjI allI impI)
    show "catalog_wf (sv_db sv')" using server_okD(1) [OF ok] by (simp add: fields)
    show "sv_tasks sv' u = None" if "sv_next sv' \<le> u" for u
      using that server_okD(3) [OF ok, of u] by (auto simp: sv' t)
    show "i \<in> drawn E sv'" if "owned sv i" for i
      using server_okD(4) [OF ok that] by (simp add: drawn_def fields)
    show "i \<notin> tui_sessions sv'" if "owned sv i" for i
      using tui [of i] watch that server_okD(5) [OF ok that] by auto
    show "tui_sessions sv' \<subseteq> drawn E sv'"
      using tui watch server_okD(6) [OF ok] by (fastforce simp: drawn_def fields)
    fix u v tu tv i
    assume u: "sv_tasks sv' u = Some tu" "task_session tu = Some i"
    show "u = v" if v: "sv_tasks sv' v = Some tv" "task_session tv = Some i"
      using server_okD(7) [OF ok old [OF u] old [OF v] u(2) v(2)] .
    show "sv_reg sv' i = Some u" if "task_registered tu"
      using server_okD(8) [OF ok old [OF u] that u(2)] by (simp add: fields)
  qed
qed

lemma server_ok_registry:
  assumes ok: "server_ok E sv"
    and keep: "\<And>i t. owned sv i \<Longrightarrow> sv_reg sv i = Some t \<Longrightarrow> sv_tasks sv t \<noteq> None \<Longrightarrow> reg i = Some t"
  shows "server_ok E (sv\<lparr>sv_reg := reg\<rparr>)"
proof -
  have "reg i = Some t"
    if "sv_tasks sv t = Some task" "task_registered task" "task_session task = Some i" for t task i
    using keep [of i t] server_okD(8) [OF ok that] that unfolding owned_def by blast
  with ok show ?thesis by (simp add: server_ok_def owned_def drawn_def tui_sessions_def)
qed

lemma register_ok:
  "server_ok E sv \<Longrightarrow> \<not> owned sv i \<Longrightarrow> server_ok E (register_task i t sv)"
  unfolding register_task_def register_def by (rule server_ok_registry) auto

lemma unregister_ok:
  "server_ok E sv \<Longrightarrow> \<not> owned sv i \<Longrightarrow> server_ok E (unregister_session i sv)"
  unfolding unregister_session_def unregister_def by (rule server_ok_registry) auto

lemma put_channel_ok:
  assumes ok: "server_ok E sv"
    and tui: "\<And>tui i. st = Some (TuiChannel tui i) \<Longrightarrow> i \<in> drawn E sv \<and> \<not> owned sv i"
  shows "server_ok E (put_channel at st sv)"
proof -
  have "i \<in> tui_sessions sv \<or> (\<exists>tui. st = Some (TuiChannel tui i))"
    if "i \<in> tui_sessions (put_channel at st sv)" for i
    using that unfolding tui_sessions_def by (auto split: if_splits)
  with tui server_okD(4-6) [OF ok]
  have "tui_sessions (put_channel at st sv) \<subseteq> drawn E sv"
      "\<And>i. owned sv i \<Longrightarrow> i \<notin> tui_sessions (put_channel at st sv)"
    by blast+
  with ok show ?thesis by (simp add: server_ok_def owned_def drawn_def)
qed

section \<open>Sessions\<close>

text \<open>Ids are drawn once each: \<open>uuid_v4\<close> never repeats one.\<close>

definition distinct_draws :: "ssh_env \<Rightarrow> bool" where
  "distinct_draws E \<longleftrightarrow> inj (uuid_v4 (sx_ext E))"

lemma step_ok_wf: "catalog_wf db \<Longrightarrow> step_ok db db' \<Longrightarrow> catalog_wf db'"
  by (simp add: step_ok_def)

lemma begin_session_ok:
  assumes ok: "server_ok E sv" and inj: "distinct_draws E"
    and b: "begin_session E now ns sv = (sv', r)"
  shows "server_ok E sv'" "sv_tasks sv' = sv_tasks sv" "sv_channels sv' = sv_channels sv"
    "sv_reg sv' = sv_reg sv" "sv_next sv' = sv_next sv" "sv_handlers sv' = sv_handlers sv"
    "owned sv' = owned sv" "drawn E sv \<subseteq> drawn E sv'"
    "r = Inr s \<Longrightarrow> se_id s \<in> drawn E sv' \<and> \<not> owned sv' (se_id s) \<and> se_id s \<notin> tui_sessions sv'"
proof -
  let ?i = "new_id (sx_ext E) (sv_draws sv)"
  obtain db where d: "start_session (sx_ext E) now (sv_draws sv) ns (sv_db sv) = (db, r)"
    and sv': "sv' = put_db db (sv\<lparr>sv_draws := sv_draws sv + 1\<rparr>)"
    using b by (auto simp: begin_session_def on_db_def split: prod.splits)
  show fields: "sv_tasks sv' = sv_tasks sv" "sv_channels sv' = sv_channels sv"
    "sv_reg sv' = sv_reg sv" "sv_next sv' = sv_next sv" "sv_handlers sv' = sv_handlers sv"
    by (simp_all add: sv')
  show own: "owned sv' = owned sv" by (simp add: owned_def fields fun_eq_iff)
  have tui: "tui_sessions sv' = tui_sessions sv" by (simp add: tui_sessions_def fields)
  show sub: "drawn E sv \<subseteq> drawn E sv'" by (auto simp: drawn_def sv')
  have db: "catalog_wf db"
    using start_session_ok [of "sv_db sv" "sx_ext E" now "sv_draws sv" ns] server_okD(1) [OF ok] d
    by (auto intro: step_ok_wf)
  have "server_ok E (sv\<lparr>sv_draws := sv_draws sv + 1\<rparr>)"
  proof -
    let ?sv = "sv\<lparr>sv_draws := sv_draws sv + 1\<rparr>"
    have "drawn E ?sv = drawn E sv'" by (simp add: drawn_def sv')
    moreover have "owned ?sv i = owned sv i" "tui_sessions ?sv = tui_sessions sv" for i
      by (simp_all add: owned_def tui_sessions_def)
    ultimately show ?thesis using server_okD [OF ok] sub
      unfolding server_ok_def by (simp (no_asm_use)) blast
  qed
  with db show "server_ok E sv'" unfolding sv' by (intro server_ok_put_db)
  have new: "?i \<notin> drawn E sv" using inj by (auto simp: drawn_def distinct_draws_def new_id_def inj_eq)
  show "se_id s \<in> drawn E sv' \<and> \<not> owned sv' (se_id s) \<and> se_id s \<notin> tui_sessions sv'" if "r = Inr s"
  proof -
    have "se_id s = ?i" using start_session_Inr(1) [OF d [unfolded that]] .
    moreover have "?i \<in> drawn E sv'" by (auto simp: drawn_def sv')
    ultimately show ?thesis using new server_okD(4,6) [OF ok] unfolding own tui by auto
  qed
qed

lemma end_session_ok:
  assumes "server_ok E sv"
  shows "server_ok E (fst (end_session now i st er sv))"
proof -
  have "catalog_wf (fst (finish_session now i st er (sv_db sv)))"
    using finish_session_ok [of "sv_db sv" now i st er] server_okD(1) [OF assms] by (rule step_ok_wf [rotated])
  then show ?thesis using assms
    by (auto simp: end_session_def on_db_def split: prod.splits intro: server_ok_put_db)
qed

lemma end_session_fields [simp]:
  "sv_db (fst (end_session now i st er sv)) = fst (finish_session now i st er (sv_db sv))"
  "sv_reg (fst (end_session now i st er sv)) = sv_reg sv"
  "sv_handlers (fst (end_session now i st er sv)) = sv_handlers sv"
  "sv_channels (fst (end_session now i st er sv)) = sv_channels sv"
  "sv_tasks (fst (end_session now i st er sv)) = sv_tasks sv"
  "sv_next (fst (end_session now i st er sv)) = sv_next sv"
  "sv_draws (fst (end_session now i st er sv)) = sv_draws sv"
  by (simp_all add: end_session_def on_db_def split: prod.splits)

lemma owned_cong: "sv_tasks sv' = sv_tasks sv \<Longrightarrow> owned sv' i = owned sv i"
  by (simp add: owned_def)

lemma tui_sessions_cong: "sv_tasks sv' = sv_tasks sv \<Longrightarrow> sv_channels sv' = sv_channels sv
    \<Longrightarrow> tui_sessions sv' = tui_sessions sv"
  by (simp add: tui_sessions_def)

lemma drawn_cong: "sv_draws sv' = sv_draws sv \<Longrightarrow> drawn E sv' = drawn E sv"
  by (simp add: drawn_def)

lemma audit_denied_ok:
  assumes "server_ok E sv" and "distinct_draws E"
  shows "server_ok E (audit_denied_attempt E now auth mode an th tp ip sv)"
    "sv_tasks (audit_denied_attempt E now auth mode an th tp ip sv) = sv_tasks sv"
proof -
  obtain sv1 r where b: "begin_session E now (new_session_of auth mode an th tp ip) sv = (sv1, r)"
    by fastforce
  note b' = begin_session_ok [OF assms b]
  from b b'(1,2) show "server_ok E (audit_denied_attempt E now auth mode an th tp ip sv)"
    "sv_tasks (audit_denied_attempt E now auth mode an th tp ip sv) = sv_tasks sv"
    by (auto simp: audit_denied_attempt_def end_session_ok split: sum.splits)
qed

end
