(* ===== verification/Ssh_System_Facts.thy ===== *)
theory Ssh_System_Facts
  imports Ssh_Invariant
begin

text \<open>Every step of the running server keeps its invariant: tasks, handlers, watchers and the API.\<close>

section \<open>Steps of a managed bridge\<close>

lemma goto_ok:
  assumes ok: "server_ok E sv" and old: "sv_tasks sv t = Some (BridgeTask old)"
    and sess: "phase_session ph = None \<or> phase_session ph = phase_session (bt_phase old)
      \<or> (\<exists>i. phase_session ph = Some i \<and> i \<in> drawn E sv \<and> i \<notin> tui_sessions sv \<and> \<not> owned sv i)"
    and reg: "\<And>i. bridge_registered ph \<Longrightarrow> phase_session ph = Some i \<Longrightarrow> sv_reg sv i = Some t"
  shows "server_ok E (goto t b ph sv)"
  unfolding goto_def using assms by (intro move_task_ok [OF ok old]) auto

text \<open>From one phase in the registry to another with the same session.\<close>

lemma goto_registered_ok:
  assumes ok: "server_ok E sv" and old: "sv_tasks sv t = Some (BridgeTask old)"
    and "bridge_registered (bt_phase old)" "phase_session ph = phase_session (bt_phase old)"
  shows "server_ok E (goto t b ph sv)"
  by (rule goto_ok [OF ok old]) (use assms server_okD(8) [OF ok old] in auto)

lemma goto_fields [simp]:
  "sv_db (goto t b ph sv) = sv_db sv" "sv_reg (goto t b ph sv) = sv_reg sv"
  "sv_handlers (goto t b ph sv) = sv_handlers sv" "sv_channels (goto t b ph sv) = sv_channels sv"
  "sv_tasks (goto t b ph sv) = (sv_tasks sv)(t \<mapsto> BridgeTask (b\<lparr>bt_phase := ph\<rparr>))"
  "sv_next (goto t b ph sv) = sv_next sv" "sv_draws (goto t b ph sv) = sv_draws sv"
  by (simp_all add: goto_def)

lemma bridge_start_ok:
  assumes ok: "server_ok E sv" and inj: "distinct_draws E"
    and b: "sv_tasks sv t = Some (BridgeTask b)" "bt_phase b = BridgeStart"
  shows "server_ok E (bridge_start E now t b sv)"
proof -
  define ns where "ns = new_session_of (bo_auth (bt_options b))
    (managed_session_mode_str (bo_mode (bt_options b))) (Some (as_name (bo_asset (bt_options b))))
    (Some (as_hostname (bo_asset (bt_options b)))) (Some (as_port (bo_asset (bt_options b))))
    (bo_client_ip (bt_options b))"
  obtain sv1 r where s: "begin_session E now ns sv = (sv1, r)" by fastforce
  note s' = begin_session_ok [OF ok inj s]
  have t: "sv_tasks sv1 t = Some (BridgeTask b)" by (simp add: s'(2) b(1))
  show ?thesis
  proof (cases r)
    case (Inl e)
    have "server_ok E (goto t b (BridgeCheck None) sv1)" by (rule goto_ok [OF s'(1) t]) simp_all
    with Inl s show ?thesis by (simp add: bridge_start_def Let_def ns_def)
  next
    case (Inr x)
    have "server_ok E (goto t b (BridgeRegister (se_id x)) sv1)"
      by (rule goto_ok [OF s'(1) t]) (use s'(9) [OF Inr] in auto)
    with Inr s show ?thesis by (simp add: bridge_start_def Let_def ns_def)
  qed
qed

lemma register_own_ok:
  assumes ok: "server_ok E sv" and t: "sv_tasks sv t = Some task" "task_session task = Some i"
  shows "server_ok E (register_task i t sv)"
proof -
  have "((sv_reg sv)(i \<mapsto> t)) j = Some u"
    if u: "sv_tasks sv u = Some tu" "task_registered tu" "task_session tu = Some j" for u tu j
  proof (cases "j = i")
    case True
    with server_okD(7) [OF ok t(1) u(1) t(2)] u(3) show ?thesis by simp
  next
    case False
    with server_okD(8) [OF ok u] show ?thesis by simp
  qed
  with ok show ?thesis
    unfolding register_task_def register_def server_ok_def owned_def drawn_def tui_sessions_def by simp
qed

lemma unregister_own_ok:
  assumes ok: "server_ok E sv" and t: "sv_tasks sv t = Some task" "task_session task = Some i"
    and left: "\<not> task_registered task"
  shows "server_ok E (unregister_session i sv)"
proof -
  have "((sv_reg sv)(i := None)) j = Some u"
    if u: "sv_tasks sv u = Some tu" "task_registered tu" "task_session tu = Some j" for u tu j
  proof -
    have "j \<noteq> i" using server_okD(7) [OF ok t(1) u(1) t(2)] u(2,3) t(1) u(1) left by auto
    with server_okD(8) [OF ok u] show ?thesis by simp
  qed
  with ok show ?thesis
    unfolding unregister_session_def unregister_def server_ok_def owned_def drawn_def tui_sessions_def
    by simp
qed

lemma goto_unregister: "goto t b ph (unregister_session i sv) = unregister_session i (goto t b ph sv)"
  by (simp add: goto_def put_task_def unregister_session_def)

lemma connect_asset_ok:
  assumes "catalog_wf db" and "connect_asset E now bo P db = (db', r)"
  shows "catalog_wf db'"
proof -
  have hand: "catalog_wf d'" if "handshake now a P d = (d', r)" "catalog_wf d" for a d d' r
    using that verify_or_learn_ok [of d now "as_hostname a" "as_port a" "pe_key P"]
    by (auto simp: handshake_def check_server_key_def step_ok_def split: sum.splits prod.splits)
  have auth: "catalog_wf d'" if "connect_authenticated_asset X now m a P d = (d', r)" "catalog_wf d"
    for X m a d d' r
    using that hand by (auto simp: connect_authenticated_asset_def split: sum.splits prod.splits)
  show ?thesis using assms auth
    by (auto simp: connect_asset_def connect_asset_shell_def connect_asset_exec_def connect_asset_sftp_def
        Let_def split: managed_session_mode.splits prod.splits)
qed

lemma health_wf:
  assumes "catalog_wf db"
  shows "catalog_wf (fst (record_asset_health_success now i l db))"
    "catalog_wf (fst (record_asset_health_failure now i c er db))"
  using health_ok assms by (auto simp: step_ok_def)

lemma bridge_connect_ok:
  assumes ok: "server_ok E sv"
    and b: "sv_tasks sv t = Some (BridgeTask b)" "bt_phase b = BridgeConnect sid"
  shows "server_ok E (bridge_connect E now t b sid P ms sv)"
proof -
  obtain db1 rs r where c: "connect_asset E now (bt_options b) P (sv_db sv) = (db1, rs, r)"
    by (metis prod.exhaust)
  have wf: "catalog_wf db1" using connect_asset_ok [OF server_okD(1) [OF ok] c] .
  have db: "server_ok E (put_db db sv) \<and> sv_tasks (put_db db sv) t = Some (BridgeTask b)"
    if "catalog_wf db" for db
    using server_ok_put_db [OF ok that] b(1) by simp
  show ?thesis
  proof (cases r)
    case (Inl e)
    with c db [OF health_wf(2) [OF wf]] b(2) show ?thesis
      by (auto simp: bridge_connect_def Let_def intro!: goto_registered_ok)
  next
    case (Inr u)
    with c db [OF health_wf(1) [OF wf]] b(2) show ?thesis
      by (auto simp: bridge_connect_def Let_def intro!: goto_registered_ok)
  qed
qed

lemma bridge_reopen_ok:
  assumes ok: "server_ok E sv" and inj: "distinct_draws E"
  shows "server_ok E (bridge_reopen E now t b sv)"
proof (cases "bo_return_to_tui (bt_options b)")
  case None
  then show ?thesis using ok by (simp add: bridge_reopen_def Let_def end_task_ok)
next
  case (Some tui)
  define ns where "ns = new_session_of (bo_auth (bt_options b)) ''tui'' None None None
    (bo_client_ip (bt_options b))"
  obtain sv1 r where s: "begin_session E now ns sv = (sv1, r)" by fastforce
  note s' = begin_session_ok [OF ok inj s]
  show ?thesis
  proof (cases r)
    case (Inl e)
    with s s'(1) Some show ?thesis
      by (simp add: bridge_reopen_def start_tui_session_def Let_def ns_def end_task_ok)
  next
    case (Inr x)
    obtain tui' out where o: "resume_after_target (sx_term E) tui = (tui', out)" by fastforce
    have "server_ok E (put_channel (client_at (bt_options b)) (Some (TuiChannel tui' (se_id x)))
        (send (client_at (bt_options b)) [ToClient out] sv1))"
      by (rule put_channel_ok) (use s'(1) s'(9) [OF Inr] in
        \<open>auto simp: owned_cong [of "send _ _ _"] drawn_cong [of "send _ _ _"]\<close>)
    with Inr s s'(1) Some o show ?thesis
      by (simp add: bridge_reopen_def start_tui_session_def Let_def ns_def end_task_ok end_session_ok)
  qed
qed

lemma bridge_step_ok:
  assumes ok: "server_ok E sv" and inj: "distinct_draws E"
    and b: "sv_tasks sv t = Some (BridgeTask b)"
    and step: "bridge_step E now t b (bt_phase b) ev sv = Some sv'"
  shows "server_ok E sv'"
proof (cases "bt_phase b")
  case BridgeStart
  with step bridge_start_ok [OF ok inj b] show ?thesis by (cases ev) auto
next
  case (BridgeRegister i)
  have "server_ok E (register_task i t sv)" using register_own_ok [OF ok b] BridgeRegister by simp
  then have "server_ok E (goto t b (BridgeCheck (Some i)) (register_task i t sv))"
    by (rule goto_ok) (use b BridgeRegister in auto)
  with step BridgeRegister show ?thesis by (cases ev) auto
next
  case (BridgeCheck sid)
  have "server_ok E (bridge_check t b sid sv)"
    unfolding bridge_check_def Let_def
    by (auto intro!: goto_registered_ok [OF _ _ ] simp: ok b BridgeCheck)
  with step BridgeCheck show ?thesis by (cases ev) auto
next
  case (BridgeConnect sid)
  have "server_ok E (bridge_terminated t b sid False sv)"
    unfolding bridge_terminated_def by (rule goto_registered_ok [OF ok b]) (simp_all add: BridgeConnect)
  with step BridgeConnect bridge_connect_ok [OF ok b BridgeConnect] show ?thesis
    by (cases ev) (auto split: if_splits)
next
  case (BridgeRelay sid er)
  have go: "server_ok E (goto t b' ph sv1)"
    if "sv_tasks sv1 = sv_tasks sv" "server_ok E sv1" "phase_session ph = sid" for b' ph sv1
    by (rule goto_registered_ok [OF that(2)]) (use that b BridgeRelay in auto)
  have "server_ok E (bridge_target_message t b sid er msg sv)" for msg
    unfolding bridge_target_message_def Let_def using ok
    by (auto intro!: go split: option.splits channel_msg.splits)
  moreover have "server_ok E (bridge_terminated t b sid er (send (client_at (bt_options b)) ms sv))" for ms
    unfolding bridge_terminated_def by (rule go) (simp_all add: ok)
  ultimately show ?thesis using step BridgeRelay ok
    by (cases ev) (auto intro!: go split: if_splits list.splits sum.splits)
next
  case (BridgeUnregister sid tm er res)
  have moved: "server_ok E (goto t b (BridgeFinish i tm er res) sv)" if "sid = Some i" for i
    by (rule goto_ok [OF ok b]) (simp_all add: BridgeUnregister that)
  have "server_ok E (goto t b (BridgeFinish i tm er res) (unregister_session i sv))" if "sid = Some i" for i
    unfolding goto_unregister
    by (rule unregister_own_ok [OF moved [OF that], of t "BridgeTask (b\<lparr>bt_phase := BridgeFinish i tm er res\<rparr>)"])
      simp_all
  moreover have "server_ok E (goto t b (BridgeReply tm er res) sv)"
    by (rule goto_ok [OF ok b]) simp_all
  ultimately show ?thesis using step BridgeUnregister by (cases ev) (auto split: option.splits)
next
  case (BridgeFinish i tm er res)
  have "server_ok E (goto t b (BridgeReply tm er res) (bridge_finish E now i tm res sv))"
    by (rule goto_ok) (simp_all add: bridge_finish_def end_session_ok ok b)
  with step BridgeFinish show ?thesis by (cases ev) auto
next
  case (BridgeReply tm er res)
  have "server_ok E (bridge_reply E t b tm er res sv)"
    unfolding bridge_reply_def Let_def
    by (auto intro!: end_task_ok goto_ok [where old = b] simp: ok b)
  with step BridgeReply show ?thesis by (cases ev) auto
next
  case BridgeReopen
  with step bridge_reopen_ok [OF ok inj] show ?thesis by (cases ev) auto
qed

section \<open>Steps of a proxy\<close>

lemma pgoto_ok:
  assumes ok: "server_ok E sv" and old: "sv_tasks sv t = Some (ProxyTask old)"
    and sess: "proxy_session ph = None \<or> proxy_session ph = proxy_session (pt_phase old)
      \<or> (\<exists>i. proxy_session ph = Some i \<and> i \<in> drawn E sv \<and> i \<notin> tui_sessions sv \<and> \<not> owned sv i)"
    and reg: "\<And>i. proxy_registered ph \<Longrightarrow> proxy_session ph = Some i \<Longrightarrow> sv_reg sv i = Some t"
  shows "server_ok E (pgoto t p ph sv)"
  unfolding pgoto_def using assms by (intro move_task_ok [OF ok old]) auto

lemma pgoto_registered_ok:
  assumes ok: "server_ok E sv" and old: "sv_tasks sv t = Some (ProxyTask old)"
    and "proxy_registered (pt_phase old)" "proxy_session ph = proxy_session (pt_phase old)"
  shows "server_ok E (pgoto t p ph sv)"
  by (rule pgoto_ok [OF ok old]) (use assms server_okD(8) [OF ok old] in auto)

lemma pgoto_fields [simp]:
  "sv_db (pgoto t p ph sv) = sv_db sv" "sv_reg (pgoto t p ph sv) = sv_reg sv"
  "sv_handlers (pgoto t p ph sv) = sv_handlers sv" "sv_channels (pgoto t p ph sv) = sv_channels sv"
  "sv_tasks (pgoto t p ph sv) = (sv_tasks sv)(t \<mapsto> ProxyTask (p\<lparr>pt_phase := ph\<rparr>))"
  "sv_next (pgoto t p ph sv) = sv_next sv" "sv_draws (pgoto t p ph sv) = sv_draws sv"
  by (simp_all add: pgoto_def)

lemma proxy_start_ok:
  assumes ok: "server_ok E sv" and inj: "distinct_draws E"
    and p: "sv_tasks sv t = Some (ProxyTask p)"
  shows "server_ok E (proxy_start E now t p sv)"
proof -
  define ns where "ns = new_session_of (pt_auth p) ''tcp-forward'' (Some (as_name (pt_asset p)))
    (Some (as_hostname (pt_asset p))) (Some (as_port (pt_asset p))) (pt_client_ip p)"
  obtain sv1 r where s: "begin_session E now ns sv = (sv1, r)" by fastforce
  note s' = begin_session_ok [OF ok inj s]
  have t: "sv_tasks sv1 t = Some (ProxyTask p)" by (simp add: s'(2) p)
  have "server_ok E (pgoto t p (ProxyRegister (se_id x)) sv1)" if "r = Inr x" for x
    by (rule pgoto_ok [OF s'(1) t]) (use s'(9) [OF that] in auto)
  then show ?thesis using s s'(1)
    by (auto simp: proxy_start_def Let_def ns_def end_task_ok split: sum.splits)
qed

lemma pgoto_unregister: "pgoto t p ph (unregister_session i sv) = unregister_session i (pgoto t p ph sv)"
  by (simp add: pgoto_def put_task_def unregister_session_def)

lemma proxy_step_ok:
  assumes ok: "server_ok E sv" and inj: "distinct_draws E"
    and p: "sv_tasks sv t = Some (ProxyTask p)"
    and step: "proxy_step E now t p (pt_phase p) ev sv = Some sv'"
  shows "server_ok E sv'"
proof (cases "pt_phase p")
  case ProxyCheck
  have "server_ok E (proxy_check E now t p sv)"
    unfolding proxy_check_def Let_def
    by (auto intro!: end_task_ok audit_denied_ok(1) inj pgoto_ok [where old = p] simp: ok p)
  with step ProxyCheck show ?thesis by (cases ev) auto
next
  case ProxyStart
  with step proxy_start_ok [OF ok inj p] show ?thesis by (cases ev) auto
next
  case (ProxyRegister i)
  have "server_ok E (register_task i t sv)" using register_own_ok [OF ok p] ProxyRegister by simp
  then have "server_ok E (proxy_register t p i sv)"
    unfolding proxy_register_def
    by (rule pgoto_ok) (use p ProxyRegister in \<open>auto split: sum.splits\<close>)
  with step ProxyRegister show ?thesis by (cases ev) auto
next
  case (ProxyConnect i)
  have db: "server_ok E (pgoto t p' ph (put_db db sv))"
    if "catalog_wf db" "proxy_session ph = Some i" for db ph p'
    by (rule pgoto_registered_ok [OF server_ok_put_db [OF ok that(1)]]) (use p ProxyConnect that in auto)
  have "server_ok E (proxy_connect now t p i r ms sv)" for r ms
    unfolding proxy_connect_def Let_def using health_wf [OF server_okD(1) [OF ok]]
    by (auto intro!: db split: sum.splits)
  moreover have "server_ok E (proxy_terminated t p i ms sv)" for ms
    unfolding proxy_terminated_def
    by (rule pgoto_registered_ok [where old = p]) (simp_all add: ok p ProxyConnect)
  ultimately show ?thesis using step ProxyConnect by (cases ev) (auto split: if_splits)
next
  case (ProxyRelay i c2t t2c)
  have go: "server_ok E (pgoto t p' ph sv1)"
    if "sv_tasks sv1 = sv_tasks sv" "server_ok E sv1" "proxy_session ph = Some i" for p' ph sv1
    by (rule pgoto_registered_ok [OF that(2)]) (use that p ProxyRelay in auto)
  have "server_ok E (proxy_relay t p i c2t t2c side rd wr sv)" for side rd wr
    unfolding proxy_relay_def using ok by (auto intro!: go split: relay_peer.splits relay_outcome.splits)
  moreover have "server_ok E (proxy_terminated t p i ms sv)" for ms
    unfolding proxy_terminated_def by (rule go) (simp_all add: ok)
  ultimately show ?thesis using step ProxyRelay by (cases ev) (auto split: if_splits)
next
  case (ProxyUnregister i tm res)
  have moved: "server_ok E (pgoto t p (ProxyFinish i tm res) sv)"
    by (rule pgoto_ok [OF ok p]) (simp_all add: ProxyUnregister)
  have "server_ok E (pgoto t p (ProxyFinish i tm res) (unregister_session i sv))"
    unfolding pgoto_unregister
    by (rule unregister_own_ok [OF moved, of t "ProxyTask (p\<lparr>pt_phase := ProxyFinish i tm res\<rparr>)"]) simp_all
  with step ProxyUnregister show ?thesis by (cases ev) auto
next
  case (ProxyFinish i tm res)
  have "server_ok E (put_task t None (bridge_finish E now i tm res sv))"
    by (simp add: bridge_finish_def end_session_ok end_task_ok ok)
  with step ProxyFinish show ?thesis by (cases ev) auto
qed

section \<open>Handlers\<close>

lemma start_managed_ok:
  assumes ok: "server_ok E sv" and inj: "distinct_draws E"
  shows "server_ok E (fst (start_managed E now c h channel asset tui mode command sv))"
proof -
  have "server_ok E (put_channel (c, channel) (Some (ManagedChannel t)) sv1)"
    if "spawn (BridgeTask b) sv = (sv1, t)" "bt_phase b = BridgeStart" for b sv1 t
    by (rule put_channel_ok) (use spawn_ok(1) [OF ok that(1)] that(2) in auto)
  then show ?thesis using ok inj
    by (auto simp: start_managed_def audit_denied_ok split: option.splits prod.splits)
qed

lemma finish_tui_ok:
  "server_ok E sv \<Longrightarrow> \<not> owned sv i \<Longrightarrow> server_ok E (finish_tui now i st sv)"
  unfolding finish_tui_def by (rule unregister_ok) (simp_all add: end_session_ok owned_def)

text \<open>The session of an interface on a channel is not a task's.\<close>

lemma tui_channel_free:
  "server_ok E sv \<Longrightarrow> sv_channels sv at = Some (TuiChannel tui i) \<Longrightarrow> i \<in> drawn E sv \<and> \<not> owned sv i"
  using server_okD(5,6) [of E sv] unfolding tui_sessions_def by blast

lemma channel_cleared_ok: "server_ok E sv \<Longrightarrow> server_ok E (put_channel at None sv)"
  by (rule put_channel_ok) auto

lemma tui_data_ok:
  assumes ok: "server_ok E sv" and inj: "distinct_draws E"
    and ch: "sv_channels sv (c, channel) = Some (TuiChannel tui i)"
  shows "server_ok E (fst (tui_data E now c h channel tui i data sv))"
proof -
  note free = tui_channel_free [OF ok ch]
  have stay: "server_ok E (put_channel (c, channel) (Some (TuiChannel tui1 i)) sv)" for tui1
    by (rule put_channel_ok [OF ok]) (use free in auto)
  have gone: "server_ok E (put_channel (c, channel) None sv)" by (rule channel_cleared_ok [OF ok])
  have fin: "server_ok E (finish_tui now i st (send_tui_output (c, channel) out
      (put_channel (c, channel) None sv)))" for st out
    by (rule finish_tui_ok) (use gone free in \<open>simp_all add: owned_def\<close>)
  show ?thesis unfolding tui_data_def Let_def
    using stay fin start_managed_ok [OF fin inj]
    by (auto split: prod.splits tui_action.splits)
qed

lemma send_to_task_ok:
  assumes ok: "server_ok E sv"
  shows "server_ok E (send_input t x sv)" "server_ok E (send_resize t y sv)"
proof -
  have "server_ok E (put_task t (Some (BridgeTask b')) sv)"
    if "sv_tasks sv t = Some (BridgeTask b)" "bt_phase b' = bt_phase b" for b b'
    by (rule move_task_ok [OF ok that(1)]) (use that server_okD(8) [OF ok that(1)] in auto)
  then show "server_ok E (send_input t x sv)" "server_ok E (send_resize t y sv)"
    using ok by (auto simp: send_input_def send_resize_def split: option.splits task.splits)
qed

lemma channel_data_ok:
  "server_ok E sv \<Longrightarrow> distinct_draws E \<Longrightarrow> server_ok E (fst (channel_data E now c h channel data sv))"
  by (auto simp: channel_data_def tui_data_ok send_to_task_ok split: option.splits channel_state.splits)

lemma channel_end_ok:
  assumes ok: "server_ok E sv"
  shows "server_ok E (channel_eof E now c channel sv)" "server_ok E (channel_close E now c channel sv)"
proof -
  have fin: "server_ok E (finish_tui now i st (send_tui_output (c, channel) out
      (put_channel (c, channel) None sv)))"
    if "sv_channels sv (c, channel) = Some (TuiChannel tui i)" for tui i st out
    by (rule finish_tui_ok)
      (use channel_cleared_ok [OF ok] tui_channel_free [OF ok that] in \<open>simp_all add: owned_def\<close>)
  show "server_ok E (channel_eof E now c channel sv)" "server_ok E (channel_close E now c channel sv)"
    unfolding channel_eof_def channel_close_def Let_def using ok
    by (auto intro: fin simp: send_to_task_ok channel_cleared_ok split: option.splits channel_state.splits)
qed

lemma window_change_ok:
  assumes ok: "server_ok E sv"
  shows "server_ok E (snd (window_change_request E c h channel width height sv))"
proof -
  have "server_ok E (put_channel (c, channel) (Some (TuiChannel tui' i)) sv)"
    if "sv_channels sv (c, channel) = Some (TuiChannel tui i)" for tui tui' i
    by (rule put_channel_ok [OF ok]) (use tui_channel_free [OF ok that] in auto)
  then show ?thesis using ok unfolding window_change_request_def Let_def
    by (auto simp: send_to_task_ok split: option.splits channel_state.splits prod.splits)
qed

lemma open_direct_tcpip_ok:
  assumes ok: "server_ok E sv" and inj: "distinct_draws E"
  shows "server_ok E (fst (channel_open_direct_tcpip E now c h channel host port sv))"
proof -
  have "server_ok E (fst (spawn (ProxyTask p) sv))" if "pt_phase p = ProxyCheck" for p
    using spawn_ok(1) [OF ok, of "ProxyTask p"] that by (cases "spawn (ProxyTask p) sv") auto
  then show ?thesis using ok inj unfolding channel_open_direct_tcpip_def
    by (auto simp: audit_denied_ok split: option.splits sum.splits)
qed

lemma shell_request_ok:
  assumes ok: "server_ok E sv" and inj: "distinct_draws E"
  shows "server_ok E (fst (shell_request E now c h channel sv))"
proof -
  let ?sv1 = "send (c, channel) [ChannelSuccess] sv"
  have ok1: "server_ok E ?sv1" using ok by simp
  have tui: "server_ok E (register_task i t sv4)"
    if s: "start_tui_session E now auth ip (send_tui_output (c, channel) out ?sv1) = (sv3, Inr i)"
      and sp: "spawn (WatcherTask \<lparr>wt_conn = c, wt_channel = channel, wt_session = i, wt_signalled = False\<rparr>)
        (put_channel (c, channel) (Some (TuiChannel tui i)) sv3) = (sv4, t)"
    for auth ip out sv3 i tui sv4 t
  proof -
    define ns where "ns = new_session_of auth ''tui'' None None None ip"
    obtain r where b: "begin_session E now ns (send_tui_output (c, channel) out ?sv1) = (sv3, r)"
      and r: "and_then r (\<lambda>s. Inr (se_id s)) = Inr i"
      using s by (auto simp: start_tui_session_def ns_def split: prod.splits)
    from r obtain x where x: "r = Inr x" "i = se_id x" by (auto simp: and_then_Inr)
    have ok2: "server_ok E (send_tui_output (c, channel) out ?sv1)" using ok by simp
    note b' = begin_session_ok [OF ok2 inj b]
    have free: "i \<in> drawn E sv3" "\<not> owned sv3 i" using b'(9) [OF x(1)] x(2) by simp_all
    have ok3: "server_ok E (put_channel (c, channel) (Some (TuiChannel tui i)) sv3)"
      by (rule put_channel_ok [OF b'(1)]) (use free in auto)
    have free3: "i \<in> drawn E (put_channel (c, channel) (Some (TuiChannel tui i)) sv3)"
        "\<not> owned (put_channel (c, channel) (Some (TuiChannel tui i)) sv3) i"
      using free by (simp_all add: drawn_def owned_def)
    note sp' = spawn_ok [OF ok3 sp]
    show ?thesis
      by (rule register_ok) (use sp'(1,8) free3 in auto)
  qed
  have left: "server_ok E sv3"
    if "start_tui_session E now auth ip (send_tui_output (c, channel) out ?sv1) = (sv3, r)" for auth ip out sv3 r
  proof -
    have ok2: "server_ok E (send_tui_output (c, channel) out ?sv1)" using ok by simp
    from that show ?thesis
      by (auto simp: start_tui_session_def split: prod.splits dest: begin_session_ok(1) [OF ok2 inj])
  qed
  show ?thesis unfolding shell_request_def Let_def
    using ok1 start_managed_ok [OF ok1 inj] tui left
    by (auto split: option.splits sum.splits prod.splits)
qed

lemma call_handler_ok:
  assumes ok: "server_ok E sv" and inj: "distinct_draws E"
    and c: "call_handler E now c req h sv = (h', sv', r)"
  shows "server_ok E sv'"
proof (cases req)
  case (ChannelOpenDirectTcpip channel host port)
  with c open_direct_tcpip_ok [OF ok inj, of now c h channel host port] show ?thesis
    by (auto split: prod.splits)
next
  case (ShellRequest channel)
  with c shell_request_ok [OF ok inj, of now c h channel] show ?thesis by auto
next
  case (ExecRequest channel data)
  with c start_managed_ok [OF ok inj, of now c h channel] show ?thesis using ok
    by (auto simp: exec_request_def split: option.splits if_splits prod.splits sum.splits)
      (metis fst_conv server_ok_send)+
next
  case (SubsystemRequest channel name)
  have "server_ok E (send (c, channel) [ChannelSuccess] sv)" using ok by simp
  note start_managed_ok [OF this inj, of now c h channel]
  with SubsystemRequest c show ?thesis using ok
    by (auto simp: subsystem_request_def split: option.splits if_splits) (metis fst_conv)
next
  case (Data channel data)
  with c channel_data_ok [OF ok inj, of now c h channel data] show ?thesis by auto
next
  case (WindowChangeRequest channel width height)
  with c window_change_ok [OF ok, of c h channel width height] show ?thesis by (auto split: prod.splits)
qed (use c ok in \<open>auto simp: pty_request_def channel_end_ok split: prod.splits\<close>)

lemma serve_request_ok:
  assumes "server_ok E sv" and "distinct_draws E"
  shows "server_ok E (serve_request E now c req sv)"
proof (cases "sv_handlers sv c")
  case (Some h)
  obtain h' sv' r where "call_handler E now c req h sv = (h', sv', r)" by (metis prod.exhaust)
  with Some call_handler_ok [OF assms this] show ?thesis by (simp add: serve_request_def)
qed (use assms in \<open>simp add: serve_request_def\<close>)

section \<open>Watchers, signals and the API\<close>

lemma watcher_step_ok:
  assumes ok: "server_ok E sv" and w: "sv_tasks sv t = Some (WatcherTask w)"
    and step: "watcher_step E now t w sv = Some sv'"
  shows "server_ok E sv'"
proof -
  let ?at = "(wt_conn w, wt_channel w)"
  have "wt_session w \<in> tui_sessions sv" using w unfolding tui_sessions_def by blast
  then have free: "\<not> owned sv (wt_session w)" using server_okD(5) [OF ok] by blast
  have ended: "server_ok E (send ?at ms (fst (end_session now i st er (send_tui_output ?at out
      (put_channel ?at None sv)))))" for i st er out ms
    using channel_cleared_ok [OF ok] by (simp add: end_session_ok)
  have "server_ok E (watcher_signalled E now t w sv)"
    unfolding watcher_signalled_def Let_def
    by (intro end_task_ok unregister_ok) (use ended free ok in
      \<open>auto simp: owned_def split: option.splits channel_state.splits\<close>)
  then show ?thesis using step ok
    by (auto simp: watcher_step_def end_task_ok split: if_splits)
qed

lemma signal_ok:
  assumes ok: "server_ok E sv"
  shows "server_ok E (signal t sv)"
proof (cases "sv_tasks sv t")
  case (Some task)
  have "server_ok E (put_task t (Some task') sv)"
    if "task_session task' = task_session task" "task_registered task' = task_registered task"
      "\<forall>w. task = WatcherTask w \<longleftrightarrow> task' = WatcherTask w" for task'
    by (rule move_task_ok [OF ok Some]) (use that server_okD(8) [OF ok Some] in auto)
  note move = this
  show ?thesis
  proof (cases task)
    case (BridgeTask b)
    then have "server_ok E (put_task t (Some (BridgeTask (b\<lparr>bt_signalled := True\<rparr>))) sv)"
      by (intro move) auto
    with Some BridgeTask show ?thesis by (simp add: signal_def)
  next
    case (ProxyTask p)
    then have "server_ok E (put_task t (Some (ProxyTask (p\<lparr>pt_signalled := True\<rparr>))) sv)"
      by (intro move) auto
    with Some ProxyTask show ?thesis by (simp add: signal_def)
  next
    case (WatcherTask w)
    have tui: "tui_sessions (put_task t (Some (WatcherTask (w\<lparr>wt_signalled := True\<rparr>))) sv) = tui_sessions sv"
    proof -
      have "{wt_session v | v u. ((sv_tasks sv)(t \<mapsto> WatcherTask (w\<lparr>wt_signalled := True\<rparr>))) u = Some (WatcherTask v)}
          = {wt_session v | v u. sv_tasks sv u = Some (WatcherTask v)}" (is "?A = ?B")
      proof (intro set_eqI iffI)
        fix i assume "i \<in> ?A"
        then show "i \<in> ?B" using Some WatcherTask by (auto split: if_splits)
      next
        fix i assume "i \<in> ?B"
        then obtain v u where v: "i = wt_session v" "sv_tasks sv u = Some (WatcherTask v)" by blast
        show "i \<in> ?A"
        proof (cases "u = t")
          case True
          with v Some WatcherTask have i: "i = wt_session (w\<lparr>wt_signalled := True\<rparr>)" by simp
          show ?thesis
            by (intro CollectI exI [of _ "w\<lparr>wt_signalled := True\<rparr>"] exI [of _ t] conjI i) simp
        next
          case False
          with v show ?thesis by auto
        qed
      qed
      then show ?thesis by (simp add: tui_sessions_def)
    qed
    let ?sv = "put_task t (Some (WatcherTask (w\<lparr>wt_signalled := True\<rparr>))) sv"
    have old: "sv_tasks sv u = Some tu" if "sv_tasks ?sv u = Some tu" "task_session tu = Some i" for u tu i
      using that by (auto split: if_splits)
    have own: "owned sv i" if "owned ?sv i" for i
      using that old unfolding owned_def by blast
    have "server_ok E ?sv" unfolding server_ok_def tui
    proof (intro conjI allI impI)
      show "catalog_wf (sv_db ?sv)" using server_okD(1) [OF ok] by simp
      show "sv_tasks ?sv u = None" if "sv_next ?sv \<le> u" for u
        using that server_okD(3) [OF ok, of u] Some by auto
      show "i \<in> drawn E ?sv" "i \<notin> tui_sessions sv" if "owned ?sv i" for i
        using server_okD(4,5) [OF ok own [OF that]] by (simp_all add: drawn_def)
      show "tui_sessions sv \<subseteq> drawn E ?sv" using server_okD(6) [OF ok] by (simp add: drawn_def)
      fix u v tu tv i
      assume u: "sv_tasks ?sv u = Some tu" "task_session tu = Some i"
      show "u = v" if v: "sv_tasks ?sv v = Some tv" "task_session tv = Some i"
        using server_okD(7) [OF ok old [OF u] old [OF v] u(2) v(2)] .
      show "sv_reg ?sv i = Some u" if "task_registered tu"
        using server_okD(8) [OF ok old [OF u] that u(2)] by simp
    qed
    with Some WatcherTask show ?thesis by (simp add: signal_def)
  qed
qed (simp add: signal_def ok)

text \<open>The API takes no entry of a task that is alive out of the registry.\<close>

lemma terminate_keeps:
  "terminate al i reg = (reg', tx, res) \<Longrightarrow> reg j = Some t \<Longrightarrow> al t \<Longrightarrow> reg' j = Some t"
  by (auto simp: terminate_def unregister_def split: option.splits if_splits)

lemma dispatch_keeps:
  assumes "dispatch A st req w = (w', r)" and "snd w j = Some t" and "en_alive A t"
  shows "snd w' j = Some t"
proof (cases req)
  case (PostTerminate i)
  with assms show ?thesis
    by (auto simp: api_terminate_session_def split: prod.splits sum.splits terminate_session_result.splits
        dest: terminate_keeps)
qed (use assms in \<open>auto simp: on_catalog_def reading_def split: prod.splits dest!: arg_cong [where f = snd]\<close>)

lemma handle_keeps:
  "handle A st header req w = (w', r) \<Longrightarrow> snd w j = Some t \<Longrightarrow> en_alive A t \<Longrightarrow> snd w' j = Some t"
  by (auto simp: handle_def dispatch_keeps split: sum.splits)

lemma handle_wf:
  assumes "handle A st header req w = (w', r)" and "catalog_wf (fst w)"
  shows "catalog_wf (fst w')"
  using assms dispatch_steps [of A st req w w' r]
  by (auto simp: handle_def split: sum.splits intro: steps_wf)

lemma serve_api_ok:
  assumes ok: "server_ok E sv" and alive: "en_alive A = alive sv"
  shows "server_ok E (serve_api A st header req sv)"
proof -
  obtain db reg r where h: "handle A st header req (sv_db sv, sv_reg sv) = ((db, reg), r)"
    by (metis prod.exhaust)
  have wf: "catalog_wf db" using handle_wf [OF h] server_okD(1) [OF ok] by simp
  have "server_ok E (put_db db (sv\<lparr>sv_reg := reg\<rparr>))"
  proof (rule server_ok_put_db [OF server_ok_registry [OF ok] wf])
    show "reg i = Some t" if "owned sv i" "sv_reg sv i = Some t" "sv_tasks sv t \<noteq> None" for i t
      using handle_keeps [OF h, of i t] that alive by (simp add: alive_def)
  qed
  then have "server_ok E (sv\<lparr>sv_db := db, sv_reg := reg\<rparr>)" by (cases sv) (simp add: put_db_def)
  then show ?thesis by (simp add: serve_api_def h signal_ok Let_def split: option.splits)
qed

section \<open>Runs\<close>

lemma ssh_step_ok: "ssh_step E sv l sv' \<Longrightarrow> server_ok E sv \<Longrightarrow> distinct_draws E \<Longrightarrow> server_ok E sv'"
proof (induction rule: ssh_step.induct)
  case (accept sv addr)
  let ?sv = "sv\<lparr>sv_next := sv_next sv + 1\<rparr>"
  have "owned ?sv i = owned sv i" "tui_sessions ?sv = tui_sessions sv" "drawn E ?sv = drawn E sv" for i
    by (simp_all add: owned_def tui_sessions_def drawn_def)
  with accept.prems(1) have "server_ok E ?sv" unfolding server_ok_def by auto
  then show ?case
    using server_ok_handlers [where sv = ?sv
        and hs = "(sv_handlers sv)(sv_next sv := Some (new_client addr))"]
    by (cases sv) (simp add: accept_client_def)
next
  case (request sv c now req)
  then show ?case by (simp add: serve_request_ok)
next
  case (disconnect sv c)
  then show ?case by simp
next
  case (bridge sv t b now ev sv')
  then show ?case using bridge_step_ok by blast
next
  case (proxy sv t p now ev sv')
  then show ?case using proxy_step_ok by blast
next
  case (watcher sv t w now sv')
  then show ?case using watcher_step_ok by blast
next
  case (api A sv st header areq)
  then show ?case using serve_api_ok by blast
next
  case (catalog sv db)
  then have "catalog_wf db" using catalog_step_ok step_ok_wf server_okD(1) by blast
  with catalog show ?case by (intro server_ok_put_db)
qed

lemma new_server_ok: "catalog_wf db \<Longrightarrow> server_ok E (new_server db)"
  by (simp add: server_ok_def new_server_def owned_def tui_sessions_def)

lemma ssh_run_ok: "ssh_run E sv0 past sv \<Longrightarrow> server_ok E sv0 \<Longrightarrow> distinct_draws E \<Longrightarrow> server_ok E sv"
  by (induction rule: ssh_run.induct) (auto intro: ssh_step_ok)

end
