(* ===== verification/Ssh_History.thy ===== *)
theory Ssh_History
  imports Ssh_System_Facts
begin

text \<open>
  Where tasks come from: a step of the server leaves every other task at its phase with its options,
  and a task it adds is at its first phase. So what a running task relies on was established by an
  earlier step of that task, and the run remembers when.
\<close>

section \<open>Tasks a step leaves alone\<close>

fun same_task :: "task \<Rightarrow> task \<Rightarrow> bool" where
  "same_task (BridgeTask b) (BridgeTask b') \<longleftrightarrow> bt_options b' = bt_options b \<and> bt_phase b' = bt_phase b
     \<and> (bt_signalled b \<longrightarrow> bt_signalled b')"
| "same_task (ProxyTask p) (ProxyTask p') \<longleftrightarrow> pt_auth p' = pt_auth p \<and> pt_asset p' = pt_asset p
     \<and> pt_client_ip p' = pt_client_ip p \<and> pt_phase p' = pt_phase p"
| "same_task (WatcherTask w) (WatcherTask w') \<longleftrightarrow> True"
| "same_task _ _ \<longleftrightarrow> False"

fun first_phase :: "task \<Rightarrow> bool" where
  "first_phase (BridgeTask b) \<longleftrightarrow> bt_phase b = BridgeStart"
| "first_phase (ProxyTask p) \<longleftrightarrow> pt_phase p = ProxyCheck"
| "first_phase (WatcherTask w) \<longleftrightarrow> True"

lemma same_task_refl [simp]: "same_task x x"
  by (cases x) simp_all

lemma same_task_trans: "same_task x y \<Longrightarrow> same_task y z \<Longrightarrow> same_task x z"
  by (cases x; cases y; cases z) auto

lemma same_task_first: "same_task x y \<Longrightarrow> first_phase x \<Longrightarrow> first_phase y"
  by (cases x; cases y) auto

fun task_auth :: "task \<Rightarrow> auth_info option" where
  "task_auth (BridgeTask b) = Some (bo_auth (bt_options b))"
| "task_auth (ProxyTask p) = Some (pt_auth p)"
| "task_auth (WatcherTask w) = None"

text \<open>A new task, which acts for nobody but \<open>who\<close>.\<close>

definition new_task :: "auth_info option \<Rightarrow> task \<Rightarrow> bool" where
  "new_task who task \<longleftrightarrow> first_phase task \<and> task_auth task \<in> {None, who}"

lemma same_task_auth: "same_task x y \<Longrightarrow> task_auth x = task_auth y"
  by (cases x; cases y) auto

definition others_kept :: "nat option \<Rightarrow> auth_info option \<Rightarrow> server \<Rightarrow> server \<Rightarrow> bool" where
  "others_kept own who sv sv' \<longleftrightarrow> sv_next sv \<le> sv_next sv'
     \<and> (\<forall>t task'. Some t \<noteq> own \<longrightarrow> sv_tasks sv' t = Some task'
          \<longrightarrow> new_task who task' \<or> (\<exists>task. sv_tasks sv t = Some task \<and> same_task task task'))
     \<and> (\<forall>t < sv_next sv. Some t \<noteq> own \<longrightarrow> rel_option same_task (sv_tasks sv t) (sv_tasks sv' t))"

lemma kept_task:
  assumes "others_kept own who sv sv'" and "sv_tasks sv' t = Some task'" and "own \<noteq> Some t"
  shows "first_phase task' \<and> (task_auth task' = None \<or> task_auth task' = who)
    \<or> (\<exists>task. sv_tasks sv t = Some task \<and> same_task task task')"
  using assms unfolding others_kept_def new_task_def by auto

lemma kept_old_task:
  assumes "others_kept own who sv sv'" and "t < sv_next sv" and "own \<noteq> Some t"
  shows "rel_option same_task (sv_tasks sv t) (sv_tasks sv' t)"
  using assms unfolding others_kept_def by auto

lemma rel_same_task [simp]: "rel_option same_task x x"
  by (cases x) simp_all

lemma kept_same_tasks:
  "sv_tasks sv' = sv_tasks sv \<Longrightarrow> sv_next sv \<le> sv_next sv' \<Longrightarrow> others_kept own who sv sv'"
  by (auto simp: others_kept_def)

lemma kept_cong_left:
  "sv_tasks a' = sv_tasks a \<and> sv_next a' = sv_next a \<Longrightarrow> others_kept own who a' b = others_kept own who a b"
  by (simp add: others_kept_def)

lemma kept_cong_right:
  "sv_tasks b' = sv_tasks b \<and> sv_next b' = sv_next b \<Longrightarrow> others_kept own who a b' = others_kept own who a b"
  by (simp add: others_kept_def)

lemma kept_put_same:
  "sv_tasks sv t = Some task \<Longrightarrow> same_task task task' \<Longrightarrow> others_kept own who sv (put_task t (Some task') sv)"
  by (auto simp: others_kept_def)

lemma kept_spawn: "new_task who task \<Longrightarrow> others_kept own who sv (fst (spawn task sv))"
  by (auto simp: spawn_def others_kept_def)

lemma begin_session_tasks:
  "begin_session E now ns sv = (sv', r) \<Longrightarrow> sv_tasks sv' = sv_tasks sv \<and> sv_next sv' = sv_next sv"
  by (auto simp: begin_session_def on_db_def split: prod.splits)

lemma start_tui_session_tasks:
  "start_tui_session E now auth ip sv = (sv', r) \<Longrightarrow> sv_tasks sv' = sv_tasks sv \<and> sv_next sv' = sv_next sv"
  by (auto simp: start_tui_session_def split: prod.splits dest: begin_session_tasks)

lemma audit_denied_tasks [simp]:
  "sv_tasks (audit_denied_attempt E now auth mode an th tp ip sv) = sv_tasks sv"
  "sv_next (audit_denied_attempt E now auth mode an th tp ip sv) = sv_next sv"
  by (auto simp: audit_denied_attempt_def split: prod.splits sum.splits dest: begin_session_tasks)

lemma finish_tui_tasks [simp]:
  "sv_tasks (finish_tui now i st sv) = sv_tasks sv" "sv_next (finish_tui now i st sv) = sv_next sv"
  by (simp_all add: finish_tui_def)

lemma start_managed_kept: "others_kept own (hd_auth h) sv (fst (start_managed E now c h channel asset tui mode cmd sv))"
proof (cases "hd_auth h")
  case None
  then show ?thesis by (simp add: start_managed_def kept_same_tasks)
next
  case (Some auth)
  show ?thesis
  proof (cases "managed_mode_is_authorized (sv_db sv) (ai_key_id auth) (as_id asset) mode")
    case False
    with Some show ?thesis by (simp add: start_managed_def kept_same_tasks)
  next
    case True
    define b0 where "b0 = \<lparr>bt_options = \<lparr>bo_conn = c, bo_auth = auth, bo_client_ip = hd_client_ip h,
        bo_asset = asset, bo_channel = channel, bo_pty = pty_size_of h channel,
        bo_pty_requested = (hd_ptys h channel \<noteq> None), bo_command = cmd, bo_mode = mode,
        bo_return_to_tui = tui\<rparr>, bt_phase = BridgeStart, bt_input = [], bt_resize = [],
        bt_signalled = False\<rparr>"
    from True have "fst (start_managed E now c h channel asset tui mode cmd sv)
        = put_channel (c, channel) (Some (ManagedChannel (snd (spawn (BridgeTask b0) sv))))
            (fst (spawn (BridgeTask b0) sv))" "new_task (hd_auth h) (BridgeTask b0)"
      using Some by (simp_all add: start_managed_def b0_def new_task_def split: prod.split)
    then obtain b st where b: "new_task (hd_auth h) (BridgeTask b)"
      "fst (start_managed E now c h channel asset tui mode cmd sv)
        = put_channel (c, channel) st (fst (spawn (BridgeTask b) sv))" by blast
    have "others_kept own (hd_auth h) sv (fst (spawn (BridgeTask b) sv))" by (rule kept_spawn) (rule b(1))
    then show ?thesis unfolding b(2)
      by (rule iffD2 [OF kept_cong_right, rotated]) simp
  qed
qed

lemma start_managed_kept_from:
  "sv_tasks sv1 = sv_tasks sv \<and> sv_next sv1 = sv_next sv
    \<Longrightarrow> others_kept own (hd_auth h) sv (fst (start_managed E now c h channel asset tui mode cmd sv1))"
  using start_managed_kept [of own _ sv1] by (simp only: kept_cong_left [of sv1 sv])

lemma send_to_task_kept: "others_kept own who sv (send_input t x sv)" "others_kept own who sv (send_resize t y sv)"
  by (auto simp: send_input_def send_resize_def kept_same_tasks kept_put_same
      split: option.splits task.splits)

lemma tui_data_kept: "others_kept own (hd_auth h) sv (fst (tui_data E now c h channel tui i data sv))"
proof -
  obtain tui1 act out where b: "handle_bytes (sx_term E) data tui = (tui1, act, out)"
    by (metis prod.exhaust)
  show ?thesis
  proof (cases act)
    case (Connect asset)
    show ?thesis
    proof (cases "as_credential_id asset")
      case None
      with b Connect show ?thesis by (simp add: tui_data_def Let_def kept_same_tasks)
    next
      case (Some cred)
      obtain tui2 left where l: "leave_screen (sx_term E) tui1 = (tui2, left)" by fastforce
      have "fst (tui_data E now c h channel tui i data sv)
          = fst (start_managed E now c h channel asset (Some tui2) Tui None
            (finish_tui now i ''connected'' (send_tui_output (c, channel) (out @ left)
              (put_channel (c, channel) None sv))))"
        using b Connect Some l by (simp add: tui_data_def Let_def)
      also have "others_kept own (hd_auth h) sv \<dots>" by (rule start_managed_kept_from) simp
      finally show ?thesis .
    qed
  qed (use b in \<open>simp_all add: tui_data_def Let_def kept_same_tasks\<close>)
qed

lemma shell_request_kept: "others_kept own (hd_auth h) sv (fst (shell_request E now c h channel sv))"
proof (cases "hd_direct_asset h")
  case (Some a)
  have "others_kept own (hd_auth h) sv (fst (start_managed E now c h channel a None Direct None
      (send (c, channel) [ChannelSuccess] sv)))"
    by (rule start_managed_kept_from) simp
  with Some show ?thesis by (simp add: shell_request_def Let_def)
next
  case None
  let ?sv1 = "send (c, channel) [ChannelSuccess] sv"
  show ?thesis
  proof (cases "hd_auth h")
    case no_auth: None
    with None show ?thesis by (simp add: shell_request_def Let_def kept_same_tasks)
  next
    case (Some auth)
    show ?thesis
    proof (cases "core (list_assets_for_key (sx_ext E) (ai_key_id auth) (sv_db ?sv1))")
      case (Inl e)
      with None Some show ?thesis by (simp add: shell_request_def Let_def kept_same_tasks)
    next
      case (Inr assets)
      obtain tui screen where e: "enter_screen (sx_term E)
          (new_tui (py_width (pty_size_of h channel)) (py_height (pty_size_of h channel)) assets)
          = (tui, screen)" by fastforce
      obtain sv3 r where s: "start_tui_session E now auth (hd_client_ip h)
          (send_tui_output (c, channel) screen ?sv1) = (sv3, r)" by fastforce
      have t3: "sv_tasks sv3 = sv_tasks sv" "sv_next sv3 = sv_next sv" using start_tui_session_tasks [OF s] by simp_all
      show ?thesis
      proof (cases r)
        case (Inl e')
        with None Some Inr e s t3 show ?thesis by (simp add: shell_request_def Let_def kept_same_tasks)
      next
        case (Inr i)
        let ?w = "WatcherTask \<lparr>wt_conn = c, wt_channel = channel, wt_session = i, wt_signalled = False\<rparr>"
        let ?sv3 = "put_channel (c, channel) (Some (TuiChannel tui i)) sv3"
        obtain sv4 t where sp: "spawn ?w ?sv3 = (sv4, t)" by fastforce
        have "others_kept own (hd_auth h) ?sv3 (fst (spawn ?w ?sv3))"
          by (rule kept_spawn) (simp add: new_task_def)
        moreover have "sv_tasks ?sv3 = sv_tasks sv \<and> sv_next ?sv3 = sv_next sv" using t3 by simp
        ultimately have k: "others_kept own (hd_auth h) sv sv4"
          unfolding sp fst_conv by (simp only: kept_cong_left [of ?sv3 sv])
        have "fst (shell_request E now c h channel sv) = register_task i t sv4"
          using None Some \<open>core _ = Inr assets\<close> e s Inr sp by (simp add: shell_request_def Let_def)
        then show ?thesis using k by (simp add: kept_cong_right [of "register_task i t sv4" sv4])
      qed
    qed
  qed
qed

lemma exec_request_kept: "others_kept own (hd_auth h) sv (fst (exec_request E now c h channel data sv))"
proof (cases "hd_direct_asset h")
  case (Some a)
  obtain sv1 r where m: "start_managed E now c h channel a None Exec (Some data) sv = (sv1, r)" by fastforce
  have "others_kept own (hd_auth h) sv sv1" using start_managed_kept [of own h sv E now c channel a None Exec "Some data"]
    by (simp add: m)
  then have "others_kept own (hd_auth h) sv (send (c, channel) [ChannelSuccess] sv1)" "others_kept own (hd_auth h) sv sv1"
    by (simp_all only: kept_cong_right [of "send (c, channel) [ChannelSuccess] sv1" sv1] send_fields HOL.simp_thms)
  with Some m show ?thesis
    by (cases r) (simp_all add: exec_request_def kept_same_tasks)
qed (simp add: exec_request_def kept_same_tasks)

lemma subsystem_request_kept: "others_kept own (hd_auth h) sv (fst (subsystem_request E now c h channel name sv))"
proof (cases "hd_direct_asset h")
  case (Some a)
  have "others_kept own (hd_auth h) sv (fst (start_managed E now c h channel a None Sftp None
      (send (c, channel) [ChannelSuccess] sv)))"
    by (rule start_managed_kept_from) simp
  with Some show ?thesis by (simp add: subsystem_request_def kept_same_tasks)
qed (simp add: subsystem_request_def kept_same_tasks)

lemma open_direct_tcpip_kept: "others_kept own (hd_auth h) sv (fst (channel_open_direct_tcpip E now c h channel host port sv))"
  by (auto simp: channel_open_direct_tcpip_def kept_same_tasks new_task_def intro!: kept_spawn
      split: option.splits sum.splits)

lemma channel_end_kept:
  "others_kept own who sv (channel_eof E now c channel sv)"
  "others_kept own who sv (channel_close E now c channel sv)"
  by (simp_all add: channel_eof_def channel_close_def Let_def kept_same_tasks send_to_task_kept
      split: option.split channel_state.split)

lemma channel_data_kept: "others_kept own (hd_auth h) sv (fst (channel_data E now c h channel data sv))"
  by (simp add: channel_data_def kept_same_tasks tui_data_kept send_to_task_kept
      split: option.split channel_state.split)

lemma window_change_kept: "others_kept own who sv (snd (window_change_request E c h channel width height sv))"
  by (simp add: window_change_request_def Let_def kept_same_tasks send_to_task_kept
      split: option.split channel_state.split prod.split)

lemma call_handler_kept:
  "others_kept own (hd_auth h) sv (fst (snd (call_handler E now c req h sv)))"
proof (cases req)
  case (ChannelOpenDirectTcpip channel host port)
  with open_direct_tcpip_kept [of own h sv E now c channel host port] show ?thesis
    by (cases "channel_open_direct_tcpip E now c h channel host port sv") simp
next
  case (WindowChangeRequest channel width height)
  with window_change_kept [of own "hd_auth h" sv E c h channel width height] show ?thesis
    by (cases "window_change_request E c h channel width height sv") simp
next
  case (PtyRequest channel width height)
  then show ?thesis by (simp add: pty_request_def kept_same_tasks)
qed (simp_all add: shell_request_kept exec_request_kept subsystem_request_kept channel_data_kept
    channel_end_kept kept_same_tasks split: prod.split)

lemma signal_kept: "others_kept own who sv (signal t sv)"
  by (auto simp: signal_def kept_same_tasks kept_put_same split: option.splits task.splits)

text \<open>A step of a task touches no other.\<close>

lemma begin_session_tasks_fst [simp]: "sv_tasks (fst (begin_session E now ns sv)) = sv_tasks sv"
  using begin_session_tasks [OF prod.collapse [symmetric]] by blast

lemma bridge_finish_tasks [simp]: "sv_tasks (bridge_finish E now i te r sv) = sv_tasks sv"
  by (simp add: bridge_finish_def)

lemma bridge_tasks:
  assumes "u \<noteq> t"
  shows "sv_tasks (bridge_start E now t b sv) u = sv_tasks sv u"
    "sv_tasks (bridge_check t b sid sv) u = sv_tasks sv u"
    "sv_tasks (bridge_connect E now t b sid P ms sv) u = sv_tasks sv u"
    "sv_tasks (bridge_terminated t b sid ex sv) u = sv_tasks sv u"
    "sv_tasks (bridge_target_message t b sid ex msg sv) u = sv_tasks sv u"
    "sv_tasks (bridge_reply E t b te ex r sv) u = sv_tasks sv u"
  using assms
  by (auto simp: bridge_start_def bridge_check_def bridge_connect_def bridge_terminated_def
      bridge_target_message_def bridge_reply_def Let_def dest: begin_session_tasks
      split: prod.split sum.split option.split channel_msg.split)

lemma bridge_reopen_tasks: "u \<noteq> t \<Longrightarrow> sv_tasks (bridge_reopen E now t b sv) u = sv_tasks sv u"
  by (auto simp: bridge_reopen_def Let_def split: option.split prod.split sum.split
      dest: start_tui_session_tasks)

lemma bridge_step_tasks:
  assumes "bridge_step E now t b ph ev sv = Some sv'" and "u \<noteq> t"
  shows "sv_tasks sv' u = sv_tasks sv u"
  using assms
  by (cases ph; cases ev)
    (auto simp: bridge_tasks bridge_reopen_tasks split: if_splits option.splits list.splits sum.splits)

lemma proxy_tasks:
  assumes "u \<noteq> t"
  shows "sv_tasks (proxy_check E now t p sv) u = sv_tasks sv u"
    "sv_tasks (proxy_start E now t p sv) u = sv_tasks sv u"
    "sv_tasks (proxy_register t p i sv) u = sv_tasks sv u"
    "sv_tasks (proxy_connect now t p i r ms sv) u = sv_tasks sv u"
    "sv_tasks (proxy_terminated t p i msgs sv) u = sv_tasks sv u"
    "sv_tasks (proxy_relay t p i c2t t2c from read write sv) u = sv_tasks sv u"
  using assms
  by (auto simp: proxy_check_def proxy_start_def proxy_register_def proxy_connect_def
      proxy_terminated_def proxy_relay_def Let_def dest: begin_session_tasks
      split: prod.split sum.split relay_peer.split relay_outcome.split)

lemma proxy_step_tasks:
  assumes "proxy_step E now t p ph ev sv = Some sv'" and "u \<noteq> t"
  shows "sv_tasks sv' u = sv_tasks sv u"
  using assms
  by (cases "(E, now, t, p, ph, ev, sv)" rule: proxy_step.cases)
    (auto simp: proxy_tasks split: if_splits)

lemma watcher_step_tasks:
  assumes "watcher_step E now t w sv = Some sv'" and "u \<noteq> t"
  shows "sv_tasks sv' u = sv_tasks sv u"
  using assms by (auto simp: watcher_step_def watcher_signalled_def Let_def
      split: if_splits option.split channel_state.split)

fun stepped :: "label \<Rightarrow> nat option" where
  "stepped (BridgeStep t _) = Some t"
| "stepped (ProxyStep t _) = Some t"
| "stepped (WatcherStep t) = Some t"
| "stepped _ = None"

text \<open>Nor does it touch the handlers or the counter.\<close>

lemma begin_session_handlers: "begin_session E now ns sv = (sv', r) \<Longrightarrow> sv_handlers sv' = sv_handlers sv"
  by (auto simp: begin_session_def on_db_def split: prod.splits)

lemma start_tui_session_handlers:
  "start_tui_session E now auth ip sv = (sv', r) \<Longrightarrow> sv_handlers sv' = sv_handlers sv"
  by (auto simp: start_tui_session_def split: prod.splits dest: begin_session_handlers)

lemma audit_denied_handlers [simp]:
  "sv_handlers (audit_denied_attempt E now auth mode an th tp ip sv) = sv_handlers sv"
  by (auto simp: audit_denied_attempt_def split: prod.splits sum.splits dest: begin_session_handlers)

definition same_rest :: "server \<Rightarrow> server \<Rightarrow> bool" where
  "same_rest sv sv' \<longleftrightarrow> sv_handlers sv' = sv_handlers sv \<and> sv_next sv' = sv_next sv"

lemma task_step_rest:
  "bridge_step E now t b (bt_phase b) bev sv = Some sv' \<Longrightarrow> same_rest sv sv'"
  "proxy_step E now t p (pt_phase p) pev sv = Some sv' \<Longrightarrow> same_rest sv sv'"
  "watcher_step E now t w sv = Some sv' \<Longrightarrow> same_rest sv sv'"
proof -
  have "same_rest sv (bridge_start E now t b sv)" "same_rest sv (bridge_reopen E now t b sv)"
    by (auto simp: same_rest_def bridge_start_def bridge_reopen_def Let_def
        split: prod.split sum.split option.split
        dest: begin_session_handlers start_tui_session_handlers begin_session_tasks start_tui_session_tasks)
  moreover have "same_rest sv (bridge_check t b sid sv)" "same_rest sv (bridge_connect E now t b sid P ms sv)"
    "same_rest sv (bridge_terminated t b sid ex sv)" "same_rest sv (bridge_target_message t b sid ex msg sv)"
    "same_rest sv (bridge_reply E t b te ex r sv)" "same_rest sv (bridge_finish E now i te r sv)"
    for sid P ms ex msg te i r sv
    by (simp_all add: same_rest_def bridge_check_def bridge_connect_def bridge_terminated_def
        bridge_target_message_def bridge_reply_def bridge_finish_def Let_def
        split: prod.split sum.split option.split channel_msg.split)
  ultimately show "same_rest sv sv'" if "bridge_step E now t b (bt_phase b) bev sv = Some sv'"
    using that by (cases "bt_phase b"; cases bev)
      (auto simp: same_rest_def split: if_splits option.splits list.splits)
  show "same_rest sv sv'" if "proxy_step E now t p (pt_phase p) pev sv = Some sv'"
    using that by (cases "pt_phase p"; cases pev)
      (auto simp: same_rest_def proxy_check_def proxy_start_def proxy_register_def proxy_connect_def
        proxy_terminated_def proxy_relay_def bridge_finish_def Let_def
        dest: begin_session_handlers begin_session_tasks
        split: if_splits prod.splits sum.splits relay_peer.splits relay_outcome.splits)
  show "same_rest sv sv'" if "watcher_step E now t w sv = Some sv'"
    using that by (auto simp: same_rest_def watcher_step_def watcher_signalled_def Let_def
        split: if_splits option.split channel_state.split)
qed

text \<open>
  What the three kinds of tasks promise each other: a step of a task changes no other task, no handler
  and not the counter. So it keeps the others.
\<close>

locale task_kind =
  fixes step :: "nat \<Rightarrow> server \<Rightarrow> server \<Rightarrow> bool"
  assumes others: "step t sv sv' \<Longrightarrow> u \<noteq> t \<Longrightarrow> sv_tasks sv' u = sv_tasks sv u"
    and rest: "step t sv sv' \<Longrightarrow> same_rest sv sv'"
begin

lemma kept: "step t sv sv' \<Longrightarrow> others_kept (Some t) who sv sv'"
proof -
  assume st: "step t sv sv'"
  have "rel_option same_task (sv_tasks sv u) (sv_tasks sv' u)" if "u \<noteq> t" for u
    using others [OF st that] by simp
  moreover have "\<exists>task. sv_tasks sv u = Some task \<and> same_task task task'"
    if "u \<noteq> t" "sv_tasks sv' u = Some task'" for u task'
    using others [OF st that(1)] that(2) same_task_refl by metis
  ultimately show ?thesis using rest [OF st] by (auto simp: others_kept_def same_rest_def)
qed

lemma handlers: "step t sv sv' \<Longrightarrow> sv_handlers sv' = sv_handlers sv"
  using rest by (simp add: same_rest_def)

lemma next_task: "step t sv sv' \<Longrightarrow> sv_next sv' = sv_next sv"
  using rest by (simp add: same_rest_def)

end

definition bridge_makes :: "nat \<Rightarrow> server \<Rightarrow> server \<Rightarrow> bool" where
  "bridge_makes t sv sv' \<longleftrightarrow> (\<exists>E now b ev. bridge_step E now t b (bt_phase b) ev sv = Some sv')"

definition proxy_makes :: "nat \<Rightarrow> server \<Rightarrow> server \<Rightarrow> bool" where
  "proxy_makes t sv sv' \<longleftrightarrow> (\<exists>E now p ev. proxy_step E now t p (pt_phase p) ev sv = Some sv')"

definition watcher_makes :: "nat \<Rightarrow> server \<Rightarrow> server \<Rightarrow> bool" where
  "watcher_makes t sv sv' \<longleftrightarrow> (\<exists>E now w. watcher_step E now t w sv = Some sv')"

interpretation bridges: task_kind bridge_makes
  by unfold_locales (auto simp: bridge_makes_def bridge_step_tasks task_step_rest)

interpretation proxies: task_kind proxy_makes
  by unfold_locales (auto simp: proxy_makes_def proxy_step_tasks task_step_rest)

interpretation watchers: task_kind watcher_makes
  by unfold_locales (auto simp: watcher_makes_def watcher_step_tasks task_step_rest)

lemma step_makes:
  "bridge_step E now t b (bt_phase b) bev sv = Some sv' \<Longrightarrow> bridge_makes t sv sv'"
  "proxy_step E now t p (pt_phase p) pev sv = Some sv' \<Longrightarrow> proxy_makes t sv sv'"
  "watcher_step E now t w sv = Some sv' \<Longrightarrow> watcher_makes t sv sv'"
  unfolding bridge_makes_def proxy_makes_def watcher_makes_def by blast+

definition acting :: "nat \<Rightarrow> server \<Rightarrow> auth_info option" where
  "acting c sv = (case sv_handlers sv c of None \<Rightarrow> None | Some h \<Rightarrow> hd_auth h)"

fun acting_for :: "label \<Rightarrow> server \<Rightarrow> auth_info option" where
  "acting_for (Request c _) sv = acting c sv"
| "acting_for _ sv = None"

lemma serve_request_kept: "others_kept own (acting c sv) sv (serve_request E now c req sv)"
proof (cases "sv_handlers sv c")
  case (Some h)
  obtain h' sv' r where c: "call_handler E now c req h sv = (h', sv', r)" by (metis prod.exhaust)
  with call_handler_kept [of own h sv E now c req] have "others_kept own (hd_auth h) sv sv'" by simp
  with Some c show ?thesis by (simp add: serve_request_def others_kept_def acting_def)
qed (simp add: serve_request_def kept_same_tasks)

lemma serve_api_kept: "others_kept own who sv (serve_api A st header req sv)"
proof -
  obtain db reg r where h: "handle A st header req (sv_db sv, sv_reg sv) = ((db, reg), r)"
    by (metis prod.exhaust)
  let ?sv = "sv\<lparr>sv_db := db, sv_reg := reg\<rparr>"
  have "others_kept own who ?sv (signal t ?sv)" for t by (rule signal_kept)
  then have "others_kept own who sv (signal t ?sv)" for t using kept_cong_left [of ?sv sv] by simp
  with h show ?thesis by (simp add: serve_api_def kept_same_tasks Let_def split: option.split)
qed

lemma ssh_step_kept: "ssh_step E sv l sv' \<Longrightarrow> others_kept (stepped l) (acting_for l sv) sv sv'"
proof (induction rule: ssh_step.induct)
  case (bridge sv t b now ev sv')
  from bridges.kept [OF step_makes(1) [OF bridge(2)]] show ?case by simp
next
  case (proxy sv t p now pev sv')
  from proxies.kept [OF step_makes(2) [OF proxy(2)]] show ?case by simp
next
  case (watcher sv t w now sv')
  from watchers.kept [OF step_makes(3) [OF watcher(2)]] show ?case by simp
qed (simp_all add: serve_request_kept serve_api_kept kept_same_tasks accept_client_def)

text \<open>A task that is past its first phase and was not so before has just made a step.\<close>

lemma own_step:
  assumes "ssh_step E sv l sv'" and "sv_tasks sv' t = Some task" and "\<not> first_phase task"
    and "\<And>old. sv_tasks sv t = Some old \<Longrightarrow> \<not> same_task old task"
  shows "stepped l = Some t"
  using kept_task [OF ssh_step_kept [OF assms(1)] assms(2)] assms(3,4) by blast

section \<open>Logins\<close>

lemma auth_publickey_auth:
  assumes "auth_publickey E user key h sv = (h', r)"
  shows "hd_auth h' = hd_auth h \<or> (\<exists>k. hd_auth h' = Some \<lparr>ai_key_id = ak_id k, ai_fingerprint = snd key,
      ai_name = ak_name k\<rparr> \<and> get_active_authorized_key_by_fingerprint (snd key) (sv_db sv) = Inr (Some k))"
  using assms by (auto simp: auth_publickey_def result_simps split: sum.splits option.splits)

lemma spawn_handlers [simp]: "sv_handlers (fst (spawn task sv)) = sv_handlers sv"
  by (simp add: spawn_def)

lemma start_managed_handlers [simp]:
  "sv_handlers (fst (start_managed E now c h channel asset tui mode cmd sv)) = sv_handlers sv"
  by (auto simp: start_managed_def spawn_def split: option.split prod.split)

lemma start_managed_handlers_eq:
  "start_managed E now c h channel asset tui mode cmd sv = (sv', r) \<Longrightarrow> sv_handlers sv' = sv_handlers sv"
  using start_managed_handlers [of E now c h channel asset tui mode cmd sv] by simp

lemma finish_tui_handlers [simp]: "sv_handlers (finish_tui now i st sv) = sv_handlers sv"
  by (simp add: finish_tui_def)

lemma send_to_task_handlers [simp]:
  "sv_handlers (send_input t x sv) = sv_handlers sv" "sv_handlers (send_resize t y sv) = sv_handlers sv"
  by (simp_all add: send_input_def send_resize_def split: option.split task.split)

lemma request_handlers:
  "sv_handlers (fst (shell_request E now c h channel sv)) = sv_handlers sv"
  "sv_handlers (fst (exec_request E now c h channel data sv)) = sv_handlers sv"
  "sv_handlers (fst (subsystem_request E now c h channel name sv)) = sv_handlers sv"
  "sv_handlers (fst (channel_open_direct_tcpip E now c h channel host port sv)) = sv_handlers sv"
  "sv_handlers (fst (channel_data E now c h channel data sv)) = sv_handlers sv"
  "sv_handlers (channel_eof E now c channel sv) = sv_handlers sv"
  "sv_handlers (channel_close E now c channel sv) = sv_handlers sv"
  "sv_handlers (snd (window_change_request E c h channel width height sv)) = sv_handlers sv"
proof -
  show "sv_handlers (fst (shell_request E now c h channel sv)) = sv_handlers sv"
    by (auto simp: shell_request_def Let_def spawn_def split: option.split sum.split prod.split
        dest: start_tui_session_handlers)
  show "sv_handlers (fst (exec_request E now c h channel data sv)) = sv_handlers sv"
    by (auto simp: exec_request_def split: option.split sum.split prod.split dest: start_managed_handlers_eq)
  show "sv_handlers (fst (subsystem_request E now c h channel name sv)) = sv_handlers sv"
    by (simp add: subsystem_request_def split: option.split)
  show "sv_handlers (fst (channel_open_direct_tcpip E now c h channel host port sv)) = sv_handlers sv"
    by (simp add: channel_open_direct_tcpip_def split: option.split sum.split)
  show "sv_handlers (fst (channel_data E now c h channel data sv)) = sv_handlers sv"
    by (auto simp: channel_data_def tui_data_def Let_def
        split: option.split channel_state.split prod.split tui_action.split)
  show "sv_handlers (channel_eof E now c channel sv) = sv_handlers sv"
    "sv_handlers (channel_close E now c channel sv) = sv_handlers sv"
    by (simp_all add: channel_eof_def channel_close_def Let_def split: option.split channel_state.split)
  show "sv_handlers (snd (window_change_request E c h channel width height sv)) = sv_handlers sv"
    by (simp add: window_change_request_def Let_def split: option.split channel_state.split prod.split)
qed

text \<open>Logging in changes the handler of its own connection, every other request leaves the login alone.\<close>

lemma call_handler_auth:
  assumes "call_handler E now c req h sv = (h', sv', r)"
  shows "sv_handlers sv' = sv_handlers sv"
    "hd_auth h' = hd_auth h \<or> (\<exists>user key k. req = AuthPublickey user key
      \<and> hd_auth h' = Some \<lparr>ai_key_id = ak_id k, ai_fingerprint = snd key, ai_name = ak_name k\<rparr>
      \<and> get_active_authorized_key_by_fingerprint (snd key) (sv_db sv) = Inr (Some k))"
proof -
  show "sv_handlers sv' = sv_handlers sv" using assms
    by (cases req) (auto simp: pty_request_def request_handlers split: prod.splits,
      (metis fst_conv snd_conv request_handlers)+)
  show "hd_auth h' = hd_auth h \<or> (\<exists>user key k. req = AuthPublickey user key
      \<and> hd_auth h' = Some \<lparr>ai_key_id = ak_id k, ai_fingerprint = snd key, ai_name = ak_name k\<rparr>
      \<and> get_active_authorized_key_by_fingerprint (snd key) (sv_db sv) = Inr (Some k))"
    using assms auth_publickey_auth [of E]
    by (cases req) (auto simp: pty_request_def window_change_request_def Let_def split: prod.splits)
qed

text \<open>A login is a request in whose state its key was active.\<close>

definition logged_in :: "auth_info \<Rightarrow> (server \<times> label) list \<Rightarrow> bool" where
  "logged_in auth past \<longleftrightarrow> (\<exists>sv c user key k. (sv, Request c (AuthPublickey user key)) \<in> set past
     \<and> get_active_authorized_key_by_fingerprint (snd key) (sv_db sv) = Inr (Some k)
     \<and> auth = \<lparr>ai_key_id = ak_id k, ai_fingerprint = snd key, ai_name = ak_name k\<rparr>)"

lemma logged_in_mono: "logged_in auth past \<Longrightarrow> logged_in auth (x # past)"
  unfolding logged_in_def by (metis list.set_intros(2))

section \<open>A task's own steps\<close>

text \<open>The target is contacted in these phases.\<close>

fun contacting :: "bridge_phase \<Rightarrow> bool" where
  "contacting (BridgeConnect _) \<longleftrightarrow> True"
| "contacting (BridgeRelay _ _) \<longleftrightarrow> True"
| "contacting _ \<longleftrightarrow> False"

definition bridge_next :: "nat \<Rightarrow> managed_bridge_options \<Rightarrow> bool \<Rightarrow> server \<Rightarrow> bool" where
  "bridge_next t bo allowed sv \<longleftrightarrow> (case sv_tasks sv t of
     None \<Rightarrow> True
   | Some (BridgeTask b) \<Rightarrow> bt_options b = bo \<and> (contacting (bt_phase b) \<longrightarrow> allowed)
   | Some _ \<Rightarrow> False)"

lemma bridge_next_goto [simp]:
  "bridge_next t bo allowed (goto t b ph sv) \<longleftrightarrow> bt_options b = bo \<and> (contacting ph \<longrightarrow> allowed)"
  "bridge_next t bo allowed (put_task t None sv)"
  by (simp_all add: bridge_next_def)

lemma bridge_functions_next:
  "bridge_next t (bt_options b) al (bridge_start E now t b sv)"
  "bridge_next t (bt_options b) (key_can_access_asset (ai_key_id (bo_auth (bt_options b)))
    (as_id (bo_asset (bt_options b))) (sv_db sv)) (bridge_check t b sid sv)"
  "bridge_next t (bt_options b) True (bridge_connect E now t b sid P ms sv)"
  "bridge_next t (bt_options b) al (bridge_terminated t b sid ex sv)"
  "bridge_next t (bt_options b) True (bridge_target_message t b sid ex msg sv)"
  "bridge_next t (bt_options b) al (bridge_reply E t b te ex r sv)"
  "bridge_next t (bt_options b) al (bridge_reopen E now t b sv)"
  by (simp_all add: bridge_start_def bridge_check_def bridge_connect_def bridge_terminated_def
      bridge_target_message_def bridge_reply_def bridge_reopen_def Let_def
      split: prod.split sum.split option.split channel_msg.split)

definition may_contact :: "bridge_task \<Rightarrow> server \<Rightarrow> bool" where
  "may_contact b sv \<longleftrightarrow> contacting (bt_phase b)
     \<or> (\<exists>sid. bt_phase b = BridgeCheck sid) \<and> key_can_access_asset (ai_key_id (bo_auth (bt_options b)))
         (as_id (bo_asset (bt_options b))) (sv_db sv)"

lemma bridge_own:
  assumes "bridge_step E now t b (bt_phase b) ev sv = Some sv'"
  shows "bridge_next t (bt_options b) (may_contact b sv) sv'"
proof (cases "bt_phase b")
  case BridgeStart
  with assms bridge_functions_next show ?thesis by (cases ev) auto
next
  case (BridgeRegister i)
  with assms show ?thesis by (cases ev) auto
next
  case (BridgeCheck sid)
  with assms bridge_functions_next(2) [of t b sv sid] show ?thesis by (cases ev) (auto simp: may_contact_def)
next
  case (BridgeConnect sid)
  with assms bridge_functions_next show ?thesis by (cases ev) (auto simp: may_contact_def split: if_splits)
next
  case (BridgeRelay sid ex)
  with assms bridge_functions_next show ?thesis
    by (cases ev) (auto simp: may_contact_def split: if_splits list.splits)
next
  case (BridgeUnregister sid te ex r)
  with assms show ?thesis by (cases ev) (auto split: option.splits)
next
  case (BridgeFinish i te ex r)
  with assms show ?thesis by (cases ev) auto
next
  case (BridgeReply te ex r)
  with assms bridge_functions_next show ?thesis by (cases ev) auto
next
  case BridgeReopen
  with assms bridge_functions_next show ?thesis by (cases ev) auto
qed

definition proxy_next :: "nat \<Rightarrow> proxy_task \<Rightarrow> bool \<Rightarrow> server \<Rightarrow> bool" where
  "proxy_next t p allowed sv \<longleftrightarrow> (case sv_tasks sv t of
     None \<Rightarrow> True
   | Some (ProxyTask q) \<Rightarrow> pt_auth q = pt_auth p \<and> pt_asset q = pt_asset p
       \<and> (pt_phase q = ProxyCheck \<or> allowed)
   | Some _ \<Rightarrow> False)"

lemma proxy_next_pgoto [simp]:
  "proxy_next t p allowed (pgoto t q ph sv)
    \<longleftrightarrow> pt_auth q = pt_auth p \<and> pt_asset q = pt_asset p \<and> (ph = ProxyCheck \<or> allowed)"
  "proxy_next t p allowed (put_task t None sv)"
  by (simp_all add: proxy_next_def)

definition may_forward :: "proxy_task \<Rightarrow> server \<Rightarrow> bool" where
  "may_forward p sv \<longleftrightarrow> pt_phase p \<noteq> ProxyCheck
     \<or> key_can_access_asset (ai_key_id (pt_auth p)) (as_id (pt_asset p)) (sv_db sv)"

lemma proxy_own:
  assumes "proxy_step E now t p (pt_phase p) ev sv = Some sv'"
  shows "proxy_next t p (may_forward p sv) sv'"
  using assms
  by (cases "pt_phase p"; cases ev)
    (auto simp: may_forward_def proxy_check_def proxy_start_def proxy_register_def proxy_connect_def
      proxy_terminated_def proxy_relay_def Let_def
      split: if_splits prod.splits sum.splits relay_peer.splits relay_outcome.splits)

section \<open>Where a login comes from\<close>

lemma serve_api_handlers: "sv_handlers (serve_api A st header req sv) = sv_handlers sv"
  by (auto simp: serve_api_def signal_def Let_def split: prod.split option.split task.split)

definition login_of :: "nat \<Rightarrow> label \<Rightarrow> server \<Rightarrow> auth_info option \<Rightarrow> bool" where
  "login_of c l sv auth \<longleftrightarrow> (\<exists>user key k. l = Request c (AuthPublickey user key)
     \<and> auth = Some \<lparr>ai_key_id = ak_id k, ai_fingerprint = snd key, ai_name = ak_name k\<rparr>
     \<and> get_active_authorized_key_by_fingerprint (snd key) (sv_db sv) = Inr (Some k))"

lemma ssh_step_acting:
  "ssh_step E sv l sv' \<Longrightarrow> acting c sv' = None \<or> acting c sv' = acting c sv \<or> login_of c l sv (acting c sv')"
proof (induction rule: ssh_step.induct)
  case (accept sv addr)
  then show ?case by (simp add: acting_def accept_client_def new_client_def)
next
  case (request sv d req now)
  then obtain h where h: "sv_handlers sv d = Some h" by blast
  obtain h' sv1 r where c: "call_handler E now d req h sv = (h', sv1, r)" by (metis prod.exhaust)
  note keep = call_handler_auth(1) [OF c] and login = call_handler_auth(2) [OF c]
  show ?case
  proof (cases "d = c")
    case True
    with h c keep login show ?thesis
      by (cases r) (auto simp: serve_request_def acting_def login_of_def)
  next
    case False
    with h c keep show ?thesis by (simp add: serve_request_def acting_def)
  qed
qed (auto simp: acting_def serve_api_handlers
    dest!: step_makes dest: bridges.handlers proxies.handlers watchers.handlers)

lemma bridge_next_auth: "bridge_next t bo al sv \<Longrightarrow> sv_tasks sv t = Some task \<Longrightarrow> task_auth task = Some (bo_auth bo)"
  by (auto simp: bridge_next_def split: task.splits)

lemma proxy_next_auth: "proxy_next t p al sv \<Longrightarrow> sv_tasks sv t = Some task \<Longrightarrow> task_auth task = Some (pt_auth p)"
  by (auto simp: proxy_next_def split: task.splits)

lemma watcher_own: "watcher_step E now t w sv = Some sv' \<Longrightarrow> sv_tasks sv' t = None"
  by (auto simp: watcher_step_def watcher_signalled_def Let_def split: if_splits)

text \<open>A step's own task keeps the key it acts for.\<close>

lemma ssh_step_own_auth:
  "ssh_step E sv l sv' \<Longrightarrow> stepped l = Some t \<Longrightarrow> sv_tasks sv' t = Some task'
    \<Longrightarrow> \<exists>task. sv_tasks sv t = Some task \<and> task_auth task = task_auth task'"
proof (induction rule: ssh_step.induct)
  case (bridge sv u b now ev sv')
  then show ?case using bridge_next_auth [OF bridge_own] by fastforce
next
  case (proxy sv u p now pev sv')
  then show ?case using proxy_next_auth [OF proxy_own] by fastforce
next
  case (watcher sv u w now sv')
  then show ?case using watcher_own by fastforce
qed simp_all

lemma run_logged_in:
  assumes "ssh_run E (new_server db) past sv"
  shows "(\<forall>c auth. acting c sv = Some auth \<longrightarrow> logged_in auth past)
    \<and> (\<forall>t task auth. sv_tasks sv t = Some task \<longrightarrow> task_auth task = Some auth \<longrightarrow> logged_in auth past)"
  using assms
proof (induction rule: ssh_run.induct)
  case start
  then show ?case by (simp add: new_server_def acting_def)
next
  case (more past sv l sv')
  have act: "logged_in auth ((sv, l) # past)" if "acting c sv' = Some auth" for c auth
    using ssh_step_acting [OF more.hyps(2), of c] that
  proof (elim disjE)
    assume "login_of c l sv (acting c sv')"
    with that show ?thesis unfolding login_of_def logged_in_def by (metis list.set_intros(1) option.inject)
  qed (use that more.IH logged_in_mono in auto)
  have "logged_in auth ((sv, l) # past)"
    if t: "sv_tasks sv' t = Some task'" "task_auth task' = Some auth" for t task' auth
  proof (cases "\<exists>task. sv_tasks sv t = Some task \<and> task_auth task = Some auth")
    case True
    with more.IH logged_in_mono show ?thesis by blast
  next
    case False
    then have "stepped l \<noteq> Some t" using ssh_step_own_auth [OF more.hyps(2) _ t(1)] t(2) by fastforce
    from kept_task [OF ssh_step_kept [OF more.hyps(2)] t(1) this] t(2) False
    have "acting_for l sv = Some auth" by (auto dest: same_task_auth)
    then obtain c where "acting c sv = Some auth" by (cases l) auto
    with more.IH logged_in_mono show ?thesis by blast
  qed
  with act show ?case by blast
qed

section \<open>Where a connection comes from\<close>

fun reaching :: "task \<Rightarrow> (auth_info \<times> asset) option" where
  "reaching (BridgeTask b) = (if contacting (bt_phase b)
     then Some (bo_auth (bt_options b), bo_asset (bt_options b)) else None)"
| "reaching (ProxyTask p) = (if pt_phase p = ProxyCheck then None else Some (pt_auth p, pt_asset p))"
| "reaching (WatcherTask w) = None"

text \<open>An earlier step of the task found the key allowed to reach the target.\<close>

definition let_through :: "nat \<Rightarrow> auth_info \<Rightarrow> asset \<Rightarrow> (server \<times> label) list \<Rightarrow> bool" where
  "let_through t auth asset past \<longleftrightarrow> list_ex (\<lambda>(sv, l). stepped l = Some t
     \<and> key_can_access_asset (ai_key_id auth) (as_id asset) (sv_db sv)) past"

lemma ssh_step_own_reaching:
  "ssh_step E sv l sv' \<Longrightarrow> stepped l = Some t \<Longrightarrow> sv_tasks sv' t = Some task'
    \<Longrightarrow> reaching task' = Some (auth, asset)
    \<Longrightarrow> (\<exists>task. sv_tasks sv t = Some task \<and> reaching task = Some (auth, asset))
      \<or> key_can_access_asset (ai_key_id auth) (as_id asset) (sv_db sv)"
proof (induction rule: ssh_step.induct)
  case (bridge sv u b now ev sv')
  then show ?case using bridge_own [OF bridge(2)]
    by (auto simp: bridge_next_def may_contact_def split: task.splits if_splits)
next
  case (proxy sv u p now pev sv')
  then show ?case using proxy_own [OF proxy(2)]
    by (auto simp: proxy_next_def may_forward_def split: task.splits if_splits)
next
  case (watcher sv u w now sv')
  then show ?case using watcher_own by fastforce
qed simp_all

lemma same_task_reaching: "same_task x y \<Longrightarrow> reaching x = reaching y"
  by (cases x; cases y) auto

lemma first_not_reaching: "first_phase x \<Longrightarrow> reaching x = None"
  by (cases x) auto

lemma run_let_through:
  assumes "ssh_run E (new_server db) past sv"
    and "sv_tasks sv t = Some task" and "reaching task = Some (auth, asset)"
  shows "let_through t auth asset past"
  using assms
proof (induction arbitrary: task rule: ssh_run.induct)
  case start
  then show ?case by (simp add: new_server_def)
next
  case (more past sv l sv')
  show ?case
  proof (cases "\<exists>task. sv_tasks sv t = Some task \<and> reaching task = Some (auth, asset)")
    case True
    with more.IH show ?thesis by (auto simp: let_through_def)
  next
    case False
    have "stepped l = Some t"
      by (rule own_step [OF more.hyps(2) more.prems(1)])
        (use first_not_reaching same_task_reaching more.prems(2) False in fastforce)+
    with ssh_step_own_reaching [OF more.hyps(2) _ more.prems] False
    have "key_can_access_asset (ai_key_id auth) (as_id asset) (sv_db sv)" by blast
    with \<open>stepped l = Some t\<close> show ?thesis by (simp add: let_through_def)
  qed
qed

end
