(* ===== verification/Session_Trail.thy ===== *)
theory Session_Trail
  imports Ssh_History Apply_Frame
begin

text \<open>
  The audit trail of the running server. Nothing but \<open>start_session\<close> and \<open>finish_session\<close> changes the
  rows of sessions, and what a row says about who reached which target is never rewritten.
\<close>

section \<open>Operations that leave the rows alone\<close>

lemma sessions_kept_local:
  "t_sessions (fst (add_authorized_key_with_access X now n key mode ids db)) = t_sessions db"
  "t_sessions (fst (set_authorized_key_active now i active db)) = t_sessions db"
  "t_sessions (fst (set_authorized_key_access now i mode ids db)) = t_sessions db"
  "t_sessions (fst (add_credential X now n c db)) = t_sessions db"
  "t_sessions (fst (update_credential now i c db)) = t_sessions db"
  "t_sessions (fst (add_asset X now n a db)) = t_sessions db"
  "t_sessions (fst (update_asset X now i a db)) = t_sessions db"
  "t_sessions (fst (delete_local_resource rtype table i db)) = t_sessions db"
  by (auto simp: add_authorized_key_with_access_def set_authorized_key_active_def
      set_authorized_key_access_def add_credential_def update_credential_def add_asset_def
      update_asset_def write_asset_def delete_local_resource_def fst_commit fst_commit_read
      Let_def local_ops dest!: replace_assignments_frame split: sum.splits if_splits)

lemma sessions_kept_hosts:
  "t_sessions (fst (delete_known_host hn port kt db)) = t_sessions db"
  "t_sessions (fst (verify_or_learn now hn port pk db)) = t_sessions db"
  "t_sessions (fst (record_asset_health_success now i l db)) = t_sessions db"
  "t_sessions (fst (record_asset_health_failure now i c er db)) = t_sessions db"
  "t_sessions (fst (record_apply_failure X now n src actor e db)) = t_sessions db"
  by (auto simp: delete_known_host_def verify_or_learn_def upsert_known_host_def
      record_asset_health_success_def record_asset_health_failure_def record_apply_failure_def
      record_error_def fst_commit fst_commit_read commit_def Let_def local_ops
      split: sum.splits option.splits prod.splits)

lemma sessions_kept_apply:
  "t_sessions (fst (apply_manifest X now n k w master m src opts db)) = t_sessions db"
proof -
  have "t_sessions db' = t_sessions db"
    if "execute_plan X now n k p src g rev mk summary db = Inr db'" for p g rev mk summary db'
    using execute_plan_untouched [OF that] by (simp add: untouched_def)
  then show ?thesis
    by (auto simp: apply_manifest_def apply_with_def split: sum.split prod.split)
qed

lemma sessions_kept_diff: "t_sessions (fst (diff X now n k w master m src prune db)) = t_sessions db"
  by (simp add: diff_def sessions_kept_apply)

section \<open>The trail\<close>

text \<open>What a row says apart from how its session ended.\<close>

record session_identity =
  si_id :: string
  si_key_finger :: string
  si_key_name :: "string option"
  si_mode :: string
  si_asset_name :: "string option"
  si_target_host :: "string option"
  si_target_port :: "int option"
  si_client_ip :: "string option"
  si_started_at :: string

definition identity_of :: "session \<Rightarrow> session_identity" where
  "identity_of s = \<lparr>si_id = se_id s, si_key_finger = se_key_finger s, si_key_name = se_key_name s,
     si_mode = se_mode s, si_asset_name = se_asset_name s, si_target_host = se_target_host s,
     si_target_port = se_target_port s, si_client_ip = se_client_ip s, si_started_at = se_started_at s\<rparr>"

definition trail :: "catalog \<Rightarrow> session_identity list" where
  "trail db = map identity_of (t_sessions db)"

lemma trail_cong: "t_sessions db' = t_sessions db \<Longrightarrow> trail db' = trail db"
  by (simp add: trail_def)

lemma trail_finish [simp]: "trail (fst (finish_session now i st er db)) = trail db"
  by (auto simp: trail_def finish_session_def fst_commit enforce_Inr update_where_def identity_of_def
      split: sum.splits)

lemma trail_finish_eq: "finish_session now i st er db = (db', r) \<Longrightarrow> trail db' = trail db"
  using trail_finish [of now i st er db] by simp

lemma trail_start: "prefix (trail db) (trail (fst (start_session X now n s db)))"
  by (auto simp: trail_def start_session_def fst_commit_read insert_session_def enforce_Inr Let_def
      split: sum.splits)

lemma trail_dispatch: "trail (fst (fst (dispatch A st req w))) = trail (fst w)"
proof (cases req)
  case (PostTerminate i)
  then show ?thesis
    by (auto simp: api_terminate_session_def dest: trail_finish_eq
        split: prod.split sum.split terminate_session_result.split)
next
  case (PostDiff p src prune)
  then show ?thesis using sessions_kept_diff
    by (auto simp: on_catalog_def api_diff_def intro!: trail_cong split: prod.split sum.split)
      (metis fst_conv)
next
  case (PostApply r)
  then show ?thesis using sessions_kept_apply sessions_kept_hosts(5)
    by (auto simp: on_catalog_def api_apply_def note_failure_def intro!: trail_cong
        split: prod.split sum.split) (metis fst_conv)+
next
  case (DeleteKnownHost h p t c)
  then show ?thesis using sessions_kept_hosts(1)
    by (auto simp: on_catalog_def api_reset_known_host_def intro!: trail_cong split: prod.split sum.split)
      (metis fst_conv)+
qed (auto simp: on_catalog_def reading_def api_create_asset_def api_update_asset_def
    api_delete_asset_def api_delete_credential_def api_delete_access_key_def api_create_credential_def
    api_set_access_key_enabled_def api_set_access_key_access_def api_create_access_key_def
    api_update_credential_def delete_asset_def delete_credential_def delete_authorized_key_def
    fst_proceed sessions_kept_local Let_def intro!: trail_cong
    split: prod.splits sum.splits option.splits dest!: arg_cong [where f = fst])

lemma trail_handle: "handle A st header req w = (w', r) \<Longrightarrow> trail (fst w') = trail (fst w)"
  using trail_dispatch [of A st req w] by (auto simp: handle_def split: sum.splits)

section \<open>Steps of the server\<close>

abbreviation trail_of :: "server \<Rightarrow> session_identity list" where
  "trail_of sv \<equiv> trail (sv_db sv)"

lemma begin_session_trail:
  "begin_session E now ns sv = (sv', r) \<Longrightarrow> prefix (trail_of sv) (trail_of sv')"
  using trail_start [of "sv_db sv" "sx_ext E" now "sv_draws sv" ns]
  by (auto simp: begin_session_def on_db_def split: prod.splits)

lemma end_session_trail [simp]: "trail_of (fst (end_session now i st er sv)) = trail_of sv"
  by simp

lemma start_tui_session_trail:
  "start_tui_session E now auth ip sv = (sv', r) \<Longrightarrow> prefix (trail_of sv) (trail_of sv')"
  by (auto simp: start_tui_session_def split: prod.splits dest: begin_session_trail)

lemma audit_denied_trail: "prefix (trail_of sv) (trail_of (audit_denied_attempt E now auth mode an th tp ip sv))"
  by (auto simp: audit_denied_attempt_def split: prod.split sum.split dest: begin_session_trail)

lemma finish_tui_db [simp]: "trail_of (finish_tui now i st sv) = trail_of sv"
  by (simp add: finish_tui_def)

lemma spawn_db [simp]: "sv_db (fst (spawn task sv)) = sv_db sv"
  by (simp add: spawn_def)

lemma send_to_task_db [simp]: "sv_db (send_input t x sv) = sv_db sv" "sv_db (send_resize t y sv) = sv_db sv"
  by (simp_all add: send_input_def send_resize_def split: option.split task.split)

lemma start_managed_trail:
  "prefix (trail_of sv) (trail_of (fst (start_managed E now c h channel asset tui mode cmd sv)))"
  by (simp add: start_managed_def spawn_def audit_denied_trail split: option.split prod.split)

lemma start_managed_trail_eq:
  "start_managed E now c h channel asset tui mode cmd sv = (sv', r) \<Longrightarrow> prefix (trail_of sv) (trail_of sv')"
  using start_managed_trail [of sv E now c h channel asset tui mode cmd] by simp

lemma start_managed_trail_from:
  "trail_of sv1 = trail_of sv
    \<Longrightarrow> prefix (trail_of sv) (trail_of (fst (start_managed E now c h channel asset tui mode cmd sv1)))"
  using start_managed_trail [of sv1] by simp

lemma request_trail:
  "prefix (trail_of sv) (trail_of (fst (shell_request E now c h channel sv)))"
  "prefix (trail_of sv) (trail_of (fst (exec_request E now c h channel data sv)))"
  "prefix (trail_of sv) (trail_of (fst (subsystem_request E now c h channel name sv)))"
  "prefix (trail_of sv) (trail_of (fst (channel_open_direct_tcpip E now c h channel host port sv)))"
  "prefix (trail_of sv) (trail_of (fst (channel_data E now c h channel data sv)))"
  "trail_of (channel_eof E now c channel sv) = trail_of sv"
  "trail_of (channel_close E now c channel sv) = trail_of sv"
  "trail_of (snd (window_change_request E c h channel width height sv)) = trail_of sv"
proof -
  show "prefix (trail_of sv) (trail_of (fst (shell_request E now c h channel sv)))"
    by (auto simp: shell_request_def Let_def spawn_def intro!: start_managed_trail_from
        split: option.split sum.split prod.split dest: start_tui_session_trail)
  show "prefix (trail_of sv) (trail_of (fst (exec_request E now c h channel data sv)))"
    by (auto simp: exec_request_def split: option.split sum.split prod.split dest: start_managed_trail_eq)
  show "prefix (trail_of sv) (trail_of (fst (subsystem_request E now c h channel name sv)))"
    by (auto simp: subsystem_request_def intro!: start_managed_trail_from split: option.split)
  show "prefix (trail_of sv) (trail_of (fst (channel_open_direct_tcpip E now c h channel host port sv)))"
    by (simp add: channel_open_direct_tcpip_def audit_denied_trail split: option.split sum.split)
  show "prefix (trail_of sv) (trail_of (fst (channel_data E now c h channel data sv)))"
    by (auto simp: channel_data_def tui_data_def Let_def intro!: start_managed_trail_from
        split: option.split channel_state.split prod.split tui_action.split)
  show "trail_of (channel_eof E now c channel sv) = trail_of sv"
    "trail_of (channel_close E now c channel sv) = trail_of sv"
    by (simp_all add: channel_eof_def channel_close_def Let_def split: option.split channel_state.split)
  show "trail_of (snd (window_change_request E c h channel width height sv)) = trail_of sv"
    by (simp add: window_change_request_def Let_def split: option.split channel_state.split prod.split)
qed

lemma call_handler_trail:
  assumes "call_handler E now c req h sv = (h', sv', r)"
  shows "prefix (trail_of sv) (trail_of sv')"
  using assms
  by (cases req) (auto simp: pty_request_def request_trail split: prod.splits,
    (metis fst_conv snd_conv request_trail prefix_order.refl)+)

lemma bridge_trail:
  "prefix (trail_of sv) (trail_of (bridge_start E now t b sv))"
  "trail_of (bridge_check t b sid sv) = trail_of sv"
  "trail_of (bridge_terminated t b sid ex sv) = trail_of sv"
  "trail_of (bridge_target_message t b sid ex msg sv) = trail_of sv"
  "trail_of (bridge_finish E now i te r sv) = trail_of sv"
  "trail_of (bridge_reply E t b te ex r sv) = trail_of sv"
  "prefix (trail_of sv) (trail_of (bridge_reopen E now t b sv))"
  by (auto simp: bridge_start_def bridge_check_def bridge_terminated_def bridge_target_message_def
      bridge_finish_def bridge_reply_def bridge_reopen_def Let_def
      split: prod.split sum.split option.split channel_msg.split
      dest: begin_session_trail start_tui_session_trail)

lemma connect_asset_trail: "connect_asset E now bo P db = (db', r) \<Longrightarrow> trail db' = trail db"
proof -
  have "handshake now' a P db = (db1, q) \<Longrightarrow> trail db1 = trail db" for now' a db1 q
    using trail_cong [OF sessions_kept_hosts(2) [of now' "as_hostname a" "as_port a" "pe_key P" db]]
    by (auto simp: handshake_def check_server_key_def split: sum.splits prod.splits if_splits)
  then show "connect_asset E now bo P db = (db', r) \<Longrightarrow> trail db' = trail db"
    by (auto simp: connect_asset_def connect_asset_shell_def connect_asset_exec_def
        connect_asset_sftp_def connect_authenticated_asset_def Let_def
        split: managed_session_mode.splits prod.splits sum.splits)
qed

lemma bridge_connect_trail: "trail_of (bridge_connect E now t b sid P ms sv) = trail_of sv"
  using trail_cong [OF sessions_kept_hosts(3)] trail_cong [OF sessions_kept_hosts(4)]
  by (auto simp: bridge_connect_def Let_def split: prod.split sum.split dest: connect_asset_trail)

lemma bridge_step_trail:
  assumes "bridge_step E now t b (bt_phase b) ev sv = Some sv'"
  shows "prefix (trail_of sv) (trail_of sv')"
  using assms
  by (cases "bt_phase b"; cases ev)
    (auto simp: bridge_trail bridge_connect_trail split: if_splits list.splits option.splits)

lemma proxy_step_trail:
  assumes "proxy_step E now t p (pt_phase p) ev sv = Some sv'"
  shows "prefix (trail_of sv) (trail_of sv')"
  using assms trail_cong [OF sessions_kept_hosts(3)] trail_cong [OF sessions_kept_hosts(4)]
  by (cases "pt_phase p"; cases ev)
    (auto simp: proxy_check_def proxy_start_def proxy_register_def proxy_connect_def bridge_trail
      proxy_terminated_def proxy_relay_def Let_def audit_denied_trail dest: begin_session_trail
      split: if_splits prod.splits sum.splits relay_peer.splits relay_outcome.splits)

lemma signal_db [simp]: "sv_db (signal t sv) = sv_db sv"
  by (simp add: signal_def split: option.split task.split)

lemma serve_api_trail: "trail_of (serve_api A st header req sv) = trail_of sv"
proof -
  obtain w' r where h: "handle A st header req (sv_db sv, sv_reg sv) = (w', r)" by fastforce
  with trail_handle [OF h] show ?thesis
    by (cases w') (simp add: serve_api_def Let_def split: option.split)
qed

lemma watcher_step_trail: "watcher_step E now t w sv = Some sv' \<Longrightarrow> trail_of sv' = trail_of sv"
  by (auto simp: watcher_step_def watcher_signalled_def Let_def
      split: if_splits option.split channel_state.split)

lemma ssh_step_trail: "ssh_step E sv l sv' \<Longrightarrow> prefix (trail_of sv) (trail_of sv')"
proof (induction rule: ssh_step.induct)
  case (request sv c req now)
  then obtain h where h: "sv_handlers sv c = Some h" by blast
  obtain h' sv1 r where c: "call_handler E now c req h sv = (h', sv1, r)" by (metis prod.exhaust)
  with h call_handler_trail [OF c] show ?case by (simp add: serve_request_def)
next
  case (bridge sv t b now ev sv')
  from bridge_step_trail [OF bridge(2)] show ?case .
next
  case (proxy sv t p now pev sv')
  from proxy_step_trail [OF proxy(2)] show ?case .
next
  case (watcher sv t w now sv')
  from watcher_step_trail [OF watcher(2)] show ?case by simp
next
  case (api A sv areq st header)
  show ?case by (simp add: serve_api_trail)
next
  case (catalog sv db)
  from trail_cong [OF catalog(2)] show ?case by simp
qed (simp_all add: accept_client_def)

section \<open>Managed sessions are on record\<close>

fun task_target :: "task \<Rightarrow> (auth_info \<times> asset) option" where
  "task_target (BridgeTask b) = Some (bo_auth (bt_options b), bo_asset (bt_options b))"
| "task_target (ProxyTask p) = Some (pt_auth p, pt_asset p)"
| "task_target (WatcherTask w) = None"

text \<open>The trail says that this key went to this target in session \<open>i\<close>.\<close>

definition on_record :: "auth_info \<Rightarrow> asset \<Rightarrow> string \<Rightarrow> session_identity list \<Rightarrow> bool" where
  "on_record auth asset i xs \<longleftrightarrow> list_ex (\<lambda>x. si_id x = i \<and> si_key_finger x = ai_fingerprint auth
     \<and> si_key_name x = Some (ai_name auth) \<and> si_asset_name x = Some (as_name asset)
     \<and> si_target_host x = Some (as_hostname asset) \<and> si_target_port x = Some (as_port asset)) xs"

lemma on_record_prefix: "prefix xs ys \<Longrightarrow> on_record auth asset i xs \<Longrightarrow> on_record auth asset i ys"
  by (auto simp: on_record_def prefix_def)

lemma begin_session_record:
  assumes "begin_session E now (new_session_of auth mode (Some (as_name a)) (Some (as_hostname a))
      (Some (as_port a)) ip) sv = (sv', Inr s)"
  shows "on_record auth a (se_id s) (trail_of sv')"
proof -
  let ?ns = "new_session_of auth mode (Some (as_name a)) (Some (as_hostname a)) (Some (as_port a)) ip"
  obtain db where d: "start_session (sx_ext E) now (sv_draws sv) ?ns (sv_db sv) = (db, Inr s)"
    and sv': "sv_db sv' = db"
    using assms by (auto simp: begin_session_def on_db_def split: prod.splits)
  have "s = \<lparr>se_id = new_id (sx_ext E) (sv_draws sv), se_key_finger = ns_key_finger ?ns,
      se_key_name = ns_key_name ?ns, se_mode = ns_mode ?ns, se_asset_name = ns_asset_name ?ns,
      se_target_host = ns_target_host ?ns, se_target_port = ns_target_port ?ns,
      se_client_ip = ns_client_ip ?ns, se_status = ''started'', se_error = None,
      se_started_at = now, se_ended_at = None\<rparr>" (is "s = ?row")
    using d start_session_Inr(4) [OF d]
    by (auto simp: start_session_def Let_def insert_session_def result_simps)
  then show ?thesis using start_session_Inr(4) [OF d]
    by (simp add: sv' on_record_def trail_def identity_of_def new_session_of_def)
qed

definition session_next :: "nat \<Rightarrow> (string \<Rightarrow> bool) \<Rightarrow> server \<Rightarrow> bool" where
  "session_next t P sv \<longleftrightarrow> (\<forall>task i. sv_tasks sv t = Some task \<longrightarrow> task_session task = Some i \<longrightarrow> P i)"

lemma session_next_goto [simp]:
  "session_next t P (goto t b ph sv) \<longleftrightarrow> (\<forall>i. phase_session ph = Some i \<longrightarrow> P i)"
  "session_next t P (pgoto t p pph sv) \<longleftrightarrow> (\<forall>i. proxy_session pph = Some i \<longrightarrow> P i)"
  "session_next t P (put_task t None sv)"
  by (simp_all add: session_next_def)

abbreviation bridge_recorded :: "bridge_task \<Rightarrow> server \<Rightarrow> string \<Rightarrow> bool" where
  "bridge_recorded b sv i \<equiv> on_record (bo_auth (bt_options b)) (bo_asset (bt_options b)) i (trail_of sv)"

lemma bridge_functions_session:
  "session_next t (bridge_recorded b (bridge_start E now t b sv)) (bridge_start E now t b sv)"
  "session_next t (\<lambda>i. sid = Some i) (bridge_check t b sid sv)"
  "session_next t (\<lambda>i. sid = Some i) (bridge_connect E now t b sid P ms sv)"
  "session_next t (\<lambda>i. sid = Some i) (bridge_terminated t b sid ex sv)"
  "session_next t (\<lambda>i. sid = Some i) (bridge_target_message t b sid ex msg sv)"
  "session_next t Q (bridge_reply E t b te ex r sv)"
  "session_next t Q (bridge_reopen E now t b sv)"
proof -
  show "session_next t (bridge_recorded b (bridge_start E now t b sv)) (bridge_start E now t b sv)"
    by (auto simp: bridge_start_def Let_def dest: begin_session_record split: prod.split sum.split)
qed (simp_all add: bridge_check_def bridge_connect_def bridge_terminated_def
      bridge_target_message_def bridge_reply_def bridge_reopen_def Let_def
      split: prod.split sum.split option.split channel_msg.split)

lemma bridge_own_session:
  assumes "bridge_step E now t b (bt_phase b) ev sv = Some sv'"
  shows "session_next t (\<lambda>i. phase_session (bt_phase b) = Some i \<or> bridge_recorded b sv' i) sv'"
proof (cases "bt_phase b")
  case BridgeStart
  with assms have "ev = Proceed" "sv' = bridge_start E now t b sv" by (cases ev; simp)+
  with bridge_functions_session(1) [of t b E now sv] show ?thesis by (auto simp: session_next_def)
next
  case (BridgeRegister i)
  with assms show ?thesis by (cases ev) auto
next
  case (BridgeCheck sid)
  with assms bridge_functions_session(2) [of t sid b sv] show ?thesis
    by (cases ev) (auto simp: session_next_def)
next
  case (BridgeConnect sid)
  with assms bridge_functions_session(3,4) [of t sid] show ?thesis
    by (cases ev) (auto simp: session_next_def split: if_splits)
next
  case (BridgeRelay sid ex)
  with assms bridge_functions_session(4,5) [of t sid] show ?thesis
    by (cases ev) (auto simp: session_next_def split: if_splits list.splits sum.splits)
next
  case (BridgeUnregister sid te ex r)
  with assms show ?thesis by (cases ev) (auto split: option.splits)
next
  case (BridgeFinish i te ex r)
  with assms show ?thesis by (cases ev) auto
next
  case (BridgeReply te ex r)
  with assms bridge_functions_session(6) show ?thesis by (cases ev) auto
next
  case BridgeReopen
  with assms bridge_functions_session(7) show ?thesis by (cases ev) auto
qed

abbreviation proxy_recorded :: "proxy_task \<Rightarrow> server \<Rightarrow> string \<Rightarrow> bool" where
  "proxy_recorded p sv i \<equiv> on_record (pt_auth p) (pt_asset p) i (trail_of sv)"

lemma proxy_own_session:
  assumes "proxy_step E now t p (pt_phase p) ev sv = Some sv'"
  shows "session_next t (\<lambda>i. proxy_session (pt_phase p) = Some i \<or> proxy_recorded p sv' i) sv'"
  using assms
  by (cases "pt_phase p"; cases ev)
    (auto simp: proxy_check_def proxy_start_def proxy_register_def proxy_connect_def
      proxy_terminated_def proxy_relay_def Let_def dest: begin_session_record
      split: if_splits prod.splits sum.splits relay_peer.splits relay_outcome.splits)

lemma ssh_step_own_record:
  "ssh_step E sv l sv' \<Longrightarrow> stepped l = Some t \<Longrightarrow> sv_tasks sv' t = Some task'
    \<Longrightarrow> task_session task' = Some i \<Longrightarrow> task_target task' = Some (auth, asset)
    \<Longrightarrow> on_record auth asset i (trail_of sv')
      \<or> (\<exists>task. sv_tasks sv t = Some task \<and> task_session task = Some i \<and> task_target task = Some (auth, asset))"
proof (induction rule: ssh_step.induct)
  case (bridge sv u b now ev sv')
  then show ?case using bridge_own [OF bridge(2)] bridge_own_session [OF bridge(2)]
    by (auto simp: bridge_next_def session_next_def split: task.splits)
next
  case (proxy sv u p now pev sv')
  then show ?case using proxy_own [OF proxy(2)] proxy_own_session [OF proxy(2)]
    by (auto simp: proxy_next_def session_next_def split: task.splits)
next
  case (watcher sv u w now sv')
  then show ?case using watcher_own by fastforce
qed simp_all

lemma same_task_session: "same_task x y \<Longrightarrow> task_session x = task_session y \<and> task_target x = task_target y"
  by (cases x; cases y) auto

lemma first_no_session: "first_phase x \<Longrightarrow> task_session x = None"
  by (cases x) auto

lemma run_on_record:
  assumes "ssh_run E (new_server db) past sv" and "sv_tasks sv t = Some task"
    and "task_session task = Some i" and "task_target task = Some (auth, asset)"
  shows "on_record auth asset i (trail_of sv)"
  using assms
proof (induction arbitrary: task rule: ssh_run.induct)
  case start
  then show ?case by (simp add: new_server_def)
next
  case (more past sv l sv')
  note grow = on_record_prefix [OF ssh_step_trail [OF more.hyps(2)]]
  show ?case
  proof (cases "\<exists>old. sv_tasks sv t = Some old \<and> task_session old = Some i \<and> task_target old = Some (auth, asset)")
    case True
    with more.IH grow show ?thesis by blast
  next
    case False
    have "stepped l = Some t"
      by (rule own_step [OF more.hyps(2) more.prems(1)])
        (use first_no_session same_task_session more.prems(2,3) False in fastforce)+
    with ssh_step_own_record [OF more.hyps(2) _ more.prems] False show ?thesis by blast
  qed
qed

end
