(* ===== verification/Ssh_Endings.thy ===== *)
theory Ssh_Endings
  imports Session_Trail
begin

text \<open>
  How tasks end: the steps left to a task that is winding down, and the delivery of a termination
  signal, whatever the other tasks do meanwhile.
\<close>

section \<open>The steps left\<close>

fun bridge_rank :: "bridge_phase \<Rightarrow> nat" where
  "bridge_rank (BridgeUnregister _ _ _ _) = 4"
| "bridge_rank (BridgeFinish _ _ _ _) = 3"
| "bridge_rank (BridgeReply _ _ _) = 2"
| "bridge_rank BridgeReopen = 1"
| "bridge_rank _ = 0"

fun proxy_rank :: "proxy_phase \<Rightarrow> nat" where
  "proxy_rank (ProxyUnregister _ _ _) = 2"
| "proxy_rank (ProxyFinish _ _ _) = 1"
| "proxy_rank _ = 0"

fun steps_left :: "task \<Rightarrow> nat" where
  "steps_left (BridgeTask b) = bridge_rank (bt_phase b)"
| "steps_left (ProxyTask p) = proxy_rank (pt_phase p)"
| "steps_left (WatcherTask w) = 0"

text \<open>The task has ended, or has fewer than \<open>n\<close> steps left and is still winding down.\<close>

definition winding :: "nat \<Rightarrow> nat \<Rightarrow> server \<Rightarrow> bool" where
  "winding t n sv \<longleftrightarrow> (case sv_tasks sv t of None \<Rightarrow> True
     | Some task \<Rightarrow> 0 < steps_left task \<and> steps_left task < n)"

lemma winding_simps [simp]:
  "winding t n (goto t b ph sv) \<longleftrightarrow> 0 < bridge_rank ph \<and> bridge_rank ph < n"
  "winding t n (pgoto t p pph sv) \<longleftrightarrow> 0 < proxy_rank pph \<and> proxy_rank pph < n"
  "winding t n (put_task t None sv)"
  by (simp_all add: winding_def)

lemma bridge_winding:
  assumes "bridge_step E now t b (bt_phase b) ev sv = Some sv'" and "0 < bridge_rank (bt_phase b)"
  shows "winding t (bridge_rank (bt_phase b)) sv'"
proof -
  have "winding t 2 (bridge_reply E t b te ex r sv)" "winding t 1 (bridge_reopen E now t b sv)" for te ex r
    by (simp_all add: bridge_reply_def bridge_reopen_def Let_def split: prod.split sum.split option.split)
  with assms show ?thesis
    by (cases "bt_phase b"; cases ev) (auto split: option.splits)
qed

lemma proxy_winding:
  assumes "proxy_step E now t p (pt_phase p) ev sv = Some sv'" and "0 < proxy_rank (pt_phase p)"
  shows "winding t (proxy_rank (pt_phase p)) sv'"
  using assms by (cases "pt_phase p"; cases ev) auto

lemma ssh_step_winding:
  "ssh_step E sv l sv' \<Longrightarrow> stepped l = Some t \<Longrightarrow> sv_tasks sv t = Some task \<Longrightarrow> 0 < steps_left task
    \<Longrightarrow> winding t (steps_left task) sv'"
proof (induction rule: ssh_step.induct)
  case (bridge sv u b now ev sv')
  with bridge_winding [OF bridge(2)] show ?case by simp
next
  case (proxy sv u p now pev sv')
  with proxy_winding [OF proxy(2)] show ?case by simp
qed simp_all

lemma winding_progress:
  assumes "sv_tasks sv t = Some task" and "0 < steps_left task"
  shows "\<exists>l sv'. stepped l = Some t \<and> ssh_step E sv l sv'"
proof (cases task)
  case (BridgeTask b)
  have "bridge_step E [] t b (bt_phase b) Proceed sv \<noteq> None"
    using assms(2) unfolding BridgeTask by (cases "bt_phase b") (auto split: option.splits)
  with assms(1) BridgeTask ssh_step.bridge [where ev = Proceed] show ?thesis
    by (metis not_None_eq stepped.simps(1))
next
  case (ProxyTask p)
  have "proxy_step E [] t p (pt_phase p) ProxyProceed sv \<noteq> None"
    using assms(2) unfolding ProxyTask by (cases "pt_phase p") auto
  with assms(1) ProxyTask ssh_step.proxy [where pev = ProxyProceed] show ?thesis
    by (metis not_None_eq stepped.simps(2))
qed (use assms(2) in simp)

section \<open>Runs\<close>

definition own_steps :: "nat \<Rightarrow> (server \<times> label) list \<Rightarrow> nat" where
  "own_steps t past = length (filter (\<lambda>(_, l). stepped l = Some t) past)"

lemma same_task_left: "same_task x y \<Longrightarrow> steps_left x = steps_left y"
  by (cases x; cases y) auto

lemma stepped_exists: "ssh_step E sv l sv' \<Longrightarrow> stepped l = Some t \<Longrightarrow> sv_tasks sv t \<noteq> None"
  by (induction rule: ssh_step.induct) auto

lemma task_step_next: "ssh_step E sv l sv' \<Longrightarrow> stepped l = Some t \<Longrightarrow> sv_next sv' = sv_next sv"
  by (induction rule: ssh_step.induct) (auto dest!: step_makes dest: bridges.next_task proxies.next_task watchers.next_task)

lemma ssh_step_next: "ssh_step E sv l sv' \<Longrightarrow> sv_next sv \<le> sv_next sv'"
  using ssh_step_kept [of E sv l sv'] by (simp add: others_kept_def)

lemma run_next: "ssh_run E sv past sv' \<Longrightarrow> sv_next sv \<le> sv_next sv'"
  by (induction rule: ssh_run.induct) (auto dest: ssh_step_next)

text \<open>A task that is winding down takes at most the steps it has left.\<close>

lemma run_winding:
  assumes "ssh_run E sv past sv'" and "sv_tasks sv t = Some task" and "0 < steps_left task"
    and "t < sv_next sv"
  shows "(case sv_tasks sv' t of None \<Rightarrow> own_steps t past \<le> steps_left task
    | Some task' \<Rightarrow> 0 < steps_left task' \<and> own_steps t past + steps_left task' \<le> steps_left task)"
  using assms
proof (induction rule: ssh_run.induct)
  case start
  then show ?case by (simp add: own_steps_def)
next
  case (more past sv1 l sv2)
  note IH = more.IH [OF more.prems]
  have t: "t < sv_next sv1" using run_next [OF more.hyps(1)] more.prems(3) by simp
  show ?case
  proof (cases "stepped l = Some t")
    case True
    then obtain task1 where t1: "sv_tasks sv1 t = Some task1" using stepped_exists [OF more.hyps(2)] by blast
    with IH ssh_step_winding [OF more.hyps(2) True t1] True show ?thesis
      by (auto simp: winding_def own_steps_def split: option.splits)
  next
    case False
    from kept_old_task [OF ssh_step_kept [OF more.hyps(2)] t False] IH False show ?thesis
      by (auto simp: own_steps_def option_rel_Some1 option_rel_Some2 split: option.splits dest: same_task_left)
  qed
qed

text \<open>Without a step of its own a task stays as it is, a signal included.\<close>

lemma run_idle:
  assumes "ssh_run E sv past sv'" and "sv_tasks sv t = Some task" and "t < sv_next sv"
    and "own_steps t past = 0"
  shows "\<exists>task'. sv_tasks sv' t = Some task' \<and> same_task task task'"
  using assms
proof (induction rule: ssh_run.induct)
  case start
  then show ?case by simp
next
  case (more past sv1 l sv2)
  from more.prems(3) have idle: "own_steps t past = 0" "stepped l \<noteq> Some t"
    by (auto simp: own_steps_def split: if_splits)
  from more.IH [OF more.prems(1,2) idle(1)] obtain task1
    where t1: "sv_tasks sv1 t = Some task1" "same_task task task1" by blast
  have "t < sv_next sv1" using run_next [OF more.hyps(1)] more.prems(2) by simp
  from kept_old_task [OF ssh_step_kept [OF more.hyps(2)] this idle(2)] t1 show ?case
    by (auto simp: option_rel_Some1 intro: same_task_trans)
qed

section \<open>Termination\<close>

lemma finish_session_commits:
  assumes "constraints db"
  shows "finish_session now i st er db = (db\<lparr>t_sessions := update_where (\<lambda>s. se_id s = i)
    (\<lambda>s. s\<lparr>se_status := st, se_error := er, se_ended_at := Some now\<rparr>) (t_sessions db)\<rparr>, Inr ())"
proof -
  let ?f = "\<lambda>s :: session. s\<lparr>se_status := st, se_error := er, se_ended_at := Some now\<rparr>"
  have "map se_id (update_where (\<lambda>s. se_id s = i) ?f rows) = map se_id rows" for rows
    by (induction rows) (auto simp: update_where_def)
  with assms have "constraints (db\<lparr>t_sessions := update_where (\<lambda>s. se_id s = i) ?f (t_sessions db)\<rparr>)"
    by (simp add: constraints_def)
  then show ?thesis by (simp add: finish_session_def commit_def enforce_def)
qed

text \<open>A signal reaches the task that is registered for the session.\<close>

lemma serve_api_signals:
  assumes "sv_reg sv i = Some t" and "sv_tasks sv t = Some (BridgeTask b)"
    and "en_alive A = alive sv" and "authenticate (en_ext A) st header = Inr ()"
    and "constraints (sv_db sv)"
  shows "sv_tasks (serve_api A st header (PostTerminate i) sv) t = Some (BridgeTask (b\<lparr>bt_signalled := True\<rparr>))"
    "sv_next (serve_api A st header (PostTerminate i) sv) = sv_next sv"
    "snd (handle A st header (PostTerminate i) (sv_db sv, sv_reg sv)) = Inr (TerminateResponse i True)"
proof -
  have sig: "terminate (en_alive A) i (sv_reg sv) = (sv_reg sv, Some t, Signaled)"
    using assms(1-3) by (simp add: terminate_def alive_def)
  note fin = finish_session_commits [OF assms(5)]
  show "snd (handle A st header (PostTerminate i) (sv_db sv, sv_reg sv)) = Inr (TerminateResponse i True)"
    using sig assms(4) by (simp add: handle_def api_terminate_session_def fin)
  show "sv_tasks (serve_api A st header (PostTerminate i) sv) t = Some (BridgeTask (b\<lparr>bt_signalled := True\<rparr>))"
    "sv_next (serve_api A st header (PostTerminate i) sv) = sv_next sv"
    using sig assms(2,4)
    by (simp_all add: serve_api_def handle_def api_terminate_session_def fin signalled_task_def signal_def)
qed

text \<open>A signalled task that takes the signal ends in four steps, with its row finished.\<close>

definition terminated_row :: "string \<Rightarrow> session \<Rightarrow> bool" where
  "terminated_row i r \<longleftrightarrow> (se_id r = i \<longrightarrow> se_status r = ''terminated''
     \<and> se_error r = Some terminated_by_management \<and> se_ended_at r \<noteq> None)"

lemma termination_taken:
  assumes "bt_signalled b" and "contacting (bt_phase b)"
  shows "\<exists>ex sv0. bridge_step E now t b (bt_phase b) TakeTermination sv
      = Some (bridge_terminated t b (phase_session (bt_phase b)) ex sv0) \<and> sv_db sv0 = sv_db sv"
proof (cases "bt_phase b")
  case (BridgeConnect sid)
  with assms have "bridge_step E now t b (bt_phase b) TakeTermination sv
      = Some (bridge_terminated t b (phase_session (bt_phase b)) False sv)" by simp
  then show ?thesis by blast
next
  case (BridgeRelay sid ex)
  let ?ms = "[if bo_mode (bt_options b) = Exec then ToClientExtended (terminated_by_management @ [CHR 0x0A])
    else ToClient (crlf @ terminated_by_management @ crlf)]"
  from BridgeRelay assms have "bridge_step E now t b (bt_phase b) TakeTermination sv
      = Some (bridge_terminated t b (phase_session (bt_phase b)) ex (send (client_at (bt_options b)) ?ms sv))"
    by simp
  moreover have "sv_db (send (client_at (bt_options b)) ?ms sv) = sv_db sv" by (rule send_fields)
  ultimately show ?thesis by blast
qed (use assms in simp_all)

text \<open>The steps of a terminated bridge, one after the other.\<close>

lemma terminated_steps:
  assumes t: "sv_tasks sv t = Some (BridgeTask b)"
  shows "bt_phase b = BridgeUnregister (Some i) te ex r \<Longrightarrow>
      ssh_step E sv (BridgeStep t Proceed) (goto t b (BridgeFinish i te ex r) (unregister_session i sv))"
    "bt_phase b = BridgeFinish i te ex r \<Longrightarrow>
      ssh_step E sv (BridgeStep t Proceed) (goto t b (BridgeReply te ex r) (bridge_finish E [] i te r sv))"
    "bt_phase b = BridgeReply te ex r \<Longrightarrow>
      ssh_step E sv (BridgeStep t Proceed) (bridge_reply E t b te ex r sv)"
  by (rule ssh_step.bridge [OF t, where now = "[]"], simp)+

lemma terminated_rows:
  assumes "constraints (sv_db sv)"
  shows "list_all (terminated_row i) (t_sessions (sv_db (bridge_finish E now i True r sv)))"
proof -
  have rows: "list_all (terminated_row i) (update_where (\<lambda>s. se_id s = i) (\<lambda>s. s\<lparr>se_status := ''terminated'',
      se_error := Some terminated_by_management, se_ended_at := Some now\<rparr>) xs)" for xs
    by (induction xs) (simp_all add: update_where_def terminated_row_def)
  have "sv_db (bridge_finish E now i True r sv)
      = fst (finish_session now i ''terminated'' (Some terminated_by_management) (sv_db sv))"
    by (simp add: bridge_finish_def final_status_def)
  then show ?thesis using rows by (simp only: finish_session_commits [OF assms] fst_conv) simp
qed

lemma terminated_unwinds:
  assumes t: "sv_tasks sv t = Some (BridgeTask b)" and ph: "bt_phase b = BridgeUnregister (Some i) True ex r"
    and ok: "constraints (sv_db sv)"
  shows "\<exists>past sv'. ssh_run E sv past sv'
    \<and> map snd past = [BridgeStep t Proceed, BridgeStep t Proceed, BridgeStep t Proceed]
    \<and> sv_tasks sv' t = None \<and> sv_reg sv' i = None
    \<and> list_all (terminated_row i) (t_sessions (sv_db sv'))"
proof -
  let ?sv1 = "goto t b (BridgeFinish i True ex r) (unregister_session i sv)"
  let ?b1 = "b\<lparr>bt_phase := BridgeFinish i True ex r\<rparr>"
  let ?sv2 = "goto t ?b1 (BridgeReply True ex r) (bridge_finish E [] i True r ?sv1)"
  let ?b2 = "b\<lparr>bt_phase := BridgeReply True ex r\<rparr>"
  let ?sv3 = "bridge_reply E t ?b2 True ex r ?sv2"
  have s1: "ssh_step E sv (BridgeStep t Proceed) ?sv1" by (rule terminated_steps(1) [OF t ph])
  have t1: "sv_tasks ?sv1 t = Some (BridgeTask ?b1)" by simp
  have s2: "ssh_step E ?sv1 (BridgeStep t Proceed) ?sv2" by (rule terminated_steps(2) [OF t1]) simp
  have t2: "sv_tasks ?sv2 t = Some (BridgeTask ?b2)" by simp
  have s3: "ssh_step E ?sv2 (BridgeStep t Proceed) ?sv3" by (rule terminated_steps(3) [OF t2]) simp
  have done3: "sv_tasks ?sv3 t = None" "sv_reg ?sv3 = sv_reg ?sv2" "sv_db ?sv3 = sv_db ?sv2"
    by (simp_all add: bridge_reply_def Let_def)
  have "sv_reg ?sv2 i = None" by (simp add: bridge_finish_def unregister_session_def unregister_def)
  moreover have "list_all (terminated_row i) (t_sessions (sv_db ?sv2))"
    unfolding goto_fields by (rule terminated_rows) (simp add: ok unregister_session_def)
  moreover have "ssh_run E sv [(?sv2, BridgeStep t Proceed), (?sv1, BridgeStep t Proceed),
      (sv, BridgeStep t Proceed)] ?sv3"
    by (rule ssh_run.more [OF ssh_run.more [OF ssh_run.more [OF ssh_run.start s1] s2] s3])
  ultimately show ?thesis using done3 by fastforce
qed

lemma ssh_run_append: "ssh_run E b q c \<Longrightarrow> ssh_run E a p b \<Longrightarrow> ssh_run E a (q @ p) c"
  by (induction rule: ssh_run.induct) (auto intro: ssh_run.more)

lemma bridge_takes_termination:
  assumes t: "sv_tasks sv t = Some (BridgeTask b)" and "bt_signalled b" and "contacting (bt_phase b)"
    and "phase_session (bt_phase b) = Some i" and "constraints (sv_db sv)"
  shows "\<exists>past sv'. ssh_run E sv past sv'
    \<and> map snd past = [BridgeStep t Proceed, BridgeStep t Proceed, BridgeStep t Proceed,
        BridgeStep t TakeTermination]
    \<and> sv_tasks sv' t = None \<and> sv_reg sv' i = None
    \<and> list_all (terminated_row i) (t_sessions (sv_db sv'))"
proof -
  from termination_taken [OF assms(2,3), of E "[]" t sv] obtain ex sv0 where
    one: "bridge_step E [] t b (bt_phase b) TakeTermination sv
      = Some (bridge_terminated t b (phase_session (bt_phase b)) ex sv0)" and db0: "sv_db sv0 = sv_db sv"
    by blast
  let ?sv1 = "bridge_terminated t b (Some i) ex sv0"
  let ?b1 = "b\<lparr>bt_signalled := False, bt_phase := BridgeUnregister (Some i) True ex (Inr ())\<rparr>"
  have t1: "sv_tasks ?sv1 t = Some (BridgeTask ?b1)" "constraints (sv_db ?sv1)"
    using assms(5) by (simp_all add: bridge_terminated_def db0)
  have "ssh_step E sv (BridgeStep t TakeTermination) ?sv1"
    using ssh_step.bridge [OF t one] unfolding assms(4) .
  from ssh_run.more [OF ssh_run.start this]
  have first: "ssh_run E sv [(sv, BridgeStep t TakeTermination)] ?sv1" .
  have ph: "bt_phase ?b1 = BridgeUnregister (Some i) True ex (Inr ())" by simp
  from terminated_unwinds [OF t1(1) ph t1(2), of E] obtain past sv' where
    r: "ssh_run E ?sv1 past sv'"
      "map snd past = [BridgeStep t Proceed, BridgeStep t Proceed, BridgeStep t Proceed]"
      "sv_tasks sv' t = None" "sv_reg sv' i = None" "list_all (terminated_row i) (t_sessions (sv_db sv'))"
    by (elim exE conjE) (rule that)
  from ssh_run_append [OF r(1) first] r(2-5) show ?thesis
    by (intro exI [of _ "past @ [(sv, BridgeStep t TakeTermination)]"] exI [of _ sv']) simp
qed

end
