(* ===== verification/Ssh_Examples.thy ===== *)
theory Ssh_Examples
  imports Ssh_Endings Examples
begin

text \<open>
  A server to apply the theorems to: a catalog with one SSH asset, its credential and one key for all
  assets, and a scheduler that carries out a list of labels, so that a run is computed.
\<close>

section \<open>Carrying out labels\<close>

text \<open>Requests of the control API and changes of the catalog are not scheduled.\<close>

fun carry_out :: "ssh_env \<Rightarrow> string \<Rightarrow> label \<Rightarrow> server \<Rightarrow> server option" where
  "carry_out E now Accept sv = Some (accept_client now sv)"
| "carry_out E now (Request c req) sv =
     (if sv_handlers sv c = None then None else Some (serve_request E now c req sv))"
| "carry_out E now (Disconnect c) sv =
     (if sv_handlers sv c = None then None else Some (sv\<lparr>sv_handlers := (sv_handlers sv)(c := None)\<rparr>))"
| "carry_out E now (BridgeStep t ev) sv =
     (case sv_tasks sv t of Some (BridgeTask b) \<Rightarrow> bridge_step E now t b (bt_phase b) ev sv | _ \<Rightarrow> None)"
| "carry_out E now (ProxyStep t ev) sv =
     (case sv_tasks sv t of Some (ProxyTask p) \<Rightarrow> proxy_step E now t p (pt_phase p) ev sv | _ \<Rightarrow> None)"
| "carry_out E now (WatcherStep t) sv =
     (case sv_tasks sv t of Some (WatcherTask w) \<Rightarrow> watcher_step E now t w sv | _ \<Rightarrow> None)"
| "carry_out E now _ sv = None"

lemma carry_out_step: "carry_out E now l sv = Some sv' \<Longrightarrow> ssh_step E sv l sv'"
  by (induction E now l sv rule: carry_out.induct)
    (auto intro: ssh_step.intros split: if_splits option.splits task.splits)

text \<open>The labels in order, with what happened before, newest first.\<close>

fun carry_all ::
  "ssh_env \<Rightarrow> string \<Rightarrow> label list \<Rightarrow> (server \<times> label) list \<Rightarrow> server \<Rightarrow> ((server \<times> label) list \<times> server) option" where
  "carry_all E now [] past sv = Some (past, sv)"
| "carry_all E now (l # ls) past sv =
     (case carry_out E now l sv of None \<Rightarrow> None | Some sv' \<Rightarrow> carry_all E now ls ((sv, l) # past) sv')"

lemma carry_all_run:
  "carry_all E now ls past sv = Some (past', sv') \<Longrightarrow> ssh_run E sv0 past sv \<Longrightarrow> ssh_run E sv0 past' sv'"
  by (induction ls arbitrary: past sv)
    (auto intro: ssh_run.more carry_out_step split: option.splits)

section \<open>A catalog and a server\<close>

definition demo_secret :: string where
  "demo_secret = (case encrypt_envelope sample_ext 0 ''m'' ''c:password'' ''pw'' of Inr e \<Rightarrow> e | Inl _ \<Rightarrow> [])"

definition demo_db :: catalog where
  "demo_db = fst (add_authorized_key_with_access sample_ext ''t'' 1 (new_authorized_key_of ''op'' ''k op'' ''fp'') All []
     (fst (add_asset sample_ext ''t'' 1 ((new_asset_of ''box'' ''10.0.0.1'' 22)\<lparr>na_credential_id := Some ''c''\<rparr>)
       (fst (add_credential sample_ext ''t'' 0 \<lparr>nc_id = Some ''c'', nc_name = ''root'', nc_username = ''root'',
          nc_auth_type = Password, nc_password_enc = Some demo_secret, nc_private_key_enc = None,
          nc_passphrase_enc = None\<rparr> baseline)))))"

lemma demo_db_wf: "catalog_wf demo_db"
proof -
  have ok: "step_ok db db' \<Longrightarrow> catalog_wf db \<Longrightarrow> catalog_wf db'" for db db' by (simp add: step_ok_def)
  show ?thesis unfolding demo_db_def
    by (intro ok [OF add_authorized_key_ok] ok [OF add_asset_ok] ok [OF add_credential_ok] catalog_wf_baseline)
qed

definition demo_term :: term_env where
  "demo_term = \<lparr>tm_layout = (\<lambda>_ r. [r]), tm_width = length, tm_paint = (\<lambda>_ _ _. []), tm_enter = [],
     tm_leave = [], tm_clear = [], tm_events = (\<lambda>_ _. []), tm_fuzzy = (\<lambda>_ names. names)\<rparr>"

definition demo_env :: ssh_env where
  "demo_env = \<lparr>sx_ext = sample_ext, sx_term = demo_term, sx_config = default_config, sx_master = ''m'',
     sx_error_text = (\<lambda>_. ''error'')\<rparr>"

lemma demo_draws: "distinct_draws demo_env"
  using sample_inj by (simp add: distinct_draws_def demo_env_def)

text \<open>A client logs in to the asset and runs a command; its task is number 1.\<close>

definition demo_labels :: "label list" where
  "demo_labels = [Accept, Request 0 (AuthPublickey ''box'' (''ssh-ed25519'', ''fp'')),
     Request 0 (ExecRequest 7 ''ls''), BridgeStep 1 Proceed, BridgeStep 1 Proceed, BridgeStep 1 Proceed]"

definition demo_run :: "(server \<times> label) list \<times> server" where
  "demo_run = (case carry_all demo_env ''t'' demo_labels [] (new_server demo_db) of
     Some r \<Rightarrow> r | None \<Rightarrow> ([], new_server demo_db))"

lemma demo_carried: "carry_all demo_env ''t'' demo_labels [] (new_server demo_db) \<noteq> None"
  by code_simp

end
