(* ===== verification/Ssh_Client_Facts.thy ===== *)
theory Ssh_Client_Facts
  imports Ssh_Bridge
begin

text \<open>What a connection to a target asks of it, and when: facts about the runs of \<open>ssh/client.rs\<close>.\<close>

section \<open>Runs\<close>

lemma run_then_requests:
  "set (fst (run_then r f)) \<subseteq> set (fst r) \<union> (case snd r of Inl _ \<Rightarrow> {} | Inr x \<Rightarrow> set (fst (f x)))"
  by (auto simp: run_then_def split: prod.splits sum.splits)

lemma run_then_member:
  "q \<in> set (fst (run_then r f)) \<longleftrightarrow> q \<in> set (fst r) \<or> (\<exists>x. snd r = Inr x \<and> q \<in> set (fst (f x)))"
  by (auto simp: run_then_def split: prod.splits sum.splits)

lemma run_then_Inr: "snd (run_then r f) = Inr y \<longleftrightarrow> (\<exists>x. snd r = Inr x \<and> snd (f x) = Inr y)"
  by (auto simp: run_then_def split: prod.splits sum.splits)

lemma ask_simps [simp]:
  "fst (ask P q) = [q]" "snd (ask P q) = Inr b \<longleftrightarrow> pe_request P q = Inr b"
  by (auto simp: ask_def map_err_def split: sum.splits)

lemma lift_run_simps [simp]:
  "fst (lift_run r) = []" "snd (lift_run r) = r" "fst (fail e) = []" "snd (fail e) = Inl e"
  by (simp_all add: lift_run_def fail_def)

lemmas run_simps = run_then_member run_then_Inr

section \<open>Authentication\<close>

definition is_auth :: "client_request \<Rightarrow> bool" where
  "is_auth q \<longleftrightarrow> (\<exists>u s. q = AuthPassword u s) \<or> (\<exists>u s pp. q = AuthKey u s pp)"

text \<open>What the credential says is sent: its user name with its decrypted secrets.\<close>

definition presents :: "ext \<Rightarrow> master_key \<Rightarrow> credential \<Rightarrow> client_request \<Rightarrow> bool" where
  "presents X master c q \<longleftrightarrow>
     (\<exists>s. q = AuthPassword (cr_username c) s
        \<and> decrypt_field X master c ''password'' (cr_password_enc c) = Inr s)
     \<or> (\<exists>s pp. q = AuthKey (cr_username c) s pp
        \<and> decrypt_field X master c ''private_key'' (cr_private_key_enc c) = Inr s
        \<and> opt_mapE (\<lambda>e. decrypt_field X master c ''passphrase'' (Some e)) (cr_passphrase_enc c) = Inr pp)"

lemma authenticate_requests:
  "q \<in> set (fst (authenticate_target X P c master)) \<Longrightarrow> presents X master c q"
  by (auto simp: authenticate_target_def run_simps presents_def split: if_splits)

lemma authenticate_accepted:
  assumes "snd (authenticate_target X P c master) = Inr ()"
  shows "\<exists>q \<in> set (fst (authenticate_target X P c master)). is_auth q \<and> pe_request P q = Inr True"
proof -
  from assms obtain t where t: "auth_type_try_from (cr_auth_type c) = Inr t"
    by (auto simp: authenticate_target_def run_simps result_simps)
  show ?thesis
  proof (cases "t = Password")
    case True
    with assms t obtain pw where pw: "decrypt_field X master c ''password'' (cr_password_enc c) = Inr pw"
      "pe_request P (AuthPassword (cr_username c) pw) = Inr True"
      by (auto simp: authenticate_target_def run_simps split: if_splits)
    with t True have "AuthPassword (cr_username c) pw \<in> set (fst (authenticate_target X P c master))"
      by (auto simp: authenticate_target_def run_simps)
    with pw show ?thesis unfolding is_auth_def by blast
  next
    case False
    with assms t obtain pk pp where k:
      "decrypt_field X master c ''private_key'' (cr_private_key_enc c) = Inr pk"
      "opt_mapE (\<lambda>e. decrypt_field X master c ''passphrase'' (Some e)) (cr_passphrase_enc c) = Inr pp"
      "secret_key_ok X pk pp" "pe_rsa_hash P = Inr ()" "pe_request P (AuthKey (cr_username c) pk pp) = Inr True"
      by (auto simp: authenticate_target_def run_simps result_simps split: if_splits)
    with t False have "AuthKey (cr_username c) pk pp \<in> set (fst (authenticate_target X P c master))"
      by (auto simp: authenticate_target_def run_simps)
    with k show ?thesis unfolding is_auth_def by blast
  qed
qed

section \<open>The host key\<close>

lemma learned_host:
  assumes "verify_or_learn now host port key db = (db', Inr True)"
  shows "\<exists>h. get_known_host host port (fst key) db' = Some h \<and> kh_fingerprint h = snd key"
    "get_known_host host port (fst key) db = Some h0 \<Longrightarrow> kh_fingerprint h0 = snd key"
proof -
  show "kh_fingerprint h0 = snd key" if "get_known_host host port (fst key) db = Some h0"
    using assms that by (simp add: verify_or_learn_def Let_def)
  show "\<exists>h. get_known_host host port (fst key) db' = Some h \<and> kh_fingerprint h = snd key"
  proof (cases "get_known_host host port (fst key) db")
    case (Some h)
    with assms show ?thesis by (simp add: verify_or_learn_def Let_def)
  next
    case None
    let ?new = "\<lparr>kh_hostname = host, kh_port = port, kh_key_type = fst key, kh_fingerprint = snd key,
      kh_first_seen = now\<rparr>"
    from None have none: "\<not> (\<exists>r \<in> set (t_known_hosts db). same_host host port (fst key) r)"
      by (auto simp: get_known_host_def find_None_iff)
    with assms None have "t_known_hosts db' = t_known_hosts db @ [?new]"
      by (auto simp: verify_or_learn_def Let_def upsert_known_host_def result_simps upsert_where_def
          split: prod.splits sum.splits)
    moreover have "find (same_host host port (fst key)) (xs @ [?new]) = Some ?new"
      if "\<not> (\<exists>r \<in> set xs. same_host host port (fst key) r)" for xs
      using that by (induction xs) (auto simp: same_host_def)
    ultimately show ?thesis using none by (simp add: get_known_host_def)
  qed
qed

lemma handshake_accepted:
  "handshake now a P db = (db', Inr u)
    \<Longrightarrow> verify_or_learn now (as_hostname a) (as_port a) (pe_key P) db = (db', Inr True)"
  by (auto simp: handshake_def check_server_key_def map_err_def split: sum.splits prod.splits if_splits)

text \<open>Everything a connection asks for after reaching its target.\<close>

lemma connect_authenticated_requests:
  assumes c: "connect_authenticated_asset X now master a P db = (db', session)"
    and q: "q \<in> set (fst session)" "is_auth q"
  shows "verify_or_learn now (as_hostname a) (as_port a) (pe_key P) db = (db', Inr True)"
    "\<exists>i cr. as_credential_id a = Some i \<and> get_credential i db = Some cr \<and> presents X master cr q"
proof -
  from c q obtain i cr port where i: "as_credential_id a = Some i" "get_credential i db = Some cr"
      "validate_tcp_port (as_port a) = Inr port"
    by (auto simp: connect_authenticated_asset_def fail_def result_simps split: sum.splits)
  from c i have s: "session = run_then ([ConnectTo (as_hostname a) port], snd (handshake now a P db))
      (\<lambda>_. authenticate_target X P cr master)" and db': "db' = fst (handshake now a P db)"
    by (auto simp: connect_authenticated_asset_def split: prod.splits)
  from q s obtain u where "snd (handshake now a P db) = Inr u"
      "q \<in> set (fst (authenticate_target X P cr master))"
    by (auto simp: run_simps is_auth_def)
  with handshake_accepted [of now a P db db' u] db' i authenticate_requests
  show "verify_or_learn now (as_hostname a) (as_port a) (pe_key P) db = (db', Inr True)"
    "\<exists>i cr. as_credential_id a = Some i \<and> get_credential i db = Some cr \<and> presents X master cr q"
    by (auto simp: prod_eq_iff)
qed

lemma connect_authenticated_accepted:
  assumes c: "connect_authenticated_asset X now master a P db = (db', session)" and "snd session = Inr u"
  shows "\<exists>q \<in> set (fst session). is_auth q \<and> pe_request P q = Inr True"
proof -
  from c assms(2) obtain i cr port where i: "as_credential_id a = Some i" "get_credential i db = Some cr"
      "validate_tcp_port (as_port a) = Inr port"
    by (auto simp: connect_authenticated_asset_def fail_def result_simps split: sum.splits)
  from c i have s: "session = run_then ([ConnectTo (as_hostname a) port], snd (handshake now a P db))
      (\<lambda>_. authenticate_target X P cr master)"
    by (auto simp: connect_authenticated_asset_def split: prod.splits)
  with assms(2) have "snd (authenticate_target X P cr master) = Inr ()" by (auto simp: run_simps)
  from authenticate_accepted [OF this] s assms(2) show ?thesis by (auto simp: run_simps)
qed

text \<open>The three ways of using a connection ask for nothing else than it before it is accepted.\<close>

lemma connect_asset_requests:
  assumes "connect_asset E now bo P db = (db', r)"
  shows "\<exists>session. connect_authenticated_asset (sx_ext E) now (sx_master E) (bo_asset bo) P db = (db', session)
    \<and> set (fst session) \<subseteq> set (fst r)
    \<and> (\<forall>q \<in> set (fst r). q \<in> set (fst session) \<or> (\<not> is_auth q \<and> snd session = Inr ()))
    \<and> (snd r = Inr () \<longrightarrow> snd session = Inr ())"
proof -
  obtain session where s: "connect_authenticated_asset (sx_ext E) now (sx_master E) (bo_asset bo) P db
      = (db', session)"
    using assms by (auto simp: connect_asset_def connect_asset_shell_def connect_asset_exec_def
        connect_asset_sftp_def Let_def split: managed_session_mode.splits prod.splits)
  then have "set (fst session) \<subseteq> set (fst r)
    \<and> (\<forall>q \<in> set (fst r). q \<in> set (fst session) \<or> (\<not> is_auth q \<and> snd session = Inr ()))
    \<and> (snd r = Inr () \<longrightarrow> snd session = Inr ())"
    using assms by (auto simp: connect_asset_def connect_asset_shell_def connect_asset_exec_def
        connect_asset_sftp_def Let_def run_simps is_auth_def
        split: managed_session_mode.splits prod.splits option.splits)
  with s show ?thesis by blast
qed

end
