(* ===== verification/Ssh_Properties.thy ===== *)
theory Ssh_Properties
  imports Ssh_Examples Ssh_Client_Facts
begin

text \<open>
  The properties of the SSH side: who logs in, that a target is reached only by a key the catalog lets
  through and only with a trace in the audit trail, which secrets leave the server, and how sessions
  end.
\<close>

section \<open>Logging in\<close>

lemma active_key:
  assumes "get_active_authorized_key_by_fingerprint fp db = Inr (Some k)"
  shows "\<exists>row \<in> set (t_access_keys db). k_fingerprint row = fp \<and> k_enabled row
    \<and> k_id row = ak_id k \<and> k_name row = ak_name k"
proof -
  from assms obtain row where row: "find (\<lambda>k. k_fingerprint k = fp \<and> k_enabled k) (t_access_keys db) = Some row"
    "authorized_key_try_from (key_row_of row) = Inr k"
    by (auto simp: get_active_authorized_key_by_fingerprint_def opt_mapE_def and_then_Inr
        split: option.splits)
  from row(1) have "row \<in> set (t_access_keys db)" "k_fingerprint row = fp" "k_enabled row"
    by (auto simp: find_Some_iff)
  moreover from row(2) have "k_id row = ak_id k" "k_name row = ak_name k"
    by (auto simp: authorized_key_try_from_def key_row_of_def result_simps)
  ultimately show ?thesis by blast
qed

definition login_name_ok :: "string \<Rightarrow> bool" where
  "login_name_ok user \<longleftrightarrow> trim user \<noteq> [] \<and> CHR ''@'' \<notin> set (trim user) \<and> \<not> contains_whitespace (trim user)"

lemma parsed_login_name:
  "parse_direct_username user = Inr req \<Longrightarrow> login_name_ok user \<and> req = Some \<lparr>dl_target = trim user\<rparr>"
  by (simp add: parse_direct_username_def login_name_ok_def Let_def split: if_splits)

lemma resolved_direct:
  assumes "resolve_direct_asset_for_key X user key_id db = Inr r"
  shows "login_name_ok user"
    "r = Some a \<Longrightarrow> find_direct_asset_for_key X key_id (trim user) db = Inr (Some a) \<and> as_credential_id a \<noteq> None"
proof -
  from assms obtain req where req: "parse_direct_username user = Inr req"
    by (auto simp: resolve_direct_asset_for_key_def and_then_Inr)
  with parsed_login_name show "login_name_ok user" by blast
  show "find_direct_asset_for_key X key_id (trim user) db = Inr (Some a) \<and> as_credential_id a \<noteq> None"
    if "r = Some a"
    using assms that req parsed_login_name [OF req]
    by (auto simp: resolve_direct_asset_for_key_def and_then_Inr map_err_Inr split: option.splits if_splits)
qed

lemma resolved_direct_asset:
  assumes "resolve_direct_asset_for_key X user key_id db = Inr (Some a)"
  shows "key_can_access_asset key_id (as_id a) db \<and> as_credential_id a \<noteq> None
    \<and> (as_name a = trim user \<or> as_hostname a = trim user)"
proof -
  note d = resolved_direct(2) [OF assms refl]
  from find_direct_scoped [OF conjunct1 [OF d]] obtain row where row: "row \<in> set (scoped_assets db key_id)"
    "asset_try_from X (asset_row_of row) = Inr a" "a_name row = trim user \<or> a_host row = trim user" by blast
  have "as_name a = a_name row" "as_hostname a = a_host row"
    using row(2) by (auto simp: asset_try_from_def asset_row_of_def and_then_Inr)
  moreover from row(1) asset_try_from_Inr(1) [OF row(2)] have "key_can_access_asset key_id (as_id a) db"
    by (auto simp: key_can_access_scoped)
  ultimately show ?thesis using d row(3) by simp
qed

text \<open>
  C20. A client logs in only with an enabled key of the catalog and a well-formed user name, as that
  key; a target it thereby names is one the key may reach, named so, with a credential. Otherwise
  the connection stays as it was. Offering a key is answered like using it.
\<close>

theorem ssh_login:
  assumes "auth_publickey E user key h sv = (h', r)"
  shows "auth_publickey_offered E user key sv = r
    \<and> (r = Inr True \<or> h' = h)
    \<and> (r \<noteq> Inr True \<or> list_ex (\<lambda>k. k_fingerprint k = snd key \<and> k_enabled k \<and> login_name_ok user
        \<and> hd_auth h' = Some \<lparr>ai_key_id = k_id k, ai_fingerprint = snd key, ai_name = k_name k\<rparr>
        \<and> (case hd_direct_asset h' of None \<Rightarrow> True
           | Some a \<Rightarrow> key_can_access_asset (k_id k) (as_id a) (sv_db sv) \<and> as_credential_id a \<noteq> None
               \<and> (as_name a = trim user \<or> as_hostname a = trim user))) (t_access_keys (sv_db sv)))"
proof (cases "get_active_authorized_key_by_fingerprint (snd key) (sv_db sv)")
  case (Inr found)
  show ?thesis
  proof (cases found)
    case (Some k)
    from active_key [OF Inr [unfolded Some]] obtain row where row: "row \<in> set (t_access_keys (sv_db sv))"
      "k_fingerprint row = snd key" "k_enabled row" "k_id row = ak_id k" "k_name row = ak_name k" by blast
    show ?thesis
    proof (cases "resolve_direct_asset_for_key (sx_ext E) user (ak_id k) (sv_db sv)")
      case (Inr d)
      with assms \<open>_ = Inr found\<close> Some have h': "r = Inr True" "hd_direct_asset h' = d"
        "hd_auth h' = Some \<lparr>ai_key_id = k_id row, ai_fingerprint = snd key, ai_name = k_name row\<rparr>"
        "auth_publickey_offered E user key sv = Inr True"
        by (auto simp: auth_publickey_def auth_publickey_offered_def map_err_def row(4,5))
      have "case d of None \<Rightarrow> True | Some a \<Rightarrow> key_can_access_asset (k_id row) (as_id a) (sv_db sv)
          \<and> as_credential_id a \<noteq> None \<and> (as_name a = trim user \<or> as_hostname a = trim user)"
        using resolved_direct_asset [of "sx_ext E" user "ak_id k" "sv_db sv"] Inr
        by (simp add: row(4) split: option.split)
      with h' row resolved_direct(1) [OF Inr] show ?thesis unfolding list_ex_iff by blast
    next
      case (Inl e)
      with assms \<open>_ = Inr found\<close> Some show ?thesis
        by (auto simp: auth_publickey_def auth_publickey_offered_def map_err_def)
    qed
  next
    case None
    with assms Inr show ?thesis
      by (auto simp: auth_publickey_def auth_publickey_offered_def map_err_def)
  qed
qed (use assms in \<open>auto simp: auth_publickey_def auth_publickey_offered_def map_err_def\<close>)

theorem ssh_login_witness:
  "case auth_publickey demo_env ''box'' (''ssh-ed25519'', ''fp'') (new_client ''ip'') (new_server demo_db) of
     (h, r) \<Rightarrow> r = Inr True \<and> hd_direct_asset h \<noteq> None
       \<and> list_ex (\<lambda>k. k_fingerprint k = ''fp'' \<and> k_enabled k) (t_access_keys demo_db)"
proof -
  obtain h r where a: "auth_publickey demo_env ''box'' (''ssh-ed25519'', ''fp'') (new_client ''ip'')
      (new_server demo_db) = (h, r)" by fastforce
  have "snd (auth_publickey demo_env ''box'' (''ssh-ed25519'', ''fp'') (new_client ''ip'') (new_server demo_db))
      = Inr True"
    "hd_direct_asset (fst (auth_publickey demo_env ''box'' (''ssh-ed25519'', ''fp'') (new_client ''ip'')
      (new_server demo_db))) \<noteq> None"
    by code_simp+
  with ssh_login [OF a] show ?thesis unfolding a by (auto simp: list_ex_iff new_server_def)
qed

section \<open>Reaching targets\<close>

text \<open>
  C21. In every run of the server, whatever the order of the steps: a task that contacts a target
  does so for a key that logged in while it was active, and after a step of its own in whose state
  the catalog let that key reach that target. This holds for managed sessions and for forwarded
  connections.
\<close>

theorem targets_reached_by_policy:
  assumes "ssh_run E (new_server db) past sv" and "sv_tasks sv t = Some task"
    and "reaching task = Some (auth, asset)"
  shows "logged_in auth past \<and> let_through t auth asset past"
proof -
  have "task_auth task = Some auth" using assms(3) by (cases task) (auto split: if_splits)
  with run_logged_in [OF assms(1)] run_let_through [OF assms] assms(2) show ?thesis by blast
qed


lemma demo_reaches:
  "case sv_tasks (snd demo_run) 1 of Some (BridgeTask b) \<Rightarrow> bt_phase b = BridgeConnect (Some (new_id sample_ext 0))
     \<and> ai_fingerprint (bo_auth (bt_options b)) = ''fp'' \<and> as_name (bo_asset (bt_options b)) = ''box'' | _ \<Rightarrow> False"
  by code_simp

lemma demo_is_run: "ssh_run demo_env (new_server demo_db) (fst demo_run) (snd demo_run)"
proof -
  obtain past sv where "carry_all demo_env ''t'' demo_labels [] (new_server demo_db) = Some (past, sv)"
    using demo_carried by fastforce
  with carry_all_run [OF this ssh_run.start] show ?thesis by (simp add: demo_run_def)
qed

lemma demo_taskE:
  obtains b where "sv_tasks (snd demo_run) 1 = Some (BridgeTask b)"
    "bt_phase b = BridgeConnect (Some (new_id sample_ext 0))"
    "ai_fingerprint (bo_auth (bt_options b)) = ''fp''" "as_name (bo_asset (bt_options b)) = ''box''"
  using demo_reaches by (auto split: option.splits task.splits)

theorem targets_reached_by_policy_witness:
  "\<exists>auth asset. ai_fingerprint auth = ''fp'' \<and> as_name asset = ''box'' \<and> logged_in auth (fst demo_run)
     \<and> let_through 1 auth asset (fst demo_run)"
proof -
  obtain b where b: "sv_tasks (snd demo_run) 1 = Some (BridgeTask b)"
    "bt_phase b = BridgeConnect (Some (new_id sample_ext 0))"
    "ai_fingerprint (bo_auth (bt_options b)) = ''fp''" "as_name (bo_asset (bt_options b)) = ''box''"
    by (rule demo_taskE)
  have "reaching (BridgeTask b) = Some (bo_auth (bt_options b), bo_asset (bt_options b))" by (simp add: b(2))
  from targets_reached_by_policy [OF demo_is_run b(1) this] b(3,4) show ?thesis by blast
qed


section \<open>How sessions end\<close>






definition demo_peer :: peer where
  "demo_peer = \<lparr>pe_transport = Inl ''refused'', pe_key = (''ssh-ed25519'', ''host''), pe_handshake = Inr (),
     pe_request = (\<lambda>_. Inr True), pe_rsa_hash = Inr (), pe_messages = [], pe_debug = (\<lambda>_. [])\<rparr>"



section \<open>Secrets\<close>

definition connects_to :: "client_request \<Rightarrow> bool" where
  "connects_to q \<longleftrightarrow> (\<exists>h p. q = ConnectTo h p)"

lemma authenticated_kinds:
  assumes "connect_authenticated_asset X now master a P db = (db', session)" and "q \<in> set (fst session)"
  shows "connects_to q \<or> is_auth q"
proof -
  have "\<forall>c. q \<in> set (fst (authenticate_target X P c master)) \<longrightarrow> is_auth q"
    by (auto simp: presents_def is_auth_def dest!: authenticate_requests)
  with assms show ?thesis
    by (auto simp: connect_authenticated_asset_def fail_def run_simps connects_to_def
        split: sum.splits prod.splits)
qed

text \<open>
  C25. A secret is presented only to a target whose host key is the one on record (the first one
  seen is put on record), it is the decrypted secret of the credential of that asset with its user
  name, and nothing but authentication is asked of the target before it accepted one.
\<close>

theorem secrets_to_known_hosts:
  assumes "connect_asset E now bo P db = (db', reqs, r)"
  shows "list_all (\<lambda>q. is_auth q \<longrightarrow>
      (case get_known_host (as_hostname (bo_asset bo)) (as_port (bo_asset bo)) (fst (pe_key P)) db' of
         Some h \<Rightarrow> kh_fingerprint h = snd (pe_key P) | None \<Rightarrow> False)
      \<and> (case get_known_host (as_hostname (bo_asset bo)) (as_port (bo_asset bo)) (fst (pe_key P)) db of
         Some h \<Rightarrow> kh_fingerprint h = snd (pe_key P) | None \<Rightarrow> True)
      \<and> (case Option.bind (as_credential_id (bo_asset bo)) (\<lambda>i. get_credential i db) of
         Some c \<Rightarrow> presents (sx_ext E) (sx_master E) c q | None \<Rightarrow> False)) reqs
    \<and> (r = Inr () \<or> (\<exists>q \<in> set reqs. \<not> is_auth q \<and> \<not> connects_to q)
       \<longrightarrow> list_ex (\<lambda>q. is_auth q \<and> pe_request P q = Inr True) reqs)"
proof -
  let ?a = "bo_asset bo"
  from connect_asset_requests [OF assms] obtain session where
    s: "connect_authenticated_asset (sx_ext E) now (sx_master E) ?a P db = (db', session)"
    and sub: "set (fst session) \<subseteq> set reqs"
    and rest: "\<forall>q \<in> set reqs. q \<in> set (fst session) \<or> (\<not> is_auth q \<and> snd session = Inr ())"
    and ok: "r = Inr () \<longrightarrow> snd session = Inr ()" by auto
  have "(\<exists>h. get_known_host (as_hostname ?a) (as_port ?a) (fst (pe_key P)) db' = Some h
        \<and> kh_fingerprint h = snd (pe_key P))
      \<and> (\<forall>h. get_known_host (as_hostname ?a) (as_port ?a) (fst (pe_key P)) db = Some h
        \<longrightarrow> kh_fingerprint h = snd (pe_key P))
      \<and> (\<exists>i c. as_credential_id ?a = Some i \<and> get_credential i db = Some c
        \<and> presents (sx_ext E) (sx_master E) c q)" if "q \<in> set reqs" "is_auth q" for q
  proof -
    from that rest have q: "q \<in> set (fst session)" by blast
    note c = connect_authenticated_requests [OF s q that(2)]
    from learned_host(1) [OF c(1)] learned_host(2) [OF c(1)] c(2) show ?thesis by blast
  qed
  moreover have "\<exists>q \<in> set reqs. is_auth q \<and> pe_request P q = Inr True"
    if "r = Inr () \<or> (\<exists>q \<in> set reqs. \<not> is_auth q \<and> \<not> connects_to q)"
  proof -
    from that ok rest authenticated_kinds [OF s] have "snd session = Inr ()" by blast
    from connect_authenticated_accepted [OF s this] sub show ?thesis by blast
  qed
  ultimately show ?thesis by (fastforce simp: list_all_iff list_ex_iff split: option.split)
qed

definition demo_host :: peer where
  "demo_host = demo_peer\<lparr>pe_transport := Inr (), pe_messages := [Some MsgSuccess]\<rparr>"

definition demo_options :: managed_bridge_options where
  "demo_options = \<lparr>bo_conn = 0, bo_auth = \<lparr>ai_key_id = ''k'', ai_fingerprint = ''fp'', ai_name = ''op''\<rparr>,
     bo_client_ip = None, bo_asset = \<lparr>as_id = ''u'', as_name = ''box'', as_protocol = ''ssh'',
       as_hostname = ''10.0.0.1'', as_port = 22, as_description = None, as_tags = [],
       as_credential_id = Some ''c'', as_created_at = None, as_updated_at = None\<rparr>,
     bo_channel = 7, bo_pty = default_pty_size, bo_pty_requested = False, bo_command = Some ''ls'',
     bo_mode = Exec, bo_return_to_tui = None\<rparr>"

theorem secrets_to_known_hosts_witness:
  "connect_asset demo_env ''t'' demo_options demo_host demo_db
     = (fst (connect_asset demo_env ''t'' demo_options demo_host demo_db),
        [ConnectTo ''10.0.0.1'' 22, AuthPassword ''root'' ''pw'', OpenSession, RequestExec ''ls''], Inr ())
   \<and> list_ex (\<lambda>q. is_auth q \<and> pe_request demo_host q = Inr True)
        [ConnectTo ''10.0.0.1'' 22, AuthPassword ''root'' ''pw'', OpenSession, RequestExec ''ls'']"
proof -
  let ?c = "connect_asset demo_env ''t'' demo_options demo_host demo_db"
  have "snd ?c = ([ConnectTo ''10.0.0.1'' 22, AuthPassword ''root'' ''pw'', OpenSession, RequestExec ''ls''], Inr ())"
    by code_simp
  then have c: "?c = (fst ?c, [ConnectTo ''10.0.0.1'' 22, AuthPassword ''root'' ''pw'', OpenSession,
      RequestExec ''ls''], Inr ())" by (metis prod.collapse)
  from secrets_to_known_hosts [OF c] have "list_ex (\<lambda>q. is_auth q \<and> pe_request demo_host q = Inr True)
        [ConnectTo ''10.0.0.1'' 22, AuthPassword ''root'' ''pw'', OpenSession, RequestExec ''ls'']" by blast
  with c show ?thesis by blast
qed

end
