(* ===== verification/Spec2Isabelle.thy ===== *)
theory Spec2Isabelle
  imports Apply_Report Manifest_Facts Examples Startup_Properties Control_Api_Properties Import_Export_Properties
    Tui_Properties Ssh_Properties
begin

text \<open>
  Hop is a bastion host. Operators log in over SSH with a registered public key, choose a target in a
  terminal interface or name it as the user name, and hop connects them to it with a stored credential,
  or forwards a TCP connection. What exists and who may reach what is kept in a catalog (SQLite), which
  is edited locally, over an HTTP control API, or declaratively: a manifest is planned against the
  catalog and applied in one transaction. This development models the program in Isabelle/HOL and proves
  what makes it correct. File names below are under \<open>src/crates\<close>.

  \<^bold>\<open>Conventions.\<close> A function of the code is a definition of the same name; where two share a name, the
  module's is put before or after it. A struct is a record whose fields carry a two-letter prefix, an enum
  a datatype. A catalog is a record of tables, a table a list of rows. A function that writes takes the
  catalog and returns the catalog after it with its result; a result is a sum, \<open>Inl\<close> the error. Strings
  are byte strings (UTF-8), numbers of the database are \<open>int\<close>, machine integers are words. What hop gets
  from outside is an argument: \<open>ext\<close> holds hashing, the cipher, base64, JSON, ids and nonces; \<open>now\<close> is the
  clock; \<open>os\<close> the files; the parsers of YAML, TOML and JSON, the glob matcher, the terminal's
  layout and painting and the outcome of each network call are parameters. What a proof needs of them is
  a named hypothesis: \<open>crypto_laws\<close> (decoding and decrypting undo encoding and encrypting), \<open>fresh_ids\<close> and
  \<open>distinct_draws\<close> (an id is drawn once), \<open>tags_codec\<close>, \<open>cell_widths\<close>.

  \<^bold>\<open>Theories, in the order of import.\<close>
  \<^item> \<open>Prelude\<close>, \<open>Rust_Std\<close>, \<open>Rust_Chars\<close>, \<open>Rust_Path\<close>: results and loops that may fail, \<open>trim\<close>, \<open>split\<close>, characters,
    paths as the Rust library has them.
  \<^item> \<open>Models\<close> (hop-core/src/models.rs, errors.rs), \<open>Schema\<close> (catalog/schema_v0_2.sql: tables, constraints, the
    statements with their cascades), \<open>Runtime\<close>, \<open>Access\<close>, \<open>Sessions\<close> (catalog/runtime.rs, ssh/tofu.rs,
    ssh/session_registry.rs), \<open>Catalog_Store\<close> (catalog.rs). \<open>Catalog_Steps\<close> is the catalog as a state machine:
    every operation keeps the schema and one owner per resource, and the revision is a clock.
    \<open>Access_Policy\<close> and the locale of \<open>Access\<close> show that all four queries agree on one scope per key.
  \<^item> \<open>Manifest\<close>, \<open>Manifest_Facts\<close> (catalog/manifest.rs), \<open>Crypto\<close> (crypto.rs), \<open>Apply\<close> (catalog/apply.rs). Planning
    is specified abstractly in \<open>Plan_Spec\<close> (\<open>Plan_Facts\<close> shows that \<open>build_plan\<close> meets it); \<open>Apply_Effects\<close>,
    \<open>Apply_Post\<close>, \<open>Apply_Settled\<close>, \<open>Apply_Idempotent\<close>, \<open>Apply_Frame\<close> and \<open>Apply_Report\<close> show what executing a plan
    establishes, that a second apply finds nothing to do, what it leaves alone and what it reports.
  \<^item> \<open>Import_Export\<close> (hop-server/src/transfer.rs), \<open>Local_Cli\<close> (local_cli.rs), \<open>Control_Api\<close> (control_api.rs),
    \<open>Startup_Config\<close> (hop-core/src/config.rs), \<open>Manifest_Io\<close> (manifest_io.rs), \<open>Server_Main\<close> (main.rs), each with a
    theory of facts and one of properties; \<open>Ownership_Kept\<close> shows that local edits leave managed rows alone.
  \<^item> \<open>Tui_App\<close>, \<open>Tui_Views\<close>, \<open>Tui_Facts\<close>, \<open>Tui_Properties\<close> (hop-server/src/tui): the application state, the keys
    and the list of assets line by line.
  \<^item> \<open>Ssh_Types\<close>, \<open>Ssh_Client\<close> (ssh/client.rs, host_key.rs), \<open>Ssh_Bridge\<close> (ssh/bridge.rs), \<open>Ssh_Proxy\<close> (ssh/proxy.rs),
    \<open>Ssh_Server\<close> (ssh/server.rs): one record \<open>server\<close> holds the catalog, the registry, the handlers of live
    connections, their channels and the spawned tasks. A task is a phase with its mailboxes; a step of it
    is the code from one await to the next.
  \<^item> \<open>Ssh_System\<close> puts these together: \<open>ssh_step\<close> is one step of a connection, a task, the control API or
    another process, \<open>ssh_run\<close> a run with its history, in every interleaving. \<open>Ssh_Invariant\<close> and
    \<open>Ssh_System_Facts\<close> show \<open>server_ok\<close> (a managed session is registered under its own task and no two tasks
    share one), \<open>Ssh_History\<close> that what a task relies on was established by an earlier step, \<open>Session_Trail\<close>
    that the audit trail only grows, \<open>Ssh_Endings\<close> how tasks end. \<open>Ssh_Examples\<close> computes a run.
  \<^item> \<open>Examples\<close> has the concrete values of the witnesses. The properties are here, about the catalog, and in
    the theories named \<open>.._Properties\<close>, about the component.

  \<^bold>\<open>Interfaces.\<close> Where one part relies on another, the contract is a locale, interpreted on the model's own
  definitions: \<open>ordered_map\<close> (the \<open>BTreeMap\<close> the manifest and the planner use), \<open>access_scope\<close> (what the SSH server
  relies on: four queries, one scope), \<open>loop_body\<close>, \<open>named_loop\<close> and \<open>planning_loop\<close> (the loops of planning and
  execution), \<open>codec\<close> (CSV and numbers), \<open>task_kind\<close> (what tasks promise each other).

  \<^bold>\<open>Bounds and fuel.\<close> No definition uses fuel: loops are recursion over lists. The tasks of the SSH server may
  run forever by design; \<open>tasks_wind_down\<close> bounds what is left once a task has left its target (four steps
  of its own, two for a forwarded connection). Byte counts of a relay are natural numbers; a \<open>u64\<close> would take
  centuries to overflow.

  \<^bold>\<open>Not modelled.\<close> The network and the protocols (axum, russh, tokio's scheduler: any ready step may be
  next), SQLite's files and pool (a statement is atomic, a transaction one step), argument parsing (clap),
  logging, zeroising of secrets, the texts of third-party errors (\<open>sx_error_text\<close>) and the tests. A connection
  attempt to a target is one step, with the outcomes of its calls as an argument, so that a termination
  falls before or after it. The events that russh delivers for a connection are the datatype \<open>ssh_request\<close>.
\<close>

section \<open>Declarative apply\<close>

text \<open>
  C1. Applying a manifest is idempotent: after an apply that succeeded, the same manifest applied
  again, at any later time and with whatever ids and nonces are then drawn, leaves the catalog
  exactly as it is, reports nothing created, updated, deleted or orphaned, and no new revision.
\<close>

theorem apply_idempotent:
  assumes "apply_manifest X now n k w mk m source opts db = (db', Inr s)"
    and "\<not> ao_dry_run opts" and "constraints db" and "fresh_ids X n db"
  shows "\<exists>s'. apply_manifest X now' n' k' w mk m source (opts\<lparr>ao_base_revision := None\<rparr>) db'
      = (db', Inr s')
    \<and> sm_created s' = 0 \<and> sm_updated s' = 0 \<and> sm_deleted s' = 0 \<and> sm_orphaned s' = 0
    \<and> sm_base_revision s' = t_revision db' \<and> sm_new_revision s' = t_revision db'"
  by (rule apply_manifest_again [OF assms])

theorem apply_idempotent_witness:
  "\<exists>s'. apply_manifest sample_ext ''u'' 7 3 sample_os ''m'' sample_manifest ''s''
        (sample_options\<lparr>ao_base_revision := None\<rparr>) (fst (sample_apply baseline))
      = (fst (sample_apply baseline), Inr s')
    \<and> sm_created s' = 0 \<and> sm_updated s' = 0 \<and> sm_deleted s' = 0 \<and> sm_orphaned s' = 0
    \<and> sm_base_revision s' = t_revision (fst (sample_apply baseline))
    \<and> sm_new_revision s' = t_revision (fst (sample_apply baseline))"
  by (rule apply_idempotent [OF sample_apply_pair(1) [unfolded sample_apply_def], folded sample_apply_def])
    (simp_all add: sample_options_def sample_fresh)






text \<open>
  C4. The revision check is a lock. The plan of an apply is built from reads made one after another
  outside its transaction, while other clients may run any operation between two of them; if the
  apply nevertheless commits a change, then its result is the one of an apply that read everything
  from the catalog it committed on, in one piece.
\<close>

theorem apply_serializable:
  assumes "constraints (sn_revision sn)"
    and "catalog_steps Y (sn_revision sn) (sn_generation sn)"
    and "catalog_steps Y (sn_generation sn) (sn_credentials sn)"
    and "catalog_steps Y (sn_credentials sn) (sn_assets sn)"
    and "catalog_steps Y (sn_assets sn) (sn_access sn)"
    and "catalog_steps Y (sn_access sn) db"
    and run: "apply_with X now n k w mk sn db m source opts = (db', Inr s)" and "db' \<noteq> db"
  shows "apply_manifest X now n k w mk m source opts db = (db', Inr s)"
  using run
proof (cases rule: apply_with_cases)
  case 1
  with assms(8) show ?thesis by simp
next
  case (2 s' p)
  from 2(1) have base: "sm_base_revision s' = t_revision (sn_revision sn)"
    by (auto simp: prepare_def and_then_Inr Let_def plan_summary_def)
  note c1 = steps_revision [OF assms(2,1)]
  note c2 = steps_revision [OF assms(3) c1 [THEN conjunct1]]
  note c3 = steps_revision [OF assms(4) c2 [THEN conjunct1]]
  note c4 = steps_revision [OF assms(5) c3 [THEN conjunct1]]
  note c5 = steps_revision [OF assms(6) c4 [THEN conjunct1]]
  have "config_same (sn_revision sn) (sn_generation sn)"
    "config_same (sn_generation sn) (sn_credentials sn)"
    "config_same (sn_credentials sn) (sn_assets sn)" "config_same (sn_assets sn) (sn_access sn)"
    and acc: "config_same (sn_access sn) db"
    using c1 c2 c3 c4 c5 base 2(4) by auto
  from this(4) acc have as: "config_same (sn_assets sn) db" by (rule config_same_trans)
  from \<open>config_same (sn_credentials sn) (sn_assets sn)\<close> as have cr: "config_same (sn_credentials sn) db"
    by (rule config_same_trans)
  from \<open>config_same (sn_generation sn) (sn_credentials sn)\<close> cr have g: "config_same (sn_generation sn) db"
    by (rule config_same_trans)
  from \<open>config_same (sn_revision sn) (sn_generation sn)\<close> g have r: "config_same (sn_revision sn) db"
    by (rule config_same_trans)
  note same = r g cr as acc
  have "prepare X n w mk sn m source opts = prepare X n w mk (quiet db) m source opts"
    unfolding prepare_def
    using same [THEN loads_same(1)] same [THEN loads_same(2)] same [THEN loads_same(3)] same
    by (simp add: quiet_def config_same_def)
  with run show ?thesis by (simp add: apply_manifest_def apply_with_def quiet_def)
qed


theorem apply_serializable_witness:
  "apply_manifest sample_ext ''t'' 5 0 sample_os ''m'' sample_manifest ''s'' sample_options
      (fst (start_session sample_ext ''t'' 9 sample_session baseline))
    = apply_with sample_ext ''t'' 5 0 sample_os ''m'' (quiet baseline)
        (fst (start_session sample_ext ''t'' 9 sample_session baseline)) sample_manifest ''s'' sample_options"
proof -
  let ?db = "fst (start_session sample_ext ''t'' 9 sample_session baseline)"
  let ?r = "apply_with sample_ext ''t'' 5 0 sample_os ''m'' (quiet baseline) ?db sample_manifest ''s'' sample_options"
  have ok: "\<not> isl (snd ?r)" "t_revision (fst ?r) \<noteq> t_revision ?db" by code_simp+
  have r: "?r = (fst ?r, Inr (projr (snd ?r)))" by (rule success_pair [OF ok(1)])
  have "catalog_steps sample_ext baseline ?db"
    unfolding catalog_steps_def by (rule r_into_rtranclp) (rule catalog_step.intros)
  then have "apply_manifest sample_ext ''t'' 5 0 sample_os ''m'' sample_manifest ''s'' sample_options ?db
      = (fst ?r, Inr (projr (snd ?r)))"
    using ok(2) by (intro apply_serializable [OF _ _ _ _ _ _ r, where Y = sample_ext])
      (auto simp: quiet_def catalog_steps_def)
  with r show ?thesis by simp
qed

text \<open>
  C5. An apply that fails, a dry run and an apply that finds nothing to do leave the catalog as it
  is. An apply that changed it raised the revision by one, and reports that revision.
\<close>

theorem apply_all_or_nothing:
  "case apply_with X now n k w mk sn db m source opts of
     (db', Inl e) \<Rightarrow> db' = db
   | (db', Inr s) \<Rightarrow>
       if ao_dry_run opts \<or> (\<forall>c \<in> set (sm_changes s). ch_action c = Unchanged) then db' = db
       else t_revision db' = t_revision db + 1 \<and> sm_new_revision s = t_revision db'
         \<and> sm_base_revision s = t_revision db"
proof -
  obtain db' r where a: "apply_with X now n k w mk sn db m source opts = (db', r)" by fastforce
  show ?thesis
  proof (cases "prepare X n w mk sn m source opts")
    case (Inl e)
    then show ?thesis by (simp add: apply_with_def)
  next
    case (Inr sp)
    then obtain s p where sp: "prepare X n w mk sn m source opts = Inr (s, p)" by (cases sp) auto
    have changes: "(\<forall>c \<in> set (sm_changes s). ch_action c = Unchanged) \<longleftrightarrow> \<not> plan_changed p"
      using prepare_summary(2) [OF sp] by (simp add: plan_changed_def)
    show ?thesis
    proof (cases "ao_dry_run opts \<or> \<not> plan_changed p \<or> t_revision db \<noteq> sm_base_revision s")
      case True
      with sp changes show ?thesis by (auto simp: apply_with_def)
    next
      case False
      with prepare_summary(1) [OF sp] have rev: "sm_new_revision s = t_revision db + 1" by simp
      show ?thesis
      proof (cases "execute_plan X now n k p source (sm_generation s) (sm_new_revision s) mk s db")
        case (Inl e)
        with sp False show ?thesis by (simp add: apply_with_def)
      next
        case (Inr db')
        from False changes have "\<not> (ao_dry_run opts \<or> (\<forall>c \<in> set (sm_changes s). ch_action c = Unchanged))"
          by blast
        with sp False Inr rev execute_plan_revision [OF Inr] show ?thesis
          by (simp add: apply_with_def del: ball_simps)
      qed
    qed
  qed
qed

theorem apply_all_or_nothing_witness:
  "t_revision (fst (sample_apply baseline)) = 1
    \<and> sm_new_revision (projr (snd (sample_apply baseline))) = 1"
proof -
  have ch: "sm_changes (projr (snd (sample_apply baseline)))
      = [\<lparr>ch_type = ''asset'', ch_name = ''a'', ch_action = Created\<rparr>]" by code_simp
  obtain db' r where p: "sample_apply baseline = (db', Inr r)" using sample_apply_pair(1) by blast
  have run: "apply_with sample_ext ''t'' 5 0 sample_os ''m'' (quiet baseline) baseline sample_manifest ''s''
      sample_options = (db', Inr r)"
    using p by (simp add: sample_apply_def apply_manifest_def)
  from apply_all_or_nothing [where X = sample_ext and now = "''t''" and n = 5 and k = 0
        and w = sample_os and mk = "''m''" and sn = "quiet baseline" and db = baseline
        and m = sample_manifest and source = "''s''" and opts = sample_options]
  show ?thesis using ch unfolding run p by (simp add: sample_options_def baseline_def)
qed

text \<open>
  A base revision that the caller names is checked: when it is not the current one, nothing is
  planned or written, and the error says so.
\<close>

theorem apply_stale_base:
  assumes "validate_source_id source = Inr ()" and "ao_base_revision opts = Some b"
    and "b \<noteq> t_revision db"
  shows "apply_manifest X now n k w mk m source opts db = (db, Inl (revision_conflict b (t_revision db)))
    \<and> ce_code (revision_conflict b (t_revision db)) = RevisionConflict"
  using assms
  by (simp add: apply_manifest_def apply_with_def prepare_def quiet_def check_def revision_conflict_def mk_error_def)

theorem apply_stale_base_witness:
  "apply_manifest sample_ext ''t'' 5 0 sample_os ''m'' sample_manifest ''s''
      (sample_options\<lparr>ao_base_revision := Some 7\<rparr>) baseline = (baseline, Inl (revision_conflict 7 0))"
  using apply_stale_base [of "''s''" "sample_options\<lparr>ao_base_revision := Some 7\<rparr>" 7 baseline]
  by (simp add: baseline_def validate_source_id_def name_char_def is_ascii_alphanumeric_def
      is_ascii_lower_def byte_of_def)

text \<open>
  The report of an apply is about its changes: they are sorted by type and name, and the five
  counts are the numbers of changes of each kind, so every change is counted exactly once.
\<close>

theorem apply_report:
  assumes "snd (apply_with X now n k w mk sn db m source opts) = Inr s"
  shows "sorted_wrt change_le (sm_changes s)
    \<and> (\<forall>(count, act) \<in> {(sm_created s, Created), (sm_updated s, Updated), (sm_deleted s, Deleted),
         (sm_orphaned s, Orphaned), (sm_unchanged s, Unchanged)}.
         count = length (filter (\<lambda>c. ch_action c = act) (sm_changes s)))
    \<and> length (sm_changes s)
       = sm_created s + sm_updated s + sm_deleted s + sm_orphaned s + sm_unchanged s"
proof -
  from assms obtain p where prep: "prepare X n w mk sn m source opts = Inr (s, p)"
    by (auto simp: apply_with_def split: sum.splits prod.splits if_splits)
  note s = prepare_sorted [OF this]
  have counts: "sm_created s = count_action p Created" "sm_updated s = count_action p Updated"
    "sm_deleted s = count_action p Deleted" "sm_orphaned s = count_action p Orphaned"
    "sm_unchanged s = count_action p Unchanged" "sm_changes s = p_changes p"
    by (subst s(2), simp add: plan_summary_def)+
  with s(1) actions_partition [of "p_changes p"] show ?thesis by (simp add: count_action_def)
qed

theorem apply_report_witness:
  "length (sm_changes (projr (snd (sample_apply baseline)))) = 1
    \<and> sorted_wrt change_le (sm_changes (projr (snd (sample_apply baseline))))"
proof -
  have "snd (sample_apply baseline) = Inr (projr (snd (sample_apply baseline)))"
    using sample_apply_pair(1) by (metis snd_conv)
  from apply_report [OF this [unfolded sample_apply_def apply_manifest_def],
      folded apply_manifest_def, folded sample_apply_def]
  have "sorted_wrt change_le (sm_changes (projr (snd (sample_apply baseline))))" by blast
  moreover have "length (sm_changes (projr (snd (sample_apply baseline)))) = 1" by code_simp
  ultimately show ?thesis by blast
qed

text \<open>
  C6. The report tells what happened. A resource reported as created was not there and is there
  now; one reported as updated is there under the id it had; one reported as deleted is gone; one
  reported as orphaned is there and marked; one reported as unchanged is as it was; and one that
  is not in the report is as it was, too.
\<close>

theorem apply_report_truthful:
  assumes "apply_manifest X now n k w mk m source opts db = (db', Inr s)"
    and "\<not> ao_dry_run opts" and "constraints db" and "fresh_ids X n db" and "row_type t"
  shows "(\<forall>c \<in> set (sm_changes s). ch_type c = t
        \<longrightarrow> told (ch_action c) (existing_of t db (ch_name c)) (existing_of t db' (ch_name c)))
    \<and> ((\<forall>c \<in> set (sm_changes s). ch_type c = t \<longrightarrow> ch_name c \<noteq> x)
        \<longrightarrow> existing_of t db' x = existing_of t db x)"
proof -
  obtain r p where s: "sm_changes s = p_changes p"
    and same: "\<not> plan_changed p \<Longrightarrow> db' = db"
    and ran: "plan_changed p \<Longrightarrow> ran X now n k r source mk (ao_prune opts) p db db'"
    using apply_manifest_Inr [OF assms(1-4)] by (metis plan_summary_changes)
  show ?thesis
  proof (cases "plan_changed p")
    case True
    show ?thesis unfolding s using ran_report [OF ran [OF True] assms(5)] by blast
  next
    case False
    then have "told (ch_action c) y y" if "c \<in> set (p_changes p)" for c y
      using that by (simp add: plan_changed_def)
    with same [OF False] s show ?thesis by simp
  qed
qed

theorem apply_report_truthful_witness:
  "existing_of ''asset'' (fst (sample_apply sample_db)) ''p'' = existing_of ''asset'' sample_db ''p''
    \<and> existing_of ''asset'' (fst (sample_apply sample_db)) ''a'' \<noteq> None"
proof -
  note t = apply_report_truthful [OF sample_apply_pair(2) [unfolded sample_apply_def], folded sample_apply_def,
      OF _ sample_db_constraints sample_fresh(2) row_types(2)]
  have nd: "\<not> ao_dry_run sample_options" by (simp add: sample_options_def)
  have ch: "sm_changes (projr (snd (sample_apply sample_db)))
      = [\<lparr>ch_type = ''asset'', ch_name = ''a'', ch_action = Created\<rparr>]" by code_simp
  from t [OF nd, of "''p''"] show ?thesis unfolding ch by simp
qed

section \<open>The catalog over time\<close>

text \<open>
  C7. However the operations of the catalog follow one another from the empty catalog on, successful
  or not, every constraint of the schema holds, every resource has exactly one owner row and every
  owner row its resource, and the key under which a declarative source owns a resource is built
  from its current type and name.
\<close>

theorem reachable_wellformed:
  assumes "reachable X db"
  shows "constraints db
    \<and> (row_type t \<longrightarrow> (name_of t db i = None \<longleftrightarrow> owner_map t db i = None))
    \<and> (row_type t \<longrightarrow> name_of t db i = Some x \<longrightarrow> owner_map t db i = Some r
        \<longrightarrow> o_mode r = ''declarative'' \<longrightarrow> o_source_key r = Some (source_key t x))"
  using reachable_wf [OF assms] unfolding catalog_wf_def owners_match_def by blast

theorem reachable_wellformed_witness:
  "constraints (fst (add_asset sample_ext ''t'' 1 sample_new_asset baseline))
    \<and> t_assets (fst (add_asset sample_ext ''t'' 1 sample_new_asset baseline)) \<noteq> []"
proof -
  have "reachable sample_ext (fst (add_asset sample_ext ''t'' 1 sample_new_asset baseline))"
    unfolding reachable_def catalog_steps_def by (rule r_into_rtranclp) (rule catalog_step.intros)
  from reachable_wellformed [OF this]
  have "constraints (fst (add_asset sample_ext ''t'' 1 sample_new_asset baseline))" by blast
  moreover have "t_assets (fst (add_asset sample_ext ''t'' 1 sample_new_asset baseline)) \<noteq> []"
    by code_simp
  ultimately show ?thesis by blast
qed

text \<open>
  C8. The revision is a clock of the configuration: along any run it never decreases, and between
  two moments with the same revision no credential, asset, key, assignment, owner or
  generation has changed.
\<close>

theorem revision_is_a_clock:
  assumes "catalog_steps X db db'" and "constraints db"
  shows "t_revision db \<le> t_revision db'
    \<and> (t_revision db' = t_revision db \<longrightarrow> t_credentials db' = t_credentials db
        \<and> t_assets db' = t_assets db \<and> t_access_keys db' = t_access_keys db
        \<and> t_access_key_assets db' = t_access_key_assets db \<and> t_ownership db' = t_ownership db
        \<and> source_generation db' = source_generation db)"
  using steps_revision [OF assms] by (auto simp: config_same_def)

theorem revision_is_a_clock_witness:
  "t_revision sample_db \<le> t_revision (fst (delete_asset ''1'' sample_db))"
proof -
  have "catalog_steps sample_ext sample_db (fst (delete_asset ''1'' sample_db))"
    unfolding catalog_steps_def by (rule r_into_rtranclp) (rule catalog_step.intros)
  from revision_is_a_clock [OF this sample_db_constraints] show ?thesis by blast
qed

section \<open>Who may reach what\<close>

text \<open>
  C9. Discovery, direct login, proxying and the check before a connection agree on one scope per
  key: a key may connect to exactly the assets it is shown, and what a login target or a
  forwarded address resolves to is among them.
\<close>

theorem scope_agreement:
  assumes "list_assets_for_key X key db = Inr xs"
  shows "(key_can_access_asset key i db \<longleftrightarrow> i \<in> as_id ` set xs)
    \<and> (find_direct_asset_for_key X key target db = Inr (Some x) \<longrightarrow> as_id x \<in> as_id ` set xs)
    \<and> (find_proxy_asset_for_key X key host port db = Inr (Some x) \<longrightarrow> as_id x \<in> as_id ` set xs)"
proof -
  have l: "ok_list (list_assets_for_key X key db) = Some xs" using assms by simp
  show ?thesis
    using scope.listed_allowed [OF l] scope.routes_listed [OF l, of _ x "(host, port)"]
      scope.routes_listed [OF l, of target x] by (auto simp del: ok_list_Some)
qed

theorem scope_agreement_witness:
  "key_can_access_asset ''k'' ''1'' sample_db \<and> \<not> key_can_access_asset ''k'' ''2'' sample_db"
proof -
  let ?r = "list_assets_for_key sample_ext ''k'' sample_db"
  have r: "\<not> isl ?r" "map as_id (projr ?r) = [''1'']" by code_simp+
  then have "?r = Inr (projr ?r)" by simp
  note scope = scope_agreement [OF this, THEN conjunct1]
  from r(2) have "as_id ` set (projr ?r) = {''1''}" by (metis list.set(1,2) list.set_map)
  then show ?thesis by (simp add: scope)
qed

text \<open>
  C10. A login target resolves within the scope of the key, by name before host name: it
  resolves to nothing exactly when no asset in scope has that name or host, and to an asset
  named so whenever there is one.
\<close>

theorem direct_login_resolution:
  assumes "find_direct_asset_for_key X key target db = Inr res"
  shows "case res of
      None \<Rightarrow> \<forall>a \<in> set (scoped_assets db key). a_name a \<noteq> target \<and> a_host a \<noteq> target
    | Some x \<Rightarrow> \<exists>a \<in> set (scoped_assets db key). as_id x = a_id a
        \<and> (a_name a = target \<or> a_host a = target)
        \<and> ((\<exists>b \<in> set (scoped_assets db key). a_name b = target) \<longrightarrow> a_name a = target)"
proof (cases res)
  case None
  with assms have "first_by_rank (\<lambda>a. a_name a = target)
      (filter (\<lambda>a. a_name a = target \<or> a_host a = target) (scoped_assets db key)) = None"
    by (simp add: find_direct_asset_for_key_def asset_row_opt_None)
  with None show ?thesis by (auto simp: first_by_rank_None filter_empty_conv)
next
  case (Some x)
  from find_direct_scoped [OF assms [unfolded Some]] obtain a where
    "a \<in> set (scoped_assets db key)" "asset_try_from X (asset_row_of a) = Inr x"
    "a_name a = target \<or> a_host a = target"
    "\<forall>b \<in> set (scoped_assets db key). a_name b = target \<longrightarrow> a_name a = target" by blast
  with asset_try_from_Inr(1) [OF this(2)] Some show ?thesis
    unfolding Some option.case by blast
qed

text \<open>
  C11. A forwarded address resolves within the scope of the key, by host and port before the name
  (with or without \<open>.hop\<close>): to nothing exactly when no asset in scope matches either way, and
  to the exact address whenever an asset in scope has it.
\<close>

theorem proxy_resolution:
  assumes "find_proxy_asset_for_key X key host port db = Inr res"
  shows "case res of
      None \<Rightarrow> \<forall>a \<in> set (scoped_assets db key). \<not> (a_host a = host \<and> a_port a = port)
        \<and> a_name a \<noteq> (case strip_suffix ''.hop'' host of Some s \<Rightarrow> s | None \<Rightarrow> host)
    | Some x \<Rightarrow> \<exists>a \<in> set (scoped_assets db key). as_id x = a_id a
        \<and> ((a_host a = host \<and> a_port a = port)
           \<or> a_name a = (case strip_suffix ''.hop'' host of Some s \<Rightarrow> s | None \<Rightarrow> host))
        \<and> ((\<exists>b \<in> set (scoped_assets db key). a_host b = host \<and> a_port b = port)
            \<longrightarrow> a_host a = host \<and> a_port a = port)"
proof (cases res)
  case None
  let ?exact = "\<lambda>a. a_host a = host \<and> a_port a = port"
  from assms None have "first_by_rank ?exact
      (filter (\<lambda>a. ?exact a \<or> a_name a = (case strip_suffix ''.hop'' host of Some s \<Rightarrow> s
         | None \<Rightarrow> host)) (scoped_assets db key)) = None"
    by (simp add: find_proxy_asset_for_key_def Let_def asset_row_opt_None)
  with None show ?thesis by (auto simp: first_by_rank_None filter_empty_conv)
next
  case (Some x)
  from find_proxy_scoped [OF assms [unfolded Some]] obtain a where
    "a \<in> set (scoped_assets db key)" "asset_try_from X (asset_row_of a) = Inr x"
    "(a_host a = host \<and> a_port a = port)
       \<or> a_name a = (case strip_suffix ''.hop'' host of Some s \<Rightarrow> s | None \<Rightarrow> host)"
    "\<forall>b \<in> set (scoped_assets db key). a_host b = host \<and> a_port b = port
       \<longrightarrow> a_host a = host \<and> a_port a = port" by blast
  with asset_try_from_Inr(1) [OF this(2)] Some show ?thesis
    unfolding Some option.case by blast
qed

theorem direct_login_resolution_witness:
  "\<exists>a \<in> set (scoped_assets sample_db ''k''). a_name a = ''p''"
proof -
  let ?r = "find_direct_asset_for_key sample_ext ''k'' ''p'' sample_db"
  have r: "\<not> isl ?r" "projr ?r \<noteq> None" "map a_name (scoped_assets sample_db ''k'') = [''p'']"
    by code_simp+
  then obtain x where "?r = Inr (Some x)" by (cases ?r) auto
  note d = direct_login_resolution [OF this, unfolded option.case]
  from r(3) obtain b where "b \<in> set (scoped_assets sample_db ''k'')" "a_name b = ''p''" by auto
  with d show ?thesis by blast
qed

theorem proxy_resolution_witness:
  "\<exists>a \<in> set (scoped_assets sample_db ''k''). a_host a = ''x'' \<and> a_port a = 22"
proof -
  let ?r = "find_proxy_asset_for_key sample_ext ''k'' ''x'' 22 sample_db"
  have r: "\<not> isl ?r" "projr ?r \<noteq> None"
    "map (\<lambda>a. (a_host a, a_port a)) (scoped_assets sample_db ''k'') = [(''x'', 22)]" by code_simp+
  then obtain x where x: "?r = Inr (Some x)" by (cases ?r) auto
  from r(3) obtain b where "b \<in> set (scoped_assets sample_db ''k'')" "a_host b = ''x''" "a_port b = 22"
    by auto
  with proxy_resolution [OF x] show ?thesis by auto
qed

text \<open>
  C12. Assigning access gives a key exactly the scope assigned, everything or the assets named, as
  far as the key is enabled; and no other key gains or loses anything.
\<close>

theorem access_assignment:
  assumes "set_authorized_key_access now key mode ids db = (db', Inr ())"
  shows "(key_can_access_asset key i db' \<longleftrightarrow> enabled_key key db
      \<and> (if mode = All then \<exists>a \<in> set (t_assets db). a_id a = i else i \<in> set ids))
    \<and> (\<forall>key'. key' \<noteq> key \<longrightarrow>
        (key_can_access_asset key' i db' \<longleftrightarrow> key_can_access_asset key' i db))"
  using set_access_scope [OF assms] by blast

theorem access_assignment_witness:
  "key_can_access_asset ''k'' ''2'' (fst (set_authorized_key_access ''u'' ''k'' Restricted [''2''] sample_db))
    \<and> \<not> key_can_access_asset ''k'' ''1''
        (fst (set_authorized_key_access ''u'' ''k'' Restricted [''2''] sample_db))"
proof -
  let ?r = "set_authorized_key_access ''u'' ''k'' Restricted [''2''] sample_db"
  have "\<not> isl (snd ?r)" by code_simp
  then have "?r = (fst ?r, Inr ())" by (metis success_pair old.unit.exhaust)
  note s = access_assignment [OF this, THEN conjunct1]
  have "enabled_key ''k'' sample_db" by code_simp
  then show ?thesis by (simp add: s)
qed

text \<open>
  C13. A key that was deactivated reaches nothing, by any route, while every other key reaches
  what it did.
\<close>

theorem deactivation_revokes:
  assumes "set_authorized_key_active now key False db = (db', Inr ())"
  shows "list_assets_for_key X key db' = Inr [] \<and> \<not> key_can_access_asset key i db'
    \<and> find_direct_asset_for_key X key target db' = Inr None
    \<and> find_proxy_asset_for_key X key host port db' = Inr None
    \<and> (\<forall>key'. key' \<noteq> key \<longrightarrow>
        (key_can_access_asset key' i db' \<longleftrightarrow> key_can_access_asset key' i db))"
proof -
  have "\<not> enabled_key key db'" using set_active_scope(1) [OF assms] by simp
  with not_enabled_reaches_nothing [OF this] set_active_scope(2) [OF assms] show ?thesis by blast
qed

theorem deactivation_revokes_witness:
  "list_assets_for_key sample_ext ''l'' (fst (set_authorized_key_active ''u'' ''l'' False sample_db)) = Inr []
    \<and> (key_can_access_asset ''k'' ''1'' (fst (set_authorized_key_active ''u'' ''l'' False sample_db))
       \<longleftrightarrow> key_can_access_asset ''k'' ''1'' sample_db)"
proof -
  let ?r = "set_authorized_key_active ''u'' ''l'' False sample_db"
  have "\<not> isl (snd ?r)" by code_simp
  then have "?r = (fst ?r, Inr ())" by (metis success_pair old.unit.exhaust)
  from deactivation_revokes [OF this, of sample_ext "''1''"] show ?thesis by simp
qed

text \<open>
  Deleting an asset takes it out of the scope of every key, and changes no scope otherwise.\<close>

theorem deleted_asset_leaves_scopes:
  assumes "delete_asset i db = (db', Inr ())"
  shows "key_can_access_asset key j db' \<longleftrightarrow> j \<noteq> i \<and> key_can_access_asset key j db"
  by (rule delete_asset_scope [OF assms])

theorem deleted_asset_leaves_scopes_witness:
  "\<not> key_can_access_asset ''l'' ''1'' (fst (delete_asset ''1'' sample_db))"
proof -
  let ?r = "delete_asset ''1'' sample_db"
  have "\<not> isl (snd ?r)" by code_simp
  then have "?r = (fst ?r, Inr ())" by (metis success_pair old.unit.exhaust)
  from deleted_asset_leaves_scopes [OF this] show ?thesis by blast
qed

section \<open>Secrets\<close>

text \<open>
  C14. Encryption round trip: an envelope opens under the key and the context it was sealed with
  and gives the plaintext back, and it has the documented four fields.
\<close>

theorem envelope_roundtrip:
  assumes "crypto_laws X" and "encrypt_envelope X k master context pt = Inr env"
  shows "decrypt_envelope X master context env = Inr pt
    \<and> (\<exists>n c. env = join '':'' [envelope_version, envelope_alg, n, c])"
  using decrypt_encrypt [OF assms] decrypt_envelope_format [of X master _ env pt] by blast

theorem envelope_roundtrip_witness:
  "decrypt_envelope sample_ext ''m'' ''i:password''
     (projr (encrypt_envelope sample_ext 0 ''m'' ''i:password'' ''pw'')) = Inr ''pw''"
proof -
  let ?e = "encrypt_envelope sample_ext 0 ''m'' ''i:password'' ''pw''"
  have "?e = Inr (projr ?e)"
    by (simp add: encrypt_envelope_def derive_key_def sample_ext_def)
  from envelope_roundtrip [OF sample_crypto_laws this] show ?thesis by blast
qed


text \<open>
  The first start creates the key that every later start loads: after
  \<open>load_or_create_master_key\<close> succeeded, loading succeeds with the same key.
\<close>

theorem master_key_stable:
  assumes "crypto_laws X" and "length fresh = key_len"
    and "load_or_create_master_key X path writable fresh file = (file', Inr key)"
  shows "load_master_key X path file' = Inr key
    \<and> load_or_create_master_key X path writable2 fresh2 file' = (file', Inr key)"
  using create_then_load [OF assms]
  by (auto simp: load_or_create_master_key_def load_master_key_def split: option.splits)

theorem master_key_stable_witness:
  "load_master_key sample_ext ''p''
      (fst (load_or_create_master_key sample_ext ''p'' True (replicate 32 (CHR ''x'')) None))
    = Inr (replicate 32 (CHR ''x''))"
  using master_key_stable [OF sample_crypto_laws, of "replicate 32 (CHR ''x'')" "''p''" True None]
  by (simp add: key_len_def load_or_create_master_key_def)

section \<open>Manifests\<close>

text \<open>
  Merging succeeds exactly when there is a manifest, all have the supported API version and no
  two declare the same resource; the result is then the union of what they declare.
\<close>

theorem merge_is_disjoint_union:
  assumes "\<forall>x \<in> set ms. manifest_ok x"
  shows "((\<exists>m. merge_manifests ms = Inr m) \<longleftrightarrow> ms \<noteq> [] \<and> sorted_wrt disjoint_manifests ms
      \<and> (\<forall>x \<in> set ms. m_api_version x = manifest_api_version))
    \<and> (\<forall>m. merge_manifests ms = Inr m \<longrightarrow>
        (\<forall>n v. bt_get (m_credentials m) n = Some v \<longleftrightarrow> (\<exists>x \<in> set ms. bt_get (m_credentials x) n = Some v))
        \<and> (\<forall>n v. bt_get (m_assets m) n = Some v \<longleftrightarrow> (\<exists>x \<in> set ms. bt_get (m_assets x) n = Some v))
        \<and> (\<forall>n v. bt_get (m_access m) n = Some v \<longleftrightarrow> (\<exists>x \<in> set ms. bt_get (m_access x) n = Some v)))"
proof -
  have inv: "ms \<noteq> [] \<and> foldE merge_one empty_manifest ms = Inr m" if "merge_manifests ms = Inr m" for m
    using that by (auto simp: merge_manifests_def and_then_Inr split: if_splits)
  note fold = merge_fold_Inr [OF _ empty_manifest_facts(1) assms]
  have "\<exists>m. merge_manifests ms = Inr m" if c: "ms \<noteq> []" "sorted_wrt disjoint_manifests ms"
      "\<forall>x \<in> set ms. m_api_version x = manifest_api_version"
    using merge_fold_total [OF empty_manifest_facts(1) assms] c by (auto simp: merge_manifests_def)
  then have "(\<exists>m. merge_manifests ms = Inr m) \<longleftrightarrow> ms \<noteq> [] \<and> sorted_wrt disjoint_manifests ms
      \<and> (\<forall>x \<in> set ms. m_api_version x = manifest_api_version)"
    using inv fold by blast
  then show ?thesis using fold inv unfolding union_of_empty by blast
qed

theorem merge_is_disjoint_union_witness:
  "\<exists>m. merge_manifests [sample_manifest, empty_manifest] = Inr m"
  by (rule merge_is_disjoint_union [THEN conjunct1, THEN iffD2])
    (simp_all add: sample_manifest_def empty_manifest_def manifest_ok_def bt_ok_def
      disjoint_manifests_def bt_keys_def)

text \<open>
  C16. Material is resolved into well-formed values only: every name is valid, a password
  credential has a non-empty password and no key, a key credential has a private key that its
  passphrase opens, an asset has a trimmed host and a port from 1 to 65535, a TCP asset
  names no credential, and an allowlist names no asset twice.
\<close>

theorem resolved_material_wellformed:
  assumes "resolve_material X w m = Inr r"
  shows "(\<forall>(n, c) \<in> set (r_credentials r). validate_name n [] = Inr () \<and> material_ok X c)
    \<and> (\<forall>(n, a) \<in> set (r_assets r). validate_name n [] = Inr () \<and> asset_resolved_ok a)
    \<and> (\<forall>(n, x) \<in> set (r_access r). validate_name n [] = Inr ()
        \<and> (\<forall>pk fp en xs. x = PresentAccess pk fp en (Some xs)
             \<longrightarrow> distinct xs \<and> (\<forall>a \<in> set xs. validate_name a [] = Inr ())))"
proof -
  from assms have c: "resolve_all ''credentials'' (resolve_credential X w) (m_credentials m) = Inr (r_credentials r)"
    and a: "resolve_all ''assets'' resolve_asset (m_assets m) = Inr (r_assets r)"
    and x: "resolve_all ''access'' (resolve_access X w) (m_access m) = Inr (r_access r)"
    by (auto simp: resolve_material_def and_then_Inr)
  have "validate_name n [] = Inr () \<and> material_ok X v" if "(n, v) \<in> set (r_credentials r)" for n v
    using resolve_all_values [OF c that] resolve_credential_material by blast
  moreover have "validate_name n [] = Inr () \<and> asset_resolved_ok v" if "(n, v) \<in> set (r_assets r)" for n v
    using resolve_all_values [OF a that] resolve_asset_ok by blast
  moreover have "validate_name n [] = Inr () \<and> (\<forall>pk fp en xs. v = PresentAccess pk fp en (Some xs)
      \<longrightarrow> distinct xs \<and> (\<forall>a \<in> set xs. validate_name a [] = Inr ()))" if "(n, v) \<in> set (r_access r)" for n v
    using resolve_all_values [OF x that] resolve_access_assets by blast
  ultimately show ?thesis unfolding Ball_def split_paired_All prod.case by blast
qed

theorem resolved_material_wellformed_witness:
  "validate_name ''a'' [] = Inr ()
    \<and> asset_resolved_ok (snd (hd (r_assets (projr (resolve_material sample_ext sample_os sample_manifest)))))"
proof -
  let ?r = "resolve_material sample_ext sample_os sample_manifest"
  have r: "\<not> isl ?r" "map fst (r_assets (projr ?r)) = [''a'']" by code_simp+
  then have "?r = Inr (projr ?r)" by simp
  note wf = resolved_material_wellformed [OF this, THEN conjunct2, THEN conjunct1]
  from r(2) obtain v where "r_assets (projr ?r) = [(''a'', v)]" by (auto simp: Cons_eq_map_conv)
  with wf show ?thesis by simp
qed

text \<open>
  C17. Offline validation accepts a manifest exactly when it resolves and every reference in it leads
  to a resource that the manifest itself declares present.
\<close>

theorem offline_validation:
  "validate_offline X w m = Inr () \<longleftrightarrow> (\<exists>r. resolve_material X w m = Inr r
     \<and> (\<forall>n a b c d e cr. (n, PresentAsset a b c d e (Some cr)) \<in> set (r_assets r) \<longrightarrow>
          (\<exists>v. bt_get (r_credentials r) cr = Some v \<and> v \<noteq> AbsentCredential))
     \<and> (\<forall>n a b c xs x. (n, PresentAccess a b c (Some xs)) \<in> set (r_access r) \<longrightarrow> x \<in> set xs \<longrightarrow>
          (\<exists>v. bt_get (r_assets r) x = Some v \<and> v \<noteq> AbsentAsset)))"
proof -
  have "references_known r False {} {} \<longleftrightarrow>
     (\<forall>n a b c d e cr. (n, PresentAsset a b c d e (Some cr)) \<in> set (r_assets r) \<longrightarrow>
          (\<exists>v. bt_get (r_credentials r) cr = Some v \<and> v \<noteq> AbsentCredential))
     \<and> (\<forall>n a b c xs x. (n, PresentAccess a b c (Some xs)) \<in> set (r_access r) \<longrightarrow> x \<in> set xs \<longrightarrow>
          (\<exists>v. bt_get (r_assets r) x = Some v \<and> v \<noteq> AbsentAsset))"
    if "resolve_material X w m = Inr r" for r
    unfolding references_known_def known_offline [OF that] by (rule refl)
  then show ?thesis by (simp add: validate_offline_def and_then_Inr validate_references_Inr cong: conj_cong)
qed

theorem offline_validation_witness:
  "validate_offline sample_ext sample_os sample_manifest = Inr ()"
proof -
  let ?r = "resolve_material sample_ext sample_os sample_manifest"
  have r: "\<not> isl ?r" "r_access (projr ?r) = []"
    "r_assets (projr ?r) = [(''a'', PresentAsset Tcp ''h'' 1 None None None)]" by code_simp+
  from r(1) have "?r = Inr (projr ?r)" by simp
  with r(2,3) show ?thesis by (subst offline_validation) force
qed

section \<open>Hosts, sessions and files\<close>





text \<open>
  Opening a file either refuses it and leaves it as it is, or opens a catalog, and then opening
  it again, also read-only, gives the same catalog. A file without tables becomes an empty
  catalog; a file that holds other tables or another version is never written.
\<close>

theorem open_database:
  "case connect path file of
     (file', Inl e) \<Rightarrow> file' = file \<and> e = UnsupportedDatabaseSchema path
   | (file', Inr db) \<Rightarrow> connect path file' = (file', Inr db)
       \<and> connect_read_only path file' = Inr db
       \<and> (if preflight path file = Inr EmptyDatabase then db = baseline else file' = file)"
proof -
  obtain file' r where c: "connect path file = (file', r)" by fastforce
  show ?thesis
  proof (cases r)
    case (Inl e)
    with connect_effect [OF c] c show ?thesis by simp
  next
    case (Inr db)
    with c have ok: "connect path file = (file', Inr db)" by simp
    from ok have "connect_read_only path file' = Inr db"
      by (auto simp: connect_read_only_def connect_def preflight_def verify_schema_def initialize_def
          catalog_tables_def internal_table_def split: option.splits if_splits)
    moreover from ok have "if preflight path file = Inr EmptyDatabase then db = baseline else file' = file"
      by (auto simp: connect_def verify_schema_def initialize_def split: option.splits sum.splits if_splits)
    ultimately show ?thesis using connect_again [OF ok] ok by simp
  qed
qed

text \<open>
  A failed apply is recorded with its code and message under its source, and that is all it
  does: no resource, owner, generation or revision changes, so it does not disturb a
  concurrent apply either.
\<close>

theorem failed_apply_recorded:
  assumes "record_apply_failure X now n source actor e db = (db', Inr ())" and "constraints db"
  shows "config_same db db'
    \<and> (\<exists>s \<in> set (t_config_sources db'). s_id s = source \<and> s_error_at s = Some now
        \<and> s_error_code s = Some (error_code_str (ce_code e)) \<and> s_error_message s = Some (ce_message e))"
proof -
  from assms(1) obtain db1 where r: "record_error now source e db = Inr db1"
    and a: "t_config_sources db' = t_config_sources db1" "config_same db1 db'"
    by (auto simp: record_apply_failure_def result_simps insert_audit_def config_same_def
        source_generation_def fun_eq_iff)
  have "config_same db db1"
    using record_error_generation [OF r] r
    by (auto simp: config_same_def record_error_def result_simps fun_eq_iff)
  with a(2) have "config_same db db'" by (rule config_same_trans [rotated])
  moreover have "\<exists>s \<in> set (t_config_sources db1). s_id s = source \<and> s_error_at s = Some now
      \<and> s_error_code s = Some (error_code_str (ce_code e)) \<and> s_error_message s = Some (ce_message e)"
  proof (cases "\<exists>s \<in> set (t_config_sources db). s_id s = source")
    case True
    then obtain s where s: "s \<in> set (t_config_sources db)" "s_id s = source" by blast
    show ?thesis
      by (rule bexI [of _ "s\<lparr>s_error_at := Some now, s_error_code := Some (error_code_str (ce_code e)),
          s_error_message := Some (ce_message e)\<rparr>"])
        (use r s in \<open>auto simp: record_error_def result_simps upsert_where_def set_update_where image_iff
          intro!: bexI [of _ s]\<close>)
  next
    case False
    with r show ?thesis by (auto simp: record_error_def result_simps upsert_where_def)
  qed
  ultimately show ?thesis using a(1) by simp
qed

theorem failed_apply_recorded_witness:
  "config_same sample_db (fst (record_apply_failure sample_ext ''t'' 9 ''s'' ''actor''
      (mk_error ApplyFailed None ''e'') sample_db))"
proof -
  let ?r = "record_apply_failure sample_ext ''t'' 9 ''s'' ''actor'' (mk_error ApplyFailed None ''e'') sample_db"
  have "\<not> isl (snd ?r)" by code_simp
  then have "?r = (fst ?r, Inr ())" by (metis success_pair old.unit.exhaust)
  from failed_apply_recorded [OF this sample_db_constraints] show ?thesis by blast
qed

end
